(* ===== verification/Prelude.thy ===== *)
theory Prelude
  imports Main "HOL-Library.Word" "HOL-Library.Char_ord" "HOL-Library.List_Lexorder"
    "HOL-Library.Product_Lexorder"
begin

text \<open>
  Shared vocabulary of the development: the machine integers of the Rust sources with their
  saturating and checked arithmetic, instants and durations, and the generic facts on lists
  that the component theories use.

  \<^item> \<open>u8\<close>, \<open>u32\<close> and \<open>u64\<close> are words of that width, so a wrap-around would be visible.
  \<^item> \<open>offset_date_time\<close> is \<open>time::OffsetDateTime\<close>: an instant, in nanoseconds relative to
    the Unix epoch.  Two values are compared as instants, whatever their UTC offset.
  \<^item> \<open>duration\<close> is \<open>std::time::Duration\<close>, in nanoseconds.
\<close>

type_synonym u8 = "8 word"
type_synonym u32 = "32 word"
type_synonym u64 = "64 word"
type_synonym offset_date_time = int
type_synonym duration = nat

named_theorems rust_arith \<open>unfolding rules of the modelled integer operations\<close>

definition u64_max :: u64 where
  [rust_arith]: "u64_max = - 1"

definition saturating_add :: "'a::len word \<Rightarrow> 'a word \<Rightarrow> 'a word" where
  [rust_arith]: "saturating_add a b = (if unat a + unat b < 2 ^ LENGTH('a) then a + b else - 1)"

definition saturating_sub :: "'a::len word \<Rightarrow> 'a word \<Rightarrow> 'a word" where
  [rust_arith]: "saturating_sub a b = (if b \<le> a then a - b else 0)"

definition u64_try_from :: "nat \<Rightarrow> u64 option" where
  "u64_try_from n = (if n < 2 ^ 64 then Some (of_nat n) else None)"

definition u64_from_len :: "nat \<Rightarrow> u64" where
  "u64_from_len n = (case u64_try_from n of Some w \<Rightarrow> w | None \<Rightarrow> u64_max)"

definition nanos_per_milli :: nat where
  "nanos_per_milli = 1000000"

definition nanos_per_second :: nat where
  "nanos_per_second = 1000000000"

definition duration_from_secs :: "nat \<Rightarrow> duration" where
  "duration_from_secs s = s * nanos_per_second"

definition duration_from_millis :: "nat \<Rightarrow> duration" where
  "duration_from_millis ms = ms * nanos_per_milli"

definition duration_as_millis :: "duration \<Rightarrow> nat" where
  "duration_as_millis d = d div nanos_per_milli"

text \<open>\<open>time::Duration::whole_seconds\<close> of a signed difference truncates towards zero.\<close>

definition whole_seconds :: "int \<Rightarrow> int" where
  "whole_seconds d = (if 0 \<le> d then d div 1000000000 else - ((- d) div 1000000000))"

subsection \<open>Arithmetic\<close>

lemma unat_saturating_add:
  "unat (saturating_add a b) = min (unat a + unat b) (2 ^ LENGTH('a) - 1)"
  for a b :: "'a::len word"
proof (cases "unat a + unat b < 2 ^ LENGTH('a)")
  case True
  then show ?thesis by (simp add: saturating_add_def unat_word_ariths)
next
  case False
  then show ?thesis by (simp add: saturating_add_def unsigned_minus_1_eq_mask mask_eq_exp_minus_1)
qed

lemma saturating_add_mono_left: "a \<le> saturating_add a b" for a b :: "'a::len word"
proof -
  have "unat a < 2 ^ LENGTH('a)" by simp
  then have "unat a \<le> unat (saturating_add a b)"
    unfolding unat_saturating_add by linarith
  then show ?thesis by (simp add: word_le_nat_alt)
qed

lemma unat_saturating_sub: "unat (saturating_sub a b) = unat a - unat b" for a b :: "'a::len word"
  by (auto simp: saturating_sub_def unat_sub word_le_nat_alt)

lemma whole_seconds_bounds:
  "whole_seconds d * 1000000000 \<le> d + 999999999 \<and> d \<le> whole_seconds d * 1000000000 + 999999999"
  by (auto simp: whole_seconds_def)

lemma whole_seconds_in_range_iff:
  assumes "0 \<le> n"
  shows "0 \<le> whole_seconds d \<and> whole_seconds d \<le> n
    \<longleftrightarrow> - 1000000000 < d \<and> d < (n + 1) * 1000000000"
  using assms by (auto simp: whole_seconds_def)

lemma whole_seconds_ge_iff:
  assumes "0 < n"
  shows "n \<le> whole_seconds d \<longleftrightarrow> n * 1000000000 \<le> d"
  using assms by (auto simp: whole_seconds_def)

subsection \<open>Lists\<close>

lemma sorted_wrt_less_unique:
  fixes xs ys :: "'a::linorder list"
  assumes "sorted_wrt (<) xs" and "sorted_wrt (<) ys" and "set xs = set ys"
  shows "xs = ys"
  using assms by (metis sorted_distinct_set_unique strict_sorted_iff)

lemma sorted_no_adjacent_equal:
  fixes xs :: "'a::linorder list"
  assumes "sorted xs" and "\<forall>i. Suc i < length xs \<longrightarrow> xs ! i \<noteq> xs ! Suc i"
  shows "distinct xs"
proof -
  have "\<And>i. Suc i < length xs \<Longrightarrow> xs ! i < xs ! Suc i"
    using assms by (simp add: order_less_le sorted_nth_mono)
  then have "sorted_wrt (<) xs"
    by (simp add: sorted_wrt_iff_nth_Suc_transp)
  then show ?thesis by (simp add: strict_sorted_iff)
qed

end
