(* ===== verification/Ordered_Map.thy ===== *)
theory Ordered_Map
  imports Prelude
begin

text \<open>
  \<open>std::collections::BTreeMap\<close> and \<open>BTreeSet\<close> as the sources use them.  A map is the list of
  its entries in ascending key order, with no key twice; iteration (\<open>iter\<close>, \<open>keys\<close>,
  \<open>values\<close>) follows that list.  The locale \<open>ordered_map\<close> is the contract the other theories
  rely on; its lemmas are proved once from the contract and reach the clients through the
  interpretation \<open>bm\<close> on the operations defined here.
\<close>

subsection \<open>Sorted association lists\<close>

fun al_insert :: "'k::linorder \<Rightarrow> 'v \<Rightarrow> ('k \<times> 'v) list \<Rightarrow> ('k \<times> 'v) list" where
  "al_insert k v [] = [(k, v)]"
| "al_insert k v ((k', v') # es) =
     (if k < k' then (k, v) # (k', v') # es
      else if k = k' then (k, v) # es
      else (k', v') # al_insert k v es)"

definition al_remove :: "'k \<Rightarrow> ('k \<times> 'v) list \<Rightarrow> ('k \<times> 'v) list" where
  "al_remove k es = filter (\<lambda>e. fst e \<noteq> k) es"

definition al_map :: "('v \<Rightarrow> 'w) \<Rightarrow> ('k \<times> 'v) list \<Rightarrow> ('k \<times> 'w) list" where
  "al_map f es = map (\<lambda>(k, v). (k, f v)) es"

lemma fst_set_al_insert: "fst ` set (al_insert k v es) = insert k (fst ` set es)"
  by (induction k v es rule: al_insert.induct) (simp_all add: insert_commute)

lemma sorted_al_insert:
  "sorted_wrt (<) (map fst es) \<Longrightarrow> sorted_wrt (<) (map fst (al_insert k v es))"
proof (induction k v es rule: al_insert.induct)
  case (1 k v)
  then show ?case by simp
next
  case (2 k v k' v' es)
  have all: "\<forall>x \<in> fst ` set es. k' < x" and srt: "sorted_wrt (<) (map fst es)"
    using "2.prems" by auto
  consider "k < k'" | "k = k'" | "k' < k" by (rule linorder_cases)
  then show ?case
  proof cases
    case 1
    with all have "\<forall>x \<in> fst ` set es. k < x" by (blast intro: less_trans)
    with 1 all srt show ?thesis by simp
  next
    case 2
    with all srt show ?thesis by simp
  next
    case 3
    with all have "\<forall>x \<in> fst ` set (al_insert k v es). k' < x"
      unfolding fst_set_al_insert by blast
    moreover from 3 srt "2.IH" have "sorted_wrt (<) (map fst (al_insert k v es))" by auto
    ultimately show ?thesis using 3 by auto
  qed
qed

lemma sorted_al_remove:
  "sorted_wrt (<) (map fst es) \<Longrightarrow> sorted_wrt (<) (map fst (al_remove k es))"
  by (induction es) (auto simp: al_remove_def)

lemma sorted_al_filter:
  "sorted_wrt (<) (map fst es) \<Longrightarrow> sorted_wrt (<) (map fst (filter P es))"
  by (induction es) auto

lemma map_of_al_insert: "map_of (al_insert k v es) = (map_of es)(k \<mapsto> v)"
  by (induction es) (auto simp: fun_eq_iff)

lemma map_of_al_remove: "map_of (al_remove k es) = (map_of es)(k := None)"
  by (induction es) (auto simp: al_remove_def fun_eq_iff)

lemma fst_al_map [simp]: "map fst (al_map f es) = map fst es"
  by (induction es) (auto simp: al_map_def)

lemma map_of_al_map: "map_of (al_map f es) k = map_option f (map_of es k)"
  by (induction es) (auto simp: al_map_def)

subsection \<open>The map type\<close>

typedef (overloaded) ('k::linorder, 'v) bmap =
  "{es :: ('k \<times> 'v) list. sorted_wrt (<) (map fst es)}"
  morphisms bm_entries Bmap
  by (rule exI [of _ "[]"]) simp

setup_lifting type_definition_bmap

lift_definition bm_empty :: "('k::linorder, 'v) bmap" is "[]" by simp

lift_definition bm_insert :: "'k::linorder \<Rightarrow> 'v \<Rightarrow> ('k, 'v) bmap \<Rightarrow> ('k, 'v) bmap" is al_insert
  by (rule sorted_al_insert)

lift_definition bm_remove :: "'k::linorder \<Rightarrow> ('k, 'v) bmap \<Rightarrow> ('k, 'v) bmap" is al_remove
  by (rule sorted_al_remove)

lift_definition bm_retain :: "('k \<Rightarrow> 'v \<Rightarrow> bool) \<Rightarrow> ('k::linorder, 'v) bmap \<Rightarrow> ('k, 'v) bmap"
  is "\<lambda>P. filter (\<lambda>(k, v). P k v)"
  by (rule sorted_al_filter)

lift_definition bm_map :: "('v \<Rightarrow> 'w) \<Rightarrow> ('k::linorder, 'v) bmap \<Rightarrow> ('k, 'w) bmap" is al_map
  by simp

definition bm_get :: "('k::linorder, 'v) bmap \<Rightarrow> 'k \<Rightarrow> 'v option" where
  "bm_get m k = map_of (bm_entries m) k"

definition bm_contains :: "('k::linorder, 'v) bmap \<Rightarrow> 'k \<Rightarrow> bool" where
  "bm_contains m k \<longleftrightarrow> bm_get m k \<noteq> None"

definition bm_keys :: "('k::linorder, 'v) bmap \<Rightarrow> 'k list" where
  "bm_keys m = map fst (bm_entries m)"

definition bm_values :: "('k::linorder, 'v) bmap \<Rightarrow> 'v list" where
  "bm_values m = map snd (bm_entries m)"

definition bm_len :: "('k::linorder, 'v) bmap \<Rightarrow> nat" where
  "bm_len m = length (bm_entries m)"

definition bm_is_empty :: "('k::linorder, 'v) bmap \<Rightarrow> bool" where
  "bm_is_empty m \<longleftrightarrow> bm_entries m = []"

text \<open>\<open>BTreeSet<T>\<close> is \<open>BTreeMap<T, ()>\<close>, as in the standard library.\<close>

type_synonym 'a bset = "('a, unit) bmap"

definition bs_insert :: "'a::linorder \<Rightarrow> 'a bset \<Rightarrow> 'a bset" where
  "bs_insert a s = bm_insert a () s"

definition bs_set :: "'a::linorder bset \<Rightarrow> 'a set" where
  "bs_set s = set (bm_keys s)"

definition bs_of_list :: "'a::linorder list \<Rightarrow> 'a bset" where
  "bs_of_list xs = fold bs_insert xs bm_empty"

lemma bm_entries_empty [simp]: "bm_entries bm_empty = []"
  by transfer simp

lemma bm_entries_insert [simp]: "bm_entries (bm_insert k v m) = al_insert k v (bm_entries m)"
  by transfer simp

lemma bm_entries_remove [simp]: "bm_entries (bm_remove k m) = al_remove k (bm_entries m)"
  by transfer simp

lemma bm_entries_map [simp]: "bm_entries (bm_map f m) = al_map f (bm_entries m)"
  by transfer simp

lemma bm_entries_retain [simp]: "bm_entries (bm_retain P m) = filter (\<lambda>(k, v). P k v) (bm_entries m)"
  by transfer simp

lemma bm_keys_sorted: "sorted_wrt (<) (bm_keys m)"
  unfolding bm_keys_def by transfer simp

lemma bm_keys_distinct [simp]: "distinct (bm_keys m)"
  using bm_keys_sorted [of m] by (simp add: strict_sorted_iff)

lemma bm_get_iff: "bm_get m k = Some v \<longleftrightarrow> (k, v) \<in> set (bm_entries m)"
  using bm_keys_distinct [of m] by (simp add: bm_get_def bm_keys_def)

subsection \<open>The contract\<close>

locale ordered_map =
  fixes empty :: "'m"
    and get :: "'m \<Rightarrow> 'k::linorder \<Rightarrow> 'v option"
    and put :: "'k \<Rightarrow> 'v \<Rightarrow> 'm \<Rightarrow> 'm"
    and remove :: "'k \<Rightarrow> 'm \<Rightarrow> 'm"
    and entries :: "'m \<Rightarrow> ('k \<times> 'v) list"
  assumes get_empty: "get empty k = None"
    and get_put: "get (put k v m) k' = (if k' = k then Some v else get m k')"
    and get_remove: "get (remove k m) k' = (if k' = k then None else get m k')"
    and entries_get: "(k, v) \<in> set (entries m) \<longleftrightarrow> get m k = Some v"
    and entries_sorted: "sorted_wrt (<) (map fst (entries m))"
    and entries_inject: "entries m = entries n \<Longrightarrow> m = n"
begin

lemma keys_get: "set (map fst (entries m)) = {k. get m k \<noteq> None}"
  by (auto simp: set_eq_iff image_iff Bex_def entries_get)

lemma keys_distinct: "distinct (map fst (entries m))"
  using entries_sorted [of m] by (simp add: strict_sorted_iff)

lemma map_ext:
  assumes "\<And>k. get m k = get n k"
  shows "m = n"
proof (rule entries_inject)
  have set_eq: "set (entries m) = set (entries n)"
    using assms by (auto simp: entries_get)
  then have keys: "map fst (entries m) = map fst (entries n)"
    by (intro sorted_wrt_less_unique entries_sorted) simp
  moreover have "inj_on fst (set (entries m) \<union> set (entries n))"
    using keys_distinct [of m] set_eq by (simp add: distinct_map)
  ultimately show "entries m = entries n"
    by (rule map_inj_on)
qed

lemma put_remove: "put k v (remove k m) = put k v m"
  by (rule map_ext) (simp add: get_put get_remove)

lemma put_put: "put k v (put k w m) = put k v m"
  by (rule map_ext) (simp add: get_put)

lemma remove_put: "remove k (put k v m) = remove k m"
  by (rule map_ext) (simp add: get_put get_remove)

lemma put_get: "get m k = Some v \<Longrightarrow> put k v m = m"
  by (rule map_ext) (simp add: get_put)

lemma remove_absent: "get m k = None \<Longrightarrow> remove k m = m"
  by (rule map_ext) (simp add: get_remove)

lemma length_entries_card: "length (entries m) = card {k. get m k \<noteq> None}"
  using distinct_card [OF keys_distinct [of m]] by (simp only: keys_get length_map)

lemma finite_keys: "finite {k. get m k \<noteq> None}"
  using List.finite_set [of "map fst (entries m)"] by (simp only: keys_get)

lemma length_put:
  "length (entries (put k v m)) = (if get m k = None then Suc (length (entries m)) else length (entries m))"
proof -
  have "{k'. get (put k v m) k' \<noteq> None} = insert k {k'. get m k' \<noteq> None}"
    by (auto simp: get_put)
  then show ?thesis
    using finite_keys [of m] by (auto simp: length_entries_card card_insert_if)
qed

lemma length_remove:
  "length (entries (remove k m)) = (if get m k = None then length (entries m) else length (entries m) - 1)"
proof -
  have "{k'. get (remove k m) k' \<noteq> None} = {k'. get m k' \<noteq> None} - {k}"
    by (auto simp: get_remove)
  then show ?thesis
    using finite_keys [of m] by (auto simp: length_entries_card card_Diff_singleton_if)
qed

end

lemma bm_get_empty: "bm_get bm_empty k = None"
  by (simp add: bm_get_def)

lemma bm_get_insert: "bm_get (bm_insert k v m) k' = (if k' = k then Some v else bm_get m k')"
  by (simp add: bm_get_def map_of_al_insert)

lemma bm_get_remove: "bm_get (bm_remove k m) k' = (if k' = k then None else bm_get m k')"
  by (simp add: bm_get_def map_of_al_remove)

interpretation bm: ordered_map bm_empty bm_get bm_insert bm_remove bm_entries
proof
  fix k k' :: 'a and v :: 'b and m n :: "('a, 'b) bmap"
  show "bm_get (bm_empty :: ('a, 'b) bmap) k = None"
    by (rule bm_get_empty)
  show "bm_get (bm_insert k v m) k' = (if k' = k then Some v else bm_get m k')"
    by (rule bm_get_insert)
  show "bm_get (bm_remove k m) k' = (if k' = k then None else bm_get m k')"
    by (rule bm_get_remove)
  show "(k, v) \<in> set (bm_entries m) \<longleftrightarrow> bm_get m k = Some v"
    by (rule bm_get_iff [symmetric])
  show "sorted_wrt (<) (map fst (bm_entries m))"
    using bm_keys_sorted [of m] by (simp only: bm_keys_def)
  show "m = n" if "bm_entries m = bm_entries n"
    using that by (simp only: bm_entries_inject)
qed

lemmas bm_simps [simp] =
  bm.get_empty bm.get_put bm.get_remove bm.put_remove bm.put_put bm.remove_put

lemma bm_get_map [simp]: "bm_get (bm_map f m) k = map_option f (bm_get m k)"
  by (simp add: bm_get_def map_of_al_map)

lemma bm_get_retain [simp]:
  "bm_get (bm_retain P m) k = (case bm_get m k of None \<Rightarrow> None | Some v \<Rightarrow> if P k v then Some v else None)"
proof (cases "bm_get (bm_retain P m) k")
  case None
  then have "(k, v) \<notin> set (filter (\<lambda>(k, v). P k v) (bm_entries m))" for v
    using bm_get_iff [of "bm_retain P m" k v] by simp
  then show ?thesis
    using None by (auto simp: bm_get_iff split: option.splits)
next
  case (Some v)
  then have "(k, v) \<in> set (bm_entries m) \<and> P k v"
    using bm_get_iff [of "bm_retain P m" k v] by simp
  then show ?thesis
    using Some by (simp add: bm_get_iff [symmetric])
qed

lemma bm_len_insert:
  "bm_len (bm_insert k v m) = (if bm_get m k = None then Suc (bm_len m) else bm_len m)"
  using bm.length_put [of k v m] by (simp add: bm_len_def)

lemma bm_len_remove:
  "bm_len (bm_remove k m) = (if bm_get m k = None then bm_len m else bm_len m - 1)"
  using bm.length_remove [of k m] by (simp add: bm_len_def)

lemma bm_len_empty [simp]: "bm_len bm_empty = 0"
  by (simp add: bm_len_def)

lemma bm_len_map [simp]: "bm_len (bm_map f m) = bm_len m"
  by (simp add: bm_len_def al_map_def)

lemma set_bm_keys: "set (bm_keys m) = {k. bm_get m k \<noteq> None}"
  using bm.keys_get [of m] by (simp add: bm_keys_def)

lemma set_bm_keys_insert [simp]: "set (bm_keys (bm_insert k v m)) = insert k (set (bm_keys m))"
  unfolding set_bm_keys by auto

lemma set_bm_keys_remove [simp]: "set (bm_keys (bm_remove k m)) = set (bm_keys m) - {k}"
  unfolding set_bm_keys by auto

lemma in_bm_keys: "k \<in> set (bm_keys m) \<longleftrightarrow> bm_get m k \<noteq> None"
  unfolding set_bm_keys by simp

lemma length_bm_keys [simp]: "length (bm_keys m) = bm_len m"
  by (simp add: bm_keys_def bm_len_def)

lemma set_bm_values: "set (bm_values m) = {v. \<exists>k. bm_get m k = Some v}"
  by (force simp: bm_values_def bm_get_iff)

lemma bm_is_empty_iff: "bm_is_empty m \<longleftrightarrow> m = bm_empty"
  using bm_entries_inject [of m bm_empty] by (simp add: bm_is_empty_def)

lemma bm_empty_iff: "m = bm_empty \<longleftrightarrow> (\<forall>k. bm_get m k = None)"
  using bm.map_ext [of m bm_empty] by auto

lemma bm_len_0_iff: "bm_len m = 0 \<longleftrightarrow> m = bm_empty"
  by (simp add: bm_is_empty_iff [symmetric] bm_is_empty_def bm_len_def)

lemma bs_set_empty [simp]: "bs_set bm_empty = {}"
  by (simp add: bs_set_def set_bm_keys)

lemma bs_set_insert [simp]: "bs_set (bs_insert a s) = insert a (bs_set s)"
  by (auto simp: bs_set_def set_bm_keys bs_insert_def)

lemma bs_set_remove [simp]: "bs_set (bm_remove a s) = bs_set s - {a}"
  by (auto simp: bs_set_def set_bm_keys)

lemma bm_contains_bs: "bm_contains s a \<longleftrightarrow> a \<in> bs_set s"
  by (simp add: bm_contains_def bs_set_def set_bm_keys)

lemma bs_set_empty_iff: "bs_set s = {} \<longleftrightarrow> s = bm_empty"
  by (simp add: bs_set_def bm_keys_def bm_is_empty_iff [symmetric] bm_is_empty_def)

lemma bs_len_card: "bm_len s = card (bs_set s)"
  using distinct_card [OF bm_keys_distinct [of s]] by (simp add: bs_set_def)

lemma bs_set_fold_insert: "bs_set (fold bs_insert xs s) = set xs \<union> bs_set s"
  by (induction xs arbitrary: s) auto

lemma bs_set_of_list [simp]: "bs_set (bs_of_list xs) = set xs"
  by (simp add: bs_of_list_def bs_set_fold_insert)

lemma bs_ext:
  assumes "bs_set s = bs_set t"
  shows "s = t"
proof (rule bm.map_ext)
  fix k
  have "{k. bm_get s k \<noteq> None} = {k. bm_get t k \<noteq> None}"
    using assms by (simp only: bs_set_def set_bm_keys)
  then have "bm_get s k = None \<longleftrightarrow> bm_get t k = None"
    by blast
  then show "bm_get s k = bm_get t k"
    by (cases "bm_get s k"; cases "bm_get t k") simp_all
qed

lemma al_insert_update:
  assumes "sorted_wrt (<) (map fst es)" "map_of es k = Some v0" "f v = f v0"
  shows "map (f \<circ> snd) (al_insert k v es) = map (f \<circ> snd) es"
  using assms
proof (induction es)
  case (Cons e es)
  obtain a b where e: "e = (a, b)"
    by (cases e)
  have "\<not> k < a"
  proof
    assume "k < a"
    moreover from this Cons.prems(2) have "k \<in> set (map fst es)"
      by (auto simp: e map_of_SomeD split: if_splits intro!: image_eqI dest!: map_of_SomeD)
    ultimately show False
      using Cons.prems(1) by (auto simp: e)
  qed
  then show ?case
    using Cons by (auto simp: e)
qed simp

lemma bm_values_update:
  assumes "bm_get m k = Some v0" "f v = f v0"
  shows "map f (bm_values (bm_insert k v m)) = map f (bm_values m)"
proof -
  have "sorted_wrt (<) (map fst (bm_entries m))"
    using bm_keys_sorted [of m] by (simp only: bm_keys_def)
  then show ?thesis
    using al_insert_update [of "bm_entries m" k v0 f v] assms by (simp add: bm_values_def bm_get_def)
qed

end
