(* ===== verification/Identity.thy ===== *)
theory Identity
  imports Ordered_Map
begin

text \<open>
  The identities of \<open>crates/bcsp-contracts/src/identity.rs\<close>: the validated string types
  (\<open>TermId\<close>, \<open>CampusCode\<close>, \<open>SectionIndex\<close>, \<open>CourseString\<close>, \<open>VariantFingerprint\<close>), the keys
  built from them, their derived (field by field, lexicographic) orders, and the textual form
  of a \<open>SectionKey\<close>; with the \<open>TraceId\<close> of \<open>error.rs\<close>, a UUID compared by its 128 bits.
  A Rust \<open>String\<close> is the list of its bytes.
\<close>

subsection \<open>Bytes\<close>

definition is_ascii_lowercase :: "char \<Rightarrow> bool" where
  "is_ascii_lowercase c \<longleftrightarrow> 97 \<le> (of_char c :: nat) \<and> (of_char c :: nat) \<le> 122"

definition is_ascii_uppercase :: "char \<Rightarrow> bool" where
  "is_ascii_uppercase c \<longleftrightarrow> 65 \<le> (of_char c :: nat) \<and> (of_char c :: nat) \<le> 90"

definition is_ascii_digit :: "char \<Rightarrow> bool" where
  "is_ascii_digit c \<longleftrightarrow> 48 \<le> (of_char c :: nat) \<and> (of_char c :: nat) \<le> 57"

definition is_ascii_alphanumeric :: "char \<Rightarrow> bool" where
  "is_ascii_alphanumeric c \<longleftrightarrow> is_ascii_lowercase c \<or> is_ascii_uppercase c \<or> is_ascii_digit c"

lemmas ascii_defs =
  is_ascii_lowercase_def is_ascii_uppercase_def is_ascii_digit_def is_ascii_alphanumeric_def

text \<open>\<open>str::split\<close> on one character: an empty string has one, empty, segment.\<close>

fun split_on :: "char \<Rightarrow> string \<Rightarrow> string list" where
  "split_on c [] = [[]]"
| "split_on c (x # xs) =
     (if x = c then [] # split_on c xs
      else (case split_on c xs of s # ss \<Rightarrow> (x # s) # ss | [] \<Rightarrow> [[x]]))"

fun strip_prefix :: "string \<Rightarrow> string \<Rightarrow> string option" where
  "strip_prefix [] v = Some v"
| "strip_prefix (p # ps) [] = None"
| "strip_prefix (p # ps) (x # xs) = (if p = x then strip_prefix ps xs else None)"

subsection \<open>Errors and limits\<close>

datatype identity_error_code =
    Empty | WrongLength | TooLong | InvalidCharacter | NonCanonicalCase | WrongSegmentCount
  | InvalidFingerprint

datatype identity_error = IdentityError (err_field: string) (err_code: identity_error_code)

definition TERM_MAX_BYTES :: nat where "TERM_MAX_BYTES = 16"
definition SECTION_INDEX_WIDTH :: nat where "SECTION_INDEX_WIDTH = 5"
definition CAMPUS_MAX_BYTES :: nat where "CAMPUS_MAX_BYTES = 32"
definition COURSE_STRING_MAX_BYTES :: nat where "COURSE_STRING_MAX_BYTES = 64"
definition FINGERPRINT_PREFIX :: string where "FINGERPRINT_PREFIX = ''v1:''"
definition SHA256_HEX_BYTES :: nat where "SHA256_HEX_BYTES = 64"

lemmas identity_limits =
  TERM_MAX_BYTES_def SECTION_INDEX_WIDTH_def CAMPUS_MAX_BYTES_def COURSE_STRING_MAX_BYTES_def
  FINGERPRINT_PREFIX_def SHA256_HEX_BYTES_def

subsection \<open>Validators\<close>

definition validate_term :: "string \<Rightarrow> identity_error + unit" where
  "validate_term value =
     (if value = [] then Inl (IdentityError ''term'' Empty)
      else if length value > TERM_MAX_BYTES then Inl (IdentityError ''term'' TooLong)
      else if \<exists>b \<in> set value. is_ascii_lowercase b
        then Inl (IdentityError ''term'' NonCanonicalCase)
      else if \<not> (\<forall>b \<in> set value. is_ascii_uppercase b \<or> is_ascii_digit b \<or> b = CHR ''_'' \<or> b = CHR ''-'')
        then Inl (IdentityError ''term'' InvalidCharacter)
      else Inr ())"

definition validate_section_index :: "string \<Rightarrow> identity_error + unit" where
  "validate_section_index value =
     (if length value \<noteq> SECTION_INDEX_WIDTH then Inl (IdentityError ''index'' WrongLength)
      else if \<not> (\<forall>b \<in> set value. is_ascii_digit b)
        then Inl (IdentityError ''index'' InvalidCharacter)
      else Inr ())"

definition validate_campus :: "string \<Rightarrow> identity_error + unit" where
  "validate_campus value =
     (if value = [] then Inl (IdentityError ''campus'' Empty)
      else if length value > CAMPUS_MAX_BYTES then Inl (IdentityError ''campus'' TooLong)
      else if \<exists>b \<in> set value. is_ascii_lowercase b
        then Inl (IdentityError ''campus'' NonCanonicalCase)
      else if \<not> (\<forall>b \<in> set value. is_ascii_uppercase b \<or> is_ascii_digit b \<or> b = CHR ''_'')
        then Inl (IdentityError ''campus'' InvalidCharacter)
      else Inr ())"

definition validate_course_string :: "string \<Rightarrow> identity_error + unit" where
  "validate_course_string value =
     (if value = [] then Inl (IdentityError ''courseString'' Empty)
      else if length value > COURSE_STRING_MAX_BYTES
        then Inl (IdentityError ''courseString'' TooLong)
      else if \<not> (\<forall>b \<in> set value. is_ascii_alphanumeric b
                  \<or> b = CHR '':'' \<or> b = CHR ''.'' \<or> b = CHR ''_'' \<or> b = CHR ''-'')
        then Inl (IdentityError ''courseString'' InvalidCharacter)
      else Inr ())"

definition is_lower_hex :: "char \<Rightarrow> bool" where
  "is_lower_hex b \<longleftrightarrow> is_ascii_digit b \<or> (97 \<le> (of_char b :: nat) \<and> (of_char b :: nat) \<le> 102)"

definition validate_fingerprint :: "string \<Rightarrow> identity_error + unit" where
  "validate_fingerprint value =
     (case strip_prefix FINGERPRINT_PREFIX value of
        None \<Rightarrow> Inl (IdentityError ''fingerprint'' InvalidFingerprint)
      | Some hex \<Rightarrow>
          if length hex \<noteq> SHA256_HEX_BYTES \<or> \<not> (\<forall>b \<in> set hex. is_lower_hex b)
          then Inl (IdentityError ''fingerprint'' InvalidFingerprint)
          else Inr ())"

subsection \<open>Validated string types\<close>

datatype term_id = TermId (term_str: string)
datatype campus_code = CampusCode (campus_str: string)
datatype section_index = SectionIndex (index_str: string)
datatype course_string = CourseString (course_str: string)
datatype variant_fingerprint = VariantFingerprint (fingerprint_str: string)

definition validated :: "(string \<Rightarrow> identity_error + unit) \<Rightarrow> (string \<Rightarrow> 'a) \<Rightarrow> string \<Rightarrow> identity_error + 'a"
  where "validated validator con value =
    (case validator value of Inl e \<Rightarrow> Inl e | Inr _ \<Rightarrow> Inr (con value))"

definition term_id_try_from :: "string \<Rightarrow> identity_error + term_id" where
  "term_id_try_from = validated validate_term TermId"

definition campus_code_try_from :: "string \<Rightarrow> identity_error + campus_code" where
  "campus_code_try_from = validated validate_campus CampusCode"

definition section_index_try_from :: "string \<Rightarrow> identity_error + section_index" where
  "section_index_try_from = validated validate_section_index SectionIndex"

definition course_string_try_from :: "string \<Rightarrow> identity_error + course_string" where
  "course_string_try_from = validated validate_course_string CourseString"

definition variant_fingerprint_try_from :: "string \<Rightarrow> identity_error + variant_fingerprint" where
  "variant_fingerprint_try_from = validated validate_fingerprint VariantFingerprint"

subsection \<open>Keys\<close>

datatype term_campus_key = TermCampusKey (tc_term: term_id) (tc_campus: campus_code)

datatype section_key = SectionKey (sk_term: term_id) (sk_campus: campus_code) (sk_index: section_index)

datatype course_group_key =
  CourseGroupKey (cg_term: term_id) (cg_campus: campus_code) (cg_course_string: course_string)

datatype course_variant_key =
  CourseVariantKey (cv_group: course_group_key) (cv_fingerprint: variant_fingerprint)

datatype trace_id = TraceId (as_uuid: "128 word")

definition term_campus_key_try_new :: "string \<Rightarrow> string \<Rightarrow> identity_error + term_campus_key" where
  "term_campus_key_try_new t c =
     (case term_id_try_from t of Inl e \<Rightarrow> Inl e | Inr t' \<Rightarrow>
      (case campus_code_try_from c of Inl e \<Rightarrow> Inl e | Inr c' \<Rightarrow> Inr (TermCampusKey t' c')))"

definition section_key_try_new :: "string \<Rightarrow> string \<Rightarrow> string \<Rightarrow> identity_error + section_key" where
  "section_key_try_new t c i =
     (case term_id_try_from t of Inl e \<Rightarrow> Inl e | Inr t' \<Rightarrow>
      (case campus_code_try_from c of Inl e \<Rightarrow> Inl e | Inr c' \<Rightarrow>
       (case section_index_try_from i of Inl e \<Rightarrow> Inl e | Inr i' \<Rightarrow> Inr (SectionKey t' c' i'))))"

definition section_key_target :: "section_key \<Rightarrow> term_campus_key" where
  "section_key_target k = TermCampusKey (sk_term k) (sk_campus k)"

definition section_key_display :: "section_key \<Rightarrow> string" where
  "section_key_display k =
     term_str (sk_term k) @ ''/'' @ campus_str (sk_campus k) @ ''/'' @ index_str (sk_index k)"

definition section_key_from_str :: "string \<Rightarrow> identity_error + section_key" where
  "section_key_from_str value =
     (let segments = split_on (CHR ''/'') value in
      if length segments \<noteq> 3 then Inl (IdentityError ''sectionKey'' WrongSegmentCount)
      else section_key_try_new (segments ! 0) (segments ! 1) (segments ! 2))"

definition course_group_key_try_new ::
  "string \<Rightarrow> string \<Rightarrow> string \<Rightarrow> identity_error + course_group_key" where
  "course_group_key_try_new t c s =
     (case term_id_try_from t of Inl e \<Rightarrow> Inl e | Inr t' \<Rightarrow>
      (case campus_code_try_from c of Inl e \<Rightarrow> Inl e | Inr c' \<Rightarrow>
       (case course_string_try_from s of Inl e \<Rightarrow> Inl e | Inr s' \<Rightarrow> Inr (CourseGroupKey t' c' s'))))"

definition course_group_key_target :: "course_group_key \<Rightarrow> term_campus_key" where
  "course_group_key_target k = TermCampusKey (cg_term k) (cg_campus k)"

definition course_variant_key_try_new ::
  "course_group_key \<Rightarrow> string \<Rightarrow> identity_error + course_variant_key" where
  "course_variant_key_try_new g f =
     (case variant_fingerprint_try_from f of Inl e \<Rightarrow> Inl e | Inr f' \<Rightarrow> Inr (CourseVariantKey g f'))"

subsection \<open>Derived orders\<close>

instantiation term_id :: linorder
begin
definition less_eq_term_id :: "term_id \<Rightarrow> term_id \<Rightarrow> bool" where
  "less_eq_term_id a b \<longleftrightarrow> term_str a \<le> term_str b"
definition less_term_id :: "term_id \<Rightarrow> term_id \<Rightarrow> bool" where
  "less_term_id a b \<longleftrightarrow> term_str a < term_str b"
instance
  by standard (auto simp: less_eq_term_id_def less_term_id_def term_id.expand)
end

instantiation campus_code :: linorder
begin
definition less_eq_campus_code :: "campus_code \<Rightarrow> campus_code \<Rightarrow> bool" where
  "less_eq_campus_code a b \<longleftrightarrow> campus_str a \<le> campus_str b"
definition less_campus_code :: "campus_code \<Rightarrow> campus_code \<Rightarrow> bool" where
  "less_campus_code a b \<longleftrightarrow> campus_str a < campus_str b"
instance
  by standard (auto simp: less_eq_campus_code_def less_campus_code_def campus_code.expand)
end

instantiation section_index :: linorder
begin
definition less_eq_section_index :: "section_index \<Rightarrow> section_index \<Rightarrow> bool" where
  "less_eq_section_index a b \<longleftrightarrow> index_str a \<le> index_str b"
definition less_section_index :: "section_index \<Rightarrow> section_index \<Rightarrow> bool" where
  "less_section_index a b \<longleftrightarrow> index_str a < index_str b"
instance
  by standard (auto simp: less_eq_section_index_def less_section_index_def section_index.expand)
end

instantiation course_string :: linorder
begin
definition less_eq_course_string :: "course_string \<Rightarrow> course_string \<Rightarrow> bool" where
  "less_eq_course_string a b \<longleftrightarrow> course_str a \<le> course_str b"
definition less_course_string :: "course_string \<Rightarrow> course_string \<Rightarrow> bool" where
  "less_course_string a b \<longleftrightarrow> course_str a < course_str b"
instance
  by standard (auto simp: less_eq_course_string_def less_course_string_def course_string.expand)
end

instantiation variant_fingerprint :: linorder
begin
definition less_eq_variant_fingerprint :: "variant_fingerprint \<Rightarrow> variant_fingerprint \<Rightarrow> bool" where
  "less_eq_variant_fingerprint a b \<longleftrightarrow> fingerprint_str a \<le> fingerprint_str b"
definition less_variant_fingerprint :: "variant_fingerprint \<Rightarrow> variant_fingerprint \<Rightarrow> bool" where
  "less_variant_fingerprint a b \<longleftrightarrow> fingerprint_str a < fingerprint_str b"
instance
  by standard
    (auto simp: less_eq_variant_fingerprint_def less_variant_fingerprint_def variant_fingerprint.expand)
end

instantiation term_campus_key :: linorder
begin
definition less_eq_term_campus_key :: "term_campus_key \<Rightarrow> term_campus_key \<Rightarrow> bool" where
  "less_eq_term_campus_key a b \<longleftrightarrow> (tc_term a, tc_campus a) \<le> (tc_term b, tc_campus b)"
definition less_term_campus_key :: "term_campus_key \<Rightarrow> term_campus_key \<Rightarrow> bool" where
  "less_term_campus_key a b \<longleftrightarrow> (tc_term a, tc_campus a) < (tc_term b, tc_campus b)"
instance
  by standard (auto simp: less_eq_term_campus_key_def less_term_campus_key_def
      less_le_not_le simp del: less_eq_prod_simp less_prod_simp intro: term_campus_key.expand)
end

instantiation section_key :: linorder
begin
definition less_eq_section_key :: "section_key \<Rightarrow> section_key \<Rightarrow> bool" where
  "less_eq_section_key a b \<longleftrightarrow> (sk_term a, sk_campus a, sk_index a) \<le> (sk_term b, sk_campus b, sk_index b)"
definition less_section_key :: "section_key \<Rightarrow> section_key \<Rightarrow> bool" where
  "less_section_key a b \<longleftrightarrow> (sk_term a, sk_campus a, sk_index a) < (sk_term b, sk_campus b, sk_index b)"
instance
  by standard (auto simp: less_eq_section_key_def less_section_key_def
      less_le_not_le simp del: less_eq_prod_simp less_prod_simp intro: section_key.expand)
end

instantiation course_group_key :: linorder
begin
definition less_eq_course_group_key :: "course_group_key \<Rightarrow> course_group_key \<Rightarrow> bool" where
  "less_eq_course_group_key a b \<longleftrightarrow>
     (cg_term a, cg_campus a, cg_course_string a) \<le> (cg_term b, cg_campus b, cg_course_string b)"
definition less_course_group_key :: "course_group_key \<Rightarrow> course_group_key \<Rightarrow> bool" where
  "less_course_group_key a b \<longleftrightarrow>
     (cg_term a, cg_campus a, cg_course_string a) < (cg_term b, cg_campus b, cg_course_string b)"
instance
  by standard (auto simp: less_eq_course_group_key_def less_course_group_key_def
      less_le_not_le simp del: less_eq_prod_simp less_prod_simp intro: course_group_key.expand)
end

instantiation course_variant_key :: linorder
begin
definition less_eq_course_variant_key :: "course_variant_key \<Rightarrow> course_variant_key \<Rightarrow> bool" where
  "less_eq_course_variant_key a b \<longleftrightarrow> (cv_group a, cv_fingerprint a) \<le> (cv_group b, cv_fingerprint b)"
definition less_course_variant_key :: "course_variant_key \<Rightarrow> course_variant_key \<Rightarrow> bool" where
  "less_course_variant_key a b \<longleftrightarrow> (cv_group a, cv_fingerprint a) < (cv_group b, cv_fingerprint b)"
instance
  by standard (auto simp: less_eq_course_variant_key_def less_course_variant_key_def
      less_le_not_le simp del: less_eq_prod_simp less_prod_simp intro: course_variant_key.expand)
end

instantiation trace_id :: linorder
begin
definition less_eq_trace_id :: "trace_id \<Rightarrow> trace_id \<Rightarrow> bool" where
  "less_eq_trace_id a b \<longleftrightarrow> as_uuid a \<le> as_uuid b"
definition less_trace_id :: "trace_id \<Rightarrow> trace_id \<Rightarrow> bool" where
  "less_trace_id a b \<longleftrightarrow> as_uuid a < as_uuid b"
instance
  by standard (auto simp: less_eq_trace_id_def less_trace_id_def trace_id.expand)
end

lemmas key_order_defs =
  less_eq_term_id_def less_term_id_def less_eq_campus_code_def less_campus_code_def
  less_eq_section_index_def less_section_index_def less_eq_course_string_def less_course_string_def
  less_eq_variant_fingerprint_def less_variant_fingerprint_def less_eq_term_campus_key_def
  less_term_campus_key_def less_eq_section_key_def less_section_key_def
  less_eq_course_group_key_def less_course_group_key_def less_eq_course_variant_key_def
  less_course_variant_key_def less_eq_trace_id_def less_trace_id_def

definition section_key_valid :: "section_key \<Rightarrow> bool" where
  "section_key_valid k \<longleftrightarrow> validate_term (term_str (sk_term k)) = Inr ()
     \<and> validate_campus (campus_str (sk_campus k)) = Inr ()
     \<and> validate_section_index (index_str (sk_index k)) = Inr ()"

subsection \<open>Splitting and joining\<close>

fun join_on :: "char \<Rightarrow> string list \<Rightarrow> string" where
  "join_on c [] = []"
| "join_on c [s] = s"
| "join_on c (s # ss) = s @ c # join_on c ss"

lemma split_on_not_Nil [simp]: "split_on c s \<noteq> []"
  by (induction s) (auto split: list.splits)

lemma join_split: "join_on c (split_on c s) = s"
proof (induction s)
  case Nil
  then show ?case by simp
next
  case (Cons x s)
  obtain a as where split: "split_on c s = a # as"
    by (cases "split_on c s") simp_all
  then show ?case
    using Cons by (cases as) simp_all
qed

lemma split_on_absent: "c \<notin> set s \<Longrightarrow> split_on c s = [s]"
  by (induction s) auto

lemma split_on_append: "c \<notin> set s \<Longrightarrow> split_on c (s @ c # t) = s # split_on c t"
  by (induction s) auto

lemma join_three: "join_on c [a, b, d] = a @ c # b @ c # d"
  by simp

subsection \<open>What the validators accept\<close>

lemma validate_term_iff:
  "validate_term v = Inr () \<longleftrightarrow> 0 < length v \<and> length v \<le> 16
     \<and> (\<forall>b \<in> set v. is_ascii_uppercase b \<or> is_ascii_digit b \<or> b = CHR ''_'' \<or> b = CHR ''-'')"
  by (auto simp: validate_term_def identity_limits ascii_defs)

lemma validate_campus_iff:
  "validate_campus v = Inr () \<longleftrightarrow> 0 < length v \<and> length v \<le> 32
     \<and> (\<forall>b \<in> set v. is_ascii_uppercase b \<or> is_ascii_digit b \<or> b = CHR ''_'')"
  by (auto simp: validate_campus_def identity_limits ascii_defs)

lemma validate_section_index_iff:
  "validate_section_index v = Inr () \<longleftrightarrow> length v = 5 \<and> (\<forall>b \<in> set v. is_ascii_digit b)"
  by (auto simp: validate_section_index_def identity_limits)

lemma validators_exclude_slash:
  "validate_term v = Inr () \<Longrightarrow> CHR ''/'' \<notin> set v"
  "validate_campus v = Inr () \<Longrightarrow> CHR ''/'' \<notin> set v"
  "validate_section_index v = Inr () \<Longrightarrow> CHR ''/'' \<notin> set v"
  by (auto simp: validate_term_iff validate_campus_iff validate_section_index_iff ascii_defs)

lemma validated_Inr_iff:
  "validated f con v = Inr r \<longleftrightarrow> f v = Inr () \<and> r = con v"
  by (auto simp: validated_def split: sum.splits)

lemma section_key_try_new_iff:
  "section_key_try_new t c i = Inr k
     \<longleftrightarrow> section_key_valid k \<and> k = SectionKey (TermId t) (CampusCode c) (SectionIndex i)"
  by (auto simp: section_key_try_new_def term_id_try_from_def campus_code_try_from_def
      section_index_try_from_def section_key_valid_def validated_def split: sum.splits)

lemma split_display:
  assumes "section_key_valid k"
  shows "split_on (CHR ''/'') (section_key_display k)
    = [term_str (sk_term k), campus_str (sk_campus k), index_str (sk_index k)]"
  using assms
  by (simp add: section_key_valid_def section_key_display_def split_on_append split_on_absent
      validators_exclude_slash)

subsection \<open>Properties\<close>

text \<open>C40. The textual form of a section key is a faithful encoding: parsing a string succeeds with
  key \<open>k\<close> exactly when \<open>k\<close> has valid components and the string is the one \<open>Display\<close> prints
  for \<open>k\<close>.  Parsing is therefore a left inverse of printing on valid keys, accepts no other
  spelling of a key, and never yields a key with an invalid component.
\<close>

theorem section_key_text_roundtrip:
  "section_key_from_str v = Inr k \<longleftrightarrow> section_key_valid k \<and> v = section_key_display k"
proof
  assume parsed: "section_key_from_str v = Inr k"
  then have len: "length (split_on (CHR ''/'') v) = 3"
    by (auto simp: section_key_from_str_def Let_def split: if_splits)
  then obtain a b c where segs: "split_on (CHR ''/'') v = [a, b, c]"
    by (auto simp: numeral_3_eq_3 length_Suc_conv)
  with parsed have "section_key_try_new a b c = Inr k"
    by (simp add: section_key_from_str_def)
  then have k: "section_key_valid k" "k = SectionKey (TermId a) (CampusCode b) (SectionIndex c)"
    using section_key_try_new_iff by blast+
  have "v = a @ CHR ''/'' # b @ CHR ''/'' # c"
    using join_split [of "CHR ''/''" v] by (simp add: segs)
  with k show "section_key_valid k \<and> v = section_key_display k"
    by (simp add: section_key_display_def)
next
  assume "section_key_valid k \<and> v = section_key_display k"
  then show "section_key_from_str v = Inr k"
    by (cases k) (simp add: section_key_from_str_def split_display section_key_try_new_iff
        term_id.expand campus_code.expand section_index.expand)
qed

end
