(* ===== verification/Watch_State.thy ===== *)
theory Watch_State
  imports Identity
begin

text \<open>
  The data of the watch core: the clock interface and saturating instants of
  \<open>crates/bcsp-watch/src/clock.rs\<close>, policies, episodes, pending cues and watch sessions of
  \<open>state.rs\<close>, and the events, dispatches and reports of \<open>effect.rs\<close>.

  The manager is generic over a clock and an identifier source (two traits).  Their methods
  are the fields of \<open>watch_env\<close>, over an arbitrary state type for each; every operation that
  reads the clock or draws an identifier threads that state.
\<close>

subsection \<open>Clock and identifiers\<close>

type_synonym watch_instant = u64

definition instant_saturating_add :: "watch_instant \<Rightarrow> duration \<Rightarrow> watch_instant" where
  "instant_saturating_add t d =
     (let milliseconds = (case u64_try_from (duration_as_millis d) of Some w \<Rightarrow> w | None \<Rightarrow> u64_max)
      in saturating_add t milliseconds)"

definition instant_elapsed_since :: "watch_instant \<Rightarrow> watch_instant \<Rightarrow> duration" where
  "instant_elapsed_since t earlier = duration_from_millis (unat (saturating_sub t earlier))"

record ('c, 'i) watch_env =
  clock_now :: "'c \<Rightarrow> watch_instant \<times> 'c"
  clock_wall_now :: "'c \<Rightarrow> offset_date_time \<times> 'c"
  next_trace_id :: "'i \<Rightarrow> trace_id \<times> 'i"

subsection \<open>Observations\<close>

datatype open_state = StateOpen | StateClosed | StateUnknown

record open_pull_counts =
  attempted :: u64
  succeeded :: u64
  failed :: u64
  empty_count :: u64

record open_counter_snapshot =
  run_counts :: "open_pull_counts option"
  today_counts :: open_pull_counts
  rutgers_day_str :: string

record open_observation =
  obs_observation_id :: trace_id
  obs_refresh_observation_id :: trace_id
  obs_batch :: term_campus_key
  obs_section_key :: section_key
  obs_pull_sequence :: u64
  obs_catalog_content_version :: u64
  obs_state :: open_state
  obs_observed_at :: offset_date_time
  obs_fresh_until :: offset_date_time
  obs_scheduler_lag_milliseconds :: u64
  obs_counter_snapshot :: open_counter_snapshot

subsection \<open>Policies and states\<close>

datatype core_notification_mode = OneShot | Continuous

datatype core_continuous_duration = Finite u64 | Unlimited

definition DEFAULT_MAX_AUDIBLE :: u64 where "DEFAULT_MAX_AUDIBLE = 3"
definition DEFAULT_CONTINUOUS_SECONDS :: u64 where "DEFAULT_CONTINUOUS_SECONDS = 600"

fun continuous_deadline :: "core_continuous_duration \<Rightarrow> watch_instant \<Rightarrow> watch_instant option" where
  "continuous_deadline (Finite seconds) now =
     Some (instant_saturating_add now (duration_from_secs (unat seconds)))"
| "continuous_deadline Unlimited now = None"

record core_policy =
  pol_mode :: core_notification_mode
  pol_max_audible :: u64
  pol_continuous_duration :: core_continuous_duration

definition core_policy_default :: core_policy where
  "core_policy_default = \<lparr>pol_mode = OneShot, pol_max_audible = DEFAULT_MAX_AUDIBLE,
     pol_continuous_duration = Finite DEFAULT_CONTINUOUS_SECONDS\<rparr>"

datatype core_initial_state = InitUnknown | InitClosed | InitOpen trace_id offset_date_time

datatype reliable_state = ReliableClosed | ReliableOpen

datatype core_episode_state = Unacknowledged | Acknowledged | TimedOut | Closed

datatype core_episode_end_reason =
  ObservedClosed | WatchStopped | ConnectionClosed | HeartbeatExpired | ProcessStopped | Restarted

subsection \<open>Episodes\<close>

record core_episode =
  ep_id :: trace_id
  ep_alert_id :: trace_id
  ep_watch_id :: trace_id
  ep_section :: section_key
  ep_policy :: core_policy
  ep_audible_count :: u64
  ep_sequence :: u64
  ep_state :: core_episode_state
  ep_observation_count :: u64
  ep_first_observation_id :: trace_id
  ep_last_observation_id :: trace_id
  ep_first_observed_at :: offset_date_time
  ep_last_observed_at :: offset_date_time
  ep_state_changed_at :: offset_date_time
  ep_closed_at :: "offset_date_time option"
  ep_deadline :: "watch_instant option"
  ep_end_reason :: "core_episode_end_reason option"
  ep_alert_dismissed :: bool

definition episode_new ::
  "trace_id \<Rightarrow> trace_id \<Rightarrow> trace_id \<Rightarrow> section_key \<Rightarrow> core_policy \<Rightarrow> u64 \<Rightarrow> u64 \<Rightarrow> trace_id
     \<Rightarrow> offset_date_time \<Rightarrow> watch_instant option \<Rightarrow> core_episode" where
  "episode_new eid alert_id watch_id sec policy audible_count sequence observation_id observed_at deadline =
     \<lparr>ep_id = eid, ep_alert_id = alert_id, ep_watch_id = watch_id, ep_section = sec,
      ep_policy = policy, ep_audible_count = audible_count, ep_sequence = sequence,
      ep_state = Unacknowledged, ep_observation_count = 1,
      ep_first_observation_id = observation_id, ep_last_observation_id = observation_id,
      ep_first_observed_at = observed_at, ep_last_observed_at = observed_at,
      ep_state_changed_at = observed_at, ep_closed_at = None, ep_deadline = deadline,
      ep_end_reason = None, ep_alert_dismissed = False\<rparr>"

definition observe_open :: "core_episode \<Rightarrow> trace_id \<Rightarrow> offset_date_time \<Rightarrow> core_episode" where
  "observe_open ep observation_id observed_at =
     ep\<lparr>ep_observation_count := saturating_add (ep_observation_count ep) 1,
        ep_last_observation_id := observation_id,
        ep_last_observed_at := max (ep_last_observed_at ep) observed_at\<rparr>"

subsection \<open>Sessions\<close>

record pending_cue =
  cue_id :: trace_id
  cue_observation_id :: trace_id
  cue_episode_id :: trace_id

record observation_cursor =
  cur_pull_sequence :: u64
  cur_observation_id :: trace_id

record watch_session =
  ws_id :: trace_id
  ws_section :: section_key
  ws_policy :: core_policy
  ws_reliable_state :: "reliable_state option"
  ws_episode_sequence :: u64
  ws_episode :: "core_episode option"
  ws_audible_count :: u64
  ws_active_cue :: "pending_cue option"
  ws_queued_cues :: "pending_cue list"
  ws_observation_cursor :: "observation_cursor option"

fun initial_reliable_state :: "core_initial_state \<Rightarrow> reliable_state option" where
  "initial_reliable_state InitUnknown = None"
| "initial_reliable_state InitClosed = Some ReliableClosed"
| "initial_reliable_state (InitOpen _ _) = Some ReliableOpen"

definition session_new ::
  "trace_id \<Rightarrow> section_key \<Rightarrow> core_policy \<Rightarrow> core_initial_state \<Rightarrow> observation_cursor option \<Rightarrow> watch_session"
  where
  "session_new wid sec policy initial_state cursor =
     \<lparr>ws_id = wid, ws_section = sec, ws_policy = policy,
      ws_reliable_state = initial_reliable_state initial_state, ws_episode_sequence = 0,
      ws_episode = None, ws_audible_count = 0, ws_active_cue = None, ws_queued_cues = [],
      ws_observation_cursor = cursor\<rparr>"

definition continuous_alarm_active :: "watch_session \<Rightarrow> bool" where
  "continuous_alarm_active s \<longleftrightarrow> pol_mode (ws_policy s) = Continuous
     \<and> (case ws_episode s of None \<Rightarrow> False | Some ep \<Rightarrow> ep_state ep = Unacknowledged)"

definition take_pending_cues :: "watch_session \<Rightarrow> pending_cue list \<times> watch_session" where
  "take_pending_cues s =
     ((case ws_active_cue s of None \<Rightarrow> [] | Some c \<Rightarrow> [c]) @ ws_queued_cues s,
      s\<lparr>ws_active_cue := None, ws_queued_cues := []\<rparr>)"

subsection \<open>Effects\<close>

datatype core_start_disposition =
    DispStarted | DispRestarted | RejectedLimit | RejectedDuplicate | RejectedSectionNotFound
  | RejectedTargetUnavailable | RejectedUnsupportedTarget | RejectedTermOutOfRange

record core_start_result =
  sr_section :: section_key
  sr_disposition :: core_start_disposition
  sr_watch_id :: "trace_id option"

datatype core_alert_change = AlertOpened | AlertChanged | AlertDismissed | AlertClosed

record core_alert_update =
  au_alert_id :: trace_id
  au_episode_id :: trace_id
  au_section :: section_key
  au_change :: core_alert_change
  au_observation_count :: u64
  au_dismissed :: bool
  au_episode :: core_episode

datatype core_cue_outcome = CueStarted | CueMuted | CueAutoplayBlocked | CueFailed

datatype core_one_shot_disposition = Requested | Queued | SilentCap

datatype core_cue_cancellation_reason =
  CancelWatchStopped | CancelWatchRestarted | CancelNotificationModeChanged

datatype core_mixer_stop_reason = NoUnacknowledgedEpisodes | NotificationModeChanged

datatype core_audio_disposition =
    AudioOneShot (audio_watch_id: trace_id) (audio_section: section_key)
      (audio_observation_id: trace_id) (audio_cue_id: "trace_id option")
      (audio_disposition: core_one_shot_disposition) (audio_audible_count: u64)
      (audio_max_audible: u64)
  | AudioCueCancelled trace_id section_key trace_id trace_id core_cue_cancellation_reason
  | AudioContinuousMixer bool "trace_id list" "core_mixer_stop_reason option"

datatype core_action_kind =
    ActWatchStarted | ActWatchRestarted | ActWatchStopped | ActEpisodeOpened
  | ActEpisodeAcknowledged | ActEpisodesAcknowledgedAll | ActEpisodeTimedOut | ActEpisodeResumed
  | ActEpisodeClosed | ActAudibleCountReset | ActCueStarted | ActCueMuted | ActCueAutoplayBlocked
  | ActCueFailed | ActAlertDismissed | ActPolicyUpdated

record core_action =
  act_id :: trace_id
  act_kind :: core_action_kind
  act_section :: "section_key option"
  act_watch_id :: "trace_id option"
  act_episode_id :: "trace_id option"

datatype core_event =
    EvStartResult core_start_result
  | EvWatchStopped section_key trace_id
  | EvObservation open_observation
  | EvEpisodeUpdated core_episode
  | EvAlertUpdated core_alert_update
  | EvAudio core_audio_disposition
  | EvCueOutcomeRecorded trace_id trace_id section_key core_cue_outcome bool u64
  | EvAction core_action

record core_dispatch =
  d_connection_id :: trace_id
  d_emitted_at :: offset_date_time
  d_events :: "core_event list"

record core_start_outcome =
  so_dispatch :: core_dispatch
  so_replayed :: bool
  so_active_watch_count :: u8

record core_publish_outcome =
  po_dispatches :: "core_dispatch list"
  po_replayed :: bool

datatype core_cleanup_reason = CleanupConnectionClosed | CleanupHeartbeatExpired | CleanupProcessStopped

fun episode_reason :: "core_cleanup_reason \<Rightarrow> core_episode_end_reason" where
  "episode_reason CleanupConnectionClosed = ConnectionClosed"
| "episode_reason CleanupHeartbeatExpired = HeartbeatExpired"
| "episode_reason CleanupProcessStopped = ProcessStopped"

record core_cleanup_report =
  cr_connection_id :: trace_id
  cr_reason :: core_cleanup_reason
  cr_recorded_at :: offset_date_time
  cr_sections :: "section_key list"
  cr_actions :: "core_action list"

record core_tick_outcome =
  to_expired_connections :: "core_cleanup_report list"
  to_dispatches :: "core_dispatch list"

end
