(* ===== verification/Watch_Manager.thy ===== *)
theory Watch_Manager
  imports Watch_State
begin

text \<open>
  The operations of \<open>CoreWatchManager\<close> (\<open>crates/bcsp-watch/src/manager.rs\<close>), in the order of
  the source's layers: session helpers (they use the manager only to draw identifiers, so they
  thread the identifier source alone), bookkeeping of the section index and of the observation
  watermarks, and the public operations on the manager.

  An operation returns its \<open>Result\<close> together with the manager it leaves behind; an \<open>expect\<close>
  that would fail is the result \<open>Panic\<close>.  A helper that can only panic returns \<open>None\<close> for it.
\<close>

subsection \<open>Data\<close>

definition START_REPLAY_WINDOW :: nat where "START_REPLAY_WINDOW = 256"
definition SECTION_CURSOR_WINDOW :: nat where "SECTION_CURSOR_WINDOW = 4096"
definition MAX_ACTIVE_WATCHES :: u8 where "MAX_ACTIVE_WATCHES = 9"

datatype core_start_admission =
    Admitted core_initial_state "observation_cursor option"
  | SectionNotFound | TargetUnavailable | UnsupportedTarget | TermOutOfRange

record core_start_spec =
  spec_section :: section_key
  spec_policy :: core_policy
  spec_admission :: core_start_admission

datatype core_manager_error =
    InvalidHeartbeatTimeout | ConnectionAlreadyExists | UnknownConnection
  | ObservationSequenceConflict | UnknownWatch | UnknownEpisode | UnknownAlert
  | EpisodeNotResumable | InvalidEpisodeAction

datatype 'a core_result = Ok 'a | Err core_manager_error | Panic

record core_connection =
  conn_last_touch :: watch_instant
  conn_watches :: "(section_key, watch_session) bmap"
  conn_start_replays :: "(trace_id, core_dispatch \<times> u8) bmap"
  conn_start_replay_order :: "trace_id list"

record section_observation_watermark =
  wm_cursor :: observation_cursor
  wm_published :: bool

record ('c, 'i) core_manager =
  mgr_clock :: 'c
  mgr_ids :: 'i
  mgr_heartbeat_timeout :: duration
  mgr_max_active_watches :: u8
  mgr_connections :: "(trace_id, core_connection) bmap"
  mgr_connections_by_section :: "(section_key, trace_id bset) bmap"
  mgr_observation_cursors :: "(section_key, section_observation_watermark) bmap"
  mgr_observation_cursor_order :: "section_key list"

definition connection_new :: "watch_instant \<Rightarrow> core_connection" where
  "connection_new now = \<lparr>conn_last_touch = now, conn_watches = bm_empty,
     conn_start_replays = bm_empty, conn_start_replay_order = []\<rparr>"

definition active_episode_ids :: "core_connection \<Rightarrow> trace_id list" where
  "active_episode_ids conn =
     List.map_filter (\<lambda>w. map_option ep_id (ws_episode w))
       (filter continuous_alarm_active (bm_values (conn_watches conn)))"

definition try_new_with_max_active_watches ::
  "'c \<Rightarrow> 'i \<Rightarrow> duration \<Rightarrow> u8 \<Rightarrow> ('c, 'i) core_manager core_result" where
  "try_new_with_max_active_watches clock ids heartbeat_timeout max_active_watches =
     (if heartbeat_timeout = 0 then Err InvalidHeartbeatTimeout
      else Ok \<lparr>mgr_clock = clock, mgr_ids = ids, mgr_heartbeat_timeout = heartbeat_timeout,
             mgr_max_active_watches = max_active_watches, mgr_connections = bm_empty,
             mgr_connections_by_section = bm_empty, mgr_observation_cursors = bm_empty,
             mgr_observation_cursor_order = []\<rparr>)"

definition try_new :: "'c \<Rightarrow> 'i \<Rightarrow> duration \<Rightarrow> ('c, 'i) core_manager core_result" where
  "try_new clock ids heartbeat_timeout =
     try_new_with_max_active_watches clock ids heartbeat_timeout MAX_ACTIVE_WATCHES"

definition read_now :: "('c, 'i) watch_env \<Rightarrow> ('c, 'i) core_manager \<Rightarrow> watch_instant \<times> ('c, 'i) core_manager"
  where "read_now E m = (case clock_now E (mgr_clock m) of (t, c) \<Rightarrow> (t, m\<lparr>mgr_clock := c\<rparr>))"

definition read_wall_now ::
  "('c, 'i) watch_env \<Rightarrow> ('c, 'i) core_manager \<Rightarrow> offset_date_time \<times> ('c, 'i) core_manager"
  where "read_wall_now E m = (case clock_wall_now E (mgr_clock m) of (t, c) \<Rightarrow> (t, m\<lparr>mgr_clock := c\<rparr>))"

definition put_connection ::
  "trace_id \<Rightarrow> core_connection \<Rightarrow> ('c, 'i) core_manager \<Rightarrow> ('c, 'i) core_manager" where
  "put_connection cid conn m = m\<lparr>mgr_connections := bm_insert cid conn (mgr_connections m)\<rparr>"

definition drop_connection :: "trace_id \<Rightarrow> ('c, 'i) core_manager \<Rightarrow> ('c, 'i) core_manager" where
  "drop_connection cid m = m\<lparr>mgr_connections := bm_remove cid (mgr_connections m)\<rparr>"

definition put_watch :: "section_key \<Rightarrow> watch_session \<Rightarrow> core_connection \<Rightarrow> core_connection" where
  "put_watch sec s conn = conn\<lparr>conn_watches := bm_insert sec s (conn_watches conn)\<rparr>"

subsection \<open>Session helpers\<close>

definition alert_update :: "section_key \<Rightarrow> core_episode \<Rightarrow> core_alert_change \<Rightarrow> core_alert_update" where
  "alert_update sec ep change =
     \<lparr>au_alert_id = ep_alert_id ep, au_episode_id = ep_id ep, au_section = sec, au_change = change,
      au_observation_count = ep_observation_count ep, au_dismissed = ep_alert_dismissed ep,
      au_episode = ep\<rparr>"

definition push_action ::
  "('c, 'i) watch_env \<Rightarrow> 'i \<Rightarrow> core_event list \<Rightarrow> core_action_kind \<Rightarrow> section_key option
     \<Rightarrow> trace_id option \<Rightarrow> trace_id option \<Rightarrow> 'i \<times> core_event list" where
  "push_action E i events kind sec watch_id episode_id =
     (case next_trace_id E i of (action_id, i') \<Rightarrow>
        (i', events @ [EvAction \<lparr>act_id = action_id, act_kind = kind, act_section = sec,
                                 act_watch_id = watch_id, act_episode_id = episode_id\<rparr>]))"

definition push_cancelled_cues ::
  "core_event list \<Rightarrow> trace_id \<Rightarrow> section_key \<Rightarrow> pending_cue list \<Rightarrow> core_cue_cancellation_reason
     \<Rightarrow> core_event list" where
  "push_cancelled_cues events watch_id sec cues reason =
     events @ map (\<lambda>cue. EvAudio (AudioCueCancelled watch_id sec (cue_id cue) (cue_observation_id cue) reason)) cues"

definition open_episode ::
  "('c, 'i) watch_env \<Rightarrow> 'i \<Rightarrow> watch_session \<Rightarrow> trace_id \<Rightarrow> offset_date_time \<Rightarrow> watch_instant
     \<Rightarrow> core_event list \<Rightarrow> 'i \<times> watch_session \<times> core_event list" where
  "open_episode E i session observation_id observed_at now events =
     (let session = session\<lparr>ws_episode_sequence := saturating_add (ws_episode_sequence session) 1\<rparr>;
          deadline = (if pol_mode (ws_policy session) = Continuous
                      then continuous_deadline (pol_continuous_duration (ws_policy session)) now
                      else None);
          (episode_id, i) = next_trace_id E i;
          (alert_id, i) = next_trace_id E i;
          episode = episode_new episode_id alert_id (ws_id session) (ws_section session)
                      (ws_policy session) (ws_audible_count session) (ws_episode_sequence session)
                      observation_id observed_at deadline;
          (i, events) = push_action E i events ActEpisodeOpened (Some (ws_section session))
                          (Some (ws_id session)) (Some (ep_id episode));
          events = events @ [EvEpisodeUpdated episode,
                             EvAlertUpdated (alert_update (ws_section session) episode AlertOpened)]
      in (i, session\<lparr>ws_episode := Some episode\<rparr>, events))"

definition close_episode ::
  "core_episode \<Rightarrow> core_episode_end_reason \<Rightarrow> offset_date_time \<Rightarrow> core_episode" where
  "close_episode ep reason closed_at =
     (let closed = max closed_at (ep_last_observed_at ep) in
      ep\<lparr>ep_state := Closed, ep_end_reason := Some reason,
         ep_state_changed_at := max closed (ep_first_observed_at ep), ep_closed_at := Some closed\<rparr>)"

definition end_session ::
  "('c, 'i) watch_env \<Rightarrow> 'i \<Rightarrow> watch_session \<Rightarrow> core_episode_end_reason \<Rightarrow> offset_date_time
     \<Rightarrow> core_cue_cancellation_reason option \<Rightarrow> core_event list
     \<Rightarrow> 'i \<times> watch_session \<times> core_event list" where
  "end_session E i session reason closed_at cancel_reason events =
     (let (session, events) =
        (case cancel_reason of
           None \<Rightarrow> (session, events)
         | Some r \<Rightarrow>
             (case take_pending_cues session of (cues, session) \<Rightarrow>
                (session, push_cancelled_cues events (ws_id session) (ws_section session) cues r)))
      in case ws_episode session of
           None \<Rightarrow> (i, session, events)
         | Some episode \<Rightarrow>
             if ep_state episode = Closed then (i, session, events)
             else
               let episode = (close_episode episode reason closed_at)\<lparr>ep_deadline := None\<rparr>;
                   events = events @ [EvEpisodeUpdated episode,
                              EvAlertUpdated (alert_update (ws_section session) episode AlertClosed)];
                   (i, events) = push_action E i events ActEpisodeClosed (Some (ws_section session))
                                   (Some (ws_id session)) (Some (ep_id episode))
               in (i, session\<lparr>ws_episode := Some episode\<rparr>, events))"

definition one_shot_event ::
  "watch_session \<Rightarrow> trace_id \<Rightarrow> trace_id option \<Rightarrow> core_one_shot_disposition \<Rightarrow> core_event" where
  "one_shot_event session observation_id cue disposition =
     EvAudio (AudioOneShot (ws_id session) (ws_section session) observation_id cue disposition
       (ws_audible_count session) (pol_max_audible (ws_policy session)))"

definition request_cue ::
  "watch_session \<Rightarrow> pending_cue \<Rightarrow> core_event list \<Rightarrow> watch_session \<times> core_event list" where
  "request_cue session cue events =
     (let session = session\<lparr>ws_active_cue := Some cue\<rparr> in
      (session, events @ [one_shot_event session (cue_observation_id cue) (Some (cue_id cue)) Requested]))"

definition queue_one_shot ::
  "('c, 'i) watch_env \<Rightarrow> 'i \<Rightarrow> watch_session \<Rightarrow> trace_id \<Rightarrow> core_event list
     \<Rightarrow> ('i \<times> watch_session \<times> core_event list) option" where
  "queue_one_shot E i session observation_id events =
     (if pol_max_audible (ws_policy session) \<le> ws_audible_count session
      then Some (i, session, events @ [one_shot_event session observation_id None SilentCap])
      else case next_trace_id E i of (cid, i) \<Rightarrow>
        (case ws_episode session of
           None \<Rightarrow> None
         | Some episode \<Rightarrow>
             let cue = \<lparr>cue_id = cid, cue_observation_id = observation_id, cue_episode_id = ep_id episode\<rparr> in
             if ws_active_cue session \<noteq> None
             then let session = session\<lparr>ws_queued_cues := ws_queued_cues session @ [cue]\<rparr> in
               Some (i, session, events @ [one_shot_event session observation_id (Some cid) Queued])
             else (case request_cue session cue events of (session, events) \<Rightarrow> Some (i, session, events))))"

definition drive_one_shot :: "watch_session \<Rightarrow> core_event list \<Rightarrow> watch_session \<times> core_event list" where
  "drive_one_shot session events =
     (if ws_active_cue session \<noteq> None then (session, events)
      else if pol_max_audible (ws_policy session) \<le> ws_audible_count session
      then (session\<lparr>ws_queued_cues := []\<rparr>,
            events @ map (\<lambda>cue. one_shot_event session (cue_observation_id cue) None SilentCap)
                       (ws_queued_cues session))
      else case ws_queued_cues session of
             [] \<Rightarrow> (session, events)
           | cue # rest \<Rightarrow> request_cue (session\<lparr>ws_queued_cues := rest\<rparr>) cue events)"

definition record_open ::
  "('c, 'i) watch_env \<Rightarrow> 'i \<Rightarrow> watch_session \<Rightarrow> open_observation \<Rightarrow> watch_instant \<Rightarrow> core_event list
     \<Rightarrow> 'i \<times> watch_session \<times> core_event list" where
  "record_open E i session observation now events =
     (let creates_episode = (ws_reliable_state session \<noteq> Some ReliableOpen
            \<or> (case ws_episode session of None \<Rightarrow> True | Some ep \<Rightarrow> ep_state ep = Closed));
          session = session\<lparr>ws_reliable_state := Some ReliableOpen\<rparr>
      in if creates_episode
         then open_episode E i session (obs_observation_id observation)
                (obs_observed_at observation) now events
         else case ws_episode session of
                None \<Rightarrow> (i, session, events)
              | Some ep \<Rightarrow>
                  let ep = observe_open ep (obs_observation_id observation) (obs_observed_at observation)
                  in (i, session\<lparr>ws_episode := Some ep\<rparr>,
                      events @ [EvEpisodeUpdated ep,
                        EvAlertUpdated (alert_update (ws_section session) ep AlertChanged)]))"

definition apply_observation ::
  "('c, 'i) watch_env \<Rightarrow> 'i \<Rightarrow> watch_session \<Rightarrow> open_observation \<Rightarrow> watch_instant \<Rightarrow> core_event list
     \<Rightarrow> ('i \<times> watch_session \<times> core_event list) option" where
  "apply_observation E i session observation now events =
     (case obs_state observation of
        StateOpen \<Rightarrow>
          (case record_open E i session observation now events of (i, session, events) \<Rightarrow>
             if pol_mode (ws_policy session) = OneShot
             then queue_one_shot E i session (obs_observation_id observation) events
             else Some (i, session, events))
      | StateClosed \<Rightarrow>
          Some (end_session E i (session\<lparr>ws_reliable_state := Some ReliableClosed\<rparr>) ObservedClosed
                  (obs_observed_at observation) None events)
      | StateUnknown \<Rightarrow> Some (i, session, events))"

definition push_mixer_if_changed ::
  "core_connection \<Rightarrow> trace_id list \<Rightarrow> core_mixer_stop_reason \<Rightarrow> core_event list \<Rightarrow> core_event list" where
  "push_mixer_if_changed conn previous stop_reason events =
     (let current = active_episode_ids conn in
      if current \<noteq> previous
      then let active = (current \<noteq> []) in
        events @ [EvAudio (AudioContinuousMixer active current (if active then None else Some stop_reason))]
      else events)"

subsection \<open>Watermarks\<close>

definition cursor_accepts ::
  "observation_cursor option \<Rightarrow> u64 \<Rightarrow> trace_id \<Rightarrow> core_manager_error + bool" where
  "cursor_accepts cursor pull_sequence observation_id =
     (case cursor of
        None \<Rightarrow> Inr True
      | Some c \<Rightarrow>
          if pull_sequence < cur_pull_sequence c then Inr False
          else if cur_pull_sequence c < pull_sequence then Inr True
          else if observation_id = cur_observation_id c then Inr False
          else Inl ObservationSequenceConflict)"

fun validate_watermark_candidates ::
  "(section_key, observation_cursor) bmap \<Rightarrow> core_start_spec list \<Rightarrow> core_manager_error + unit" where
  "validate_watermark_candidates candidates [] = Inr ()"
| "validate_watermark_candidates candidates (spec # specs) =
     (case spec_admission spec of
        Admitted _ (Some cursor) \<Rightarrow>
          (case cursor_accepts (bm_get candidates (spec_section spec))
                  (cur_pull_sequence cursor) (cur_observation_id cursor) of
             Inl e \<Rightarrow> Inl e
           | Inr True \<Rightarrow> validate_watermark_candidates (bm_insert (spec_section spec) cursor candidates) specs
           | Inr False \<Rightarrow> validate_watermark_candidates candidates specs)
      | _ \<Rightarrow> validate_watermark_candidates candidates specs)"

definition validate_initial_watermarks ::
  "('c, 'i) core_manager \<Rightarrow> core_start_spec list \<Rightarrow> core_manager_error + unit" where
  "validate_initial_watermarks m specs =
     validate_watermark_candidates (bm_map wm_cursor (mgr_observation_cursors m)) specs"

definition make_watermark_room :: "('c, 'i) core_manager \<Rightarrow> section_key \<Rightarrow> ('c, 'i) core_manager" where
  "make_watermark_room m sec =
     (if bm_contains (mgr_observation_cursors m) sec then m
      else
        let m = (if bm_len (mgr_observation_cursors m) = SECTION_CURSOR_WINDOW
                 then (case mgr_observation_cursor_order m of
                         [] \<Rightarrow> m
                       | expired # rest \<Rightarrow>
                           m\<lparr>mgr_observation_cursor_order := rest,
                             mgr_observation_cursors := bm_remove expired (mgr_observation_cursors m)\<rparr>)
                 else m)
        in m\<lparr>mgr_observation_cursor_order := mgr_observation_cursor_order m @ [sec]\<rparr>)"

definition put_watermark ::
  "section_key \<Rightarrow> observation_cursor \<Rightarrow> bool \<Rightarrow> ('c, 'i) core_manager \<Rightarrow> ('c, 'i) core_manager" where
  "put_watermark sec cursor published m =
     m\<lparr>mgr_observation_cursors :=
         bm_insert sec \<lparr>wm_cursor = cursor, wm_published = published\<rparr> (mgr_observation_cursors m)\<rparr>"

definition seed_observation_watermark ::
  "('c, 'i) core_manager \<Rightarrow> section_key \<Rightarrow> observation_cursor \<Rightarrow> ('c, 'i) core_manager" where
  "seed_observation_watermark m sec cursor =
     (case bm_get (mgr_observation_cursors m) sec of
        Some watermark \<Rightarrow>
          if cur_pull_sequence (wm_cursor watermark) < cur_pull_sequence cursor
          then put_watermark sec cursor False m
          else m
      | None \<Rightarrow> put_watermark sec cursor False (make_watermark_room m sec))"

definition record_published_observation ::
  "('c, 'i) core_manager \<Rightarrow> section_key \<Rightarrow> observation_cursor \<Rightarrow> ('c, 'i) core_manager" where
  "record_published_observation m sec cursor =
     (case bm_get (mgr_observation_cursors m) sec of
        Some watermark \<Rightarrow> put_watermark sec cursor True m
      | None \<Rightarrow> put_watermark sec cursor True (make_watermark_room m sec))"

subsection \<open>The section index\<close>

definition link :: "trace_id \<Rightarrow> section_key \<Rightarrow> ('c, 'i) core_manager \<Rightarrow> ('c, 'i) core_manager" where
  "link cid sec m =
     (let conns = (case bm_get (mgr_connections_by_section m) sec of None \<Rightarrow> bm_empty | Some b \<Rightarrow> b) in
      m\<lparr>mgr_connections_by_section := bm_insert sec (bs_insert cid conns) (mgr_connections_by_section m)\<rparr>)"

definition unlink :: "trace_id \<Rightarrow> section_key \<Rightarrow> ('c, 'i) core_manager \<Rightarrow> ('c, 'i) core_manager" where
  "unlink cid sec m =
     (case bm_get (mgr_connections_by_section m) sec of
        None \<Rightarrow> m
      | Some conns \<Rightarrow>
          let conns = bm_remove cid conns in
          if bm_is_empty conns
          then m\<lparr>mgr_connections_by_section := bm_remove sec (mgr_connections_by_section m)\<rparr>
          else m\<lparr>mgr_connections_by_section := bm_insert sec conns (mgr_connections_by_section m)\<rparr>)"

subsection \<open>Connections\<close>

definition connection_count :: "('c, 'i) core_manager \<Rightarrow> nat" where
  "connection_count m = bm_len (mgr_connections m)"

definition connect ::
  "('c, 'i) watch_env \<Rightarrow> ('c, 'i) core_manager \<Rightarrow> trace_id \<Rightarrow> unit core_result \<times> ('c, 'i) core_manager" where
  "connect E m cid =
     (if bm_contains (mgr_connections m) cid then (Err ConnectionAlreadyExists, m)
      else case read_now E m of (now, m) \<Rightarrow> (Ok (), put_connection cid (connection_new now) m))"

definition touch ::
  "('c, 'i) watch_env \<Rightarrow> ('c, 'i) core_manager \<Rightarrow> trace_id \<Rightarrow> unit core_result \<times> ('c, 'i) core_manager" where
  "touch E m cid =
     (case read_now E m of (now, m) \<Rightarrow>
       (case bm_get (mgr_connections m) cid of
          None \<Rightarrow> (Err UnknownConnection, m)
        | Some conn \<Rightarrow> (Ok (), put_connection cid (conn\<lparr>conn_last_touch := now\<rparr>) m)))"

definition take_connection ::
  "('c, 'i) core_manager \<Rightarrow> trace_id \<Rightarrow> (core_connection \<times> ('c, 'i) core_manager) option" where
  "take_connection m cid =
     (case bm_get (mgr_connections m) cid of
        None \<Rightarrow> None
      | Some conn \<Rightarrow> Some (conn, drop_connection cid m))"

definition find_watch ::
  "(watch_session \<Rightarrow> bool) \<Rightarrow> core_connection \<Rightarrow> (section_key \<times> watch_session) option" where
  "find_watch P conn = List.find (\<lambda>(sec, s). P s) (bm_entries (conn_watches conn))"

definition has_episode :: "trace_id \<Rightarrow> watch_session \<Rightarrow> bool" where
  "has_episode eid s \<longleftrightarrow> (case ws_episode s of None \<Rightarrow> False | Some ep \<Rightarrow> ep_id ep = eid)"

definition has_alert :: "trace_id \<Rightarrow> watch_session \<Rightarrow> bool" where
  "has_alert aid s \<longleftrightarrow> (case ws_episode s of None \<Rightarrow> False | Some ep \<Rightarrow> ep_alert_id ep = aid)"

definition has_active_cue :: "trace_id \<Rightarrow> watch_session \<Rightarrow> bool" where
  "has_active_cue cid s \<longleftrightarrow> (case ws_active_cue s of None \<Rightarrow> False | Some cue \<Rightarrow> cue_id cue = cid)"

definition reply ::
  "trace_id \<Rightarrow> core_connection \<Rightarrow> offset_date_time \<Rightarrow> core_event list \<Rightarrow> ('c, 'i) core_manager
     \<Rightarrow> core_dispatch core_result \<times> ('c, 'i) core_manager" where
  "reply cid conn emitted_at events m =
     (Ok \<lparr>d_connection_id = cid, d_emitted_at = emitted_at, d_events = events\<rparr>, put_connection cid conn m)"

subsection \<open>Starting watches\<close>

definition start_result_event ::
  "section_key \<Rightarrow> core_start_disposition \<Rightarrow> trace_id option \<Rightarrow> core_event" where
  "start_result_event sec disposition watch_id =
     EvStartResult \<lparr>sr_section = sec, sr_disposition = disposition, sr_watch_id = watch_id\<rparr>"

definition initial_episode ::
  "('c, 'i) watch_env \<Rightarrow> 'i \<Rightarrow> watch_session \<Rightarrow> core_initial_state \<Rightarrow> watch_instant \<Rightarrow> core_event list
     \<Rightarrow> ('i \<times> watch_session \<times> core_event list) option" where
  "initial_episode E i session initial_state now events =
     (case initial_state of
        InitOpen observation_id observed_at \<Rightarrow>
          (case open_episode E i session observation_id observed_at now events of (i, session, events) \<Rightarrow>
             if pol_mode (ws_policy session) = OneShot
             then queue_one_shot E i session observation_id events
             else Some (i, session, events))
      | _ \<Rightarrow> Some (i, session, events))"

definition start_admitted ::
  "('c, 'i) watch_env \<Rightarrow> trace_id \<Rightarrow> watch_instant \<Rightarrow> offset_date_time \<Rightarrow> core_start_spec
     \<Rightarrow> core_initial_state \<Rightarrow> observation_cursor option
     \<Rightarrow> ('c, 'i) core_manager \<Rightarrow> core_connection \<Rightarrow> core_event list
     \<Rightarrow> (('c, 'i) core_manager \<times> core_connection \<times> core_event list) option" where
  "start_admitted E cid now emitted_at spec initial_state initial_cursor m conn events =
     (let sec = spec_section spec;
          previous = bm_get (conn_watches conn) sec;
          conn = conn\<lparr>conn_watches := bm_remove sec (conn_watches conn)\<rparr>
      in if previous = None \<and> unat (mgr_max_active_watches m) \<le> bm_len (conn_watches conn)
         then Some (m, conn, events @ [start_result_event sec RejectedLimit None])
         else
           let (m, events, disposition, kind) =
                 (case previous of
                    Some prev \<Rightarrow>
                      (case end_session E (mgr_ids m) prev Restarted emitted_at
                              (Some CancelWatchRestarted) events of (i, _, events) \<Rightarrow>
                         (m\<lparr>mgr_ids := i\<rparr>, events, DispRestarted, ActWatchRestarted))
                  | None \<Rightarrow> (link cid sec m, events, DispStarted, ActWatchStarted));
               (watch_id, i) = next_trace_id E (mgr_ids m);
               m = m\<lparr>mgr_ids := i\<rparr>;
               session = session_new watch_id sec (spec_policy spec) initial_state initial_cursor;
               m = (case initial_cursor of None \<Rightarrow> m | Some c \<Rightarrow> seed_observation_watermark m sec c);
               events = events @ [start_result_event sec disposition (Some watch_id)];
               (i, events) = push_action E (mgr_ids m) events kind (Some sec) (Some watch_id) None
           in case initial_episode E i session initial_state now events of
                None \<Rightarrow> None
              | Some (i, session, events) \<Rightarrow> Some (m\<lparr>mgr_ids := i\<rparr>, put_watch sec session conn, events))"

definition start_one ::
  "('c, 'i) watch_env \<Rightarrow> trace_id \<Rightarrow> watch_instant \<Rightarrow> offset_date_time \<Rightarrow> core_start_spec
     \<Rightarrow> ('c, 'i) core_manager \<Rightarrow> core_connection \<Rightarrow> core_event list
     \<Rightarrow> (('c, 'i) core_manager \<times> core_connection \<times> core_event list) option" where
  "start_one E cid now emitted_at spec m conn events =
     (let rejected = (\<lambda>d. Some (m, conn, events @ [start_result_event (spec_section spec) d None])) in
      case spec_admission spec of
        Admitted initial_state initial_cursor \<Rightarrow>
          start_admitted E cid now emitted_at spec initial_state initial_cursor m conn events
      | SectionNotFound \<Rightarrow> rejected RejectedSectionNotFound
      | TargetUnavailable \<Rightarrow> rejected RejectedTargetUnavailable
      | UnsupportedTarget \<Rightarrow> rejected RejectedUnsupportedTarget
      | TermOutOfRange \<Rightarrow> rejected RejectedTermOutOfRange)"

fun start_loop ::
  "('c, 'i) watch_env \<Rightarrow> trace_id \<Rightarrow> watch_instant \<Rightarrow> offset_date_time \<Rightarrow> core_start_spec list
     \<Rightarrow> section_key bset \<Rightarrow> ('c, 'i) core_manager \<Rightarrow> core_connection \<Rightarrow> core_event list
     \<Rightarrow> (('c, 'i) core_manager \<times> core_connection \<times> core_event list) option" where
  "start_loop E cid now emitted_at [] in_message m conn events = Some (m, conn, events)"
| "start_loop E cid now emitted_at (spec # specs) in_message m conn events =
     (if bm_contains in_message (spec_section spec)
      then start_loop E cid now emitted_at specs in_message m conn
             (events @ [start_result_event (spec_section spec) RejectedDuplicate None])
      else case start_one E cid now emitted_at spec m conn events of
             None \<Rightarrow> None
           | Some (m, conn, events) \<Rightarrow>
               start_loop E cid now emitted_at specs (bs_insert (spec_section spec) in_message) m conn events)"

definition remember_start ::
  "trace_id \<Rightarrow> core_dispatch \<Rightarrow> u8 \<Rightarrow> core_connection \<Rightarrow> core_connection" where
  "remember_start message_id dispatch count conn =
     (let conn = conn\<lparr>conn_start_replays := bm_insert message_id (dispatch, count) (conn_start_replays conn),
                      conn_start_replay_order := conn_start_replay_order conn @ [message_id]\<rparr>
      in if START_REPLAY_WINDOW < length (conn_start_replay_order conn)
         then (case conn_start_replay_order conn of
                 [] \<Rightarrow> conn
               | expired # rest \<Rightarrow>
                   conn\<lparr>conn_start_replay_order := rest,
                        conn_start_replays := bm_remove expired (conn_start_replays conn)\<rparr>)
         else conn)"

definition start ::
  "('c, 'i) watch_env \<Rightarrow> ('c, 'i) core_manager \<Rightarrow> trace_id \<Rightarrow> trace_id \<Rightarrow> core_start_spec list
     \<Rightarrow> core_start_outcome core_result \<times> ('c, 'i) core_manager" where
  "start E m cid message_id specs =
     (case read_now E m of (now, m) \<Rightarrow>
       (case take_connection m cid of
          None \<Rightarrow> (Err UnknownConnection, m)
        | Some (conn, m) \<Rightarrow>
            (case bm_get (conn_start_replays conn) message_id of
               Some (dispatch, count) \<Rightarrow>
                 (Ok \<lparr>so_dispatch = dispatch, so_replayed = True, so_active_watch_count = count\<rparr>,
                  put_connection cid (conn\<lparr>conn_last_touch := now\<rparr>) m)
             | None \<Rightarrow>
                 (case validate_initial_watermarks m specs of
                    Inl e \<Rightarrow> (Err e, put_connection cid conn m)
                  | Inr _ \<Rightarrow>
                      (case read_wall_now E m of (emitted_at, m) \<Rightarrow>
                         let conn = conn\<lparr>conn_last_touch := now\<rparr>;
                             previous_mixer = active_episode_ids conn
                         in case start_loop E cid now emitted_at specs bm_empty m conn [] of
                              None \<Rightarrow> (Panic, m)
                            | Some (m, conn, events) \<Rightarrow>
                                let events = push_mixer_if_changed conn previous_mixer
                                               NoUnacknowledgedEpisodes events;
                                    n = bm_len (conn_watches conn)
                                in if 255 < n then (Panic, m)
                                   else
                                     let count = of_nat n;
                                         dispatch = \<lparr>d_connection_id = cid, d_emitted_at = emitted_at,
                                                     d_events = events\<rparr>
                                     in (Ok \<lparr>so_dispatch = dispatch, so_replayed = False,
                                            so_active_watch_count = count\<rparr>,
                                         put_connection cid (remember_start message_id dispatch count conn) m))))))"

subsection \<open>Stopping a watch\<close>

definition stop_watch ::
  "('c, 'i) watch_env \<Rightarrow> ('c, 'i) core_manager \<Rightarrow> trace_id \<Rightarrow> trace_id
     \<Rightarrow> core_dispatch core_result \<times> ('c, 'i) core_manager" where
  "stop_watch E m cid watch_id =
     (case take_connection m cid of
        None \<Rightarrow> (Err UnknownConnection, m)
      | Some (conn, m) \<Rightarrow>
          let previous_mixer = active_episode_ids conn in
          (case find_watch (\<lambda>s. ws_id s = watch_id) conn of
             None \<Rightarrow> (Err UnknownWatch, put_connection cid conn m)
           | Some (sec, _) \<Rightarrow>
               (case bm_get (conn_watches conn) sec of
                  None \<Rightarrow> (Panic, m)
                | Some session \<Rightarrow>
                    let conn = conn\<lparr>conn_watches := bm_remove sec (conn_watches conn)\<rparr>;
                        (emitted_at, m) = read_wall_now E m;
                        (i, session, events) = end_session E (mgr_ids m) session WatchStopped emitted_at
                                                 (Some CancelWatchStopped) [];
                        (i, events) = push_action E i events ActWatchStopped (Some sec) (Some watch_id)
                                        (map_option ep_id (ws_episode session));
                        events = events @ [EvWatchStopped sec watch_id];
                        m = unlink cid sec (m\<lparr>mgr_ids := i\<rparr>);
                        events = push_mixer_if_changed conn previous_mixer NoUnacknowledgedEpisodes events
                    in reply cid conn emitted_at events m)))"

subsection \<open>Publishing an observation\<close>

definition observation_cursor_of :: "open_observation \<Rightarrow> observation_cursor" where
  "observation_cursor_of obs =
     \<lparr>cur_pull_sequence = obs_pull_sequence obs, cur_observation_id = obs_observation_id obs\<rparr>"

definition accepts :: "observation_cursor option \<Rightarrow> open_observation \<Rightarrow> core_manager_error + bool" where
  "accepts cursor obs = cursor_accepts cursor (obs_pull_sequence obs) (obs_observation_id obs)"

fun publish_check ::
  "('c, 'i) core_manager \<Rightarrow> open_observation \<Rightarrow> trace_id list \<Rightarrow> core_manager_error + unit" where
  "publish_check m obs [] = Inr ()"
| "publish_check m obs (cid # cids) =
     (case bm_get (mgr_connections m) cid of
        None \<Rightarrow> publish_check m obs cids
      | Some conn \<Rightarrow>
          (case bm_get (conn_watches conn) (obs_section_key obs) of
             None \<Rightarrow> publish_check m obs cids
           | Some session \<Rightarrow>
               (case accepts (ws_observation_cursor session) obs of
                  Inl e \<Rightarrow> Inl e
                | Inr _ \<Rightarrow> publish_check m obs cids)))"

definition publish_session ::
  "('c, 'i) watch_env \<Rightarrow> open_observation \<Rightarrow> watch_instant \<Rightarrow> 'i \<Rightarrow> watch_session
     \<Rightarrow> ('i \<times> watch_session \<times> core_event list) core_result" where
  "publish_session E obs now i session =
     (let events = [EvObservation obs] in
      case accepts (ws_observation_cursor session) obs of
        Inl e \<Rightarrow> Err e
      | Inr False \<Rightarrow> Ok (i, session, events)
      | Inr True \<Rightarrow>
          (case apply_observation E i (session\<lparr>ws_observation_cursor := Some (observation_cursor_of obs)\<rparr>)
                  obs now events of
             None \<Rightarrow> Panic
           | Some r \<Rightarrow> Ok r))"

definition publish_connection ::
  "('c, 'i) watch_env \<Rightarrow> open_observation \<Rightarrow> watch_instant \<Rightarrow> offset_date_time \<Rightarrow> trace_id
     \<Rightarrow> ('c, 'i) core_manager \<Rightarrow> core_dispatch list core_result \<times> ('c, 'i) core_manager" where
  "publish_connection E obs now emitted_at cid m =
     (case take_connection m cid of
        None \<Rightarrow> (Ok [], m)
      | Some (conn, m) \<Rightarrow>
          let previous_mixer = active_episode_ids conn;
              finish = (\<lambda>m conn events.
                let events = push_mixer_if_changed conn previous_mixer NoUnacknowledgedEpisodes events in
                (Ok (if events = [] then []
                     else [\<lparr>d_connection_id = cid, d_emitted_at = emitted_at, d_events = events\<rparr>]),
                 put_connection cid conn m))
          in case bm_get (conn_watches conn) (obs_section_key obs) of
               None \<Rightarrow> finish m conn []
             | Some session \<Rightarrow>
                 (case publish_session E obs now (mgr_ids m) session of
                    Err e \<Rightarrow> (Err e, m)
                  | Panic \<Rightarrow> (Panic, m)
                  | Ok (i, session, events) \<Rightarrow>
                      finish (m\<lparr>mgr_ids := i\<rparr>) (put_watch (obs_section_key obs) session conn) events))"

fun publish_loop ::
  "('c, 'i) watch_env \<Rightarrow> open_observation \<Rightarrow> watch_instant \<Rightarrow> offset_date_time \<Rightarrow> trace_id list
     \<Rightarrow> core_dispatch list \<Rightarrow> ('c, 'i) core_manager
     \<Rightarrow> core_dispatch list core_result \<times> ('c, 'i) core_manager" where
  "publish_loop E obs now emitted_at [] dispatches m = (Ok dispatches, m)"
| "publish_loop E obs now emitted_at (cid # cids) dispatches m =
     (case publish_connection E obs now emitted_at cid m of
        (Ok ds, m) \<Rightarrow> publish_loop E obs now emitted_at cids (dispatches @ ds) m
      | (Err e, m) \<Rightarrow> (Err e, m)
      | (Panic, m) \<Rightarrow> (Panic, m))"

definition publish ::
  "('c, 'i) watch_env \<Rightarrow> ('c, 'i) core_manager \<Rightarrow> open_observation
     \<Rightarrow> core_publish_outcome core_result \<times> ('c, 'i) core_manager" where
  "publish E m obs =
     (let sec = obs_section_key obs;
          watermark = bm_get (mgr_observation_cursors m) sec
      in case accepts (map_option wm_cursor watermark) obs of
           Inl e \<Rightarrow> (Err e, m)
         | Inr globally_new \<Rightarrow>
             let seeded_exact = (case watermark of
                   None \<Rightarrow> False
                 | Some w \<Rightarrow> \<not> wm_published w \<and> wm_cursor w = observation_cursor_of obs)
             in if \<not> globally_new \<and> \<not> seeded_exact
                then (Ok \<lparr>po_dispatches = [], po_replayed = True\<rparr>, m)
                else
                  let cids = (case bm_get (mgr_connections_by_section m) sec of
                                None \<Rightarrow> [] | Some b \<Rightarrow> bm_keys b)
                  in case publish_check m obs cids of
                       Inl e \<Rightarrow> (Err e, m)
                     | Inr _ \<Rightarrow>
                         let m = record_published_observation m sec (observation_cursor_of obs) in
                         if cids = [] then (Ok \<lparr>po_dispatches = [], po_replayed = False\<rparr>, m)
                         else
                           let (now, m) = read_now E m; (emitted_at, m) = read_wall_now E m in
                           (case publish_loop E obs now emitted_at cids [] m of
                              (Ok ds, m) \<Rightarrow> (Ok \<lparr>po_dispatches = ds, po_replayed = (ds = [])\<rparr>, m)
                            | (Err e, m) \<Rightarrow> (Err e, m)
                            | (Panic, m) \<Rightarrow> (Panic, m)))"

subsection \<open>Commands on a running watch\<close>

definition update_episode :: "(core_episode \<Rightarrow> core_episode) \<Rightarrow> watch_session \<Rightarrow> watch_session" where
  "update_episode f s = s\<lparr>ws_episode := map_option f (ws_episode s)\<rparr>"

definition episode_event :: "watch_session \<Rightarrow> core_event list" where
  "episode_event s = (case ws_episode s of None \<Rightarrow> [] | Some ep \<Rightarrow> [EvEpisodeUpdated ep])"

definition apply_policy ::
  "core_policy \<Rightarrow> watch_instant \<Rightarrow> watch_session \<Rightarrow> pending_cue list \<times> watch_session" where
  "apply_policy policy now session =
     (let (cancelled, session) =
            (if pol_mode (ws_policy session) = OneShot \<and> pol_mode policy = Continuous
             then take_pending_cues session else ([], session));
          session =
            (if pol_mode policy = Continuous
             then update_episode (\<lambda>ep. if ep_state ep = Unacknowledged
                    then ep\<lparr>ep_deadline := continuous_deadline (pol_continuous_duration policy) now\<rparr>
                    else ep) session
             else update_episode (\<lambda>ep. ep\<lparr>ep_deadline := None\<rparr>) session);
          session = session\<lparr>ws_policy := policy\<rparr>
      in (cancelled, update_episode (\<lambda>ep. ep\<lparr>ep_policy := policy\<rparr>) session))"

definition update_policy ::
  "('c, 'i) watch_env \<Rightarrow> ('c, 'i) core_manager \<Rightarrow> trace_id \<Rightarrow> trace_id \<Rightarrow> core_policy
     \<Rightarrow> core_dispatch core_result \<times> ('c, 'i) core_manager" where
  "update_policy E m cid watch_id policy =
     (case take_connection m cid of
        None \<Rightarrow> (Err UnknownConnection, m)
      | Some (conn, m) \<Rightarrow>
          let previous_mixer = active_episode_ids conn;
              (now, m) = read_now E m;
              (emitted_at, m) = read_wall_now E m
          in case find_watch (\<lambda>s. ws_id s = watch_id) conn of
               None \<Rightarrow> (Err UnknownWatch, put_connection cid conn m)
             | Some (sec, session) \<Rightarrow>
                 let previous_mode = pol_mode (ws_policy session);
                     (cancelled, session) = apply_policy policy now session;
                     events = push_cancelled_cues [] (ws_id session) (ws_section session) cancelled
                                CancelNotificationModeChanged;
                     events = events @ episode_event session;
                     (i, events) = push_action E (mgr_ids m) events ActPolicyUpdated
                                     (Some (ws_section session)) (Some watch_id)
                                     (map_option ep_id (ws_episode session));
                     conn = put_watch sec session conn;
                     events = push_mixer_if_changed conn previous_mixer
                                (if previous_mode \<noteq> pol_mode policy then NotificationModeChanged
                                 else NoUnacknowledgedEpisodes) events
                 in reply cid conn emitted_at events (m\<lparr>mgr_ids := i\<rparr>))"

definition settle_episode ::
  "core_episode_state \<Rightarrow> watch_instant option \<Rightarrow> offset_date_time \<Rightarrow> core_episode \<Rightarrow> core_episode" where
  "settle_episode st deadline emitted_at ep =
     ep\<lparr>ep_state := st, ep_deadline := deadline,
        ep_state_changed_at := max emitted_at (ep_first_observed_at ep)\<rparr>"

definition acknowledge_episode ::
  "('c, 'i) watch_env \<Rightarrow> ('c, 'i) core_manager \<Rightarrow> trace_id \<Rightarrow> trace_id
     \<Rightarrow> core_dispatch core_result \<times> ('c, 'i) core_manager" where
  "acknowledge_episode E m cid episode_id =
     (case take_connection m cid of
        None \<Rightarrow> (Err UnknownConnection, m)
      | Some (conn, m) \<Rightarrow>
          let previous_mixer = active_episode_ids conn in
          (case find_watch (has_episode episode_id) conn of
             None \<Rightarrow> (Err UnknownEpisode, put_connection cid conn m)
           | Some (sec, session) \<Rightarrow>
               if pol_mode (ws_policy session) \<noteq> Continuous
               then (Err InvalidEpisodeAction, put_connection cid conn m)
               else
                 let (emitted_at, m) = read_wall_now E m;
                     (i, session, events) =
                       (case ws_episode session of
                          None \<Rightarrow> (mgr_ids m, session, [])
                        | Some ep \<Rightarrow>
                            if ep_state ep = Unacknowledged
                            then let ep = settle_episode Acknowledged None emitted_at ep;
                                     (i, events) = push_action E (mgr_ids m) [EvEpisodeUpdated ep]
                                       ActEpisodeAcknowledged (Some (ws_section session))
                                       (Some (ws_id session)) (Some episode_id)
                                 in (i, session\<lparr>ws_episode := Some ep\<rparr>, events)
                            else (mgr_ids m, session, []));
                     conn = put_watch sec session conn;
                     events = push_mixer_if_changed conn previous_mixer NoUnacknowledgedEpisodes events
                 in reply cid conn emitted_at events (m\<lparr>mgr_ids := i\<rparr>)))"

fun push_actions ::
  "('c, 'i) watch_env \<Rightarrow> 'i \<Rightarrow> core_event list \<Rightarrow> core_action_kind
     \<Rightarrow> (section_key \<times> trace_id \<times> trace_id) list \<Rightarrow> 'i \<times> core_event list" where
  "push_actions E i events kind [] = (i, events)"
| "push_actions E i events kind ((sec, watch_id, episode_id) # rest) =
     (case push_action E i events kind (Some sec) (Some watch_id) (Some episode_id) of (i, events) \<Rightarrow>
        push_actions E i events kind rest)"

definition settle_session ::
  "(watch_session \<Rightarrow> bool) \<Rightarrow> core_episode_state \<Rightarrow> offset_date_time \<Rightarrow> watch_session \<Rightarrow> watch_session" where
  "settle_session due st emitted_at s =
     (if due s then update_episode (settle_episode st None emitted_at) s else s)"

definition settle_watches ::
  "('c, 'i) watch_env \<Rightarrow> (watch_session \<Rightarrow> bool) \<Rightarrow> core_episode_state \<Rightarrow> core_action_kind
     \<Rightarrow> offset_date_time \<Rightarrow> 'i \<Rightarrow> core_connection \<Rightarrow> 'i \<times> core_connection \<times> core_event list" where
  "settle_watches E due st kind emitted_at i conn =
     (let settled = map (settle_session due st emitted_at) (filter due (bm_values (conn_watches conn)));
          events = concat (map episode_event settled);
          touched = concat (map (\<lambda>s. case ws_episode s of
                      None \<Rightarrow> [] | Some ep \<Rightarrow> [(ws_section s, ws_id s, ep_id ep)]) settled);
          (i, events) = push_actions E i events kind touched
      in (i, conn\<lparr>conn_watches := bm_map (settle_session due st emitted_at) (conn_watches conn)\<rparr>, events))"

definition acknowledge_all ::
  "('c, 'i) watch_env \<Rightarrow> ('c, 'i) core_manager \<Rightarrow> trace_id
     \<Rightarrow> core_dispatch core_result \<times> ('c, 'i) core_manager" where
  "acknowledge_all E m cid =
     (case take_connection m cid of
        None \<Rightarrow> (Err UnknownConnection, m)
      | Some (conn, m) \<Rightarrow>
          let previous_mixer = active_episode_ids conn;
              (emitted_at, m) = read_wall_now E m;
              (i, conn, events) = settle_watches E continuous_alarm_active Acknowledged
                                    ActEpisodesAcknowledgedAll emitted_at (mgr_ids m) conn;
              events = push_mixer_if_changed conn previous_mixer NoUnacknowledgedEpisodes events
          in reply cid conn emitted_at events (m\<lparr>mgr_ids := i\<rparr>))"

definition resume_episode ::
  "('c, 'i) watch_env \<Rightarrow> ('c, 'i) core_manager \<Rightarrow> trace_id \<Rightarrow> trace_id
     \<Rightarrow> core_dispatch core_result \<times> ('c, 'i) core_manager" where
  "resume_episode E m cid episode_id =
     (case read_now E m of (now, m) \<Rightarrow>
       (case take_connection m cid of
          None \<Rightarrow> (Err UnknownConnection, m)
        | Some (conn, m) \<Rightarrow>
            let previous_mixer = active_episode_ids conn in
            (case find_watch (has_episode episode_id) conn of
               None \<Rightarrow> (Err UnknownEpisode, put_connection cid conn m)
             | Some (sec, session) \<Rightarrow>
                 if pol_mode (ws_policy session) \<noteq> Continuous
                    \<or> ws_reliable_state session \<noteq> Some ReliableOpen
                    \<or> map_option ep_state (ws_episode session) \<noteq> Some TimedOut
                 then (Err EpisodeNotResumable, put_connection cid conn m)
                 else
                   (case read_wall_now E m of (emitted_at, m) \<Rightarrow>
                     (case ws_episode session of
                        None \<Rightarrow> (Panic, m)
                      | Some ep \<Rightarrow>
                          let ep = settle_episode Unacknowledged
                                (continuous_deadline (pol_continuous_duration (ws_policy session)) now)
                                emitted_at ep;
                              session = session\<lparr>ws_episode := Some ep\<rparr>;
                              (i, events) = push_action E (mgr_ids m) [EvEpisodeUpdated ep] ActEpisodeResumed
                                (Some (ws_section session)) (Some (ws_id session)) (Some episode_id);
                              conn = put_watch sec session conn;
                              events = push_mixer_if_changed conn previous_mixer NoUnacknowledgedEpisodes events
                          in reply cid conn emitted_at events (m\<lparr>mgr_ids := i\<rparr>))))))"

definition reset_audible_count ::
  "('c, 'i) watch_env \<Rightarrow> ('c, 'i) core_manager \<Rightarrow> trace_id \<Rightarrow> trace_id
     \<Rightarrow> core_dispatch core_result \<times> ('c, 'i) core_manager" where
  "reset_audible_count E m cid watch_id =
     (case take_connection m cid of
        None \<Rightarrow> (Err UnknownConnection, m)
      | Some (conn, m) \<Rightarrow>
          (case find_watch (\<lambda>s. ws_id s = watch_id) conn of
             None \<Rightarrow> (Err UnknownWatch, put_connection cid conn m)
           | Some (sec, session) \<Rightarrow>
               let (emitted_at, m) = read_wall_now E m;
                   session = update_episode (\<lambda>ep. ep\<lparr>ep_audible_count := 0\<rparr>) (session\<lparr>ws_audible_count := 0\<rparr>);
                   (i, events) = push_action E (mgr_ids m) (episode_event session) ActAudibleCountReset
                                   (Some (ws_section session)) (Some watch_id)
                                   (map_option ep_id (ws_episode session));
                   (session, events) = drive_one_shot session events
               in reply cid (put_watch sec session conn) emitted_at events (m\<lparr>mgr_ids := i\<rparr>)))"

fun cue_action_kind :: "core_cue_outcome \<Rightarrow> core_action_kind" where
  "cue_action_kind CueStarted = ActCueStarted"
| "cue_action_kind CueMuted = ActCueMuted"
| "cue_action_kind CueAutoplayBlocked = ActCueAutoplayBlocked"
| "cue_action_kind CueFailed = ActCueFailed"

definition count_cue :: "core_cue_outcome \<Rightarrow> watch_session \<Rightarrow> watch_session" where
  "count_cue outcome session =
     (if outcome = CueStarted
      then let session = session\<lparr>ws_audible_count := saturating_add (ws_audible_count session) 1\<rparr> in
        update_episode (\<lambda>ep. ep\<lparr>ep_audible_count := ws_audible_count session\<rparr>) session
      else session)"

definition report_cue_outcome ::
  "('c, 'i) watch_env \<Rightarrow> ('c, 'i) core_manager \<Rightarrow> trace_id \<Rightarrow> trace_id \<Rightarrow> core_cue_outcome
     \<Rightarrow> core_dispatch core_result \<times> ('c, 'i) core_manager" where
  "report_cue_outcome E m cid cue outcome =
     (case take_connection m cid of
        None \<Rightarrow> (Err UnknownConnection, m)
      | Some (conn, m) \<Rightarrow>
          (case read_wall_now E m of (emitted_at, m) \<Rightarrow>
            (case find_watch (has_active_cue cue) conn of
               None \<Rightarrow> reply cid conn emitted_at [] m
             | Some (sec, _) \<Rightarrow>
                 (case bm_get (conn_watches conn) sec of
                    None \<Rightarrow> (Panic, m)
                  | Some session \<Rightarrow>
                      (case ws_active_cue session of
                         None \<Rightarrow> (Panic, m)
                       | Some active \<Rightarrow>
                           let session = count_cue outcome (session\<lparr>ws_active_cue := None\<rparr>);
                               events = [EvCueOutcomeRecorded cue (ws_id session) (ws_section session) outcome
                                           (outcome = CueStarted) (ws_audible_count session)];
                               (i, events) = push_action E (mgr_ids m) events (cue_action_kind outcome)
                                               (Some sec) (Some (ws_id session)) (Some (cue_episode_id active));
                               events = events @ (if outcome = CueStarted then episode_event session else []);
                               (session, events) = drive_one_shot session events
                           in reply cid (put_watch sec session conn) emitted_at events (m\<lparr>mgr_ids := i\<rparr>))))))"

definition dismiss_alert ::
  "('c, 'i) watch_env \<Rightarrow> ('c, 'i) core_manager \<Rightarrow> trace_id \<Rightarrow> trace_id
     \<Rightarrow> core_dispatch core_result \<times> ('c, 'i) core_manager" where
  "dismiss_alert E m cid alert_id =
     (case take_connection m cid of
        None \<Rightarrow> (Err UnknownConnection, m)
      | Some (conn, m) \<Rightarrow>
          (case find_watch (has_alert alert_id) conn of
             None \<Rightarrow> (Err UnknownAlert, put_connection cid conn m)
           | Some (sec, session) \<Rightarrow>
               (case read_wall_now E m of (emitted_at, m) \<Rightarrow>
                 (case ws_episode session of
                    None \<Rightarrow> (Panic, m)
                  | Some ep \<Rightarrow>
                      let ep = ep\<lparr>ep_alert_dismissed := True\<rparr>;
                          session = session\<lparr>ws_episode := Some ep\<rparr>;
                          (i, events) = push_action E (mgr_ids m)
                            [EvAlertUpdated (alert_update (ws_section session) ep AlertDismissed)]
                            ActAlertDismissed (Some (ws_section session)) (Some (ws_id session)) (Some (ep_id ep))
                      in reply cid (put_watch sec session conn) emitted_at events (m\<lparr>mgr_ids := i\<rparr>)))))"

subsection \<open>Clean-up, ticks and shutdown\<close>

definition cleanup_session ::
  "('c, 'i) watch_env \<Rightarrow> core_cleanup_reason \<Rightarrow> offset_date_time \<Rightarrow> section_key \<Rightarrow> watch_session \<Rightarrow> 'i
     \<Rightarrow> 'i \<times> core_action list" where
  "cleanup_session E reason recorded_at sec session i =
     (let (i, session, closed) =
        (case ws_episode session of
           None \<Rightarrow> (i, session, [])
         | Some ep \<Rightarrow>
             if ep_state ep = Closed then (i, session, [])
             else let ep = close_episode ep (episode_reason reason) recorded_at;
                      (aid, i) = next_trace_id E i
                  in (i, session\<lparr>ws_episode := Some ep\<rparr>,
                      [\<lparr>act_id = aid, act_kind = ActEpisodeClosed, act_section = Some sec,
                        act_watch_id = Some (ws_id session), act_episode_id = Some (ep_id ep)\<rparr>]));
          (aid, i) = next_trace_id E i
      in (i, closed @ [\<lparr>act_id = aid, act_kind = ActWatchStopped, act_section = Some sec,
                         act_watch_id = Some (ws_id session),
                         act_episode_id = map_option ep_id (ws_episode session)\<rparr>]))"

fun cleanup_loop ::
  "('c, 'i) watch_env \<Rightarrow> core_cleanup_reason \<Rightarrow> offset_date_time \<Rightarrow> trace_id
     \<Rightarrow> (section_key \<times> watch_session) list \<Rightarrow> section_key list \<Rightarrow> core_action list
     \<Rightarrow> ('c, 'i) core_manager \<Rightarrow> section_key list \<times> core_action list \<times> ('c, 'i) core_manager" where
  "cleanup_loop E reason recorded_at cid [] sections actions m = (sections, actions, m)"
| "cleanup_loop E reason recorded_at cid ((sec, session) # rest) sections actions m =
     (case cleanup_session E reason recorded_at sec session (mgr_ids m) of (i, acts) \<Rightarrow>
        cleanup_loop E reason recorded_at cid rest (sections @ [sec]) (actions @ acts)
          (unlink cid sec (m\<lparr>mgr_ids := i\<rparr>)))"

definition cleanup ::
  "('c, 'i) watch_env \<Rightarrow> ('c, 'i) core_manager \<Rightarrow> trace_id \<Rightarrow> core_cleanup_reason
     \<Rightarrow> core_cleanup_report core_result \<times> ('c, 'i) core_manager" where
  "cleanup E m cid reason =
     (case read_wall_now E m of (recorded_at, m) \<Rightarrow>
       (case take_connection m cid of
          None \<Rightarrow> (Err UnknownConnection, m)
        | Some (conn, m) \<Rightarrow>
            (case cleanup_loop E reason recorded_at cid (bm_entries (conn_watches conn)) [] [] m of
               (sections, actions, m) \<Rightarrow>
                 (Ok \<lparr>cr_connection_id = cid, cr_reason = reason, cr_recorded_at = recorded_at,
                     cr_sections = sections, cr_actions = actions\<rparr>, m))))"

definition disconnect ::
  "('c, 'i) watch_env \<Rightarrow> ('c, 'i) core_manager \<Rightarrow> trace_id
     \<Rightarrow> core_cleanup_report core_result \<times> ('c, 'i) core_manager" where
  "disconnect E m cid = cleanup E m cid CleanupConnectionClosed"

fun cleanup_all ::
  "('c, 'i) watch_env \<Rightarrow> core_cleanup_reason \<Rightarrow> trace_id list \<Rightarrow> ('c, 'i) core_manager
     \<Rightarrow> core_cleanup_report list \<times> ('c, 'i) core_manager" where
  "cleanup_all E reason [] m = ([], m)"
| "cleanup_all E reason (cid # cids) m =
     (case cleanup E m cid reason of (r, m) \<Rightarrow>
       (case cleanup_all E reason cids m of (reports, m) \<Rightarrow>
          ((case r of Ok report \<Rightarrow> report # reports | _ \<Rightarrow> reports), m)))"

definition heartbeat_expired :: "watch_instant \<Rightarrow> duration \<Rightarrow> core_connection \<Rightarrow> bool" where
  "heartbeat_expired now timeout conn \<longleftrightarrow> timeout \<le> instant_elapsed_since now (conn_last_touch conn)"

definition alarm_overdue :: "watch_instant \<Rightarrow> watch_session \<Rightarrow> bool" where
  "alarm_overdue now s \<longleftrightarrow> continuous_alarm_active s
     \<and> (case ws_episode s of None \<Rightarrow> False
        | Some ep \<Rightarrow> (case ep_deadline ep of None \<Rightarrow> False | Some deadline \<Rightarrow> deadline \<le> now))"

definition tick_connection ::
  "('c, 'i) watch_env \<Rightarrow> watch_instant \<Rightarrow> offset_date_time \<Rightarrow> trace_id \<Rightarrow> ('c, 'i) core_manager
     \<Rightarrow> core_dispatch list \<times> ('c, 'i) core_manager" where
  "tick_connection E now emitted_at cid m =
     (case take_connection m cid of
        None \<Rightarrow> ([], m)
      | Some (conn, m) \<Rightarrow>
          let previous_mixer = active_episode_ids conn;
              (i, conn, events) = settle_watches E (alarm_overdue now) TimedOut ActEpisodeTimedOut
                                    emitted_at (mgr_ids m) conn;
              events = push_mixer_if_changed conn previous_mixer NoUnacknowledgedEpisodes events
          in ((if events = [] then []
               else [\<lparr>d_connection_id = cid, d_emitted_at = emitted_at, d_events = events\<rparr>]),
              put_connection cid conn (m\<lparr>mgr_ids := i\<rparr>)))"

fun tick_loop ::
  "('c, 'i) watch_env \<Rightarrow> watch_instant \<Rightarrow> offset_date_time \<Rightarrow> trace_id list \<Rightarrow> ('c, 'i) core_manager
     \<Rightarrow> core_dispatch list \<times> ('c, 'i) core_manager" where
  "tick_loop E now emitted_at [] m = ([], m)"
| "tick_loop E now emitted_at (cid # cids) m =
     (case tick_connection E now emitted_at cid m of (ds, m) \<Rightarrow>
       (case tick_loop E now emitted_at cids m of (dispatches, m) \<Rightarrow> (ds @ dispatches, m)))"

definition tick ::
  "('c, 'i) watch_env \<Rightarrow> ('c, 'i) core_manager \<Rightarrow> core_tick_outcome \<times> ('c, 'i) core_manager" where
  "tick E m =
     (let (now, m) = read_now E m;
          (emitted_at, m) = read_wall_now E m;
          expired = map fst (filter (\<lambda>(cid, conn). heartbeat_expired now (mgr_heartbeat_timeout m) conn)
                               (bm_entries (mgr_connections m)));
          (reports, m) = cleanup_all E CleanupHeartbeatExpired expired m;
          (dispatches, m) = tick_loop E now emitted_at (bm_keys (mgr_connections m)) m
      in (\<lparr>to_expired_connections = reports, to_dispatches = dispatches\<rparr>, m))"

definition process_stop ::
  "('c, 'i) watch_env \<Rightarrow> ('c, 'i) core_manager \<Rightarrow> core_cleanup_report list \<times> ('c, 'i) core_manager" where
  "process_stop E m = cleanup_all E CleanupProcessStopped (bm_keys (mgr_connections m)) m"

subsection \<open>Queries\<close>

definition watched_sections :: "('c, 'i) core_manager \<Rightarrow> term_campus_key \<Rightarrow> section_key list" where
  "watched_sections m target =
     filter (\<lambda>sec. section_key_target sec = target) (bm_keys (mgr_connections_by_section m))"

definition active_watch_count :: "('c, 'i) core_manager \<Rightarrow> term_campus_key \<Rightarrow> u64" where
  "active_watch_count m target = u64_from_len (length (watched_sections m target))"

definition connection_watches :: "('c, 'i) core_manager \<Rightarrow> trace_id \<Rightarrow> section_key list" where
  "connection_watches m cid =
     (case bm_get (mgr_connections m) cid of None \<Rightarrow> [] | Some conn \<Rightarrow> bm_keys (conn_watches conn))"

definition connection_watch_targets ::
  "('c, 'i) core_manager \<Rightarrow> trace_id \<Rightarrow> (section_key \<times> trace_id) list" where
  "connection_watch_targets m cid =
     (case bm_get (mgr_connections m) cid of
        None \<Rightarrow> []
      | Some conn \<Rightarrow> map (\<lambda>(sec, s). (sec, ws_id s)) (bm_entries (conn_watches conn)))"

definition watch_id_for_section :: "('c, 'i) core_manager \<Rightarrow> trace_id \<Rightarrow> section_key \<Rightarrow> trace_id option" where
  "watch_id_for_section m cid sec =
     Option.bind (bm_get (mgr_connections m) cid) (\<lambda>conn.
       map_option ws_id (bm_get (conn_watches conn) sec))"

definition watch_section :: "('c, 'i) core_manager \<Rightarrow> trace_id \<Rightarrow> trace_id \<Rightarrow> section_key option" where
  "watch_section m cid watch_id =
     Option.bind (bm_get (mgr_connections m) cid) (\<lambda>conn.
       map_option (ws_section \<circ> snd) (find_watch (\<lambda>s. ws_id s = watch_id) conn))"

definition episode_target ::
  "('c, 'i) core_manager \<Rightarrow> trace_id \<Rightarrow> trace_id \<Rightarrow> (trace_id \<times> section_key) option" where
  "episode_target m cid episode_id =
     Option.bind (bm_get (mgr_connections m) cid) (\<lambda>conn.
       map_option (\<lambda>(_, s). (ws_id s, ws_section s)) (find_watch (has_episode episode_id) conn))"

definition alert_target ::
  "('c, 'i) core_manager \<Rightarrow> trace_id \<Rightarrow> trace_id \<Rightarrow> (trace_id \<times> trace_id \<times> section_key) option" where
  "alert_target m cid alert_id =
     Option.bind (bm_get (mgr_connections m) cid) (\<lambda>conn.
     Option.bind (find_watch (has_alert alert_id) conn) (\<lambda>(_, s).
       map_option (\<lambda>ep. (ws_id s, ep_id ep, ws_section s)) (ws_episode s)))"

definition cue_target ::
  "('c, 'i) core_manager \<Rightarrow> trace_id \<Rightarrow> trace_id \<Rightarrow> (trace_id \<times> section_key) option" where
  "cue_target m cid cue =
     Option.bind (bm_get (mgr_connections m) cid) (\<lambda>conn.
       map_option (\<lambda>(_, s). (ws_id s, ws_section s)) (find_watch (has_active_cue cue) conn))"

end
