(* ===== verification/Watch_Invariants.thy ===== *)
theory Watch_Invariants
  imports Watch_Manager
begin

text \<open>
  The well-formedness of the watch manager and its preservation.  An episode is consistent with
  the session that owns it, a session with its cues, a connection with its caps and replay window,
  and the manager's section index with the connections.  The session helpers come first, each with
  the part of the session it keeps; then one preservation lemma per operation.
\<close>

subsection \<open>The invariant\<close>

definition wf_episode :: "watch_session \<Rightarrow> core_episode \<Rightarrow> bool" where
  "wf_episode s ep \<longleftrightarrow>
     ep_watch_id ep = ws_id s \<and> ep_section ep = ws_section s \<and> ep_policy ep = ws_policy s
     \<and> ep_audible_count ep = ws_audible_count s \<and> ep_sequence ep = ws_episode_sequence s
     \<and> ep_observation_count ep \<noteq> 0
     \<and> ep_first_observed_at ep \<le> ep_last_observed_at ep
     \<and> ep_first_observed_at ep \<le> ep_state_changed_at ep
     \<and> (ep_state ep = Closed \<longleftrightarrow> ep_closed_at ep \<noteq> None)
     \<and> (ep_state ep = Closed \<longleftrightarrow> ep_end_reason ep \<noteq> None)
     \<and> (case ep_closed_at ep of None \<Rightarrow> True | Some t \<Rightarrow> ep_last_observed_at ep \<le> t)
     \<and> (ep_deadline ep \<noteq> None \<longrightarrow> ep_state ep = Unacknowledged \<and> pol_mode (ws_policy s) = Continuous)"

definition wf_cues :: "watch_session \<Rightarrow> bool" where
  "wf_cues s \<longleftrightarrow> (ws_active_cue s = None \<longrightarrow> ws_queued_cues s = [])
     \<and> (pol_mode (ws_policy s) = Continuous \<longrightarrow> ws_active_cue s = None)"

definition wf_session :: "watch_session \<Rightarrow> bool" where
  "wf_session s \<longleftrightarrow> wf_cues s
     \<and> (\<forall>ep. ws_episode s = Some ep \<longrightarrow> wf_episode s ep)
     \<and> (ws_reliable_state s = Some ReliableOpen
          \<longleftrightarrow> (\<exists>ep. ws_episode s = Some ep \<and> ep_state ep \<noteq> Closed))"

definition wf_connection :: "u8 \<Rightarrow> core_connection \<Rightarrow> bool" where
  "wf_connection limit conn \<longleftrightarrow>
     (\<forall>sec s. bm_get (conn_watches conn) sec = Some s \<longrightarrow> ws_section s = sec \<and> wf_session s)
     \<and> bm_len (conn_watches conn) \<le> unat limit
     \<and> distinct (conn_start_replay_order conn)
     \<and> set (conn_start_replay_order conn) = set (bm_keys (conn_start_replays conn))
     \<and> length (conn_start_replay_order conn) \<le> START_REPLAY_WINDOW"

definition watchers :: "('c, 'i) core_manager \<Rightarrow> section_key \<Rightarrow> trace_id set" where
  "watchers m sec = {cid. \<exists>conn. bm_get (mgr_connections m) cid = Some conn
                              \<and> bm_get (conn_watches conn) sec \<noteq> None}"

definition indexed :: "('c, 'i) core_manager \<Rightarrow> section_key \<Rightarrow> trace_id set" where
  "indexed m sec = (case bm_get (mgr_connections_by_section m) sec of None \<Rightarrow> {} | Some b \<Rightarrow> bs_set b)"

definition wf_index :: "('c, 'i) core_manager \<Rightarrow> bool" where
  "wf_index m \<longleftrightarrow> (\<forall>sec. indexed m sec = watchers m sec)
     \<and> (\<forall>sec. bm_get (mgr_connections_by_section m) sec \<noteq> Some bm_empty)"

definition wf_watermarks :: "('c, 'i) core_manager \<Rightarrow> bool" where
  "wf_watermarks m \<longleftrightarrow> distinct (mgr_observation_cursor_order m)
     \<and> set (mgr_observation_cursor_order m) = set (bm_keys (mgr_observation_cursors m))
     \<and> bm_len (mgr_observation_cursors m) \<le> SECTION_CURSOR_WINDOW"

definition wf_manager :: "('c, 'i) core_manager \<Rightarrow> bool" where
  "wf_manager m \<longleftrightarrow>
     (\<forall>cid conn. bm_get (mgr_connections m) cid = Some conn
        \<longrightarrow> wf_connection (mgr_max_active_watches m) conn)
     \<and> wf_index m \<and> wf_watermarks m"

subsection \<open>Session helpers keep sessions well-formed\<close>

lemma saturating_add_one_nonzero [simp]: "saturating_add (n :: u64) 1 \<noteq> 0"
proof -
  have "unat (saturating_add n 1) = min (unat n + 1) (2 ^ 64 - 1)"
    by (simp add: unat_saturating_add)
  then have "unat (saturating_add n 1) \<noteq> 0"
    by simp
  then show ?thesis
    by auto
qed

lemma take_pending_cues_fields [simp]:
  "ws_id (snd (take_pending_cues s)) = ws_id s"
  "ws_section (snd (take_pending_cues s)) = ws_section s"
  "ws_episode (snd (take_pending_cues s)) = ws_episode s"
  "ws_active_cue (snd (take_pending_cues s)) = None"
  "ws_queued_cues (snd (take_pending_cues s)) = []"
  by (simp_all add: take_pending_cues_def)

lemma wf_close_episode:
  assumes "wf_episode s ep" "ep_state ep \<noteq> Closed"
  shows "wf_episode s ((close_episode ep reason t)\<lparr>ep_deadline := None\<rparr>)"
  using assms by (auto simp: wf_episode_def close_episode_def Let_def max_def)

lemma wf_observe_open:
  assumes "wf_episode s ep" "ep_state ep \<noteq> Closed"
  shows "wf_episode s (observe_open ep oid t)"
  using assms by (auto simp: wf_episode_def observe_open_def max_def split: option.splits)

lemma wf_settle_episode:
  assumes "wf_episode s ep" "ep_state ep \<noteq> Closed" "st \<noteq> Closed"
    and "d \<noteq> None \<longrightarrow> st = Unacknowledged \<and> pol_mode (ws_policy s) = Continuous"
  shows "wf_episode s (settle_episode st d t ep)"
  using assms by (auto simp: wf_episode_def settle_episode_def max_def split: option.splits)

lemma wf_sessionI:
  assumes "wf_cues s"
    and "\<And>ep. ws_episode s = Some ep \<Longrightarrow> wf_episode s ep"
    and "ws_reliable_state s = Some ReliableOpen
           \<longleftrightarrow> (\<exists>ep. ws_episode s = Some ep \<and> ep_state ep \<noteq> Closed)"
  shows "wf_session s"
  using assms by (auto simp: wf_session_def split: option.splits)

lemma wf_session_episode: "wf_session s \<Longrightarrow> ws_episode s = Some ep \<Longrightarrow> wf_episode s ep"
  by (simp add: wf_session_def)

lemma wf_session_cues: "wf_session s \<Longrightarrow> wf_cues s"
  by (simp add: wf_session_def)

lemma wf_session_live:
  "wf_session s \<Longrightarrow> ws_reliable_state s = Some ReliableOpen
     \<longleftrightarrow> (\<exists>ep. ws_episode s = Some ep \<and> ep_state ep \<noteq> Closed)"
  by (auto simp: wf_session_def split: option.splits)

text \<open>A session may change the fields its episode does not mirror.\<close>

lemma wf_episode_frame [simp]:
  "wf_episode (s\<lparr>ws_active_cue := a\<rparr>) ep = wf_episode s ep"
  "wf_episode (s\<lparr>ws_queued_cues := q\<rparr>) ep = wf_episode s ep"
  "wf_episode (s\<lparr>ws_reliable_state := r\<rparr>) ep = wf_episode s ep"
  "wf_episode (s\<lparr>ws_episode := e\<rparr>) ep = wf_episode s ep"
  "wf_episode (s\<lparr>ws_observation_cursor := c\<rparr>) ep = wf_episode s ep"
  by (simp_all add: wf_episode_def)

lemma wf_cues_frame [simp]:
  "wf_cues (s\<lparr>ws_reliable_state := r\<rparr>) = wf_cues s"
  "wf_cues (s\<lparr>ws_episode := e\<rparr>) = wf_cues s"
  "wf_cues (s\<lparr>ws_observation_cursor := c\<rparr>) = wf_cues s"
  "wf_cues (s\<lparr>ws_audible_count := n\<rparr>) = wf_cues s"
  by (simp_all add: wf_cues_def)

lemma wf_session_cursor [simp]: "wf_session (s\<lparr>ws_observation_cursor := c\<rparr>) = wf_session s"
  by (simp add: wf_session_def)

lemma wf_open_episode:
  assumes "open_episode E i s oid t now ev = (i', s', ev')" "wf_cues s"
    and "ws_reliable_state s = Some ReliableOpen"
  shows "wf_session s'" "ws_id s' = ws_id s" "ws_section s' = ws_section s"
    "ws_policy s' = ws_policy s" "ws_episode s' \<noteq> None"
  using assms
  by (auto simp: open_episode_def Let_def wf_session_def wf_cues_def wf_episode_def episode_new_def
      split: prod.splits if_splits)

lemma wf_end_session:
  assumes "end_session E i s reason t cancel ev = (i', s', ev')" "wf_cues s"
    and "\<And>ep. ws_episode s = Some ep \<Longrightarrow> wf_episode s ep"
    and "ws_reliable_state s \<noteq> Some ReliableOpen"
  shows "wf_session s'" "ws_id s' = ws_id s" "ws_section s' = ws_section s"
proof -
  define s0 where "s0 = (if cancel = None then s else snd (take_pending_cues s))"
  have frame: "ws_id s0 = ws_id s" "ws_section s0 = ws_section s"
    "ws_episode s0 = ws_episode s" "ws_reliable_state s0 = ws_reliable_state s"
    by (simp_all add: s0_def take_pending_cues_def)
  have cues: "wf_cues s0"
    using assms(2) by (simp add: s0_def take_pending_cues_def wf_cues_def)
  have ep: "wf_episode s0 ep" if "ws_episode s0 = Some ep" for ep
    using assms(3) that by (simp add: s0_def take_pending_cues_def split: if_splits)
  have s': "s' = (case ws_episode s0 of None \<Rightarrow> s0 | Some ep \<Rightarrow>
      if ep_state ep = Closed then s0
      else s0\<lparr>ws_episode := Some ((close_episode ep reason t)\<lparr>ep_deadline := None\<rparr>)\<rparr>)"
    using assms(1)
    by (auto simp: end_session_def s0_def Let_def take_pending_cues_def split: option.splits if_splits prod.splits)
  have closed: "ep_state (close_episode ep reason t) = Closed" for ep
    by (simp add: close_episode_def Let_def)
  show "wf_session s'"
    using cues ep assms(4) closed wf_close_episode [of s0 _ reason t]
    by (auto simp: s' wf_session_def frame(4) split: option.splits)
  show "ws_id s' = ws_id s" "ws_section s' = ws_section s"
    by (auto simp: s' frame split: option.splits)
qed

lemma wf_request_cue:
  assumes "request_cue s cue ev = (s', ev')" "wf_session (s\<lparr>ws_active_cue := Some cue\<rparr>)"
  shows "wf_session s'" "ws_id s' = ws_id s" "ws_section s' = ws_section s"
  using assms by (auto simp: request_cue_def Let_def)

lemma wf_queue_one_shot:
  assumes "wf_session s" "pol_mode (ws_policy s) = OneShot" "ws_episode s \<noteq> None"
  obtains i' s' ev' where "queue_one_shot E i s oid ev = Some (i', s', ev')" "wf_session s'"
    "ws_id s' = ws_id s" "ws_section s' = ws_section s"
proof -
  have queued: "wf_session (s\<lparr>ws_queued_cues := q\<rparr>)" if "ws_active_cue s \<noteq> None" for q
    using assms(1,2) that by (auto simp: wf_session_def wf_cues_def)
  have requested: "wf_session (s\<lparr>ws_active_cue := Some c\<rparr>)" for c
    using assms(1,2) by (auto simp: wf_session_def wf_cues_def)
  have "\<exists>i' s' ev'. queue_one_shot E i s oid ev = Some (i', s', ev') \<and> wf_session s'
      \<and> ws_id s' = ws_id s \<and> ws_section s' = ws_section s"
    using assms queued requested
    by (auto simp: queue_one_shot_def request_cue_def Let_def split: option.splits prod.splits)
  then show ?thesis
    using that by blast
qed

lemma wf_drive_one_shot:
  assumes "drive_one_shot s ev = (s', ev')" "wf_session (s\<lparr>ws_queued_cues := []\<rparr>)"
    and "pol_mode (ws_policy s) = Continuous \<longrightarrow> ws_queued_cues s = []"
  shows "wf_session s'" "ws_id s' = ws_id s" "ws_section s' = ws_section s"
proof -
  have cues: "wf_session (s\<lparr>ws_queued_cues := q, ws_active_cue := a\<rparr>)"
    if "a \<noteq> None \<and> pol_mode (ws_policy s) = OneShot" for a q
    using assms(2) that by (auto simp: wf_session_def wf_cues_def)
  have mode: "pol_mode (ws_policy s) = OneShot" if "ws_queued_cues s \<noteq> []"
    using assms(3) that by (cases "pol_mode (ws_policy s)") auto
  have active: "wf_session s" if "ws_active_cue s \<noteq> None \<or> ws_queued_cues s = []"
    using assms(2,3) that by (auto simp: wf_session_def wf_cues_def)
  show "wf_session s'" "ws_id s' = ws_id s" "ws_section s' = ws_section s"
    using assms(1,2) cues [of "Some _"] mode active
    by (auto simp: drive_one_shot_def request_cue_def Let_def split: if_splits list.splits)
qed

text \<open>The observation handler: it never fails on a well-formed session.\<close>

lemma wf_session_open_reliable:
  assumes "wf_session s" "ws_episode s = Some ep" "ep_state ep \<noteq> Closed"
  shows "wf_session (s\<lparr>ws_reliable_state := Some ReliableOpen, ws_episode := Some (observe_open ep oid t)\<rparr>)"
proof -
  have "ep_state (observe_open ep oid t) \<noteq> Closed"
    using assms(3) by (simp add: observe_open_def)
  then show ?thesis
    using assms(1,2) wf_observe_open [OF wf_session_episode [OF assms(1,2)] assms(3)]
    by (simp add: wf_session_def)
qed

lemma wf_record_open:
  assumes "record_open E i s obs now ev = (i', s', ev')" "wf_session s"
  shows "wf_session s'" "ws_id s' = ws_id s" "ws_section s' = ws_section s" "ws_episode s' \<noteq> None"
proof -
  let ?s = "s\<lparr>ws_reliable_state := Some ReliableOpen\<rparr>"
  have "wf_session s' \<and> ws_id s' = ws_id s \<and> ws_section s' = ws_section s \<and> ws_episode s' \<noteq> None"
  proof (cases "ws_reliable_state s \<noteq> Some ReliableOpen
                 \<or> (case ws_episode s of None \<Rightarrow> True | Some ep \<Rightarrow> ep_state ep = Closed)")
    case True
    then have "open_episode E i ?s (obs_observation_id obs) (obs_observed_at obs) now ev = (i', s', ev')"
      using assms(1) unfolding record_open_def Let_def by (simp only: if_True)
    moreover have "wf_cues ?s"
      using wf_session_cues [OF assms(2)] by simp
    ultimately show ?thesis
      using wf_open_episode [of E i ?s _ _ now ev i' s' ev'] by simp
  next
    case False
    then obtain ep where ep: "ws_episode s = Some ep" "ep_state ep \<noteq> Closed"
      by (cases "ws_episode s") simp_all
    have "s' = ?s\<lparr>ws_episode := Some (observe_open ep (obs_observation_id obs) (obs_observed_at obs))\<rparr>"
      using assms(1) False ep by (simp add: record_open_def Let_def)
    then show ?thesis
      using wf_session_open_reliable [OF assms(2) ep] by simp
  qed
  then show "wf_session s'" "ws_id s' = ws_id s" "ws_section s' = ws_section s" "ws_episode s' \<noteq> None"
    by simp_all
qed

lemma wf_apply_observation:
  assumes "wf_session s"
  obtains i' s' ev' where "apply_observation E i s obs now ev = Some (i', s', ev')" "wf_session s'"
    "ws_id s' = ws_id s" "ws_section s' = ws_section s"
proof (cases "obs_state obs")
  case StateUnknown
  then show ?thesis
    using that assms by (simp add: apply_observation_def)
next
  case StateClosed
  obtain i' s' ev' where e: "end_session E i (s\<lparr>ws_reliable_state := Some ReliableClosed\<rparr>) ObservedClosed
      (obs_observed_at obs) None ev = (i', s', ev')"
    by (metis surj_pair)
  have ep: "wf_episode (s\<lparr>ws_reliable_state := Some ReliableClosed\<rparr>) x"
    if "ws_episode (s\<lparr>ws_reliable_state := Some ReliableClosed\<rparr>) = Some x" for x
    using that wf_session_episode [OF assms] by simp
  have cues: "wf_cues (s\<lparr>ws_reliable_state := Some ReliableClosed\<rparr>)"
    using wf_session_cues [OF assms] by simp
  have "wf_session s'" "ws_id s' = ws_id s" "ws_section s' = ws_section s"
    using wf_end_session [OF e cues ep] by simp_all
  then show ?thesis
    using that e StateClosed by (simp add: apply_observation_def)
next
  case StateOpen
  obtain i1 s1 ev1 where r: "record_open E i s obs now ev = (i1, s1, ev1)"
    by (metis surj_pair)
  note ok = wf_record_open [OF r assms]
  show ?thesis
  proof (cases "pol_mode (ws_policy s1) = OneShot")
    case True
    obtain i' s' ev' where "queue_one_shot E i1 s1 (obs_observation_id obs) ev1 = Some (i', s', ev')"
      "wf_session s'" "ws_id s' = ws_id s1" "ws_section s' = ws_section s1"
      by (rule wf_queue_one_shot [OF ok(1) True ok(4)])
    then show ?thesis
      using that r ok True StateOpen by (simp add: apply_observation_def)
  next
    case False
    then show ?thesis
      using that r ok StateOpen by (simp add: apply_observation_def)
  qed
qed

subsection \<open>The manager's bookkeeping\<close>

definition safe :: "'a core_result \<times> ('c, 'i) core_manager \<Rightarrow> bool" where
  "safe r \<longleftrightarrow> fst r \<noteq> Panic \<and> wf_manager (snd r)"

lemma put_connection_simps [simp]:
  "put_connection cid conn (m\<lparr>mgr_ids := i\<rparr>) = (put_connection cid conn m)\<lparr>mgr_ids := i\<rparr>"
  "put_connection cid conn (m\<lparr>mgr_clock := c\<rparr>) = (put_connection cid conn m)\<lparr>mgr_clock := c\<rparr>"
  "put_connection cid conn (drop_connection cid m) = put_connection cid conn m"
  "put_connection cid conn (put_connection cid conn' m) = put_connection cid conn m"
  "drop_connection cid (m\<lparr>mgr_ids := i\<rparr>) = (drop_connection cid m)\<lparr>mgr_ids := i\<rparr>"
  "drop_connection cid (m\<lparr>mgr_clock := c\<rparr>) = (drop_connection cid m)\<lparr>mgr_clock := c\<rparr>"
  "drop_connection cid (put_connection cid conn m) = drop_connection cid m"
  by (simp_all add: put_connection_def drop_connection_def)

lemma connection_fields [simp]:
  "mgr_clock (put_connection cid conn m) = mgr_clock m"
  "mgr_ids (put_connection cid conn m) = mgr_ids m"
  "mgr_heartbeat_timeout (put_connection cid conn m) = mgr_heartbeat_timeout m"
  "mgr_max_active_watches (put_connection cid conn m) = mgr_max_active_watches m"
  "mgr_connections (put_connection cid conn m) = bm_insert cid conn (mgr_connections m)"
  "mgr_connections_by_section (put_connection cid conn m) = mgr_connections_by_section m"
  "mgr_observation_cursors (put_connection cid conn m) = mgr_observation_cursors m"
  "mgr_observation_cursor_order (put_connection cid conn m) = mgr_observation_cursor_order m"
  "mgr_clock (drop_connection cid m) = mgr_clock m"
  "mgr_ids (drop_connection cid m) = mgr_ids m"
  "mgr_heartbeat_timeout (drop_connection cid m) = mgr_heartbeat_timeout m"
  "mgr_max_active_watches (drop_connection cid m) = mgr_max_active_watches m"
  "mgr_connections (drop_connection cid m) = bm_remove cid (mgr_connections m)"
  "mgr_connections_by_section (drop_connection cid m) = mgr_connections_by_section m"
  "mgr_observation_cursors (drop_connection cid m) = mgr_observation_cursors m"
  "mgr_observation_cursor_order (drop_connection cid m) = mgr_observation_cursor_order m"
  by (simp_all add: put_connection_def drop_connection_def)

lemma put_connection_get: "bm_get (mgr_connections m) cid = Some conn \<Longrightarrow> put_connection cid conn m = m"
  by (simp add: put_connection_def bm.put_get)

lemma take_connection_Some:
  "take_connection m cid = Some (conn, m') \<longleftrightarrow>
     bm_get (mgr_connections m) cid = Some conn \<and> m' = drop_connection cid m"
  by (auto simp: take_connection_def split: option.splits)

lemma take_connection_None: "take_connection m cid = None \<longleftrightarrow> bm_get (mgr_connections m) cid = None"
  by (simp add: take_connection_def split: option.splits)

lemma manager_frame [simp]:
  "watchers (m\<lparr>mgr_ids := i\<rparr>) = watchers m" "watchers (m\<lparr>mgr_clock := c\<rparr>) = watchers m"
  "indexed (m\<lparr>mgr_ids := i\<rparr>) = indexed m" "indexed (m\<lparr>mgr_clock := c\<rparr>) = indexed m"
  "indexed (put_connection cid conn m) = indexed m" "indexed (drop_connection cid m) = indexed m"
  "wf_watermarks (m\<lparr>mgr_ids := i\<rparr>) = wf_watermarks m"
  "wf_watermarks (m\<lparr>mgr_clock := c\<rparr>) = wf_watermarks m"
  "wf_watermarks (put_connection cid conn m) = wf_watermarks m"
  "wf_watermarks (drop_connection cid m) = wf_watermarks m"
  by (simp_all add: watchers_def indexed_def wf_watermarks_def fun_eq_iff)

lemma wf_manager_frame [simp]:
  "wf_manager (m\<lparr>mgr_ids := i\<rparr>) = wf_manager m"
  "wf_manager (m\<lparr>mgr_clock := c\<rparr>) = wf_manager m"
  by (simp_all add: wf_manager_def wf_index_def)

lemma watchers_put:
  "watchers (put_connection cid conn m) sec =
     (if bm_get (conn_watches conn) sec = None then watchers m sec - {cid} else insert cid (watchers m sec))"
  by (auto simp: watchers_def)

lemma watchers_drop: "watchers (drop_connection cid m) sec = watchers m sec - {cid}"
  by (auto simp: watchers_def)

lemma wf_manager_connection:
  "wf_manager m \<Longrightarrow> bm_get (mgr_connections m) cid = Some conn
     \<Longrightarrow> wf_connection (mgr_max_active_watches m) conn"
  by (simp add: wf_manager_def)

lemma wf_put_connection:
  assumes "wf_manager m" "bm_get (mgr_connections m) cid = Some conn0"
    and "wf_connection (mgr_max_active_watches m) conn"
    and "\<And>sec. bm_get (conn_watches conn) sec = None \<longleftrightarrow> bm_get (conn_watches conn0) sec = None"
  shows "wf_manager (put_connection cid conn m)"
proof -
  have "watchers (put_connection cid conn m) sec = watchers m sec" for sec
    using assms(2) assms(4) [of sec] by (auto simp: watchers_put) (auto simp: watchers_def)
  then show ?thesis
    using assms(1,3) by (simp add: wf_manager_def wf_index_def)
qed

lemma wf_connection_watch:
  "wf_connection limit conn \<Longrightarrow> bm_get (conn_watches conn) sec = Some s
     \<Longrightarrow> ws_section s = sec \<and> wf_session s"
  by (simp add: wf_connection_def)

lemma find_watch_Some:
  "find_watch P conn = Some (sec, s) \<Longrightarrow> bm_get (conn_watches conn) sec = Some s \<and> P s"
  by (auto simp: find_watch_def find_Some_iff bm_get_iff in_set_conv_nth)

lemma wf_put_watch:
  assumes "wf_connection limit conn" "bm_get (conn_watches conn) sec = Some s0"
    and "ws_section s = ws_section s0" "wf_session s"
  shows "wf_connection limit (put_watch sec s conn)"
  using assms wf_connection_watch [OF assms(1,2)]
  by (simp add: wf_connection_def put_watch_def bm_len_insert)

lemma get_put_watch [simp]:
  "bm_get (conn_watches (put_watch sec s conn)) sec' = (if sec' = sec then Some s else bm_get (conn_watches conn) sec')"
  by (simp add: put_watch_def)

text \<open>The commands that change one watch of one connection all end in this lemma.\<close>

lemma wf_update_watch:
  assumes "wf_manager m" "bm_get (mgr_connections m) cid = Some conn"
    and "bm_get (conn_watches conn) sec = Some s0" "ws_section s = ws_section s0" "wf_session s"
  shows "wf_manager (put_connection cid (put_watch sec s conn) m)"
  using assms(1,2)
proof (rule wf_put_connection)
  show "wf_connection (mgr_max_active_watches m) (put_watch sec s conn)"
    using wf_put_watch [OF wf_manager_connection [OF assms(1,2)] assms(3-5)] .
qed (use assms(3) in simp)

lemma wf_restore:
  "wf_manager m \<Longrightarrow> bm_get (mgr_connections m) cid = Some conn
     \<Longrightarrow> wf_manager (put_connection cid conn (drop_connection cid m))"
  by (simp add: put_connection_get)

subsection \<open>Commands on one watch\<close>

lemma wf_session_settle:
  assumes "wf_session s" "ws_episode s = Some ep" "ep_state ep \<noteq> Closed" "st \<noteq> Closed"
    and "d \<noteq> None \<longrightarrow> st = Unacknowledged \<and> pol_mode (ws_policy s) = Continuous"
  shows "wf_session (s\<lparr>ws_episode := Some (settle_episode st d t ep)\<rparr>)"
proof -
  have "ep_state (settle_episode st d t ep) = st"
    by (simp add: settle_episode_def)
  then show ?thesis
    using assms wf_settle_episode [OF wf_session_episode [OF assms(1,2)] assms(3-5), of t]
    by (auto simp: wf_session_def)
qed

lemma read_simps [simp]:
  "read_now E m = (fst (clock_now E (mgr_clock m)), m\<lparr>mgr_clock := snd (clock_now E (mgr_clock m))\<rparr>)"
  "read_wall_now E m =
     (fst (clock_wall_now E (mgr_clock m)), m\<lparr>mgr_clock := snd (clock_wall_now E (mgr_clock m))\<rparr>)"
  by (simp_all add: read_now_def read_wall_now_def case_prod_beta)

lemma safe_reply [simp]: "safe (reply cid conn t ev m) = wf_manager (put_connection cid conn m)"
  by (simp add: safe_def reply_def)

lemma safe_Err [simp]: "safe (Err e, m) = wf_manager m"
  by (simp add: safe_def)

lemma safe_Ok [simp]: "safe (Ok x, m) = wf_manager m"
  by (simp add: safe_def)

lemma located_watch:
  assumes "wf_manager m" "bm_get (mgr_connections m) cid = Some conn" "find_watch P conn = Some (sec, s)"
  shows "bm_get (conn_watches conn) sec = Some s" "P s" "wf_session s" "ws_section s = sec"
    "\<And>s'. ws_section s' = sec \<Longrightarrow> wf_session s' \<Longrightarrow> wf_manager (put_connection cid (put_watch sec s' conn) m)"
proof -
  show get: "bm_get (conn_watches conn) sec = Some s" and "P s"
    using find_watch_Some [OF assms(3)] by simp_all
  show "wf_session s" and sec: "ws_section s = sec"
    using wf_connection_watch [OF wf_manager_connection [OF assms(1,2)] get] by simp_all
  show "wf_manager (put_connection cid (put_watch sec s' conn) m)" if "ws_section s' = sec" "wf_session s'" for s'
    using wf_update_watch [OF assms(1,2) get] that sec by simp
qed

lemmas command_simps =
  take_connection_def put_connection_get Let_def case_prod_beta

lemma safe_acknowledge_episode:
  assumes wf: "wf_manager m"
  shows "safe (acknowledge_episode E m cid eid)"
proof (cases "bm_get (mgr_connections m) cid")
  case None
  then show ?thesis
    using wf by (simp add: acknowledge_episode_def command_simps)
next
  case conn: (Some conn)
  show ?thesis
  proof (cases "find_watch (has_episode eid) conn")
    case None
    then show ?thesis
      using wf conn by (simp add: acknowledge_episode_def command_simps)
  next
    case (Some p)
    then obtain sec s where found: "find_watch (has_episode eid) conn = Some (sec, s)"
      by (cases p) simp
    note w = located_watch [OF wf conn found]
    show ?thesis
      using wf conn found w(3-5)
      by (auto simp: acknowledge_episode_def command_simps wf_session_settle split: option.splits)
  qed
qed

lemma safe_resume_episode:
  assumes wf: "wf_manager m"
  shows "safe (resume_episode E m cid eid)"
proof (cases "bm_get (mgr_connections m) cid")
  case None
  then show ?thesis
    using wf by (simp add: resume_episode_def command_simps)
next
  case conn: (Some conn)
  show ?thesis
  proof (cases "find_watch (has_episode eid) conn")
    case None
    then show ?thesis
      using wf conn by (simp add: resume_episode_def command_simps)
  next
    case (Some p)
    then obtain sec s where found: "find_watch (has_episode eid) conn = Some (sec, s)"
      by (cases p) simp
    note w = located_watch [OF wf conn found]
    show ?thesis
      using wf conn found w(3-5)
      by (auto simp: resume_episode_def command_simps wf_session_settle split: option.splits)
  qed
qed

lemma wf_session_dismiss:
  assumes "wf_session s" "ws_episode s = Some ep"
  shows "wf_session (s\<lparr>ws_episode := Some (ep\<lparr>ep_alert_dismissed := True\<rparr>)\<rparr>)"
  using assms by (auto simp: wf_session_def wf_episode_def)

lemma safe_dismiss_alert:
  assumes wf: "wf_manager m"
  shows "safe (dismiss_alert E m cid aid)"
proof (cases "bm_get (mgr_connections m) cid")
  case None
  then show ?thesis
    using wf by (simp add: dismiss_alert_def command_simps)
next
  case conn: (Some conn)
  show ?thesis
  proof (cases "find_watch (has_alert aid) conn")
    case None
    then show ?thesis
      using wf conn by (simp add: dismiss_alert_def command_simps)
  next
    case (Some p)
    then obtain sec s where found: "find_watch (has_alert aid) conn = Some (sec, s)"
      by (cases p) simp
    note w = located_watch [OF wf conn found]
    from w(2) obtain ep where "ws_episode s = Some ep"
      by (auto simp: has_alert_def split: option.splits)
    then show ?thesis
      using conn found w(3-5) by (simp add: dismiss_alert_def command_simps wf_session_dismiss)
  qed
qed

lemma wf_episode_policy:
  assumes "wf_episode s ep" "ws_id s' = ws_id s" "ws_section s' = ws_section s" "ws_policy s' = policy"
    "ws_audible_count s' = ws_audible_count s" "ws_episode_sequence s' = ws_episode_sequence s"
    and "d \<noteq> None \<Longrightarrow> ep_state ep = Unacknowledged \<and> pol_mode policy = Continuous"
  shows "wf_episode s' (ep\<lparr>ep_policy := policy, ep_deadline := d\<rparr>)"
  using assms by (auto simp: wf_episode_def)

lemma apply_policy_fields:
  fixes policy now s
  defines "s' \<equiv> snd (apply_policy policy now s)"
  shows "ws_id s' = ws_id s" "ws_section s' = ws_section s" "ws_policy s' = policy"
    "ws_audible_count s' = ws_audible_count s" "ws_episode_sequence s' = ws_episode_sequence s"
    "ws_reliable_state s' = ws_reliable_state s"
    "wf_cues s \<Longrightarrow> wf_cues s'"
    "ws_episode s' = map_option (\<lambda>ep. ep\<lparr>ep_policy := policy,
        ep_deadline := (if pol_mode policy = Continuous
          then if ep_state ep = Unacknowledged
            then continuous_deadline (pol_continuous_duration policy) now else ep_deadline ep
          else None)\<rparr>) (ws_episode s)"
proof -
  define s0 where "s0 = (if pol_mode (ws_policy s) = OneShot \<and> pol_mode policy = Continuous
      then snd (take_pending_cues s) else s)"
  have s0: "ws_id s0 = ws_id s" "ws_section s0 = ws_section s"
    "ws_audible_count s0 = ws_audible_count s" "ws_episode_sequence s0 = ws_episode_sequence s"
    "ws_reliable_state s0 = ws_reliable_state s" "ws_episode s0 = ws_episode s"
    "wf_cues s \<Longrightarrow> wf_cues (s0\<lparr>ws_policy := policy\<rparr>)"
    using core_notification_mode.exhaust [of "pol_mode (ws_policy s)"]
    by (auto simp: s0_def take_pending_cues_def wf_cues_def)
  have s': "s' = s0\<lparr>ws_policy := policy, ws_episode := map_option (\<lambda>ep. ep\<lparr>ep_policy := policy,
        ep_deadline := (if pol_mode policy = Continuous
          then if ep_state ep = Unacknowledged
            then continuous_deadline (pol_continuous_duration policy) now else ep_deadline ep
          else None)\<rparr>) (ws_episode s)\<rparr>"
    by (cases "ws_episode s") (simp_all add: s'_def s0_def apply_policy_def take_pending_cues_def update_episode_def)
  show "ws_id s' = ws_id s" "ws_section s' = ws_section s" "ws_policy s' = policy"
    "ws_audible_count s' = ws_audible_count s" "ws_episode_sequence s' = ws_episode_sequence s"
    "ws_reliable_state s' = ws_reliable_state s"
    by (simp_all add: s' s0)
  show "wf_cues s'" if "wf_cues s"
    using s0(7) [OF that] by (simp add: s')
  show "ws_episode s' = map_option (\<lambda>ep. ep\<lparr>ep_policy := policy,
        ep_deadline := (if pol_mode policy = Continuous
          then if ep_state ep = Unacknowledged
            then continuous_deadline (pol_continuous_duration policy) now else ep_deadline ep
          else None)\<rparr>) (ws_episode s)"
    by (simp add: s')
qed

lemma wf_apply_policy:
  assumes "wf_session s"
  shows "wf_session (snd (apply_policy policy now s))"
proof (rule wf_sessionI)
  show "wf_cues (snd (apply_policy policy now s))"
    using apply_policy_fields(7) wf_session_cues [OF assms] .
next
  fix e assume "ws_episode (snd (apply_policy policy now s)) = Some e"
  then obtain x d where x: "ws_episode s = Some x" and e: "e = x\<lparr>ep_policy := policy, ep_deadline := d\<rparr>"
    and d: "d = (if pol_mode policy = Continuous
          then if ep_state x = Unacknowledged
            then continuous_deadline (pol_continuous_duration policy) now else ep_deadline x
          else None)"
    unfolding apply_policy_fields(8) by blast
  have "ep_deadline x \<noteq> None \<Longrightarrow> ep_state x = Unacknowledged"
    using wf_session_episode [OF assms x] by (simp add: wf_episode_def)
  then have "d \<noteq> None \<Longrightarrow> ep_state x = Unacknowledged \<and> pol_mode policy = Continuous"
    by (simp add: d split: if_splits)
  then show "wf_episode (snd (apply_policy policy now s)) e"
    unfolding e by (rule wf_episode_policy [OF wf_session_episode [OF assms x] apply_policy_fields(1-5)])
next
  show "ws_reliable_state (snd (apply_policy policy now s)) = Some ReliableOpen \<longleftrightarrow>
      (\<exists>ep. ws_episode (snd (apply_policy policy now s)) = Some ep \<and> ep_state ep \<noteq> Closed)"
    using wf_session_live [OF assms] unfolding apply_policy_fields(6,8)
    by (cases "ws_episode s") simp_all
qed

lemma safe_update_policy:
  assumes wf: "wf_manager m"
  shows "safe (update_policy E m cid wid policy)"
proof (cases "bm_get (mgr_connections m) cid")
  case None
  then show ?thesis
    using wf by (simp add: update_policy_def command_simps)
next
  case conn: (Some conn)
  show ?thesis
  proof (cases "find_watch (\<lambda>s. ws_id s = wid) conn")
    case None
    then show ?thesis
      using wf conn by (simp add: update_policy_def command_simps)
  next
    case (Some p)
    then obtain sec s where found: "find_watch (\<lambda>s. ws_id s = wid) conn = Some (sec, s)"
      by (cases p) simp
    note w = located_watch [OF wf conn found]
    show ?thesis
      using conn found w(3-5) by (simp add: update_policy_def command_simps wf_apply_policy apply_policy_fields(2))
  qed
qed

lemma wf_session_audible:
  assumes "wf_session s"
  shows "wf_session (update_episode (\<lambda>ep. ep\<lparr>ep_audible_count := n\<rparr>) (s\<lparr>ws_audible_count := n\<rparr>))"
proof (rule wf_sessionI)
  show "wf_cues (update_episode (\<lambda>ep. ep\<lparr>ep_audible_count := n\<rparr>) (s\<lparr>ws_audible_count := n\<rparr>))"
    using wf_session_cues [OF assms] by (simp add: update_episode_def)
  show "wf_episode (update_episode (\<lambda>ep. ep\<lparr>ep_audible_count := n\<rparr>) (s\<lparr>ws_audible_count := n\<rparr>)) e"
    if "ws_episode (update_episode (\<lambda>ep. ep\<lparr>ep_audible_count := n\<rparr>) (s\<lparr>ws_audible_count := n\<rparr>)) = Some e" for e
    using that wf_session_episode [OF assms] by (auto simp: update_episode_def wf_episode_def)
qed (use wf_session_live [OF assms] in \<open>auto simp: update_episode_def\<close>)

lemma wf_drive_wf:
  assumes "wf_session s"
  shows "wf_session (fst (drive_one_shot s ev))" "ws_section (fst (drive_one_shot s ev)) = ws_section s"
proof -
  have "wf_session (s\<lparr>ws_queued_cues := []\<rparr>)"
    using assms by (auto simp: wf_session_def wf_cues_def)
  moreover have "pol_mode (ws_policy s) = Continuous \<longrightarrow> ws_queued_cues s = []"
    using wf_session_cues [OF assms] by (simp add: wf_cues_def)
  ultimately show "wf_session (fst (drive_one_shot s ev))"
    "ws_section (fst (drive_one_shot s ev)) = ws_section s"
    using wf_drive_one_shot [of s ev "fst (drive_one_shot s ev)" "snd (drive_one_shot s ev)"] by simp_all
qed

lemma update_episode_fields [simp]:
  "ws_id (update_episode f s) = ws_id s" "ws_section (update_episode f s) = ws_section s"
  "ws_policy (update_episode f s) = ws_policy s"
  "ws_audible_count (update_episode f s) = ws_audible_count s"
  "ws_active_cue (update_episode f s) = ws_active_cue s"
  "ws_queued_cues (update_episode f s) = ws_queued_cues s"
  by (simp_all add: update_episode_def)

lemma safe_reset_audible_count:
  assumes wf: "wf_manager m"
  shows "safe (reset_audible_count E m cid wid)"
proof (cases "bm_get (mgr_connections m) cid")
  case None
  then show ?thesis
    using wf by (simp add: reset_audible_count_def command_simps)
next
  case conn: (Some conn)
  show ?thesis
  proof (cases "find_watch (\<lambda>s. ws_id s = wid) conn")
    case None
    then show ?thesis
      using wf conn by (simp add: reset_audible_count_def command_simps)
  next
    case (Some p)
    then obtain sec s where found: "find_watch (\<lambda>s. ws_id s = wid) conn = Some (sec, s)"
      by (cases p) simp
    note w = located_watch [OF wf conn found]
    show ?thesis
      using conn found w(3-5)
      by (simp add: reset_audible_count_def command_simps wf_drive_wf wf_session_audible)
  qed
qed

lemma wf_count_cue:
  assumes "wf_session s"
  shows "wf_session (fst (drive_one_shot (count_cue outcome (s\<lparr>ws_active_cue := None\<rparr>)) ev))"
    "ws_section (fst (drive_one_shot (count_cue outcome (s\<lparr>ws_active_cue := None\<rparr>)) ev)) = ws_section s"
proof -
  let ?s = "s\<lparr>ws_active_cue := None, ws_queued_cues := []\<rparr>"
  let ?c = "count_cue outcome (s\<lparr>ws_active_cue := None\<rparr>)"
  have "wf_session ?s"
    using assms by (auto simp: wf_session_def wf_cues_def)
  then have "wf_session (count_cue outcome ?s)"
    using wf_session_audible [of ?s "saturating_add (ws_audible_count s) 1"] by (simp add: count_cue_def)
  moreover have "?c\<lparr>ws_queued_cues := []\<rparr> = count_cue outcome ?s"
    by (simp add: count_cue_def update_episode_def)
  moreover have "pol_mode (ws_policy ?c) = Continuous \<longrightarrow> ws_queued_cues ?c = []"
    using wf_session_cues [OF assms] by (simp add: count_cue_def wf_cues_def)
  moreover have "ws_section ?c = ws_section s"
    by (simp add: count_cue_def)
  ultimately show "wf_session (fst (drive_one_shot ?c ev))" "ws_section (fst (drive_one_shot ?c ev)) = ws_section s"
    using wf_drive_one_shot [of ?c ev "fst (drive_one_shot ?c ev)" "snd (drive_one_shot ?c ev)"] by simp_all
qed

lemma safe_report_cue_outcome:
  assumes wf: "wf_manager m"
  shows "safe (report_cue_outcome E m cid cue outcome)"
proof (cases "bm_get (mgr_connections m) cid")
  case None
  then show ?thesis
    using wf by (simp add: report_cue_outcome_def command_simps)
next
  case conn: (Some conn)
  show ?thesis
  proof (cases "find_watch (has_active_cue cue) conn")
    case None
    then show ?thesis
      using wf conn by (simp add: report_cue_outcome_def command_simps)
  next
    case (Some p)
    then obtain sec s where found: "find_watch (has_active_cue cue) conn = Some (sec, s)"
      by (cases p) simp
    note w = located_watch [OF wf conn found]
    from w(2) obtain c where "ws_active_cue s = Some c"
      by (auto simp: has_active_cue_def split: option.splits)
    then show ?thesis
      using conn found w(1,3-5) by (simp add: report_cue_outcome_def command_simps wf_count_cue)
  qed
qed

subsection \<open>Connecting, touching and the settling loops\<close>

lemma wf_connection_new: "wf_connection limit (connection_new now)"
  by (simp add: wf_connection_def connection_new_def set_bm_keys START_REPLAY_WINDOW_def)

lemma safe_connect:
  assumes wf: "wf_manager m"
  shows "safe (connect E m cid)"
proof (cases "bm_get (mgr_connections m) cid")
  case None
  have "watchers (put_connection cid (connection_new now) m) sec = watchers m sec" for now sec
    using None by (auto simp: watchers_put connection_new_def) (auto simp: watchers_def)
  then have "wf_manager (put_connection cid (connection_new now) m)" for now
    using wf by (simp add: wf_manager_def wf_index_def wf_connection_new)
  then show ?thesis
    using None by (simp add: connect_def bm_contains_def)
qed (use wf in \<open>simp add: connect_def bm_contains_def\<close>)

lemma wf_connection_touch [simp]: "wf_connection limit (conn\<lparr>conn_last_touch := t\<rparr>) = wf_connection limit conn"
  by (simp add: wf_connection_def)

lemma wf_touch_connection:
  assumes "wf_manager m" "bm_get (mgr_connections m) cid = Some conn"
  shows "wf_manager (put_connection cid (conn\<lparr>conn_last_touch := t\<rparr>) m)"
  using assms by (rule wf_put_connection) (simp_all add: wf_manager_connection [OF assms])

lemma safe_touch:
  assumes "wf_manager m"
  shows "safe (touch E m cid)"
  using assms wf_touch_connection [OF assms] by (simp add: touch_def split: option.splits)

lemma wf_settle_session:
  assumes "wf_session s" "\<And>s. due s \<Longrightarrow> continuous_alarm_active s" "st \<noteq> Closed"
  shows "wf_session (settle_session due st t s)" "ws_section (settle_session due st t s) = ws_section s"
proof -
  show "ws_section (settle_session due st t s) = ws_section s"
    by (simp add: settle_session_def)
  show "wf_session (settle_session due st t s)"
  proof (cases "due s")
    case True
    then obtain ep where "ws_episode s = Some ep" "ep_state ep = Unacknowledged"
      using assms(2) [OF True] by (auto simp: continuous_alarm_active_def split: option.splits)
    then show ?thesis
      using True assms(1,3) wf_session_settle [of s ep st None t]
      by (simp add: settle_session_def update_episode_def)
  qed (use assms(1) in \<open>simp add: settle_session_def\<close>)
qed

lemma settle_watches_conn:
  "fst (snd (settle_watches E due st kind t i conn)) =
     conn\<lparr>conn_watches := bm_map (settle_session due st t) (conn_watches conn)\<rparr>"
  by (simp add: settle_watches_def case_prod_beta Let_def)

lemma wf_settle_watches:
  assumes "wf_connection limit conn" "\<And>s. due s \<Longrightarrow> continuous_alarm_active s" "st \<noteq> Closed"
  shows "wf_connection limit (conn\<lparr>conn_watches := bm_map (settle_session due st t) (conn_watches conn)\<rparr>)"
proof -
  have "ws_section s = sec \<and> wf_session s"
    if "bm_get (bm_map (settle_session due st t) (conn_watches conn)) sec = Some s" for sec s
    using that wf_connection_watch [OF assms(1)] wf_settle_session [OF _ assms(2,3)]
    by auto
  then show ?thesis
    using assms(1) by (simp add: wf_connection_def)
qed

lemma wf_settle_connection:
  assumes "wf_manager m" "bm_get (mgr_connections m) cid = Some conn"
    and "\<And>s. due s \<Longrightarrow> continuous_alarm_active s" "st \<noteq> Closed"
  shows "wf_manager (put_connection cid (fst (snd (settle_watches E due st kind t i conn))) m)"
  using assms(1,2) unfolding settle_watches_conn
  by (rule wf_put_connection)
    (simp_all add: wf_settle_watches [OF wf_manager_connection [OF assms(1,2)] assms(3,4)])

lemma safe_acknowledge_all:
  assumes wf: "wf_manager m"
  shows "safe (acknowledge_all E m cid)"
proof (cases "bm_get (mgr_connections m) cid")
  case (Some conn)
  then show ?thesis
    by (simp add: acknowledge_all_def command_simps wf_settle_connection [OF wf])
qed (use wf in \<open>simp add: acknowledge_all_def command_simps\<close>)

end
