(* ===== verification/Watch_Operations.thy ===== *)
theory Watch_Operations
  imports Watch_Invariants
begin

text \<open>
  Preservation of the manager's invariant by the operations that change which watches exist
  (start, stop, clean-up, ticks) or the observation watermarks (publish), and with it the absence
  of panics in every operation.  The section index is an abstraction of the connections: \<open>link\<close>
  and \<open>unlink\<close> refine insertion into and deletion from the set of watchers of a section.
\<close>

subsection \<open>The section index\<close>

lemma indexed_link:
  "indexed (link cid sec m) sec' = (if sec' = sec then insert cid (indexed m sec) else indexed m sec')"
  by (simp add: indexed_def link_def Let_def split: option.splits)

lemma indexed_unlink:
  "indexed (unlink cid sec m) sec' = (if sec' = sec then indexed m sec - {cid} else indexed m sec')"
proof -
  have "bs_set b - {cid} = {}" if "bm_is_empty (bm_remove cid b)" for b :: "trace_id bset"
    using that bs_set_remove [of cid b] by (simp only: bm_is_empty_iff bs_set_empty)
  then show ?thesis
    by (auto simp: indexed_def unlink_def Let_def split: option.splits)
qed

lemma link_fields [simp]:
  "mgr_ids (link cid sec m) = mgr_ids m" "mgr_clock (link cid sec m) = mgr_clock m"
  "mgr_connections (link cid sec m) = mgr_connections m"
  "mgr_max_active_watches (link cid sec m) = mgr_max_active_watches m"
  "mgr_heartbeat_timeout (link cid sec m) = mgr_heartbeat_timeout m"
  "mgr_observation_cursors (link cid sec m) = mgr_observation_cursors m"
  "mgr_observation_cursor_order (link cid sec m) = mgr_observation_cursor_order m"
  by (simp_all add: link_def Let_def)

lemma unlink_fields [simp]:
  "mgr_ids (unlink cid sec m) = mgr_ids m" "mgr_clock (unlink cid sec m) = mgr_clock m"
  "mgr_connections (unlink cid sec m) = mgr_connections m"
  "mgr_max_active_watches (unlink cid sec m) = mgr_max_active_watches m"
  "mgr_heartbeat_timeout (unlink cid sec m) = mgr_heartbeat_timeout m"
  "mgr_observation_cursors (unlink cid sec m) = mgr_observation_cursors m"
  "mgr_observation_cursor_order (unlink cid sec m) = mgr_observation_cursor_order m"
  by (simp_all add: unlink_def Let_def split: option.splits)

lemma watchers_cong:
  "mgr_connections m' = mgr_connections m \<Longrightarrow> watchers m' = watchers m"
  by (simp add: watchers_def fun_eq_iff)

lemma wf_watermarks_cong:
  "mgr_observation_cursors m' = mgr_observation_cursors m
     \<Longrightarrow> mgr_observation_cursor_order m' = mgr_observation_cursor_order m
     \<Longrightarrow> wf_watermarks m' = wf_watermarks m"
  by (simp add: wf_watermarks_def)

definition tight_index :: "('c, 'i) core_manager \<Rightarrow> bool" where
  "tight_index m \<longleftrightarrow> (\<forall>sec. bm_get (mgr_connections_by_section m) sec \<noteq> Some bm_empty)"

lemma wf_index_iff: "wf_index m \<longleftrightarrow> (\<forall>sec. indexed m sec = watchers m sec) \<and> tight_index m"
  by (simp add: wf_index_def tight_index_def)

lemma tight_index_link: "tight_index m \<Longrightarrow> tight_index (link cid sec m)"
  by (auto simp: tight_index_def link_def Let_def bs_insert_def bm_empty_iff split: option.splits)

lemma tight_index_unlink: "tight_index m \<Longrightarrow> tight_index (unlink cid sec m)"
  by (auto simp: tight_index_def unlink_def Let_def bm_is_empty_iff split: option.splits)

lemma tight_index_frame [simp]:
  "tight_index (m\<lparr>mgr_ids := i\<rparr>) = tight_index m" "tight_index (m\<lparr>mgr_clock := c\<rparr>) = tight_index m"
  "tight_index (put_connection cid conn m) = tight_index m"
  "tight_index (drop_connection cid m) = tight_index m"
  by (simp_all add: tight_index_def)

lemma wf_managerI:
  assumes "\<And>cid conn. bm_get (mgr_connections m) cid = Some conn
             \<Longrightarrow> wf_connection (mgr_max_active_watches m) conn"
    and "\<And>sec. indexed m sec = watchers m sec" "tight_index m" "wf_watermarks m"
  shows "wf_manager m"
  using assms by (simp add: wf_manager_def wf_index_iff)

lemma wf_managerD:
  assumes "wf_manager m"
  shows "\<And>sec. indexed m sec = watchers m sec" "tight_index m" "wf_watermarks m"
  using assms by (simp_all add: wf_manager_def wf_index_iff)

subsection \<open>Stopping a watch\<close>

lemma wf_connection_remove:
  assumes "wf_connection limit conn"
  shows "wf_connection limit (conn\<lparr>conn_watches := bm_remove sec (conn_watches conn)\<rparr>)"
  using assms by (auto simp: wf_connection_def bm_len_remove)

lemma wf_unlink:
  assumes wf: "wf_manager m" and conn: "bm_get (mgr_connections m) cid = Some conn"
  shows "wf_manager (unlink cid sec
           (put_connection cid (conn\<lparr>conn_watches := bm_remove sec (conn_watches conn)\<rparr>) m))"
    (is "wf_manager (unlink cid sec ?m)")
proof (rule wf_managerI)
  fix c k assume "bm_get (mgr_connections (unlink cid sec ?m)) c = Some k"
  then show "wf_connection (mgr_max_active_watches (unlink cid sec ?m)) k"
    using wf conn wf_manager_connection [OF wf] wf_connection_remove by (auto split: if_splits)
next
  fix sec'
  have "watchers (unlink cid sec ?m) = watchers ?m"
    by (rule watchers_cong) simp
  moreover have "watchers ?m sec' = (if sec' = sec then watchers m sec - {cid} else watchers m sec')"
    using conn by (auto simp: watchers_put) (auto simp: watchers_def)
  ultimately show "indexed (unlink cid sec ?m) sec' = watchers (unlink cid sec ?m) sec'"
    using wf_managerD(1) [OF wf] by (simp add: indexed_unlink)
next
  show "tight_index (unlink cid sec ?m)"
    using wf_managerD(2) [OF wf] by (intro tight_index_unlink) simp
  show "wf_watermarks (unlink cid sec ?m)"
    using wf_managerD(3) [OF wf] wf_watermarks_cong [of "unlink cid sec ?m" m] by simp
qed

lemma unlink_put [simp]:
  "put_connection cid conn (unlink cid' sec m) = unlink cid' sec (put_connection cid conn m)"
  "unlink cid sec (m\<lparr>mgr_ids := i\<rparr>) = (unlink cid sec m)\<lparr>mgr_ids := i\<rparr>"
  "unlink cid sec (m\<lparr>mgr_clock := c\<rparr>) = (unlink cid sec m)\<lparr>mgr_clock := c\<rparr>"
  by (simp_all add: unlink_def Let_def put_connection_def split: option.splits)

lemma safe_stop_watch:
  assumes wf: "wf_manager m"
  shows "safe (stop_watch E m cid wid)"
proof (cases "bm_get (mgr_connections m) cid")
  case None
  then show ?thesis
    using wf by (simp add: stop_watch_def command_simps)
next
  case conn: (Some conn)
  show ?thesis
  proof (cases "find_watch (\<lambda>s. ws_id s = wid) conn")
    case None
    then show ?thesis
      using wf conn by (simp add: stop_watch_def command_simps)
  next
    case (Some p)
    then obtain sec s where found: "find_watch (\<lambda>s. ws_id s = wid) conn = Some (sec, s)"
      by (cases p) simp
    show ?thesis
      using conn found located_watch(1) [OF wf conn found] wf_unlink [OF wf conn, of sec]
      by (simp add: stop_watch_def command_simps)
  qed
qed

subsection \<open>Clean-up\<close>

lemma cleanup_loop_frame:
  "fst (cleanup_loop E reason t cid es secs acts m) = secs @ map fst es"
  "mgr_connections (snd (snd (cleanup_loop E reason t cid es secs acts m))) = mgr_connections m"
  "mgr_max_active_watches (snd (snd (cleanup_loop E reason t cid es secs acts m))) = mgr_max_active_watches m"
  "mgr_heartbeat_timeout (snd (snd (cleanup_loop E reason t cid es secs acts m))) = mgr_heartbeat_timeout m"
  "mgr_observation_cursors (snd (snd (cleanup_loop E reason t cid es secs acts m))) = mgr_observation_cursors m"
  "mgr_observation_cursor_order (snd (snd (cleanup_loop E reason t cid es secs acts m))) = mgr_observation_cursor_order m"
  by (induction es arbitrary: secs acts m) (simp_all add: case_prod_beta split_paired_all)

lemma cleanup_loop_index:
  "tight_index m \<Longrightarrow> tight_index (snd (snd (cleanup_loop E reason t cid es secs acts m)))"
  "indexed (snd (snd (cleanup_loop E reason t cid es secs acts m))) sec =
     (if sec \<in> set (map fst es) then indexed m sec - {cid} else indexed m sec)"
proof (induction es arbitrary: secs acts m)
  case (Cons e es)
  obtain a b where e: "e = (a, b)"
    by (cases e)
  {
    case 1
    then show ?case
      using Cons.IH(1) by (simp add: e case_prod_beta tight_index_unlink)
  next
    case 2
    show ?case
      by (simp add: e case_prod_beta Cons.IH(2) indexed_unlink)
  }
qed simp_all

lemma cleanup_loop_fields:
  assumes "cleanup_loop E reason t cid es secs acts m = (secs', acts', m')"
  shows "secs' = secs @ map fst es" "mgr_connections m' = mgr_connections m"
    "mgr_max_active_watches m' = mgr_max_active_watches m"
    "mgr_heartbeat_timeout m' = mgr_heartbeat_timeout m"
    "mgr_observation_cursors m' = mgr_observation_cursors m"
    "mgr_observation_cursor_order m' = mgr_observation_cursor_order m"
    "tight_index m \<Longrightarrow> tight_index m'"
    "indexed m' sec = (if sec \<in> set (map fst es) then indexed m sec - {cid} else indexed m sec)"
  using cleanup_loop_frame [of E reason t cid es secs acts m]
    cleanup_loop_index [where E = E and reason = reason and t = t and cid = cid and es = es
      and secs = secs and acts = acts and m = m]
  by (simp_all only: assms fst_conv snd_conv)

lemma cleanup_Some:
  assumes "bm_get (mgr_connections m) cid = Some conn"
  obtains acts m' where "cleanup E m cid reason =
      (Ok \<lparr>cr_connection_id = cid, cr_reason = reason, cr_recorded_at = fst (clock_wall_now E (mgr_clock m)),
           cr_sections = bm_keys (conn_watches conn), cr_actions = acts\<rparr>, m')"
    "mgr_connections m' = bm_remove cid (mgr_connections m)"
    "mgr_max_active_watches m' = mgr_max_active_watches m"
    "mgr_heartbeat_timeout m' = mgr_heartbeat_timeout m"
    "mgr_observation_cursors m' = mgr_observation_cursors m"
    "mgr_observation_cursor_order m' = mgr_observation_cursor_order m"
    "tight_index m \<Longrightarrow> tight_index m'"
    "\<And>sec. indexed m' sec = (if bm_get (conn_watches conn) sec \<noteq> None then indexed m sec - {cid} else indexed m sec)"
proof -
  let ?t = "fst (clock_wall_now E (mgr_clock m))"
  let ?m = "(drop_connection cid m)\<lparr>mgr_clock := snd (clock_wall_now E (mgr_clock m))\<rparr>"
  obtain secs acts m' where loop: "cleanup_loop E reason ?t cid (bm_entries (conn_watches conn)) [] [] ?m = (secs, acts, m')"
    by (metis surj_pair)
  note f = cleanup_loop_fields [OF loop]
  have keys: "sec \<in> set (map fst (bm_entries (conn_watches conn))) \<longleftrightarrow> bm_get (conn_watches conn) sec \<noteq> None" for sec
    using set_bm_keys [of "conn_watches conn"] by (auto simp only: bm_keys_def)
  show ?thesis
  proof (rule that)
    show "cleanup E m cid reason =
        (Ok \<lparr>cr_connection_id = cid, cr_reason = reason, cr_recorded_at = ?t,
             cr_sections = bm_keys (conn_watches conn), cr_actions = acts\<rparr>, m')"
      using assms loop f(1) by (simp add: cleanup_def take_connection_def bm_keys_def)
    show "indexed m' sec = (if bm_get (conn_watches conn) sec \<noteq> None then indexed m sec - {cid} else indexed m sec)" for sec
      using f(8) [of sec] unfolding keys by simp
  qed (use f in simp_all)
qed

lemma cleanup_None:
  "bm_get (mgr_connections m) cid = None \<Longrightarrow>
     cleanup E m cid reason =
       (Err UnknownConnection, m\<lparr>mgr_clock := snd (clock_wall_now E (mgr_clock m))\<rparr>)"
  by (simp add: cleanup_def take_connection_def)

lemma safe_cleanup:
  assumes wf: "wf_manager m"
  shows "safe (cleanup E m cid reason)"
proof (cases "bm_get (mgr_connections m) cid")
  case None
  then show ?thesis
    using wf by (simp add: cleanup_None)
next
  case conn: (Some conn)
  from cleanup_Some [OF conn, of E reason] obtain r m' where
    eq: "cleanup E m cid reason = (Ok r, m')" and conns: "mgr_connections m' = bm_remove cid (mgr_connections m)"
    and rest: "mgr_max_active_watches m' = mgr_max_active_watches m"
    "mgr_observation_cursors m' = mgr_observation_cursors m"
    "mgr_observation_cursor_order m' = mgr_observation_cursor_order m"
    "tight_index m \<Longrightarrow> tight_index m'"
    and ix: "\<And>sec. indexed m' sec =
        (if bm_get (conn_watches conn) sec \<noteq> None then indexed m sec - {cid} else indexed m sec)"
    by metis
  have "wf_manager m'"
  proof (rule wf_managerI)
    show "wf_connection (mgr_max_active_watches m') k" if "bm_get (mgr_connections m') c = Some k" for c k
      using that wf_manager_connection [OF wf] by (auto simp: conns rest split: if_splits)
    have "watchers m' sec = watchers m sec - {cid}" for sec
      using watchers_drop [of cid m sec] watchers_cong [of m' "drop_connection cid m"] by (simp add: conns)
    moreover have "cid \<notin> watchers m sec" if "bm_get (conn_watches conn) sec = None" for sec
      using that conn by (auto simp: watchers_def)
    ultimately show "indexed m' sec = watchers m' sec" for sec
      using wf_managerD(1) [OF wf] ix [of sec] by auto
    show "tight_index m'" "wf_watermarks m'"
      using wf_managerD(2,3) [OF wf] rest wf_watermarks_cong [of m' m] by simp_all
  qed
  then show ?thesis
    by (simp add: eq)
qed

lemma safe_disconnect: "wf_manager m \<Longrightarrow> safe (disconnect E m cid)"
  unfolding disconnect_def by (rule safe_cleanup)

lemma wf_cleanup: "wf_manager m \<Longrightarrow> wf_manager (snd (cleanup E m cid reason))"
  using safe_cleanup [of m E cid reason] by (simp add: safe_def)

lemma cleanup_all_Cons:
  "snd (cleanup_all E reason (cid # cids) m) = snd (cleanup_all E reason cids (snd (cleanup E m cid reason)))"
  by (simp add: case_prod_beta)

lemma wf_cleanup_all: "wf_manager m \<Longrightarrow> wf_manager (snd (cleanup_all E reason cids m))"
  by (induction cids arbitrary: m) (simp_all add: cleanup_all_Cons wf_cleanup del: cleanup_all.simps(2))

lemma cleanup_connections:
  "mgr_connections (snd (cleanup E m cid reason)) = bm_remove cid (mgr_connections m)"
proof (cases "bm_get (mgr_connections m) cid")
  case (Some conn)
  from cleanup_Some [OF Some, of E reason] show ?thesis
    by (metis snd_conv)
qed (simp add: cleanup_None bm.remove_absent)

lemma cleanup_all_get:
  "bm_get (mgr_connections (snd (cleanup_all E reason cids m))) c =
     (if c \<in> set cids then None else bm_get (mgr_connections m) c)"
  by (induction cids arbitrary: m)
    (simp_all add: cleanup_all_Cons cleanup_connections del: cleanup_all.simps(2))

subsection \<open>Ticks and shutdown\<close>

lemma alarm_overdue_active: "alarm_overdue now s \<Longrightarrow> continuous_alarm_active s"
  by (simp add: alarm_overdue_def)

lemma tick_connection_eq:
  "snd (tick_connection E now t cid m) =
     (case bm_get (mgr_connections m) cid of
        None \<Rightarrow> m
      | Some conn \<Rightarrow>
          (put_connection cid (conn\<lparr>conn_watches := bm_map (settle_session (alarm_overdue now) TimedOut t)
             (conn_watches conn)\<rparr>) m)
          \<lparr>mgr_ids := fst (settle_watches E (alarm_overdue now) TimedOut ActEpisodeTimedOut t (mgr_ids m) conn)\<rparr>)"
  by (simp add: tick_connection_def command_simps settle_watches_conn split: option.splits)

lemma wf_tick_connection:
  assumes wf: "wf_manager m"
  shows "wf_manager (snd (tick_connection E now t cid m))"
proof (cases "bm_get (mgr_connections m) cid")
  case (Some conn)
  show ?thesis
    using Some wf_settle_connection [OF wf Some, of "alarm_overdue now" TimedOut E ActEpisodeTimedOut t "mgr_ids m"]
    by (simp add: tick_connection_eq settle_watches_conn alarm_overdue_active)
qed (use wf in \<open>simp add: tick_connection_eq\<close>)

lemma tick_loop_Cons:
  "snd (tick_loop E now t (cid # cids) m) = snd (tick_loop E now t cids (snd (tick_connection E now t cid m)))"
  by (simp add: case_prod_beta)

lemma wf_tick_loop: "wf_manager m \<Longrightarrow> wf_manager (snd (tick_loop E now t cids m))"
  by (induction cids arbitrary: m) (simp_all add: tick_loop_Cons wf_tick_connection del: tick_loop.simps(2))

lemma wf_tick: "wf_manager m \<Longrightarrow> wf_manager (snd (tick E m))"
  by (simp add: tick_def Let_def case_prod_beta wf_tick_loop wf_cleanup_all)

lemma wf_process_stop: "wf_manager m \<Longrightarrow> wf_manager (snd (process_stop E m))"
  by (simp add: process_stop_def wf_cleanup_all)

subsection \<open>Watermarks\<close>

lemma watermark_fields [simp]:
  "mgr_ids (put_watermark sec c p m) = mgr_ids m" "mgr_clock (put_watermark sec c p m) = mgr_clock m"
  "mgr_connections (put_watermark sec c p m) = mgr_connections m"
  "mgr_connections_by_section (put_watermark sec c p m) = mgr_connections_by_section m"
  "mgr_max_active_watches (put_watermark sec c p m) = mgr_max_active_watches m"
  "mgr_heartbeat_timeout (put_watermark sec c p m) = mgr_heartbeat_timeout m"
  "mgr_observation_cursor_order (put_watermark sec c p m) = mgr_observation_cursor_order m"
  "mgr_observation_cursors (put_watermark sec c p m) =
     bm_insert sec \<lparr>wm_cursor = c, wm_published = p\<rparr> (mgr_observation_cursors m)"
  by (simp_all add: put_watermark_def)

lemma room_fields [simp]:
  "mgr_ids (make_watermark_room m sec) = mgr_ids m" "mgr_clock (make_watermark_room m sec) = mgr_clock m"
  "mgr_connections (make_watermark_room m sec) = mgr_connections m"
  "mgr_connections_by_section (make_watermark_room m sec) = mgr_connections_by_section m"
  "mgr_max_active_watches (make_watermark_room m sec) = mgr_max_active_watches m"
  "mgr_heartbeat_timeout (make_watermark_room m sec) = mgr_heartbeat_timeout m"
  by (simp_all add: make_watermark_room_def Let_def split: list.splits)

definition same_core :: "('c, 'i) core_manager \<Rightarrow> ('c, 'i) core_manager \<Rightarrow> bool" where
  "same_core m m' \<longleftrightarrow> mgr_ids m' = mgr_ids m \<and> mgr_clock m' = mgr_clock m
     \<and> mgr_connections m' = mgr_connections m
     \<and> mgr_connections_by_section m' = mgr_connections_by_section m
     \<and> mgr_max_active_watches m' = mgr_max_active_watches m
     \<and> mgr_heartbeat_timeout m' = mgr_heartbeat_timeout m"

lemma same_core_seed: "same_core m (seed_observation_watermark m sec c)"
  by (simp add: same_core_def seed_observation_watermark_def split: option.splits)

lemma same_core_record: "same_core m (record_published_observation m sec c)"
  by (simp add: same_core_def record_published_observation_def split: option.splits)

lemma wf_put_watermark_known:
  assumes "wf_watermarks m" "bm_get (mgr_observation_cursors m) sec = Some w"
  shows "wf_watermarks (put_watermark sec c p m)"
  using assms by (auto simp: wf_watermarks_def set_bm_keys bm_len_insert)

lemma wf_put_watermark_new:
  assumes wf: "wf_watermarks m" and new: "bm_get (mgr_observation_cursors m) sec = None"
  shows "wf_watermarks (put_watermark sec c p (make_watermark_room m sec))"
proof (cases "bm_len (mgr_observation_cursors m) = SECTION_CURSOR_WINDOW")
  case full: True
  have "length (mgr_observation_cursor_order m) = bm_len (mgr_observation_cursors m)"
    using wf distinct_card [of "mgr_observation_cursor_order m"]
      distinct_card [OF bm_keys_distinct [of "mgr_observation_cursors m"]]
    by (simp add: wf_watermarks_def)
  then obtain x xs where order: "mgr_observation_cursor_order m = x # xs"
    using full by (cases "mgr_observation_cursor_order m") (simp_all add: SECTION_CURSOR_WINDOW_def)
  let ?m = "put_watermark sec c p (make_watermark_room m sec)"
  have room: "mgr_observation_cursor_order ?m = xs @ [sec]"
    "mgr_observation_cursors ?m =
       bm_insert sec \<lparr>wm_cursor = c, wm_published = p\<rparr> (bm_remove x (mgr_observation_cursors m))"
    using full new order by (simp_all add: make_watermark_room_def bm_contains_def)
  have keys: "set (bm_keys (mgr_observation_cursors m)) = insert x (set xs)" "x \<notin> set xs" "distinct xs"
    using wf by (simp_all add: wf_watermarks_def order)
  have "sec \<notin> insert x (set xs)"
    unfolding keys(1) [symmetric] in_bm_keys using new by simp
  then have fresh: "sec \<noteq> x" "sec \<notin> set xs"
    by simp_all
  have x: "bm_get (mgr_observation_cursors m) x \<noteq> None"
    unfolding in_bm_keys [symmetric] keys(1) by simp
  have "set (xs @ [sec]) = set (bm_keys (mgr_observation_cursors ?m))"
    unfolding room using keys(2) by (simp add: keys(1))
  moreover have "bm_len (mgr_observation_cursors ?m) = SECTION_CURSOR_WINDOW"
    unfolding room bm_len_insert bm_len_remove full bm.get_remove
    using new x fresh by (simp add: SECTION_CURSOR_WINDOW_def)
  ultimately show ?thesis
    unfolding wf_watermarks_def room(1) using keys(3) fresh by (simp del: watermark_fields)
next
  case False
  let ?m = "put_watermark sec c p (make_watermark_room m sec)"
  have room: "mgr_observation_cursor_order ?m = mgr_observation_cursor_order m @ [sec]"
    "mgr_observation_cursors ?m = bm_insert sec \<lparr>wm_cursor = c, wm_published = p\<rparr> (mgr_observation_cursors m)"
    using False new by (simp_all add: make_watermark_room_def bm_contains_def)
  have keys: "set (mgr_observation_cursor_order m) = set (bm_keys (mgr_observation_cursors m))"
    using wf by (simp add: wf_watermarks_def)
  have "set (mgr_observation_cursor_order m @ [sec]) = set (bm_keys (mgr_observation_cursors ?m))"
    unfolding room by (simp add: keys)
  moreover have "sec \<notin> set (mgr_observation_cursor_order m)"
    using new by (simp add: keys in_bm_keys)
  moreover have "bm_len (mgr_observation_cursors ?m) \<le> SECTION_CURSOR_WINDOW"
    unfolding room using wf new False by (simp add: wf_watermarks_def bm_len_insert)
  ultimately show ?thesis
    unfolding wf_watermarks_def room(1) using wf by (simp add: wf_watermarks_def del: watermark_fields)
qed

lemma wf_same_core:
  assumes "same_core m m'" "wf_manager m" "wf_watermarks m'"
  shows "wf_manager m'"
proof (rule wf_managerI)
  show "wf_connection (mgr_max_active_watches m') conn" if "bm_get (mgr_connections m') cid = Some conn" for cid conn
    using that assms(1) wf_manager_connection [OF assms(2)] by (simp add: same_core_def)
  have "indexed m' sec = indexed m sec" for sec
    using assms(1) by (simp add: same_core_def indexed_def)
  moreover have "watchers m' = watchers m"
    using assms(1) by (intro watchers_cong) (simp add: same_core_def)
  ultimately show "indexed m' sec = watchers m' sec" for sec
    using wf_managerD(1) [OF assms(2)] by simp
  show "tight_index m'"
    using assms(1) wf_managerD(2) [OF assms(2)] by (simp add: same_core_def tight_index_def)
qed (rule assms(3))

lemma wf_seed: "wf_manager m \<Longrightarrow> wf_manager (seed_observation_watermark m sec c)"
  by (rule wf_same_core [OF same_core_seed])
    (auto simp: seed_observation_watermark_def wf_put_watermark_known wf_put_watermark_new
      dest: wf_managerD(3) split: option.splits)

lemma wf_record: "wf_manager m \<Longrightarrow> wf_manager (record_published_observation m sec c)"
  by (rule wf_same_core [OF same_core_record])
    (auto simp: record_published_observation_def wf_put_watermark_known wf_put_watermark_new
      dest: wf_managerD(3) split: option.splits)

subsection \<open>Publishing\<close>

definition accepted :: "('c, 'i) core_manager \<Rightarrow> open_observation \<Rightarrow> trace_id \<Rightarrow> bool" where
  "accepted m obs cid \<longleftrightarrow>
     (\<forall>conn s. bm_get (mgr_connections m) cid = Some conn
        \<longrightarrow> bm_get (conn_watches conn) (obs_section_key obs) = Some s
        \<longrightarrow> (\<exists>b. accepts (ws_observation_cursor s) obs = Inr b))"

lemma publish_check_accepted: "publish_check m obs cids = Inr u \<Longrightarrow> cid \<in> set cids \<Longrightarrow> accepted m obs cid"
  by (induction cids) (auto simp: accepted_def split: option.splits sum.splits)

lemma wf_publish_session:
  assumes "wf_session s" "accepts (ws_observation_cursor s) obs = Inr b"
  obtains i' s' ev where "publish_session E obs now i s = Ok (i', s', ev)" "wf_session s'"
    "ws_section s' = ws_section s"
proof (cases b)
  case True
  have "wf_session (s\<lparr>ws_observation_cursor := Some (observation_cursor_of obs)\<rparr>)"
    using assms(1) by simp
  then obtain i' s' ev' where
    "apply_observation E i (s\<lparr>ws_observation_cursor := Some (observation_cursor_of obs)\<rparr>) obs now [EvObservation obs]
       = Some (i', s', ev')" "wf_session s'" "ws_section s' = ws_section s"
    by (rule wf_apply_observation [where E = E and i = i and obs = obs and now = now and ev = "[EvObservation obs]"])
      simp
  then show ?thesis
    using that assms(2) True by (simp add: publish_session_def)
next
  case False
  then show ?thesis
    using that assms by (simp add: publish_session_def)
qed

lemma publish_connection_step:
  assumes wf: "wf_manager m" and ok: "accepted m obs cid"
  obtains ds m' where "publish_connection E obs now t cid m = (Ok ds, m')" "wf_manager m'"
    "\<And>c. c \<noteq> cid \<Longrightarrow> bm_get (mgr_connections m') c = bm_get (mgr_connections m) c"
proof (cases "bm_get (mgr_connections m) cid")
  case None
  then show ?thesis
    using that wf by (simp add: publish_connection_def take_connection_def)
next
  case conn: (Some conn)
  show ?thesis
  proof (cases "bm_get (conn_watches conn) (obs_section_key obs)")
    case None
    then show ?thesis
      using that wf conn by (simp add: publish_connection_def command_simps)
  next
    case s: (Some s)
    note ws = wf_connection_watch [OF wf_manager_connection [OF wf conn] s]
    obtain b where b: "accepts (ws_observation_cursor s) obs = Inr b"
      using ok conn s by (auto simp: accepted_def)
    obtain i' s' ev where p: "publish_session E obs now (mgr_ids m) s = Ok (i', s', ev)" "wf_session s'"
      "ws_section s' = ws_section s"
      by (rule wf_publish_session [OF conjunct2 [OF ws] b, where E = E and now = now and i = "mgr_ids m"])
    obtain ds where eq: "publish_connection E obs now t cid m =
        (Ok ds, (put_connection cid (put_watch (obs_section_key obs) s' conn) m)\<lparr>mgr_ids := i'\<rparr>)"
      using conn s p(1) by (simp add: publish_connection_def command_simps)
    show ?thesis
      by (rule that [OF eq]) (simp_all add: wf_update_watch [OF wf conn s p(3,2)])
  qed
qed

lemma accepted_cong:
  "bm_get (mgr_connections m') c = bm_get (mgr_connections m) c \<Longrightarrow> accepted m' obs c = accepted m obs c"
  by (simp add: accepted_def)

lemma publish_loop_ok:
  assumes "wf_manager m" "distinct cids" "\<forall>c \<in> set cids. accepted m obs c"
  shows "\<exists>ds m'. publish_loop E obs now t cids acc m = (Ok ds, m') \<and> wf_manager m'"
  using assms
proof (induction cids arbitrary: m acc)
  case (Cons cid cids)
  obtain ds m' where step: "publish_connection E obs now t cid m = (Ok ds, m')" "wf_manager m'"
    "\<And>c. c \<noteq> cid \<Longrightarrow> bm_get (mgr_connections m') c = bm_get (mgr_connections m) c"
    by (rule publish_connection_step [OF Cons.prems(1), of obs cid E now t]) (use Cons.prems(3) in auto)
  have "accepted m' obs c" if "c \<in> set cids" for c
  proof -
    have "c \<noteq> cid"
      using that Cons.prems(2) by auto
    then show ?thesis
      using accepted_cong [OF step(3)] Cons.prems(3) that by simp
  qed
  then show ?case
    using Cons.IH [OF step(2), of "acc @ ds"] Cons.prems(2) step(1) by simp
qed simp

lemma publish_result:
  assumes wf: "wf_manager m"
  shows "(\<exists>e. publish E m obs = (Err e, m)) \<or> (\<exists>out m'. publish E m obs = (Ok out, m') \<and> wf_manager m')"
proof -
  let ?sec = "obs_section_key obs"
  let ?cids = "case bm_get (mgr_connections_by_section m) ?sec of None \<Rightarrow> [] | Some b \<Rightarrow> bm_keys b"
  let ?m = "record_published_observation m ?sec (observation_cursor_of obs)"
  let ?m1 = "?m\<lparr>mgr_clock := snd (clock_now E (mgr_clock ?m))\<rparr>"
  let ?m2 = "?m1\<lparr>mgr_clock := snd (clock_wall_now E (mgr_clock ?m1))\<rparr>"
  let ?loop = "publish_loop E obs (fst (clock_now E (mgr_clock ?m))) (fst (clock_wall_now E (mgr_clock ?m1))) ?cids [] ?m2"
  have wf2: "wf_manager ?m2"
    using wf_record [OF wf] by simp
  have conns: "mgr_connections ?m2 = mgr_connections m"
    using same_core_record [of m ?sec "observation_cursor_of obs"] by (simp add: same_core_def)
  have loop: "\<exists>ds m'. ?loop = (Ok ds, m') \<and> wf_manager m'" if "publish_check m obs ?cids = Inr u" for u
  proof (rule publish_loop_ok [OF wf2])
    show "distinct ?cids"
      by (simp split: option.splits)
    show "\<forall>c \<in> set ?cids. accepted ?m2 obs c"
      using publish_check_accepted [OF that] accepted_cong [of ?m2 _ m obs] conns by simp
  qed
  show ?thesis
  proof (cases "publish_check m obs ?cids")
    case (Inl e)
    then show ?thesis
      using wf by (auto simp: publish_def Let_def split: sum.splits)
  next
    case (Inr u)
    obtain ds m' where l: "?loop = (Ok ds, m')" "wf_manager m'"
      using loop [OF Inr] by blast
    have eq: "publish E m obs = (case accepts (map_option wm_cursor (bm_get (mgr_observation_cursors m) ?sec)) obs of
        Inl e \<Rightarrow> (Err e, m)
      | Inr new \<Rightarrow>
          if \<not> new \<and> \<not> (case bm_get (mgr_observation_cursors m) ?sec of
                 None \<Rightarrow> False | Some w \<Rightarrow> \<not> wm_published w \<and> wm_cursor w = observation_cursor_of obs)
          then (Ok \<lparr>po_dispatches = [], po_replayed = True\<rparr>, m)
          else if ?cids = [] then (Ok \<lparr>po_dispatches = [], po_replayed = False\<rparr>, ?m)
          else (Ok \<lparr>po_dispatches = ds, po_replayed = (ds = [])\<rparr>, m'))"
      unfolding publish_def Let_def read_simps prod.case Inr sum.case l(1) core_result.case ..
    show ?thesis
      unfolding eq using wf l(2) wf_record [OF wf] by (auto split: sum.splits if_splits)
  qed
qed

lemma safe_publish: "wf_manager m \<Longrightarrow> safe (publish E m obs)"
  using publish_result [of m E obs] by (auto simp: safe_def)

subsection \<open>Starting watches\<close>

lemma wf_session_new:
  assumes "\<And>oid t. st \<noteq> InitOpen oid t"
  shows "wf_session (session_new wid sec policy st cursor)"
  using assms by (cases st) (auto simp: wf_session_def wf_cues_def session_new_def)

lemma wf_initial_episode:
  obtains i' s' ev' where
    "initial_episode E i (session_new wid sec policy st cursor) st now ev = Some (i', s', ev')"
    "wf_session s'" "ws_section s' = sec" "ws_id s' = wid"
proof (cases st)
  case (InitOpen oid t)
  let ?s = "session_new wid sec policy st cursor"
  obtain i1 s1 ev1 where o: "open_episode E i ?s oid t now ev = (i1, s1, ev1)"
    by (metis surj_pair)
  have "wf_cues ?s" "ws_reliable_state ?s = Some ReliableOpen"
    by (simp_all add: InitOpen session_new_def wf_cues_def)
  note w = wf_open_episode [OF o this]
  have ids: "ws_section s1 = sec" "ws_id s1 = wid"
    using w by (simp_all add: session_new_def)
  show ?thesis
  proof (cases "pol_mode (ws_policy s1) = OneShot")
    case True
    obtain i2 s2 ev2 where "queue_one_shot E i1 s1 oid ev1 = Some (i2, s2, ev2)" "wf_session s2"
      "ws_id s2 = ws_id s1" "ws_section s2 = ws_section s1"
      by (rule wf_queue_one_shot [OF w(1) True w(5)])
    then show ?thesis
      using that o True ids InitOpen by (simp add: initial_episode_def)
  next
    case False
    then show ?thesis
      using that o w(1) ids InitOpen by (simp add: initial_episode_def)
  qed
qed (use that wf_session_new [of st wid sec policy cursor] in
    \<open>simp_all add: initial_episode_def session_new_def\<close>)

lemma commute_put [simp]:
  "put_connection cid conn (link cid' sec m) = link cid' sec (put_connection cid conn m)"
  "link cid sec (m\<lparr>mgr_ids := i\<rparr>) = (link cid sec m)\<lparr>mgr_ids := i\<rparr>"
  by (simp_all add: link_def Let_def put_connection_def)

lemma commute_seed [simp]:
  "put_connection cid conn (seed_observation_watermark m sec c) =
     seed_observation_watermark (put_connection cid conn m) sec c"
  by (simp add: seed_observation_watermark_def put_watermark_def make_watermark_room_def Let_def
      put_connection_def split: option.splits list.splits)

lemma wf_link:
  assumes wf: "wf_manager (put_connection cid conn m)" and new: "bm_get (conn_watches conn) sec = None"
    and room: "bm_len (conn_watches conn) < unat (mgr_max_active_watches m)"
    and s: "wf_session s" "ws_section s = sec"
  shows "wf_manager (link cid sec (put_connection cid (put_watch sec s conn) m))" (is "wf_manager (link cid sec ?m)")
proof (rule wf_managerI)
  have conn: "wf_connection (mgr_max_active_watches m) conn"
    using wf_manager_connection [OF wf, of cid conn] by simp
  have "wf_connection (mgr_max_active_watches m) (put_watch sec s conn)"
    using conn new room s by (auto simp: wf_connection_def put_watch_def bm_len_insert)
  then show "wf_connection (mgr_max_active_watches (link cid sec ?m)) k"
    if "bm_get (mgr_connections (link cid sec ?m)) c = Some k" for c k
    using that wf_manager_connection [OF wf, of c k] by (auto split: if_splits)
next
  fix sec'
  have "watchers (link cid sec ?m) = watchers ?m"
    by (rule watchers_cong) simp
  moreover have "watchers ?m sec' =
      (if sec' = sec then insert cid (watchers (put_connection cid conn m) sec)
       else watchers (put_connection cid conn m) sec')"
    by (simp add: watchers_put)
  ultimately show "indexed (link cid sec ?m) sec' = watchers (link cid sec ?m) sec'"
    using wf_managerD(1) [OF wf] by (simp add: indexed_link)
next
  show "tight_index (link cid sec ?m)"
    using wf_managerD(2) [OF wf] by (intro tight_index_link) simp
  show "wf_watermarks (link cid sec ?m)"
    using wf_managerD(3) [OF wf] wf_watermarks_cong [of "link cid sec ?m" m] by simp
qed

definition seed_optional ::
  "('c, 'i) core_manager \<Rightarrow> section_key \<Rightarrow> observation_cursor option \<Rightarrow> ('c, 'i) core_manager" where
  "seed_optional m sec cursor = (case cursor of None \<Rightarrow> m | Some c \<Rightarrow> seed_observation_watermark m sec c)"

lemma seed_optional_simps [simp]:
  "put_connection cid conn (seed_optional m sec c) = seed_optional (put_connection cid conn m) sec c"
  "mgr_max_active_watches (seed_optional m sec c) = mgr_max_active_watches m"
  "mgr_connections (seed_optional m sec c) = mgr_connections m"
  using same_core_seed [of m sec "the c"]
  by (auto simp: seed_optional_def same_core_def split: option.splits)

lemma wf_seed_optional: "wf_manager m \<Longrightarrow> wf_manager (seed_optional m sec c)"
  by (simp add: seed_optional_def wf_seed split: option.splits)

text \<open>One admitted spec: rejected at the limit, restarted in place, or linked as a new watch.\<close>

lemma start_admitted_cases:
  obtains (limit) "bm_get (conn_watches conn) (spec_section spec) = None"
      "unat (mgr_max_active_watches m) \<le> bm_len (conn_watches conn)"
      "start_admitted E cid now t spec st cursor m conn ev =
         Some (m, conn, ev @ [start_result_event (spec_section spec) RejectedLimit None])"
  | (restart) prev i wid s ev' i' i0 s0 ev0 j i2 ev2 where
      "bm_get (conn_watches conn) (spec_section spec) = Some prev"
      "wf_session s" "ws_section s = spec_section spec" "ws_id s = wid"
      "end_session E (mgr_ids m) prev Restarted t (Some CancelWatchRestarted) ev = (i0, s0, ev0)"
      "push_action E j (ev0 @ [start_result_event (spec_section spec) DispRestarted (Some wid)])
         ActWatchRestarted (Some (spec_section spec)) (Some wid) None = (i2, ev2)"
      "initial_episode E i2 (session_new wid (spec_section spec) (spec_policy spec) st cursor) st now ev2
         = Some (i', s, ev')"
      "start_admitted E cid now t spec st cursor m conn ev =
         Some ((seed_optional (m\<lparr>mgr_ids := i\<rparr>) (spec_section spec) cursor)\<lparr>mgr_ids := i'\<rparr>,
               put_watch (spec_section spec) s conn, ev')"
  | (started) i wid s ev' i' j i2 ev2 where
      "bm_get (conn_watches conn) (spec_section spec) = None"
      "bm_len (conn_watches conn) < unat (mgr_max_active_watches m)"
      "wf_session s" "ws_section s = spec_section spec" "ws_id s = wid"
      "push_action E j (ev @ [start_result_event (spec_section spec) DispStarted (Some wid)])
         ActWatchStarted (Some (spec_section spec)) (Some wid) None = (i2, ev2)"
      "initial_episode E i2 (session_new wid (spec_section spec) (spec_policy spec) st cursor) st now ev2
         = Some (i', s, ev')"
      "start_admitted E cid now t spec st cursor m conn ev =
         Some ((seed_optional ((link cid (spec_section spec) m)\<lparr>mgr_ids := i\<rparr>) (spec_section spec) cursor)\<lparr>mgr_ids := i'\<rparr>,
               put_watch (spec_section spec) s conn, ev')"
proof -
  let ?sec = "spec_section spec"
  have put: "put_watch ?sec s (conn\<lparr>conn_watches := bm_remove ?sec (conn_watches conn)\<rparr>) = put_watch ?sec s conn" for s
    by (simp add: put_watch_def)
  show ?thesis
  proof (cases "bm_get (conn_watches conn) ?sec")
    case None
    have same: "conn\<lparr>conn_watches := bm_remove ?sec (conn_watches conn)\<rparr> = conn"
      using None by (simp add: bm.remove_absent)
    show ?thesis
    proof (cases "unat (mgr_max_active_watches m) \<le> bm_len (conn_watches conn)")
      case True
      show ?thesis
        by (rule limit) (use None True same in \<open>simp_all add: start_admitted_def Let_def bm.remove_absent\<close>)
    next
      case False
      obtain wid i where w: "next_trace_id E (mgr_ids m) = (wid, i)"
        by fastforce
      let ?m = "seed_optional ((link cid ?sec m)\<lparr>mgr_ids := i\<rparr>) ?sec cursor"
      obtain i2 ev2 where pa: "push_action E (mgr_ids ?m) (ev @ [start_result_event ?sec DispStarted (Some wid)])
          ActWatchStarted (Some ?sec) (Some wid) None = (i2, ev2)"
        by fastforce
      obtain i' s ev' where ie: "initial_episode E i2 (session_new wid ?sec (spec_policy spec) st cursor) st now ev2
          = Some (i', s, ev')" "wf_session s" "ws_section s = ?sec" "ws_id s = wid"
        by (rule wf_initial_episode)
      have "start_admitted E cid now t spec st cursor m conn ev = Some (?m\<lparr>mgr_ids := i'\<rparr>, put_watch ?sec s conn, ev')"
        using None False w pa ie same
        by (simp add: start_admitted_def Let_def bm.remove_absent flip: seed_optional_def)
      then show ?thesis
        using started [OF _ _ ie(2-4) pa ie(1)] None False by simp
    qed
  next
    case (Some prev)
    obtain i0 s0 ev0 where e: "end_session E (mgr_ids m) prev Restarted t (Some CancelWatchRestarted) ev = (i0, s0, ev0)"
      by (metis surj_pair)
    obtain wid i where w: "next_trace_id E i0 = (wid, i)"
      by fastforce
    let ?m = "seed_optional (m\<lparr>mgr_ids := i\<rparr>) ?sec cursor"
    obtain i2 ev2 where pa: "push_action E (mgr_ids ?m) (ev0 @ [start_result_event ?sec DispRestarted (Some wid)])
        ActWatchRestarted (Some ?sec) (Some wid) None = (i2, ev2)"
      by fastforce
    obtain i' s ev' where ie: "initial_episode E i2 (session_new wid ?sec (spec_policy spec) st cursor) st now ev2
        = Some (i', s, ev')" "wf_session s" "ws_section s = ?sec" "ws_id s = wid"
      by (rule wf_initial_episode)
    have "start_admitted E cid now t spec st cursor m conn ev = Some (?m\<lparr>mgr_ids := i'\<rparr>, put_watch ?sec s conn, ev')"
      using Some e w pa ie by (simp add: start_admitted_def Let_def put flip: seed_optional_def)
    then show ?thesis
      using restart [OF Some ie(2-4) e pa ie(1)] by simp
  qed
qed

lemma put_watch_fields [simp]:
  "conn_start_replays (put_watch sec s conn) = conn_start_replays conn"
  "conn_start_replay_order (put_watch sec s conn) = conn_start_replay_order conn"
  "conn_last_touch (put_watch sec s conn) = conn_last_touch conn"
  by (simp_all add: put_watch_def)

lemma start_one_ok:
  assumes wf: "wf_manager (put_connection cid conn m)"
  obtains m' conn' ev' where "start_one E cid now t spec m conn ev = Some (m', conn', ev')"
    "wf_manager (put_connection cid conn' m')"
    "mgr_max_active_watches m' = mgr_max_active_watches m"
    "conn_start_replays conn' = conn_start_replays conn"
proof (cases "spec_admission spec")
  case (Admitted st cursor)
  then have eq: "start_one E cid now t spec m conn ev = start_admitted E cid now t spec st cursor m conn ev"
    by (simp add: start_one_def Let_def)
  show ?thesis
  proof (cases rule: start_admitted_cases [where conn = conn and spec = spec and m = m and E = E and cid = cid
        and now = now and t = t and st = st and cursor = cursor and ev = ev])
    case limit
    then show ?thesis
      using that wf eq by simp
  next
    case (restart prev i wid s ev' i' i0 s0 ev0 j i2 ev2)
    have get: "bm_get (mgr_connections (put_connection cid conn m)) cid = Some conn"
      by simp
    have "ws_section s = ws_section prev"
      using restart(1,3) wf_connection_watch [OF wf_manager_connection [OF wf get]] by simp
    then have "wf_manager (put_connection cid (put_watch (spec_section spec) s conn) (put_connection cid conn m))"
      by (rule wf_update_watch [OF wf get restart(1) _ restart(2)])
    then show ?thesis
      using that eq restart(8) by (simp add: wf_seed_optional)
  next
    case (started i wid s ev' i' j i2 ev2)
    have "wf_manager (link cid (spec_section spec) (put_connection cid (put_watch (spec_section spec) s conn) m))"
      by (rule wf_link [OF wf started(1-4)])
    then show ?thesis
      using that eq started(8) by (simp add: wf_seed_optional)
  qed
qed (use that wf in \<open>simp_all add: start_one_def Let_def\<close>)

lemma start_loop_ok:
  assumes "wf_manager (put_connection cid conn m)"
  shows "\<exists>m' conn' ev'. start_loop E cid now t specs seen m conn ev = Some (m', conn', ev')
     \<and> wf_manager (put_connection cid conn' m') \<and> mgr_max_active_watches m' = mgr_max_active_watches m
     \<and> conn_start_replays conn' = conn_start_replays conn"
  using assms
proof (induction specs arbitrary: seen m conn ev)
  case (Cons spec specs)
  obtain m1 conn1 ev1 where one: "start_one E cid now t spec m conn ev = Some (m1, conn1, ev1)"
    "wf_manager (put_connection cid conn1 m1)" "mgr_max_active_watches m1 = mgr_max_active_watches m"
    "conn_start_replays conn1 = conn_start_replays conn"
    by (rule start_one_ok [OF Cons.prems])
  show ?case
    using Cons.IH [OF Cons.prems] Cons.IH [OF one(2)] one by simp
qed simp

lemma wf_remember_start:
  assumes "wf_connection limit conn" "bm_get (conn_start_replays conn) mid = None"
  shows "wf_connection limit (remember_start mid d n conn)"
    "conn_watches (remember_start mid d n conn) = conn_watches conn"
proof -
  have new: "mid \<notin> set (conn_start_replay_order conn)"
    using assms in_bm_keys [of mid "conn_start_replays conn"] by (simp add: wf_connection_def)
  show "conn_watches (remember_start mid d n conn) = conn_watches conn"
    by (simp add: remember_start_def Let_def split: list.splits)
  show "wf_connection limit (remember_start mid d n conn)"
  proof (cases "START_REPLAY_WINDOW < length (conn_start_replay_order conn @ [mid])")
    case True
    obtain x xs where order: "conn_start_replay_order conn = x # xs"
      using True by (cases "conn_start_replay_order conn") (simp_all add: START_REPLAY_WINDOW_def)
    have "x \<notin> set xs" "distinct xs" "set (bm_keys (conn_start_replays conn)) = insert x (set xs)"
      "length xs < START_REPLAY_WINDOW"
      using assms(1) by (simp_all add: wf_connection_def order)
    then show ?thesis
      using assms(1) new True by (auto simp: wf_connection_def remember_start_def order)
  next
    case False
    then show ?thesis
      using assms(1) new by (simp add: wf_connection_def remember_start_def)
  qed
qed

lemma safe_start:
  assumes wf: "wf_manager m"
  shows "safe (start E m cid mid specs)"
proof (cases "bm_get (mgr_connections m) cid")
  case None
  then show ?thesis
    using wf by (simp add: start_def take_connection_def)
next
  case conn: (Some conn)
  let ?now = "fst (clock_now E (mgr_clock m))" and ?c = "snd (clock_now E (mgr_clock m))"
  let ?conn = "conn\<lparr>conn_last_touch := ?now\<rparr>"
  let ?m = "(drop_connection cid m)\<lparr>mgr_clock := snd (clock_wall_now E ?c)\<rparr>"
  have touched: "wf_manager (put_connection cid ?conn m)"
    by (rule wf_touch_connection [OF wf conn])
  show ?thesis
  proof (cases "bm_get (conn_start_replays conn) mid")
    case (Some dn)
    then show ?thesis
      using conn touched by (cases dn) (simp add: start_def take_connection_def)
  next
    case new: None
    have "wf_manager (put_connection cid ?conn ?m)"
      using touched by simp
    from start_loop_ok [OF this, of E ?now "fst (clock_wall_now E ?c)" specs bm_empty "[]"]
    obtain m' conn' ev' where loop:
      "start_loop E cid ?now (fst (clock_wall_now E ?c)) specs bm_empty ?m ?conn [] = Some (m', conn', ev')"
      "wf_manager (put_connection cid conn' m')" "conn_start_replays conn' = conn_start_replays conn"
      by auto
    have wfc: "wf_connection (mgr_max_active_watches m') conn'"
      using wf_manager_connection [OF loop(2), of cid conn'] by simp
    have "unat (mgr_max_active_watches m') < 2 ^ LENGTH(8)"
      by (rule unsigned_less)
    then have small: "\<not> 255 < bm_len (conn_watches conn')"
      using wfc by (simp add: wf_connection_def)
    have "wf_manager (put_connection cid (remember_start mid d n conn') m')" for d n
      using wf_put_connection [OF loop(2), of cid conn' "remember_start mid d n conn'"]
        wf_remember_start [OF wfc] new loop(3) by simp
    then show ?thesis
      using wf conn new loop(1) small
      by (auto simp: start_def take_connection_def Let_def put_connection_get split: sum.splits)
  qed
qed

end
