(* ===== verification/Watch_Properties.thy ===== *)
theory Watch_Properties
  imports Watch_Operations
begin

text \<open>
  What the watch manager promises to the service above it.  \<open>execute\<close> runs one public operation;
  the reachable managers are those a sequence of operations produces from a fresh one, with the
  clock advanced at will in between.
\<close>

subsection \<open>Commands and reachable managers\<close>

datatype command =
    CmdConnect trace_id
  | CmdTouch trace_id
  | CmdStart trace_id trace_id "core_start_spec list"
  | CmdStopWatch trace_id trace_id
  | CmdPublish open_observation
  | CmdUpdatePolicy trace_id trace_id core_policy
  | CmdAcknowledge trace_id trace_id
  | CmdAcknowledgeAll trace_id
  | CmdResume trace_id trace_id
  | CmdResetAudible trace_id trace_id
  | CmdReportCue trace_id trace_id core_cue_outcome
  | CmdDismissAlert trace_id trace_id
  | CmdDisconnect trace_id
  | CmdTick
  | CmdProcessStop

fun map_result :: "('a \<Rightarrow> 'b) \<Rightarrow> 'a core_result \<Rightarrow> 'b core_result" where
  "map_result f (Ok x) = Ok (f x)"
| "map_result f (Err e) = Err e"
| "map_result f Panic = Panic"

definition on_result :: "('a \<Rightarrow> 'b) \<Rightarrow> 'a core_result \<times> 'm \<Rightarrow> 'b core_result \<times> 'm" where
  "on_result f r = (map_result f (fst r), snd r)"

text \<open>A command's result is the list of dispatches it sends to clients.\<close>

fun execute ::
  "('c, 'i) watch_env \<Rightarrow> ('c, 'i) core_manager \<Rightarrow> command
     \<Rightarrow> core_dispatch list core_result \<times> ('c, 'i) core_manager" where
  "execute E m (CmdConnect cid) = on_result (\<lambda>_. []) (connect E m cid)"
| "execute E m (CmdTouch cid) = on_result (\<lambda>_. []) (touch E m cid)"
| "execute E m (CmdStart cid mid specs) = on_result (\<lambda>out. [so_dispatch out]) (start E m cid mid specs)"
| "execute E m (CmdStopWatch cid wid) = on_result (\<lambda>d. [d]) (stop_watch E m cid wid)"
| "execute E m (CmdPublish obs) = on_result po_dispatches (publish E m obs)"
| "execute E m (CmdUpdatePolicy cid wid policy) = on_result (\<lambda>d. [d]) (update_policy E m cid wid policy)"
| "execute E m (CmdAcknowledge cid eid) = on_result (\<lambda>d. [d]) (acknowledge_episode E m cid eid)"
| "execute E m (CmdAcknowledgeAll cid) = on_result (\<lambda>d. [d]) (acknowledge_all E m cid)"
| "execute E m (CmdResume cid eid) = on_result (\<lambda>d. [d]) (resume_episode E m cid eid)"
| "execute E m (CmdResetAudible cid wid) = on_result (\<lambda>d. [d]) (reset_audible_count E m cid wid)"
| "execute E m (CmdReportCue cid cue outcome) = on_result (\<lambda>d. [d]) (report_cue_outcome E m cid cue outcome)"
| "execute E m (CmdDismissAlert cid aid) = on_result (\<lambda>d. [d]) (dismiss_alert E m cid aid)"
| "execute E m (CmdDisconnect cid) = on_result (\<lambda>_. []) (disconnect E m cid)"
| "execute E m CmdTick = (Ok (to_dispatches (fst (tick E m))), snd (tick E m))"
| "execute E m CmdProcessStop = (Ok [], snd (process_stop E m))"

inductive reachable :: "('c, 'i) watch_env \<Rightarrow> ('c, 'i) core_manager \<Rightarrow> bool" for E where
  fresh: "try_new_with_max_active_watches clock ids timeout limit = Ok m \<Longrightarrow> reachable E m"
| command: "reachable E m \<Longrightarrow> reachable E (snd (execute E m c))"
| clock: "reachable E m \<Longrightarrow> reachable E (m\<lparr>mgr_clock := c\<rparr>)"

lemma safe_on_result: "safe r \<Longrightarrow> safe (on_result f r)"
  by (cases "fst r") (simp_all add: safe_def on_result_def)

lemma safe_execute:
  assumes "wf_manager m"
  shows "safe (execute E m c)"
  using assms
  by (cases c)
    (simp_all add: safe_on_result safe_connect safe_touch safe_start safe_stop_watch safe_publish
      safe_update_policy safe_acknowledge_episode safe_acknowledge_all safe_resume_episode
      safe_reset_audible_count safe_report_cue_outcome safe_dismiss_alert safe_disconnect
      wf_tick wf_process_stop)

lemma wf_fresh:
  assumes "try_new_with_max_active_watches clock ids timeout limit = Ok m"
  shows "wf_manager m"
proof -
  have "mgr_connections m = bm_empty" "mgr_connections_by_section m = bm_empty"
    "mgr_observation_cursors m = bm_empty" "mgr_observation_cursor_order m = []"
    using assms by (auto simp: try_new_with_max_active_watches_def split: if_splits)
  then show ?thesis
    by (intro wf_managerI)
      (simp_all add: indexed_def watchers_def tight_index_def wf_watermarks_def set_bm_keys)
qed

lemma wf_reachable: "reachable E m \<Longrightarrow> wf_manager m"
proof (induction rule: reachable.induct)
  case (command m c)
  then show ?case
    using safe_execute [of m E c] by (simp add: safe_def)
qed (simp_all add: wf_fresh)

text \<open>A concrete environment for the witnesses: a clock that shows its state, identifiers drawn
  from a counter.\<close>

definition sample_env :: "(u64, nat) watch_env" where
  "sample_env = \<lparr>clock_now = (\<lambda>c. (c, c)), clock_wall_now = (\<lambda>c. (int (unat c), c)),
     next_trace_id = (\<lambda>i. (TraceId (of_nat i), Suc i))\<rparr>"

definition sample_manager :: "(u64, nat) core_manager" where
  "sample_manager = \<lparr>mgr_clock = 0, mgr_ids = 100, mgr_heartbeat_timeout = 90000000000,
     mgr_max_active_watches = 9, mgr_connections = bm_empty, mgr_connections_by_section = bm_empty,
     mgr_observation_cursors = bm_empty, mgr_observation_cursor_order = []\<rparr>"

definition sample_section :: section_key where
  "sample_section = SectionKey (TermId ''92026'') (CampusCode ''NB'') (SectionIndex ''12345'')"

lemma reachable_sample: "reachable E sample_manager"
  by (rule reachable.fresh [of 0 100 90000000000 9])
    (simp add: try_new_with_max_active_watches_def sample_manager_def)

subsection \<open>What one publication does to each connection\<close>

definition delivered ::
  "('c, 'i) watch_env \<Rightarrow> open_observation \<Rightarrow> watch_instant \<Rightarrow> offset_date_time
     \<Rightarrow> ('c, 'i) core_manager \<Rightarrow> ('c, 'i) core_manager \<Rightarrow> core_dispatch \<Rightarrow> bool" where
  "delivered E obs now t m m' d \<longleftrightarrow>
     (\<exists>conn s i i' s' ev.
        bm_get (mgr_connections m) (d_connection_id d) = Some conn
        \<and> bm_get (conn_watches conn) (obs_section_key obs) = Some s
        \<and> publish_session E obs now i s = Ok (i', s', ev)
        \<and> bm_get (mgr_connections m') (d_connection_id d) = Some (put_watch (obs_section_key obs) s' conn)
        \<and> d_emitted_at d = t
        \<and> d_events d = push_mixer_if_changed (put_watch (obs_section_key obs) s' conn)
                          (active_episode_ids conn) NoUnacknowledgedEpisodes ev)"

lemma delivered_cong:
  "bm_get (mgr_connections n) (d_connection_id d) = bm_get (mgr_connections m) (d_connection_id d) \<Longrightarrow>
   bm_get (mgr_connections n') (d_connection_id d) = bm_get (mgr_connections m') (d_connection_id d) \<Longrightarrow>
     delivered E obs now t n n' d = delivered E obs now t m m' d"
  by (simp add: delivered_def)

text \<open>Every event but the mixer's own is \<open>plain\<close>; among them a one-shot disposition names a cue
  exactly when the audible cap still leaves room for one.\<close>

fun plain_event :: "core_event \<Rightarrow> bool" where
  "plain_event (EvAudio (AudioContinuousMixer active ids reason)) = False"
| "plain_event (EvAudio (AudioOneShot wid sec oid cue disposition count cap)) =
     ((disposition = SilentCap \<longleftrightarrow> cap \<le> count) \<and> (disposition = SilentCap \<longleftrightarrow> cue = None))"
| "plain_event e = True"

definition plain :: "core_event list \<Rightarrow> bool" where
  "plain ev \<longleftrightarrow> (\<forall>e \<in> set ev. plain_event e)"

lemma plain_simps [simp]:
  "plain []" "plain (e # ev) \<longleftrightarrow> plain_event e \<and> plain ev" "plain (ev @ ev') \<longleftrightarrow> plain ev \<and> plain ev'"
  by (auto simp: plain_def)

lemma plain_one_shot [simp]:
  "plain_event (one_shot_event s oid cue disposition) \<longleftrightarrow>
     (disposition = SilentCap \<longleftrightarrow> pol_max_audible (ws_policy s) \<le> ws_audible_count s)
     \<and> (disposition = SilentCap \<longleftrightarrow> cue = None)"
  by (simp add: one_shot_event_def)

lemma plain_push_action [simp]: "plain (snd (push_action E i ev k a b c)) = plain ev"
  by (simp add: push_action_def split: prod.splits)

lemma plain_push_actions [simp]: "plain (snd (push_actions E i ev k xs)) = plain ev"
  by (induction xs arbitrary: i ev) (auto simp: push_action_def split: prod.splits)

lemma plain_cancelled [simp]: "plain (push_cancelled_cues ev w sec cues r) = plain ev"
  by (auto simp: push_cancelled_cues_def plain_def)

lemma plain_episode_event [simp]: "plain (episode_event s)"
  by (simp add: episode_event_def split: option.splits)

definition extends :: "core_event list \<Rightarrow> core_event list \<Rightarrow> bool" where
  "extends ev ev' \<longleftrightarrow> (\<exists>xs. ev' = ev @ xs \<and> plain xs)"

lemma extends_refl [simp]: "extends ev ev"
  by (simp add: extends_def)

lemma extends_append [simp]: "plain xs \<Longrightarrow> extends ev (ev @ xs)"
  by (auto simp: extends_def)

lemma extends_trans: "extends a b \<Longrightarrow> extends b c \<Longrightarrow> extends a c"
  by (auto simp: extends_def)

lemma extends_plain: "extends ev ev' \<Longrightarrow> plain ev \<Longrightarrow> plain ev'"
  by (auto simp: extends_def)

lemma extends_push_action: "extends ev (snd (push_action E i ev k a b c))"
  by (auto simp: push_action_def extends_def split: prod.splits)

lemma extends_open_episode: "extends ev (snd (snd (open_episode E i s oid t now ev)))"
  by (auto simp: open_episode_def Let_def push_action_def extends_def split: prod.splits)

lemma extends_end_session: "extends ev (snd (snd (end_session E i s reason t cancel ev)))"
proof -
  have "plain (map (\<lambda>cue. EvAudio (AudioCueCancelled w sec (cue_id cue) (cue_observation_id cue) r)) cues)"
    for w sec r and cues :: "pending_cue list"
    by (auto simp: plain_def)
  then show ?thesis
    by (auto simp: end_session_def Let_def push_action_def push_cancelled_cues_def extends_def
        split: prod.splits option.splits)
qed

lemma extends_queue_one_shot: "queue_one_shot E i s oid ev = Some (i', s', ev') \<Longrightarrow> extends ev ev'"
  by (auto simp: queue_one_shot_def request_cue_def Let_def
      split: prod.splits option.splits if_splits)

lemma extends_record_open: "extends ev (snd (snd (record_open E i s obs now ev)))"
  using extends_open_episode [of ev E i "s\<lparr>ws_reliable_state := Some ReliableOpen\<rparr>"]
  by (auto simp: record_open_def Let_def split: option.splits)

lemma extends_apply_observation:
  assumes "apply_observation E i s obs now ev = Some (i', s', ev')"
  shows "extends ev ev'"
proof (cases "obs_state obs")
  case StateOpen
  then show ?thesis
    using assms extends_record_open [of ev E i s obs now]
    by (auto simp: apply_observation_def split: prod.splits if_splits
        dest: extends_queue_one_shot intro: extends_trans)
next
  case StateClosed
  then show ?thesis
    using assms extends_end_session [of ev E i "s\<lparr>ws_reliable_state := Some ReliableClosed\<rparr>" ObservedClosed
        "obs_observed_at obs" None] by (simp add: apply_observation_def)
qed (use assms in \<open>simp add: apply_observation_def\<close>)

lemma publish_session_events:
  assumes "publish_session E obs now i s = Ok (i', s', ev)"
  shows "\<exists>xs. ev = EvObservation obs # xs \<and> plain xs"
  using assms extends_apply_observation
  by (auto simp: publish_session_def Let_def extends_def split: sum.splits bool.splits option.splits)
    fastforce

lemma push_mixer_nonempty: "ev \<noteq> [] \<Longrightarrow> push_mixer_if_changed conn prev r ev \<noteq> []"
  by (simp add: push_mixer_if_changed_def Let_def)

lemma publish_connection_watching:
  assumes "bm_get (mgr_connections m) cid = Some conn"
    and "bm_get (conn_watches conn) (obs_section_key obs) = Some s"
    and "publish_connection E obs now t cid m = (Ok ds, m1)"
  obtains d where "ds = [d]" "d_connection_id d = cid" "delivered E obs now t m m1 d"
    "\<And>c. c \<noteq> cid \<Longrightarrow> bm_get (mgr_connections m1) c = bm_get (mgr_connections m) c"
    "mgr_observation_cursors m1 = mgr_observation_cursors m"
proof -
  obtain i' s' ev where p: "publish_session E obs now (mgr_ids m) s = Ok (i', s', ev)"
    using assms
    by (cases "publish_session E obs now (mgr_ids m) s") (auto simp: publish_connection_def command_simps)
  have ne: "ev \<noteq> []"
    using publish_session_events [OF p] by auto
  let ?d = "\<lparr>d_connection_id = cid, d_emitted_at = t,
      d_events = push_mixer_if_changed (put_watch (obs_section_key obs) s' conn)
                   (active_episode_ids conn) NoUnacknowledgedEpisodes ev\<rparr>"
  have eq: "ds = [?d]" "m1 = (put_connection cid (put_watch (obs_section_key obs) s' conn) m)\<lparr>mgr_ids := i'\<rparr>"
    using assms p push_mixer_nonempty [OF ne] by (auto simp: publish_connection_def command_simps)
  show ?thesis
  proof (rule that)
    show "delivered E obs now t m m1 ?d"
      unfolding delivered_def using assms(1,2) p by (simp add: eq(2)) blast
  qed (simp_all add: eq)
qed

lemma publish_loop_delivers:
  assumes "publish_loop E obs now t cids acc m = (Ok ds, m')" "distinct cids"
    and "\<And>c. c \<in> set cids \<Longrightarrow> \<exists>conn s. bm_get (mgr_connections m) c = Some conn
            \<and> bm_get (conn_watches conn) (obs_section_key obs) = Some s"
  shows "\<exists>ds'. ds = acc @ ds' \<and> map d_connection_id ds' = cids \<and> (\<forall>d \<in> set ds'. delivered E obs now t m m' d)
     \<and> (\<forall>c. c \<notin> set cids \<longrightarrow> bm_get (mgr_connections m') c = bm_get (mgr_connections m) c)
     \<and> mgr_observation_cursors m' = mgr_observation_cursors m"
  using assms
proof (induction cids arbitrary: acc m)
  case (Cons cid cids)
  obtain conn s where w: "bm_get (mgr_connections m) cid = Some conn"
    "bm_get (conn_watches conn) (obs_section_key obs) = Some s"
    using Cons.prems(3) [of cid] by auto
  obtain ds1 m1 where step: "publish_connection E obs now t cid m = (Ok ds1, m1)"
    and rest: "publish_loop E obs now t cids (acc @ ds1) m1 = (Ok ds, m')"
    using Cons.prems(1) by (auto split: prod.splits core_result.splits)
  obtain d where d: "ds1 = [d]" "d_connection_id d = cid" "delivered E obs now t m m1 d"
    and frame: "\<And>c. c \<noteq> cid \<Longrightarrow> bm_get (mgr_connections m1) c = bm_get (mgr_connections m) c"
    and cursors: "mgr_observation_cursors m1 = mgr_observation_cursors m"
    by (rule publish_connection_watching [OF w step]) blast
  have fresh: "cid \<notin> set cids" "distinct cids"
    using Cons.prems(2) by auto
  have "\<exists>conn s. bm_get (mgr_connections m1) c = Some conn
      \<and> bm_get (conn_watches conn) (obs_section_key obs) = Some s" if "c \<in> set cids" for c
  proof -
    have "c \<noteq> cid"
      using that fresh by auto
    then show ?thesis
      using Cons.prems(3) [of c] frame [of c] that by simp
  qed
  from Cons.IH [OF rest fresh(2) this] obtain ds' where
    ih: "ds = (acc @ ds1) @ ds'" "map d_connection_id ds' = cids" "\<forall>d \<in> set ds'. delivered E obs now t m1 m' d"
      "\<forall>c. c \<notin> set cids \<longrightarrow> bm_get (mgr_connections m') c = bm_get (mgr_connections m1) c"
      "mgr_observation_cursors m' = mgr_observation_cursors m1"
    by auto
  have "delivered E obs now t m m' d"
    using d(2,3) ih(4) fresh(1) by (simp add: delivered_def)
  moreover have "delivered E obs now t m m' x" if "x \<in> set ds'" for x
  proof -
    have "d_connection_id x \<noteq> cid"
      using ih(2) that fresh(1) by (metis imageI set_map)
    then show ?thesis
      using ih(3) that delivered_cong [OF frame [of "d_connection_id x"] refl] by blast
  qed
  ultimately show ?case
    using ih d(1,2) frame cursors by (intro exI [of _ "d # ds'"]) auto
qed simp

lemma indexed_keys:
  assumes "wf_manager m"
  shows "set (case bm_get (mgr_connections_by_section m) sec of None \<Rightarrow> [] | Some b \<Rightarrow> bm_keys b) = watchers m sec"
  using wf_managerD(1) [OF assms, of sec] by (simp add: indexed_def bs_set_def split: option.splits)

definition index_list :: "('c, 'i) core_manager \<Rightarrow> section_key \<Rightarrow> trace_id list" where
  "index_list m sec = (case bm_get (mgr_connections_by_section m) sec of None \<Rightarrow> [] | Some b \<Rightarrow> bm_keys b)"

lemma index_list_sorted: "sorted_wrt (<) (index_list m sec)"
  by (simp add: index_list_def bm_keys_sorted split: option.splits)

lemma index_list_watchers:
  assumes "wf_manager m"
  shows "index_list m sec = sorted_list_of_set (watchers m sec)"
proof -
  have "set (index_list m sec) = watchers m sec"
    using indexed_keys [OF assms] by (simp add: index_list_def)
  then show ?thesis
    using index_list_sorted [of m sec] by (metis sorted_list_of_set.idem_if_sorted_distinct strict_sorted_iff)
qed

text \<open>An accepted publication, case by case: the watermark moves to the observation and every
  watching connection gets one dispatch.\<close>

lemma publish_Ok_cases:
  assumes wf: "wf_manager m" and ok: "publish E m obs = (Ok out, m')"
  obtains (replay) w where "m' = m" "out = \<lparr>po_dispatches = [], po_replayed = True\<rparr>"
      "bm_get (mgr_observation_cursors m) (obs_section_key obs) = Some w"
      "accepts (Some (wm_cursor w)) obs = Inr False"
      "wm_published w \<or> wm_cursor w \<noteq> observation_cursor_of obs"
  | (accepted) now t m1 where
      "m1 = (record_published_observation m (obs_section_key obs) (observation_cursor_of obs))"
      "map d_connection_id (po_dispatches out) = index_list m (obs_section_key obs)"
      "\<not> po_replayed out" "\<forall>d \<in> set (po_dispatches out). delivered E obs now t m m' d"
      "\<forall>c. c \<notin> watchers m (obs_section_key obs) \<longrightarrow> bm_get (mgr_connections m') c = bm_get (mgr_connections m) c"
      "mgr_observation_cursors m' = mgr_observation_cursors m1"
proof -
  let ?sec = "obs_section_key obs"
  let ?w = "bm_get (mgr_observation_cursors m) ?sec"
  let ?seeded = "case ?w of None \<Rightarrow> False | Some w \<Rightarrow> \<not> wm_published w \<and> wm_cursor w = observation_cursor_of obs"
  let ?m = "record_published_observation m ?sec (observation_cursor_of obs)"
  let ?m1 = "?m\<lparr>mgr_clock := snd (clock_now E (mgr_clock ?m))\<rparr>"
  let ?m2 = "?m1\<lparr>mgr_clock := snd (clock_wall_now E (mgr_clock ?m1))\<rparr>"
  let ?now = "fst (clock_now E (mgr_clock ?m))" and ?t = "fst (clock_wall_now E (mgr_clock ?m1))"
  obtain new where new: "accepts (map_option wm_cursor ?w) obs = Inr new"
    using ok by (cases "accepts (map_option wm_cursor ?w) obs") (auto simp: publish_def Let_def)
  have conns: "mgr_connections ?m = mgr_connections m"
    using same_core_record [of m ?sec "observation_cursor_of obs"] by (simp add: same_core_def)
  show ?thesis
  proof (cases "\<not> new \<and> \<not> ?seeded")
    case True
    have eq: "(Ok out, m') = (Ok \<lparr>po_dispatches = [], po_replayed = True\<rparr>, m)"
      using ok True unfolding publish_def Let_def new sum.case by simp
    show ?thesis
    proof (cases ?w)
      case None
      then show ?thesis
        using new True by (simp add: accepts_def cursor_accepts_def)
    next
      case (Some w)
      then show ?thesis
        using replay eq new True by auto
    qed
  next
    case False
    obtain u where chk: "publish_check m obs (index_list m ?sec) = Inr u"
      and run: "(if index_list m ?sec = [] then (Ok \<lparr>po_dispatches = [], po_replayed = False\<rparr>, ?m)
        else (case publish_loop E obs ?now ?t (index_list m ?sec) [] ?m2 of
            (Ok ds, m) \<Rightarrow> (Ok \<lparr>po_dispatches = ds, po_replayed = (ds = [])\<rparr>, m)
          | (Err e, m) \<Rightarrow> (Err e, m)
          | (Panic, m) \<Rightarrow> (Panic, m))) = (Ok out, m')"
      using ok False unfolding publish_def Let_def new sum.case index_list_def [symmetric] read_simps prod.case
      by (cases "publish_check m obs (index_list m ?sec)") (simp_all split del: if_split)
    show ?thesis
    proof (cases "index_list m ?sec = []")
      case True
      then show ?thesis
        using run conns accepted [OF refl] by auto
    next
      case ne: False
      then obtain ds where loop: "publish_loop E obs ?now ?t (index_list m ?sec) [] ?m2 = (Ok ds, m')"
        and out: "out = \<lparr>po_dispatches = ds, po_replayed = (ds = [])\<rparr>"
        using run by (auto split: prod.splits core_result.splits)
      have set: "set (index_list m ?sec) = watchers m ?sec"
        using indexed_keys [OF wf] by (simp add: index_list_def)
      have "\<exists>conn s. bm_get (mgr_connections ?m2) c = Some conn \<and> bm_get (conn_watches conn) ?sec = Some s"
        if "c \<in> set (index_list m ?sec)" for c
        using that unfolding set by (simp add: conns watchers_def)
      from publish_loop_delivers [OF loop _ this] index_list_sorted [of m ?sec]
      have l: "map d_connection_id ds = index_list m ?sec" "\<forall>d \<in> set ds. delivered E obs ?now ?t ?m2 m' d"
        "\<forall>c. c \<notin> set (index_list m ?sec) \<longrightarrow> bm_get (mgr_connections m') c = bm_get (mgr_connections ?m2) c"
        "mgr_observation_cursors m' = mgr_observation_cursors ?m2"
        by (auto simp: strict_sorted_iff)
      have "delivered E obs ?now ?t m m' d" if "d \<in> set ds" for d
        using l(2) that delivered_cong [of ?m2 d m m' m' E obs ?now ?t] by (simp add: conns)
      moreover have "ds \<noteq> []"
        using l(1) ne by auto
      ultimately show ?thesis
        by (intro accepted [OF refl, of ?now ?t]) (use out l set conns in simp_all)
    qed
  qed
qed

subsection \<open>Dispatches explain the alarm\<close>

definition updates :: "core_connection \<Rightarrow> core_connection \<Rightarrow> core_event list \<Rightarrow> bool" where
  "updates conn conn' ev \<longleftrightarrow>
     (plain ev \<and> active_episode_ids conn' = active_episode_ids conn)
     \<or> (\<exists>ev0 r. plain ev0 \<and> ev = push_mixer_if_changed conn' (active_episode_ids conn) r ev0)"

definition explains :: "('c, 'i) core_manager \<Rightarrow> ('c, 'i) core_manager \<Rightarrow> core_dispatch list \<Rightarrow> bool" where
  "explains m m' ds \<longleftrightarrow> distinct (map d_connection_id ds)
     \<and> (\<forall>d \<in> set ds. \<exists>conn conn'. bm_get (mgr_connections m) (d_connection_id d) = Some conn
          \<and> bm_get (mgr_connections m') (d_connection_id d) = Some conn' \<and> updates conn conn' (d_events d))
     \<and> (\<forall>cid conn conn'. cid \<notin> d_connection_id ` set ds
          \<longrightarrow> bm_get (mgr_connections m) cid = Some conn \<longrightarrow> bm_get (mgr_connections m') cid = Some conn'
          \<longrightarrow> active_episode_ids conn' = active_episode_ids conn)"

lemma updates_mixer: "plain ev \<Longrightarrow> updates conn conn' (push_mixer_if_changed conn' (active_episode_ids conn) r ev)"
  by (auto simp: updates_def)

lemma updates_plain: "plain ev \<Longrightarrow> active_episode_ids conn' = active_episode_ids conn \<Longrightarrow> updates conn conn' ev"
  by (simp add: updates_def)

definition explained :: "('c, 'i) core_manager \<Rightarrow> core_dispatch core_result \<times> ('c, 'i) core_manager \<Rightarrow> bool" where
  "explained m r \<longleftrightarrow> (case fst r of Ok d \<Rightarrow> explains m (snd r) [d] | _ \<Rightarrow> True)"

lemma explained_simps [simp]: "explained m (Err e, m')" "explained m (Panic, m')"
  by (simp_all add: explained_def)

lemma explained_reply:
  assumes "bm_get (mgr_connections m) cid = Some conn"
    and "mgr_connections m0 = mgr_connections m \<or> mgr_connections m0 = bm_remove cid (mgr_connections m)"
    and "updates conn conn' ev"
  shows "explained m (reply cid conn' t ev m0)"
  using assms by (auto simp: explained_def explains_def reply_def)

lemma explained_on_result: "explained m r \<Longrightarrow> on_result (\<lambda>d. [d]) r = (Ok ds, m') \<Longrightarrow> explains m m' ds"
  by (cases "fst r") (auto simp: explained_def on_result_def)

lemma explains_none: "mgr_connections m' = mgr_connections m \<Longrightarrow> explains m m' []"
  by (simp add: explains_def)

lemma active_ids_cong:
  assumes "map (\<lambda>s. (continuous_alarm_active s, map_option ep_id (ws_episode s))) (bm_values (conn_watches conn'))
         = map (\<lambda>s. (continuous_alarm_active s, map_option ep_id (ws_episode s))) (bm_values (conn_watches conn))"
  shows "active_episode_ids conn' = active_episode_ids conn"
proof -
  have "List.map_filter (\<lambda>w. map_option ep_id (ws_episode w)) (filter continuous_alarm_active xs) =
      List.map_filter id (map snd (filter fst (map (\<lambda>s. (continuous_alarm_active s, map_option ep_id (ws_episode s))) xs)))" for xs
    by (induction xs) (simp_all add: List.map_filter_def)
  then show ?thesis
    using assms by (simp only: active_episode_ids_def)
qed

lemma active_ids_put_watch:
  assumes "bm_get (conn_watches conn) sec = Some s0"
    and "continuous_alarm_active s = continuous_alarm_active s0"
    and "map_option ep_id (ws_episode s) = map_option ep_id (ws_episode s0)"
  shows "active_episode_ids (put_watch sec s conn) = active_episode_ids conn"
  by (rule active_ids_cong)
    (simp add: put_watch_def bm_values_update [OF assms(1), where f = "\<lambda>s. (continuous_alarm_active s, map_option ep_id (ws_episode s))"] assms(2,3))

lemma explained_acknowledge_episode: "explained m (acknowledge_episode E m cid eid)"
  by (auto simp: acknowledge_episode_def take_connection_def Let_def case_prod_beta explained_reply updates_mixer
      split: option.splits)

lemma plain_settle_watches: "plain (snd (snd (settle_watches E due st k t i conn)))"
proof -
  have "plain (concat (map (episode_event \<circ> f) xs))" for f :: "watch_session \<Rightarrow> watch_session" and xs
    by (induction xs) simp_all
  then show ?thesis
    by (simp add: settle_watches_def Let_def case_prod_beta)
qed

lemma explained_acknowledge_all: "explained m (acknowledge_all E m cid)"
  by (auto simp: acknowledge_all_def take_connection_def Let_def case_prod_beta explained_reply updates_mixer
      plain_settle_watches split: option.splits)

lemma explained_resume_episode: "explained m (resume_episode E m cid eid)"
  by (auto simp: resume_episode_def take_connection_def Let_def case_prod_beta explained_reply updates_mixer
      split: option.splits)

lemma explained_update_policy: "explained m (update_policy E m cid wid policy)"
  by (auto simp: update_policy_def take_connection_def Let_def case_prod_beta explained_reply updates_mixer
      split: option.splits)

lemma explained_stop_watch: "explained m (stop_watch E m cid wid)"
proof -
  have "plain (snd (snd (end_session E i s reason t cancel [])))" for i s reason t cancel
    by (rule extends_plain [OF extends_end_session]) simp
  then show ?thesis
    by (auto simp: stop_watch_def take_connection_def Let_def case_prod_beta explained_reply updates_mixer
        split: option.splits)
qed

lemma explained_dismiss_alert: "explained m (dismiss_alert E m cid aid)"
proof -
  have "active_episode_ids (put_watch sec (s\<lparr>ws_episode := Some (ep\<lparr>ep_alert_dismissed := True\<rparr>)\<rparr>) conn)
      = active_episode_ids conn"
    if "find_watch P conn = Some (sec, s)" "ws_episode s = Some ep" for P conn sec s ep
    by (rule active_ids_put_watch [OF conjunct1 [OF find_watch_Some [OF that(1)]]])
      (simp_all add: continuous_alarm_active_def that(2))
  then show ?thesis
    by (auto simp: dismiss_alert_def take_connection_def Let_def case_prod_beta explained_reply updates_plain
        split: option.splits)
qed

lemma drive_one_shot_keeps:
  "ws_episode (fst (drive_one_shot s ev)) = ws_episode s"
  "ws_policy (fst (drive_one_shot s ev)) = ws_policy s"
  "plain ev \<Longrightarrow> plain (snd (drive_one_shot s ev))"
proof -
  have capped: "plain (map (\<lambda>cue. one_shot_event s (cue_observation_id cue) None SilentCap) q)"
    if "pol_max_audible (ws_policy s) \<le> ws_audible_count s" for q
    using that by (auto simp: plain_def)
  show "plain (snd (drive_one_shot s ev))" if "plain ev"
    using that capped by (auto simp: drive_one_shot_def request_cue_def Let_def split: list.splits)
qed (auto simp: drive_one_shot_def request_cue_def Let_def split: list.splits)

lemma active_ids_drive:
  assumes "bm_get (conn_watches conn) sec = Some s0" "ws_policy s = ws_policy s0"
    and "map_option ep_id (ws_episode s) = map_option ep_id (ws_episode s0)"
    and "map_option ep_state (ws_episode s) = map_option ep_state (ws_episode s0)"
  shows "active_episode_ids (put_watch sec (fst (drive_one_shot s ev)) conn) = active_episode_ids conn"
proof (rule active_ids_put_watch [OF assms(1)])
  show "continuous_alarm_active (fst (drive_one_shot s ev)) = continuous_alarm_active s0"
    using assms(2,4) by (cases "ws_episode s"; cases "ws_episode s0")
      (simp_all add: continuous_alarm_active_def drive_one_shot_keeps)
qed (simp add: drive_one_shot_keeps assms(3))

lemma explained_reset_audible_count: "explained m (reset_audible_count E m cid wid)"
proof -
  have "active_episode_ids (put_watch sec (fst (drive_one_shot
        (update_episode (\<lambda>ep. ep\<lparr>ep_audible_count := 0\<rparr>) (s\<lparr>ws_audible_count := 0\<rparr>)) ev)) conn)
      = active_episode_ids conn" if "find_watch P conn = Some (sec, s)" for P conn sec s ev
    by (rule active_ids_drive [OF conjunct1 [OF find_watch_Some [OF that]]])
      (simp_all add: update_episode_def option.map_comp comp_def)
  then show ?thesis
    by (auto simp: reset_audible_count_def take_connection_def Let_def case_prod_beta explained_reply
        updates_plain drive_one_shot_keeps split: option.splits)
qed

lemma explained_report_cue_outcome: "explained m (report_cue_outcome E m cid cue outcome)"
proof -
  have "active_episode_ids (put_watch sec (fst (drive_one_shot (count_cue outcome (s\<lparr>ws_active_cue := None\<rparr>)) ev)) conn)
      = active_episode_ids conn" if "bm_get (conn_watches conn) sec = Some s" for conn sec s ev
    by (rule active_ids_drive [OF that])
      (simp_all add: count_cue_def update_episode_def option.map_comp comp_def)
  then show ?thesis
    by (auto simp: report_cue_outcome_def take_connection_def Let_def case_prod_beta explained_reply
        updates_plain drive_one_shot_keeps split: option.splits)
qed

lemma plain_initial_episode:
  assumes "initial_episode E i s st now ev = Some (i', s', ev')" "plain ev"
  shows "plain ev'"
proof (cases st)
  case (InitOpen oid at)
  obtain i1 s1 ev1 where o: "open_episode E i s oid at now ev = (i1, s1, ev1)"
    by (metis surj_pair)
  then have ev1: "plain ev1"
    using extends_plain [OF extends_open_episode assms(2)] by (metis snd_conv)
  show ?thesis
  proof (cases "pol_mode (ws_policy s1) = OneShot")
    case True
    then have "queue_one_shot E i1 s1 oid ev1 = Some (i', s', ev')"
      using assms(1) o InitOpen by (simp add: initial_episode_def)
    then show ?thesis
      by (rule extends_plain [OF extends_queue_one_shot ev1])
  next
    case False
    then show ?thesis
      using assms(1) o InitOpen ev1 by (simp add: initial_episode_def)
  qed
qed (use assms in \<open>simp_all add: initial_episode_def\<close>)

lemma plain_start_result [simp]: "plain_event (start_result_event sec d w)"
  by (simp add: start_result_event_def)

lemma plain_start_admitted:
  assumes "start_admitted E cid now t spec st cursor m conn ev = Some (m', conn', ev')" "plain ev"
  shows "plain ev'"
proof (cases rule: start_admitted_cases [where conn = conn and spec = spec and m = m and E = E and cid = cid
      and now = now and t = t and st = st and cursor = cursor and ev = ev])
  case limit
  then show ?thesis
    using assms by simp
next
  case (restart prev i wid s ev1 i' i0 s0 ev0 j i2 ev2)
  have "plain ev0"
    using extends_plain [OF extends_end_session assms(2)] restart(5) by (metis snd_conv)
  then have "plain ev2"
    using plain_push_action restart(6) by (metis plain_simps plain_start_result snd_conv)
  then show ?thesis
    using plain_initial_episode [OF restart(7)] restart(8) assms(1) by simp
next
  case (started i wid s ev1 i' j i2 ev2)
  have "plain ev2"
    using plain_push_action assms(2) started(6) by (metis plain_simps plain_start_result snd_conv)
  then show ?thesis
    using plain_initial_episode [OF started(7)] started(8) assms(1) by simp
qed

lemma plain_start_one:
  assumes "start_one E cid now t spec m conn ev = Some (m', conn', ev')" "plain ev"
  shows "plain ev'"
  using assms by (cases "spec_admission spec") (auto simp: start_one_def dest: plain_start_admitted)

lemma plain_start_loop:
  "start_loop E cid now t specs seen m conn ev = Some (m', conn', ev') \<Longrightarrow> plain ev \<Longrightarrow> plain ev'"
proof (induction specs arbitrary: seen m conn ev)
  case (Cons spec specs)
  show ?case
  proof (cases "bm_contains seen (spec_section spec)")
    case True
    then show ?thesis
      using Cons.IH [of seen m conn "ev @ [start_result_event (spec_section spec) RejectedDuplicate None]"] Cons.prems
      by simp
  next
    case False
    obtain m1 conn1 ev1 where one: "start_one E cid now t spec m conn ev = Some (m1, conn1, ev1)"
      and rest: "start_loop E cid now t specs (bs_insert (spec_section spec) seen) m1 conn1 ev1 = Some (m', conn', ev')"
      using Cons.prems(1) False by (auto split: option.splits)
    show ?thesis
      by (rule Cons.IH [OF rest plain_start_one [OF one Cons.prems(2)]])
  qed
qed simp

lemma start_admitted_connections:
  assumes "start_admitted E cid now t spec st cursor m conn ev = Some (m', conn', ev')"
  shows "mgr_connections m' = mgr_connections m"
proof (cases rule: start_admitted_cases [where conn = conn and spec = spec and m = m and E = E and cid = cid
      and now = now and t = t and st = st and cursor = cursor and ev = ev])
qed (use assms in auto)

lemma start_one_connections:
  assumes "start_one E cid now t spec m conn ev = Some (m', conn', ev')"
  shows "mgr_connections m' = mgr_connections m"
  using assms by (cases "spec_admission spec") (auto simp: start_one_def dest: start_admitted_connections)

lemma start_loop_connections:
  "start_loop E cid now t specs seen m conn ev = Some (m', conn', ev') \<Longrightarrow> mgr_connections m' = mgr_connections m"
  by (induction specs arbitrary: seen m conn ev)
    (auto split: if_splits option.splits dest: start_one_connections)

definition replays_start :: "('c, 'i) core_manager \<Rightarrow> trace_id \<Rightarrow> trace_id \<Rightarrow> bool" where
  "replays_start m cid mid \<longleftrightarrow>
     (\<exists>conn. bm_get (mgr_connections m) cid = Some conn \<and> bm_get (conn_start_replays conn) mid \<noteq> None)"

lemma active_ids_watches: "conn_watches conn' = conn_watches conn \<Longrightarrow> active_episode_ids conn' = active_episode_ids conn"
  by (simp add: active_episode_ids_def)

lemma start_Ok_cases:
  assumes "start E m cid mid specs = (Ok out, m')" "\<not> replays_start m cid mid"
  obtains conn conn' ev t m0 now m0' c where
    "bm_get (mgr_connections m) cid = Some conn" "\<not> so_replayed out"
    "m0 = (drop_connection cid m)\<lparr>mgr_clock := c\<rparr>"
    "start_loop E cid now t specs bm_empty m0 (conn\<lparr>conn_last_touch := now\<rparr>) [] = Some (m0', conn', ev)"
    "so_dispatch out = \<lparr>d_connection_id = cid, d_emitted_at = t,
       d_events = push_mixer_if_changed conn' (active_episode_ids conn) NoUnacknowledgedEpisodes ev\<rparr>"
    "so_active_watch_count out = of_nat (bm_len (conn_watches conn'))"
    "mgr_connections m' = bm_insert cid
       (remember_start mid (so_dispatch out) (so_active_watch_count out) conn') (mgr_connections m)"
proof -
  obtain conn where conn: "bm_get (mgr_connections m) cid = Some conn"
    using assms(1) by (cases "bm_get (mgr_connections m) cid") (simp_all add: start_def take_connection_def)
  have new: "bm_get (conn_start_replays conn) mid = None"
    using assms(2) conn unfolding replays_start_def by blast
  let ?now = "fst (clock_now E (mgr_clock m))" and ?c = "snd (clock_now E (mgr_clock m))"
  let ?t = "fst (clock_wall_now E ?c)"
  let ?m = "(drop_connection cid m)\<lparr>mgr_clock := snd (clock_wall_now E ?c)\<rparr>"
  let ?conn = "conn\<lparr>conn_last_touch := ?now\<rparr>"
  have active: "active_episode_ids ?conn = active_episode_ids conn"
    by (rule active_ids_watches) simp
  obtain u where valid: "validate_initial_watermarks ((drop_connection cid m)\<lparr>mgr_clock := ?c\<rparr>) specs = Inr u"
    using assms(1) conn new
    by (cases "validate_initial_watermarks ((drop_connection cid m)\<lparr>mgr_clock := ?c\<rparr>) specs")
      (simp_all add: start_def take_connection_def)
  obtain m1 conn1 ev where loop: "start_loop E cid ?now ?t specs bm_empty ?m ?conn [] = Some (m1, conn1, ev)"
    using assms(1) conn new valid
    by (cases "start_loop E cid ?now ?t specs bm_empty ?m ?conn []")
      (auto simp: start_def take_connection_def Let_def)
  have len: "\<not> 255 < bm_len (conn_watches conn1)"
    using assms(1) conn new valid loop by (auto simp: start_def take_connection_def Let_def)
  note conns = start_loop_connections [OF loop]
  show ?thesis
    by (rule that [OF conn _ refl loop])
      (use assms(1) conn new valid loop len conns in
        \<open>auto simp: start_def take_connection_def Let_def active\<close>)
qed

lemma explained_start:
  assumes "on_result (\<lambda>out. [so_dispatch out]) (start E m cid mid specs) = (Ok ds, m')"
    and "\<not> replays_start m cid mid"
  shows "explains m m' ds"
proof -
  obtain out where start: "start E m cid mid specs = (Ok out, m')" and ds: "ds = [so_dispatch out]"
    using assms(1) by (cases "start E m cid mid specs"; cases "fst (start E m cid mid specs)")
      (auto simp: on_result_def)
  obtain conn conn' ev t m0 now m0' where s: "bm_get (mgr_connections m) cid = Some conn"
    "start_loop E cid now t specs bm_empty m0 (conn\<lparr>conn_last_touch := now\<rparr>) [] = Some (m0', conn', ev)"
    "so_dispatch out = \<lparr>d_connection_id = cid, d_emitted_at = t,
       d_events = push_mixer_if_changed conn' (active_episode_ids conn) NoUnacknowledgedEpisodes ev\<rparr>"
    "mgr_connections m' = bm_insert cid
       (remember_start mid (so_dispatch out) (so_active_watch_count out) conn') (mgr_connections m)"
    using start_Ok_cases [OF start assms(2)] by metis
  let ?r = "remember_start mid (so_dispatch out) (so_active_watch_count out) conn'"
  have watches: "conn_watches ?r = conn_watches conn'"
    by (simp add: remember_start_def Let_def split: list.splits)
  have "d_events (so_dispatch out) = push_mixer_if_changed conn' (active_episode_ids conn) NoUnacknowledgedEpisodes ev"
    by (simp add: s(3))
  also have "\<dots> = push_mixer_if_changed ?r (active_episode_ids conn) NoUnacknowledgedEpisodes ev"
    unfolding push_mixer_if_changed_def active_ids_watches [OF watches] ..
  finally have events: "d_events (so_dispatch out)
      = push_mixer_if_changed ?r (active_episode_ids conn) NoUnacknowledgedEpisodes ev" .
  have "plain ev"
    by (rule plain_start_loop [OF s(2)]) simp
  then have "updates conn ?r (d_events (so_dispatch out))"
    unfolding events by (rule updates_mixer)
  moreover have "d_connection_id (so_dispatch out) = cid"
    by (simp add: s(3))
  ultimately show ?thesis
    using s(1,4) by (simp add: explains_def ds)
qed

lemma delivered_updates:
  assumes "delivered E obs now t m m' d"
  shows "\<exists>conn conn'. bm_get (mgr_connections m) (d_connection_id d) = Some conn
      \<and> bm_get (mgr_connections m') (d_connection_id d) = Some conn' \<and> updates conn conn' (d_events d)"
  using assms publish_session_events updates_mixer unfolding delivered_def by (metis plain_event.simps(5) plain_simps(2))

lemma explains_publish:
  assumes "wf_manager m" "publish E m obs = (Ok out, m')"
  shows "explains m m' (po_dispatches out)"
  using assms
proof (cases rule: publish_Ok_cases)
  case (replay w)
  then show ?thesis
    by (simp add: explains_none)
next
  case (accepted now t m1)
  have "distinct (map d_connection_id (po_dispatches out))"
    using accepted(2) index_list_sorted by (metis strict_sorted_iff)
  moreover have "d_connection_id ` set (po_dispatches out) = watchers m (obs_section_key obs)"
    using accepted(2) indexed_keys [OF assms(1)] unfolding index_list_def [symmetric] by (metis set_map)
  ultimately show ?thesis
    using accepted(4,5) delivered_updates by (auto simp: explains_def) fastforce
qed

lemma explains_append:
  assumes "explains m m1 ds1" "explains m1 m2 ds2"
    and "\<And>c. c \<notin> A \<Longrightarrow> bm_get (mgr_connections m1) c = bm_get (mgr_connections m) c"
    and "\<And>c. c \<notin> B \<Longrightarrow> bm_get (mgr_connections m2) c = bm_get (mgr_connections m1) c"
    and "A \<inter> B = {}" "d_connection_id ` set ds1 \<subseteq> A" "d_connection_id ` set ds2 \<subseteq> B"
  shows "explains m m2 (ds1 @ ds2)"
  unfolding explains_def
proof (intro conjI ballI allI impI)
  show "distinct (map d_connection_id (ds1 @ ds2))"
    using assms(1,2,5-7) by (auto simp: explains_def)
  fix d assume d: "d \<in> set (ds1 @ ds2)"
  then show "\<exists>conn conn'. bm_get (mgr_connections m) (d_connection_id d) = Some conn
      \<and> bm_get (mgr_connections m2) (d_connection_id d) = Some conn' \<and> updates conn conn' (d_events d)"
  proof (cases "d \<in> set ds1")
    case True
    then have "d_connection_id d \<notin> B"
      using assms(5,6) by auto
    then show ?thesis
      using assms(1) assms(4) [of "d_connection_id d"] True by (simp add: explains_def)
  next
    case False
    then have "d_connection_id d \<notin> A" "d \<in> set ds2"
      using d assms(5,7) by auto
    then show ?thesis
      using assms(2) assms(3) [of "d_connection_id d"] unfolding explains_def by metis
  qed
next
  fix cid conn conn2
  assume out: "cid \<notin> d_connection_id ` set (ds1 @ ds2)"
    and get: "bm_get (mgr_connections m) cid = Some conn" "bm_get (mgr_connections m2) cid = Some conn2"
  show "active_episode_ids conn2 = active_episode_ids conn"
  proof (cases "cid \<in> A")
    case True
    then have "cid \<notin> B"
      using assms(5) by auto
    then have "bm_get (mgr_connections m1) cid = Some conn2"
      using assms(4) [of cid] get by simp
    then show ?thesis
      using assms(1) out get by (auto simp: explains_def)
  next
    case False
    then have "bm_get (mgr_connections m1) cid = Some conn"
      using assms(3) get by simp
    then show ?thesis
      using assms(2) out get by (auto simp: explains_def)
  qed
qed

definition settled_connection :: "watch_instant \<Rightarrow> offset_date_time \<Rightarrow> core_connection \<Rightarrow> core_connection" where
  "settled_connection now t conn =
     conn\<lparr>conn_watches := bm_map (settle_session (alarm_overdue now) TimedOut t) (conn_watches conn)\<rparr>"

lemma tick_connection_get:
  "bm_get (mgr_connections (snd (tick_connection E now t cid m))) c =
     (if c = cid then map_option (settled_connection now t) (bm_get (mgr_connections m) cid)
      else bm_get (mgr_connections m) c)"
  by (simp add: tick_connection_eq settled_connection_def split: option.splits)

lemma explains_tick_connection: "explains m (snd (tick_connection E now t cid m)) (fst (tick_connection E now t cid m))"
proof (cases "bm_get (mgr_connections m) cid")
  case None
  then show ?thesis
    by (simp add: tick_connection_def take_connection_def explains_none)
next
  case (Some conn)
  let ?r = "settle_watches E (alarm_overdue now) TimedOut ActEpisodeTimedOut t (mgr_ids m) conn"
  let ?ev = "push_mixer_if_changed (fst (snd ?r)) (active_episode_ids conn) NoUnacknowledgedEpisodes (snd (snd ?r))"
  have ds: "fst (tick_connection E now t cid m) =
      (if ?ev = [] then [] else [\<lparr>d_connection_id = cid, d_emitted_at = t, d_events = ?ev\<rparr>])"
    "mgr_connections (snd (tick_connection E now t cid m)) = bm_insert cid (fst (snd ?r)) (mgr_connections m)"
    using Some by (simp_all add: tick_connection_def command_simps)
  have "active_episode_ids (fst (snd ?r)) = active_episode_ids conn" if "?ev = []"
    using that by (simp add: push_mixer_if_changed_def Let_def split: if_splits)
  moreover have "updates conn (fst (snd ?r)) ?ev"
    by (rule updates_mixer [OF plain_settle_watches])
  ultimately show ?thesis
    using Some by (auto simp: explains_def ds)
qed

lemma tick_loop_explains:
  assumes "distinct cids"
  shows "explains m (snd (tick_loop E now t cids m)) (fst (tick_loop E now t cids m))
    \<and> d_connection_id ` set (fst (tick_loop E now t cids m)) \<subseteq> set cids
    \<and> (\<forall>c. bm_get (mgr_connections (snd (tick_loop E now t cids m))) c =
          (if c \<in> set cids then map_option (settled_connection now t) (bm_get (mgr_connections m) c)
           else bm_get (mgr_connections m) c))"
  using assms
proof (induction cids arbitrary: m)
  case (Cons cid cids)
  let ?m1 = "snd (tick_connection E now t cid m)" and ?ds1 = "fst (tick_connection E now t cid m)"
  let ?m2 = "snd (tick_loop E now t cids ?m1)" and ?ds2 = "fst (tick_loop E now t cids ?m1)"
  have eq: "fst (tick_loop E now t (cid # cids) m) = ?ds1 @ ?ds2" "snd (tick_loop E now t (cid # cids) m) = ?m2"
    by (simp_all add: case_prod_beta)
  have ih: "explains ?m1 ?m2 ?ds2" "d_connection_id ` set ?ds2 \<subseteq> set cids"
    "\<And>c. bm_get (mgr_connections ?m2) c =
          (if c \<in> set cids then map_option (settled_connection now t) (bm_get (mgr_connections ?m1) c)
           else bm_get (mgr_connections ?m1) c)"
    using Cons.IH [of ?m1] Cons.prems by simp_all
  have ds1: "d_connection_id ` set ?ds1 \<subseteq> {cid}"
    by (auto simp: tick_connection_def Let_def case_prod_beta split: option.splits if_splits)
  have "explains m ?m2 (?ds1 @ ?ds2)"
    by (rule explains_append [OF explains_tick_connection ih(1) _ _ _ ds1 ih(2)])
      (use Cons.prems ih(3) in \<open>auto simp: tick_connection_get\<close>)
  then show ?case
    unfolding eq using ds1 ih(2) Cons.prems
    by (auto simp: ih(3) tick_connection_get)
qed (simp add: explains_none)

lemma explains_subset:
  assumes "explains m m' ds"
    and "\<And>c conn. bm_get (mgr_connections m) c = Some conn \<Longrightarrow> bm_get (mgr_connections m0) c = Some conn"
    and "\<And>c conn. bm_get (mgr_connections m') c = Some conn \<Longrightarrow> bm_get (mgr_connections m) c \<noteq> None"
  shows "explains m0 m' ds"
  unfolding explains_def
proof (intro conjI ballI allI impI)
  show "distinct (map d_connection_id ds)"
    using assms(1) by (simp add: explains_def)
  fix d assume "d \<in> set ds"
  then show "\<exists>conn conn'. bm_get (mgr_connections m0) (d_connection_id d) = Some conn
      \<and> bm_get (mgr_connections m') (d_connection_id d) = Some conn' \<and> updates conn conn' (d_events d)"
    using assms(1,2) unfolding explains_def by blast
next
  fix cid conn conn'
  assume *: "cid \<notin> d_connection_id ` set ds" "bm_get (mgr_connections m0) cid = Some conn"
    "bm_get (mgr_connections m') cid = Some conn'"
  from assms(3) [OF *(3)] obtain k where k: "bm_get (mgr_connections m) cid = Some k"
    by blast
  then have "k = conn"
    using assms(2) [OF k] *(2) by simp
  then show "active_episode_ids conn' = active_episode_ids conn"
    using assms(1) * k unfolding explains_def by blast
qed

definition expired_at :: "('c, 'i) watch_env \<Rightarrow> ('c, 'i) core_manager \<Rightarrow> trace_id list" where
  "expired_at E m = map fst (filter (\<lambda>(cid, conn).
     heartbeat_expired (fst (clock_now E (mgr_clock m))) (mgr_heartbeat_timeout m) conn) (bm_entries (mgr_connections m)))"

lemma tick_unfold:
  obtains m1 where "m1 = snd (cleanup_all E CleanupHeartbeatExpired (expired_at E m)
      (m\<lparr>mgr_clock := snd (clock_wall_now E (snd (clock_now E (mgr_clock m))))\<rparr>))"
    "to_dispatches (fst (tick E m)) = fst (tick_loop E (fst (clock_now E (mgr_clock m)))
       (fst (clock_wall_now E (snd (clock_now E (mgr_clock m))))) (bm_keys (mgr_connections m1)) m1)"
    "snd (tick E m) = snd (tick_loop E (fst (clock_now E (mgr_clock m)))
       (fst (clock_wall_now E (snd (clock_now E (mgr_clock m))))) (bm_keys (mgr_connections m1)) m1)"
    "to_expired_connections (fst (tick E m)) = fst (cleanup_all E CleanupHeartbeatExpired (expired_at E m)
      (m\<lparr>mgr_clock := snd (clock_wall_now E (snd (clock_now E (mgr_clock m))))\<rparr>))"
  by (rule that [OF refl]) (simp_all add: tick_def Let_def case_prod_beta expired_at_def)

lemma tick_get:
  "bm_get (mgr_connections (snd (tick E m))) c =
     (if c \<in> set (expired_at E m) then None
      else map_option (settled_connection (fst (clock_now E (mgr_clock m)))
             (fst (clock_wall_now E (snd (clock_now E (mgr_clock m)))))) (bm_get (mgr_connections m) c))"
proof -
  obtain m1 where m1: "m1 = snd (cleanup_all E CleanupHeartbeatExpired (expired_at E m)
      (m\<lparr>mgr_clock := snd (clock_wall_now E (snd (clock_now E (mgr_clock m))))\<rparr>))"
    "snd (tick E m) = snd (tick_loop E (fst (clock_now E (mgr_clock m)))
       (fst (clock_wall_now E (snd (clock_now E (mgr_clock m))))) (bm_keys (mgr_connections m1)) m1)"
    by (rule tick_unfold [of E m]) blast
  have "bm_get (mgr_connections m1) c = (if c \<in> set (expired_at E m) then None else bm_get (mgr_connections m) c)"
    unfolding m1(1) cleanup_all_get by simp
  moreover have "bm_get (mgr_connections (snd (tick E m))) c =
      map_option (settled_connection (fst (clock_now E (mgr_clock m)))
        (fst (clock_wall_now E (snd (clock_now E (mgr_clock m)))))) (bm_get (mgr_connections m1) c)"
    unfolding m1(2)
    using tick_loop_explains [OF bm_keys_distinct [of "mgr_connections m1"], of m1 E
        "fst (clock_now E (mgr_clock m))" "fst (clock_wall_now E (snd (clock_now E (mgr_clock m))))"]
    by (simp add: in_bm_keys)
  ultimately show ?thesis
    by simp
qed

lemma explains_tick: "explains m (snd (tick E m)) (to_dispatches (fst (tick E m)))"
proof -
  obtain m1 where m1: "m1 = snd (cleanup_all E CleanupHeartbeatExpired (expired_at E m)
      (m\<lparr>mgr_clock := snd (clock_wall_now E (snd (clock_now E (mgr_clock m))))\<rparr>))"
    "to_dispatches (fst (tick E m)) = fst (tick_loop E (fst (clock_now E (mgr_clock m)))
       (fst (clock_wall_now E (snd (clock_now E (mgr_clock m))))) (bm_keys (mgr_connections m1)) m1)"
    "snd (tick E m) = snd (tick_loop E (fst (clock_now E (mgr_clock m)))
       (fst (clock_wall_now E (snd (clock_now E (mgr_clock m))))) (bm_keys (mgr_connections m1)) m1)"
    by (rule tick_unfold [of E m]) blast
  note t = tick_loop_explains [OF bm_keys_distinct [of "mgr_connections m1"], of m1 E
        "fst (clock_now E (mgr_clock m))" "fst (clock_wall_now E (snd (clock_now E (mgr_clock m))))"]
  show ?thesis
    unfolding m1(2,3)
  proof (rule explains_subset [OF conjunct1 [OF t]])
    show "bm_get (mgr_connections m) c = Some conn" if "bm_get (mgr_connections m1) c = Some conn" for c conn
      using that unfolding m1(1) cleanup_all_get by (simp split: if_splits)
    show "bm_get (mgr_connections m1) c \<noteq> None"
      if "bm_get (mgr_connections (snd (tick_loop E (fst (clock_now E (mgr_clock m)))
        (fst (clock_wall_now E (snd (clock_now E (mgr_clock m))))) (bm_keys (mgr_connections m1)) m1))) c = Some conn" for c conn
      using that t by (cases "bm_get (mgr_connections m1) c") (simp_all add: in_bm_keys)
  qed
qed

end
