(* ===== verification/Watch_Guarantees.thy ===== *)
theory Watch_Guarantees
  imports Watch_Properties
begin

text \<open>
  The guarantees of the watch manager, over every manager that a sequence of operations can
  reach: its invariant, the absence of panics, and what publication, start, clean-up, ticks and
  shutdown do.  Each property carries its witness on a concrete manager.
\<close>

subsection \<open>Clients mirror the alarm mixer\<close>

fun mixer_view :: "trace_id list \<Rightarrow> core_event list \<Rightarrow> trace_id list" where
  "mixer_view ids [] = ids"
| "mixer_view ids (EvAudio (AudioContinuousMixer active ids' reason) # ev) = mixer_view ids' ev"
| "mixer_view ids (e # ev) = mixer_view ids ev"

definition events_for :: "trace_id \<Rightarrow> core_dispatch list \<Rightarrow> core_event list" where
  "events_for cid ds = concat (map d_events (filter (\<lambda>d. d_connection_id d = cid) ds))"

definition replays_command :: "('c, 'i) core_manager \<Rightarrow> command \<Rightarrow> bool" where
  "replays_command m c \<longleftrightarrow> (case c of CmdStart cid mid _ \<Rightarrow> replays_start m cid mid | _ \<Rightarrow> False)"

lemma mixer_view_append: "mixer_view ids (ev @ ev') = mixer_view (mixer_view ids ev) ev'"
  by (induction ids ev rule: mixer_view.induct) simp_all

lemma mixer_view_plain: "plain ev \<Longrightarrow> mixer_view ids ev = ids"
  by (induction ids ev rule: mixer_view.induct) simp_all

lemma mixer_view_updates:
  assumes "updates conn conn' ev"
  shows "mixer_view (active_episode_ids conn) ev = active_episode_ids conn'"
  using assms
  by (auto simp: updates_def mixer_view_plain push_mixer_if_changed_def Let_def mixer_view_append)

lemma explains_quiet:
  assumes "\<And>cid conn conn'. bm_get (mgr_connections m) cid = Some conn
      \<Longrightarrow> bm_get (mgr_connections m') cid = Some conn' \<Longrightarrow> active_episode_ids conn' = active_episode_ids conn"
  shows "explains m m' []"
  using assms by (simp add: explains_def)

lemma explains_connect: "explains m (snd (connect E m cid)) []"
  by (rule explains_quiet) (auto simp: connect_def bm_contains_def split: if_splits)

lemma explains_touch: "explains m (snd (touch E m cid)) []"
  by (rule explains_quiet) (auto simp: touch_def active_episode_ids_def split: if_splits option.splits)

lemma explains_cleanup: "explains m (snd (cleanup E m cid reason)) []"
  by (rule explains_quiet) (auto simp: cleanup_connections split: if_splits)

lemma explains_process_stop: "explains m (snd (process_stop E m)) []"
  by (rule explains_quiet) (auto simp: process_stop_def cleanup_all_get in_bm_keys split: if_splits)

lemma on_result_unit: "on_result (\<lambda>_. []) r = (Ok ds, m') \<Longrightarrow> ds = [] \<and> m' = snd r"
  by (cases "fst r") (auto simp: on_result_def)

lemma explains_execute:
  assumes "wf_manager m" "execute E m c = (Ok ds, m')" "\<not> replays_command m c"
  shows "explains m m' ds"
proof (cases c)
  case (CmdStart cid mid specs)
  then show ?thesis
    using assms(2,3) explained_start [of E m cid mid specs ds m'] by (simp add: replays_command_def)
next
  case (CmdPublish obs)
  then obtain out where "publish E m obs = (Ok out, m')" "ds = po_dispatches out"
    using assms(2) by (cases "publish E m obs"; cases "fst (publish E m obs)") (auto simp: on_result_def)
  then show ?thesis
    using explains_publish [OF assms(1)] by simp
next
  case (CmdConnect cid)
  then show ?thesis
    using assms(2) on_result_unit explains_connect by fastforce
next
  case (CmdTouch cid)
  then show ?thesis
    using assms(2) on_result_unit explains_touch by fastforce
next
  case (CmdDisconnect cid)
  then show ?thesis
    using assms(2) on_result_unit explains_cleanup by (fastforce simp: disconnect_def)
next
  case CmdTick
  then show ?thesis
    using assms(2) explains_tick [of m E] by auto
next
  case CmdProcessStop
  then show ?thesis
    using assms(2) explains_process_stop [of m E] by auto
qed (use assms(2) in \<open>auto intro: explained_on_result [OF explained_stop_watch]
    explained_on_result [OF explained_update_policy] explained_on_result [OF explained_acknowledge_episode]
    explained_on_result [OF explained_acknowledge_all] explained_on_result [OF explained_resume_episode]
    explained_on_result [OF explained_reset_audible_count] explained_on_result [OF explained_report_cue_outcome]
    explained_on_result [OF explained_dismiss_alert]\<close>)

lemma events_for_absent: "cid \<notin> d_connection_id ` set ds \<Longrightarrow> events_for cid ds = []"
  by (auto simp: events_for_def filter_empty_conv)

lemma events_for_single:
  assumes "distinct (map d_connection_id ds)" "d \<in> set ds"
  shows "events_for (d_connection_id d) ds = d_events d"
  using assms
proof (induction ds)
  case (Cons x xs)
  show ?case
  proof (cases "x = d")
    case True
    then show ?thesis
      using Cons.prems events_for_absent [of "d_connection_id d" xs] by (simp add: events_for_def)
  next
    case False
    then have "d \<in> set xs" "d_connection_id x \<noteq> d_connection_id d"
      using Cons.prems by auto
    then show ?thesis
      using Cons by (simp add: events_for_def)
  qed
qed simp

lemma view_explains:
  assumes "explains m m' ds" "bm_get (mgr_connections m) cid = Some conn" "bm_get (mgr_connections m') cid = Some conn'"
  shows "mixer_view (active_episode_ids conn) (events_for cid ds) = active_episode_ids conn'"
proof (cases "cid \<in> d_connection_id ` set ds")
  case True
  then obtain d where d: "d \<in> set ds" "cid = d_connection_id d"
    by auto
  have "updates conn conn' (d_events d)"
    using assms d unfolding explains_def by fastforce
  then show ?thesis
    using mixer_view_updates events_for_single d assms(1) by (simp add: explains_def)
next
  case False
  then show ?thesis
    using assms events_for_absent [OF False] unfolding explains_def by simp
qed

lemma updates_plain_event:
  assumes "updates conn conn' ev" "e \<in> set ev" "\<And>a ids r. e \<noteq> EvAudio (AudioContinuousMixer a ids r)"
  shows "plain_event e"
  using assms by (auto simp: updates_def plain_def push_mixer_if_changed_def Let_def split: if_splits)

subsection \<open>A sample run\<close>

definition sample_spec :: core_start_spec where
  "sample_spec = \<lparr>spec_section = sample_section,
     spec_policy = \<lparr>pol_mode = Continuous, pol_max_audible = 3, pol_continuous_duration = Finite 600\<rparr>,
     spec_admission = Admitted (InitOpen (TraceId 50) 0) (Some \<lparr>cur_pull_sequence = 1, cur_observation_id = TraceId 50\<rparr>)\<rparr>"

definition sample_connected :: "(u64, nat) core_manager" where
  "sample_connected = snd (execute sample_env sample_manager (CmdConnect (TraceId 1)))"

definition sample_running :: "(u64, nat) core_manager" where
  "sample_running = snd (execute sample_env sample_connected (CmdStart (TraceId 1) (TraceId 2) [sample_spec]))"

definition sample_observation :: "open_state \<Rightarrow> u64 \<Rightarrow> open_observation" where
  "sample_observation st seq = \<lparr>obs_observation_id = TraceId 60, obs_refresh_observation_id = TraceId 61,
     obs_batch = section_key_target sample_section, obs_section_key = sample_section,
     obs_pull_sequence = seq, obs_catalog_content_version = 1, obs_state = st, obs_observed_at = 5,
     obs_fresh_until = 95, obs_scheduler_lag_milliseconds = 0,
     obs_counter_snapshot = \<lparr>run_counts = None,
       today_counts = \<lparr>attempted = 1, succeeded = 1, failed = 0, empty_count = 0\<rparr>, rutgers_day_str = ''2026-09-01''\<rparr>\<rparr>"

lemmas watch_eval = on_result_def connect_def bm_contains_def put_connection_def connection_new_def
  start_def take_connection_def drop_connection_def validate_initial_watermarks_def cursor_accepts_def
  start_one_def start_admitted_def Let_def link_def seed_observation_watermark_def
  make_watermark_room_def put_watermark_def SECTION_CURSOR_WINDOW_def push_action_def
  start_result_event_def initial_episode_def open_episode_def session_new_def episode_new_def
  alert_update_def put_watch_def push_mixer_if_changed_def active_episode_ids_def remember_start_def
  START_REPLAY_WINDOW_def continuous_alarm_active_def bm_values_def List.map_filter_def bm_len_def
  al_remove_def bm_keys_def bs_insert_def publish_def publish_connection_def publish_session_def accepts_def
  observation_cursor_of_def apply_observation_def record_open_def end_session_def close_episode_def
  record_published_observation_def read_now_def read_wall_now_def

lemmas sample_defs =
  sample_observation_def sample_running_def sample_connected_def sample_env_def sample_manager_def
  sample_spec_def

lemma reachable_running: "reachable sample_env sample_running"
  unfolding sample_running_def sample_connected_def
  by (intro reachable.command reachable_sample)

subsection \<open>Invariant and absence of panics\<close>

text \<open>C1. In every reachable manager the section index lists exactly the connections that watch a
  section, no connection exceeds its watch limit or its replay window, the watermark table and its
  eviction order agree and stay within the window, and every session is consistent: an episode is
  live exactly while the last reliable state is open, its timestamps are ordered, a deadline exists
  only on an unacknowledged continuous alarm, and cues wait only behind an active cue.\<close>
theorem manager_invariant:
  assumes "reachable E m"
  shows "wf_manager m"
  using assms by (rule wf_reachable)

theorem manager_invariant_witness: "wf_manager sample_running"
  by (rule manager_invariant [OF reachable_running])

text \<open>C2. No operation panics in a reachable manager: every \<open>expect\<close> and the conversion of the
  watch count to \<open>u8\<close> succeed, for any command, clock and identifier source.\<close>
theorem no_panic:
  assumes "reachable E m"
  shows "fst (execute E m c) \<noteq> Panic"
  using safe_execute [OF wf_reachable [OF assms], of E c] by (simp add: safe_def)

theorem no_panic_witness: "fst (execute sample_env sample_running (CmdStopWatch (TraceId 1) (TraceId 100))) \<noteq> Panic"
  by (rule no_panic [OF reachable_running])

subsection \<open>Publication\<close>

text \<open>C5. A publication that reports an error leaves the manager exactly as it was: the error of the
  second delivery loop, which would drop a connection, never occurs.\<close>
theorem publish_error_atomic:
  assumes "reachable E m" "publish E m obs = (Err e, m')"
  shows "m' = m"
  using publish_result [OF wf_reachable [OF assms(1)], of E obs] assms(2) by auto

theorem publish_error_atomic_witness:
  "\<exists>m'. publish sample_env sample_running (sample_observation StateOpen 1) = (Err ObservationSequenceConflict, m')
     \<and> m' = sample_running"
proof -
  have "\<exists>m'. publish sample_env sample_running (sample_observation StateOpen 1) = (Err ObservationSequenceConflict, m')"
    by (simp add: sample_defs watch_eval)
  then show ?thesis
    using publish_error_atomic [OF reachable_running] by blast
qed

text \<open>C6. After a successful publication, publishing the same observation again, or any observation of
  the same section with a smaller pull sequence, sends nothing and changes nothing.\<close>
theorem publish_no_reorder:
  assumes "reachable E m" "publish E m obs = (Ok out, m')"
    and "obs_section_key obs' = obs_section_key obs"
    and "obs_pull_sequence obs' < obs_pull_sequence obs \<or> obs' = obs"
  shows "publish F m' obs' = (Ok \<lparr>po_dispatches = [], po_replayed = True\<rparr>, m')"
proof -
  have "\<exists>w. bm_get (mgr_observation_cursors m') (obs_section_key obs) = Some w
      \<and> accepts (Some (wm_cursor w)) obs' = Inr False
      \<and> (wm_published w \<or> wm_cursor w \<noteq> observation_cursor_of obs')"
    using wf_reachable [OF assms(1)] assms(2)
  proof (cases rule: publish_Ok_cases)
    case (replay w)
    have "obs_pull_sequence obs \<le> cur_pull_sequence (wm_cursor w)"
      using replay(4) by (auto simp: accepts_def cursor_accepts_def split: if_splits)
    then have "obs' = obs \<or> obs_pull_sequence obs' < cur_pull_sequence (wm_cursor w)"
      using assms(4) by auto
    then show ?thesis
    proof
      assume less: "obs_pull_sequence obs' < cur_pull_sequence (wm_cursor w)"
      then have "wm_cursor w \<noteq> observation_cursor_of obs'"
        by (auto simp: observation_cursor_of_def)
      then show ?thesis
        using replay(1,3) less by (simp add: accepts_def cursor_accepts_def)
    qed (use replay in simp)
  next
    case (accepted now t m1)
    have "bm_get (mgr_observation_cursors m1) (obs_section_key obs) =
        Some \<lparr>wm_cursor = observation_cursor_of obs, wm_published = True\<rparr>"
      by (simp add: accepted(1) record_published_observation_def split: option.splits)
    then show ?thesis
      using accepted(6) assms(4)
      by (auto simp: accepts_def cursor_accepts_def observation_cursor_of_def)
  qed
  then show ?thesis
    using assms(3) by (auto simp: publish_def Let_def)
qed

theorem publish_no_reorder_witness:
  "\<exists>out m'. publish sample_env sample_running (sample_observation StateClosed 2) = (Ok out, m')
     \<and> publish sample_env m' (sample_observation StateClosed 2) = (Ok \<lparr>po_dispatches = [], po_replayed = True\<rparr>, m')"
proof -
  have "\<exists>out m'. publish sample_env sample_running (sample_observation StateClosed 2) = (Ok out, m')"
    by (simp add: sample_defs watch_eval)
  then show ?thesis
    using publish_no_reorder [OF reachable_running] by blast
qed

text \<open>C4. A publication that is not a replay sends exactly one dispatch to each connection watching the
  section, in the order of their identifiers, each beginning with the observation itself; the
  section's watermark then is the observation, marked published, and never older than before.\<close>
theorem publish_delivers:
  assumes "reachable E m" "publish E m obs = (Ok out, m')" "\<not> po_replayed out"
  shows "map d_connection_id (po_dispatches out) = sorted_list_of_set (watchers m (obs_section_key obs))
    \<and> (\<forall>d \<in> set (po_dispatches out). \<exists>ev. d_events d = EvObservation obs # ev)
    \<and> bm_get (mgr_observation_cursors m') (obs_section_key obs) =
         Some \<lparr>wm_cursor = observation_cursor_of obs, wm_published = True\<rparr>
    \<and> (\<forall>w. bm_get (mgr_observation_cursors m) (obs_section_key obs) = Some w
         \<longrightarrow> cur_pull_sequence (wm_cursor w) \<le> obs_pull_sequence obs)"
proof (intro conjI)
  note wf = wf_reachable [OF assms(1)]
  obtain now t where acc: "map d_connection_id (po_dispatches out) = index_list m (obs_section_key obs)"
    "\<forall>d \<in> set (po_dispatches out). delivered E obs now t m m' d"
    "mgr_observation_cursors m' = mgr_observation_cursors
       (record_published_observation m (obs_section_key obs) (observation_cursor_of obs))"
    using wf assms(2,3) by (cases rule: publish_Ok_cases) auto
  show "map d_connection_id (po_dispatches out) = sorted_list_of_set (watchers m (obs_section_key obs))"
    unfolding acc(1) by (rule index_list_watchers [OF wf])
  show "\<forall>d \<in> set (po_dispatches out). \<exists>ev. d_events d = EvObservation obs # ev"
  proof
    fix d assume "d \<in> set (po_dispatches out)"
    then obtain conn' prev i s i' s' ev where "publish_session E obs now i s = Ok (i', s', ev)"
      "d_events d = push_mixer_if_changed conn' prev NoUnacknowledgedEpisodes ev"
      using acc(2) unfolding delivered_def by blast
    then show "\<exists>ev. d_events d = EvObservation obs # ev"
      using publish_session_events [of E obs now i s i' s' ev]
      by (auto simp: push_mixer_if_changed_def Let_def)
  qed
  show "bm_get (mgr_observation_cursors m') (obs_section_key obs) =
           Some \<lparr>wm_cursor = observation_cursor_of obs, wm_published = True\<rparr>"
    unfolding acc(3) by (simp add: record_published_observation_def split: option.splits)
  show "\<forall>w. bm_get (mgr_observation_cursors m) (obs_section_key obs) = Some w
           \<longrightarrow> cur_pull_sequence (wm_cursor w) \<le> obs_pull_sequence obs"
    using assms(2,3)
    by (auto simp: publish_def Let_def accepts_def cursor_accepts_def observation_cursor_of_def
        split: if_splits)
qed

theorem publish_delivers_witness:
  "\<exists>out m'. publish sample_env sample_running (sample_observation StateClosed 2) = (Ok out, m')
     \<and> map d_connection_id (po_dispatches out) = sorted_list_of_set (watchers sample_running sample_section)
     \<and> (\<forall>d \<in> set (po_dispatches out). \<exists>ev. d_events d = EvObservation (sample_observation StateClosed 2) # ev)"
proof -
  have "\<exists>out m'. publish sample_env sample_running (sample_observation StateClosed 2) = (Ok out, m') \<and> \<not> po_replayed out"
    by (simp add: sample_defs watch_eval)
  moreover have "obs_section_key (sample_observation StateClosed 2) = sample_section"
    by (simp add: sample_observation_def)
  ultimately show ?thesis
    using publish_delivers [OF reachable_running] by metis
qed

text \<open>C7. An observation whose state is unknown never opens, closes or rearms an episode: every watch
  keeps everything but its observation cursor, and no alarm changes.\<close>
theorem publish_unknown:
  assumes "reachable E m" "publish E m obs = (Ok out, m')" "obs_state obs = StateUnknown"
    and "bm_get (mgr_connections m) cid = Some conn"
  shows "\<exists>conn'. bm_get (mgr_connections m') cid = Some conn'
     \<and> bm_map (\<lambda>s. s\<lparr>ws_observation_cursor := None\<rparr>) (conn_watches conn')
         = bm_map (\<lambda>s. s\<lparr>ws_observation_cursor := None\<rparr>) (conn_watches conn)
     \<and> active_episode_ids conn' = active_episode_ids conn"
  using wf_reachable [OF assms(1)] assms(2)
proof (cases rule: publish_Ok_cases)
  case (replay w)
  then show ?thesis
    using assms(4) by simp
next
  case (accepted now t m1)
  show ?thesis
  proof (cases "cid \<in> watchers m (obs_section_key obs)")
    case False
    then show ?thesis
      using accepted(5) assms(4) by simp
  next
    case True
    then obtain d where "d \<in> set (po_dispatches out)" "d_connection_id d = cid"
      using accepted(2) index_list_watchers [OF wf_reachable [OF assms(1)]] indexed_keys [OF wf_reachable [OF assms(1)]]
      unfolding index_list_def [symmetric] by (metis (no_types, lifting) imageE set_map)
    then obtain s i i' s' ev where d: "bm_get (conn_watches conn) (obs_section_key obs) = Some s"
      "publish_session E obs now i s = Ok (i', s', ev)"
      "bm_get (mgr_connections m') cid = Some (put_watch (obs_section_key obs) s' conn)"
      using accepted(4) assms(4) unfolding delivered_def by fastforce
    have s': "s' = s \<or> s' = s\<lparr>ws_observation_cursor := Some (observation_cursor_of obs)\<rparr>"
      using d(2) assms(3)
      by (auto simp: publish_session_def apply_observation_def Let_def split: sum.splits bool.splits)
    have "bm_map (\<lambda>s. s\<lparr>ws_observation_cursor := None\<rparr>) (conn_watches (put_watch (obs_section_key obs) s' conn))
        = bm_map (\<lambda>s. s\<lparr>ws_observation_cursor := None\<rparr>) (conn_watches conn)"
      using s' d(1) by (intro bm.map_ext) auto
    moreover have "active_episode_ids (put_watch (obs_section_key obs) s' conn) = active_episode_ids conn"
      using s' by (intro active_ids_put_watch [OF d(1)]) (auto simp: continuous_alarm_active_def)
    ultimately show ?thesis
      using d(3) by blast
  qed
qed

theorem publish_unknown_witness:
  "\<exists>conn out m' conn'. bm_get (mgr_connections sample_running) (TraceId 1) = Some conn
     \<and> publish sample_env sample_running (sample_observation StateUnknown 2) = (Ok out, m')
     \<and> bm_get (mgr_connections m') (TraceId 1) = Some conn'
     \<and> active_episode_ids conn' = active_episode_ids conn"
proof -
  have "\<exists>out m'. publish sample_env sample_running (sample_observation StateUnknown 2) = (Ok out, m')"
    by (simp add: sample_defs watch_eval)
  moreover have "\<exists>conn. bm_get (mgr_connections sample_running) (TraceId 1) = Some conn"
    by (simp add: sample_defs watch_eval)
  moreover have "obs_state (sample_observation StateUnknown 2) = StateUnknown"
    by (simp add: sample_observation_def)
  ultimately show ?thesis
    using publish_unknown [OF reachable_running] by metis
qed

lemma replay_keeps_alarms:
  assumes "execute E m c = (Ok ds, m')" "replays_command m c"
    and "bm_get (mgr_connections m) cid = Some conn" "bm_get (mgr_connections m') cid = Some conn'"
  shows "active_episode_ids conn' = active_episode_ids conn
    \<and> (\<exists>cid' mid specs conn0 dispatch n. c = CmdStart cid' mid specs \<and> bm_get (mgr_connections m) cid' = Some conn0
         \<and> bm_get (conn_start_replays conn0) mid = Some (dispatch, n) \<and> ds = [dispatch])"
proof -
  obtain cid' mid specs conn0 dispatch n where c: "c = CmdStart cid' mid specs" "bm_get (mgr_connections m) cid' = Some conn0"
      "bm_get (conn_start_replays conn0) mid = Some (dispatch, n)"
    using assms(2) by (auto simp: replays_command_def replays_start_def split: command.splits)
  then have "ds = [dispatch] \<and> active_episode_ids conn' = active_episode_ids conn"
    using assms(1,3,4)
    by (auto simp: on_result_def start_def read_now_def take_connection_def put_connection_def drop_connection_def
        active_episode_ids_def split: prod.splits if_splits)
  with c show ?thesis
    by blast
qed

text \<open>C3. A client that starts from the connection's active alarms and applies the mixer events of every
  dispatch sent to it, apart from the repeated answer to a start it has already seen answered, holds exactly the
  connection's active alarms after each command: the episodes whose continuous alarm is sounding, in section
  order.  A repeated start changes no alarm and sends the stored frame again; the mixer event of that
  frame describes the moment of the first answer (\<open>replayed_frame_out_of_date\<close> below), so the client must
  not apply it again.\<close>

theorem mixer_mirror:
  assumes "reachable E m" "execute E m c = (Ok ds, m')"
    and "bm_get (mgr_connections m) cid = Some conn" "bm_get (mgr_connections m') cid = Some conn'"
  shows "if replays_command m c
    then active_episode_ids conn' = active_episode_ids conn
      \<and> (\<exists>cid' mid specs conn0 dispatch n. c = CmdStart cid' mid specs \<and> bm_get (mgr_connections m) cid' = Some conn0
           \<and> bm_get (conn_start_replays conn0) mid = Some (dispatch, n) \<and> ds = [dispatch])
    else mixer_view (active_episode_ids conn) (events_for cid ds) = active_episode_ids conn'"
  using replay_keeps_alarms [OF assms(2) _ assms(3,4)]
    view_explains [OF explains_execute [OF wf_reachable [OF assms(1)] assms(2)] assms(3,4)] by simp

theorem mixer_mirror_witness:
  "\<exists>conn ds m' conn'. bm_get (mgr_connections sample_running) (TraceId 1) = Some conn
     \<and> active_episode_ids conn \<noteq> []
     \<and> execute sample_env sample_running (CmdPublish (sample_observation StateClosed 2)) = (Ok ds, m')
     \<and> bm_get (mgr_connections m') (TraceId 1) = Some conn'
     \<and> mixer_view (active_episode_ids conn) (events_for (TraceId 1) ds) = active_episode_ids conn'"
proof -
  have "\<exists>ds m' conn'. execute sample_env sample_running (CmdPublish (sample_observation StateClosed 2)) = (Ok ds, m')
      \<and> bm_get (mgr_connections m') (TraceId 1) = Some conn'"
    by (simp add: sample_defs watch_eval)
  moreover have "\<exists>conn. bm_get (mgr_connections sample_running) (TraceId 1) = Some conn \<and> active_episode_ids conn \<noteq> []"
    by (simp add: sample_defs watch_eval)
  moreover have "\<not> replays_command sample_running (CmdPublish (sample_observation StateClosed 2))"
    by (simp add: replays_command_def)
  ultimately show ?thesis
    using mixer_mirror [OF reachable_running] by (metis (full_types))
qed

text \<open>The repeated answer of a start, after the section it opened an alarm for has closed: its mixer event still
  names the alarm that has ended.\<close>

definition sample_closed :: "(u64, nat) core_manager" where
  "sample_closed = snd (execute sample_env sample_running (CmdPublish (sample_observation StateClosed 2)))"

lemma replayed_frame_out_of_date:
  "\<exists>conn ds m'. bm_get (mgr_connections sample_closed) (TraceId 1) = Some conn \<and> active_episode_ids conn = []
     \<and> execute sample_env sample_closed (CmdStart (TraceId 1) (TraceId 2) [sample_spec]) = (Ok ds, m')
     \<and> mixer_view (active_episode_ids conn) (events_for (TraceId 1) ds) \<noteq> []"
  by (simp add: sample_closed_def events_for_def sample_defs watch_eval)

text \<open>C8. In every dispatch a command sends (replays of a stored start apart), a one-shot event names a cue
  to play or queue exactly when the watch's audible count is below its cap, and is silent otherwise.\<close>
theorem one_shot_cap:
  assumes "reachable E m" "execute E m c = (Ok ds, m')" "\<not> replays_command m c" "d \<in> set ds"
    and "EvAudio (AudioOneShot wid sec oid cue disposition count cap) \<in> set (d_events d)"
  shows "(disposition = SilentCap \<longleftrightarrow> cap \<le> count) \<and> (cue = None \<longleftrightarrow> cap \<le> count)"
proof -
  have "explains m m' ds"
    by (rule explains_execute [OF wf_reachable [OF assms(1)] assms(2,3)])
  then obtain conn conn' where "updates conn conn' (d_events d)"
    using assms(4) unfolding explains_def by blast
  then have "plain_event (EvAudio (AudioOneShot wid sec oid cue disposition count cap))"
    using assms(5) by (rule updates_plain_event) simp
  then show ?thesis
    by auto
qed

definition sample_one_shot :: core_start_spec where
  "sample_one_shot = sample_spec\<lparr>spec_policy := core_policy_default\<rparr>"

theorem one_shot_cap_witness:
  "\<exists>ds m' d. execute sample_env sample_connected (CmdStart (TraceId 1) (TraceId 2) [sample_one_shot]) = (Ok ds, m')
     \<and> d \<in> set ds
     \<and> EvAudio (AudioOneShot (TraceId 100) sample_section (TraceId 50) (Some (TraceId 105)) Requested 0 3) \<in> set (d_events d)
     \<and> \<not> (3 :: u64) \<le> 0"
proof -
  have run: "\<exists>ds m' d. execute sample_env sample_connected (CmdStart (TraceId 1) (TraceId 2) [sample_one_shot]) = (Ok ds, m')
     \<and> d \<in> set ds
     \<and> EvAudio (AudioOneShot (TraceId 100) sample_section (TraceId 50) (Some (TraceId 105)) Requested 0 3) \<in> set (d_events d)"
    by (simp add: sample_defs sample_one_shot_def core_policy_default_def DEFAULT_MAX_AUDIBLE_def
        queue_one_shot_def request_cue_def one_shot_event_def watch_eval)
  have "reachable sample_env sample_connected"
    unfolding sample_connected_def by (intro reachable.command reachable_sample)
  moreover have "\<not> replays_command sample_connected (CmdStart (TraceId 1) (TraceId 2) [sample_one_shot])"
    by (simp add: replays_command_def replays_start_def sample_defs watch_eval)
  ultimately show ?thesis
    using run one_shot_cap by (metis option.distinct(1))
qed

subsection \<open>Starting watches\<close>

lemma remember_start_get:
  assumes "wf_connection limit conn" "bm_get (conn_start_replays conn) mid = None"
  shows "bm_get (conn_start_replays (remember_start mid d n conn)) mid = Some (d, n)"
proof -
  have new: "mid \<notin> set (conn_start_replay_order conn)"
    using assms in_bm_keys [of mid "conn_start_replays conn"] by (simp add: wf_connection_def)
  show ?thesis
  proof (cases "conn_start_replay_order conn")
    case Nil
    then show ?thesis
      by (simp add: remember_start_def START_REPLAY_WINDOW_def Let_def)
  next
    case (Cons x xs)
    then show ?thesis
      using new by (simp add: remember_start_def Let_def)
  qed
qed

text \<open>C10. Repeating a start message is idempotent: once a start has been answered, the same message
  identifier on that connection returns the stored answer, flagged as a replay, whatever specs it
  carries, and only the connection's heartbeat is refreshed.\<close>
theorem start_replay:
  assumes "reachable E m" "start E m cid mid specs = (Ok out, m')"
  shows "\<exists>conn. bm_get (mgr_connections m') cid = Some conn
    \<and> start F m' cid mid specs' =
        (Ok (out\<lparr>so_replayed := True\<rparr>),
         (put_connection cid (conn\<lparr>conn_last_touch := fst (clock_now F (mgr_clock m'))\<rparr>) m')
           \<lparr>mgr_clock := snd (clock_now F (mgr_clock m'))\<rparr>)"
proof -
  note wf = wf_reachable [OF assms(1)]
  have "\<exists>conn. bm_get (mgr_connections m') cid = Some conn
      \<and> bm_get (conn_start_replays conn) mid = Some (so_dispatch out, so_active_watch_count out)"
  proof (cases "replays_start m cid mid")
    case True
    then obtain conn dn where c: "bm_get (mgr_connections m) cid = Some conn"
      "bm_get (conn_start_replays conn) mid = Some dn"
      unfolding replays_start_def by blast
    then show ?thesis
      using assms(2) by (cases dn) (auto simp: start_def take_connection_def)
  next
    case False
    from start_Ok_cases [OF assms(2) False] obtain conn conn' ev t m0 now m0' c where
      s: "bm_get (mgr_connections m) cid = Some conn" "m0 = (drop_connection cid m)\<lparr>mgr_clock := c\<rparr>"
      "mgr_connections m' = bm_insert cid (remember_start mid (so_dispatch out) (so_active_watch_count out) conn') (mgr_connections m)"
      and loop: "start_loop E cid now t specs bm_empty m0 (conn\<lparr>conn_last_touch := now\<rparr>) [] = Some (m0', conn', ev)"
      by metis
    have new: "bm_get (conn_start_replays conn) mid = None"
      using False s(1) unfolding replays_start_def by blast
    have "wf_manager (put_connection cid (conn\<lparr>conn_last_touch := now\<rparr>) m0)"
      using wf_touch_connection [OF wf s(1)] by (simp add: s(2))
    from start_loop_ok [OF this, of E now t specs bm_empty "[]"] loop
    have loop_ok: "wf_manager (put_connection cid conn' m0')" "conn_start_replays conn' = conn_start_replays conn"
      by auto
    have "wf_connection (mgr_max_active_watches m0') conn'"
      using wf_manager_connection [OF loop_ok(1), of cid conn'] by simp
    then show ?thesis
      using remember_start_get new loop_ok(2) by (simp add: s(3))
  qed
  then show ?thesis
    by (auto simp: start_def take_connection_def)
qed

theorem start_replay_witness:
  "\<exists>out m' conn. start sample_env sample_connected (TraceId 1) (TraceId 2) [sample_spec] = (Ok out, m')
     \<and> bm_get (mgr_connections m') (TraceId 1) = Some conn
     \<and> fst (start sample_env m' (TraceId 1) (TraceId 2) []) = Ok (out\<lparr>so_replayed := True\<rparr>)"
proof -
  have "\<exists>out m'. start sample_env sample_connected (TraceId 1) (TraceId 2) [sample_spec] = (Ok out, m')"
    by (simp add: sample_defs watch_eval)
  moreover have "reachable sample_env sample_connected"
    unfolding sample_connected_def by (intro reachable.command reachable_sample)
  ultimately show ?thesis
    using start_replay [of sample_env sample_connected "TraceId 1" "TraceId 2" "[sample_spec]" _ _ sample_env "[]"]
    by (metis fst_conv)
qed

fun start_results :: "core_event list \<Rightarrow> core_start_result list" where
  "start_results [] = []"
| "start_results (EvStartResult r # ev) = r # start_results ev"
| "start_results (e # ev) = start_results ev"

lemma start_results_append [simp]: "start_results (ev @ ev') = start_results ev @ start_results ev'"
  by (induction ev rule: start_results.induct) simp_all

lemma start_results_push_action: "push_action E i ev k a b c = (i', ev') \<Longrightarrow> start_results ev' = start_results ev"
  by (auto simp: push_action_def split: prod.splits)

lemma start_results_open_episode:
  "open_episode E i s oid t now ev = (i', s', ev') \<Longrightarrow> start_results ev' = start_results ev"
  by (auto simp: open_episode_def Let_def push_action_def split: prod.splits)

lemma start_results_end_session:
  assumes "end_session E i s reason t cancel ev = (i', s', ev')"
  shows "start_results ev' = start_results ev"
proof -
  have "start_results (map (\<lambda>cue. EvAudio (AudioCueCancelled w sec (cue_id cue) (cue_observation_id cue) r)) cues) = []"
    for w sec r and cues :: "pending_cue list"
    by (induction cues) simp_all
  then show ?thesis
    using assms
    by (auto simp: end_session_def Let_def push_action_def push_cancelled_cues_def
        split: prod.splits option.splits if_splits)
qed

lemma start_results_queue_one_shot:
  "queue_one_shot E i s oid ev = Some (i', s', ev') \<Longrightarrow> start_results ev' = start_results ev"
  by (auto simp: queue_one_shot_def request_cue_def one_shot_event_def Let_def
      split: prod.splits option.splits if_splits)

lemma start_results_initial_episode:
  "initial_episode E i s st now ev = Some (i', s', ev') \<Longrightarrow> start_results ev' = start_results ev"
  by (auto simp: initial_episode_def split: core_initial_state.splits prod.splits if_splits
      dest!: start_results_open_episode start_results_queue_one_shot)

lemma start_results_one:
  assumes "start_one E cid now t spec m conn ev = Some (m', conn', ev')"
  shows "\<exists>d w. start_results ev' = start_results ev @ [\<lparr>sr_section = spec_section spec, sr_disposition = d, sr_watch_id = w\<rparr>]
     \<and> (w \<noteq> None \<longleftrightarrow> d \<in> {DispStarted, DispRestarted})
     \<and> (w \<noteq> None \<longrightarrow> map_option ws_id (bm_get (conn_watches conn') (spec_section spec)) = w)"
proof (cases "spec_admission spec")
  case (Admitted st cursor)
  then have a: "start_admitted E cid now t spec st cursor m conn ev = Some (m', conn', ev')"
    using assms by (simp add: start_one_def)
  show ?thesis
  proof (cases rule: start_admitted_cases [where conn = conn and spec = spec and m = m and E = E and cid = cid
        and now = now and t = t and st = st and cursor = cursor and ev = ev])
    case limit
    then show ?thesis
      using a by (auto simp: start_result_event_def)
  next
    case (restart prev i wid s ev1 i' i0 s0 ev0 j i2 ev2)
    then show ?thesis
      using a start_results_end_session [OF restart(5)] start_results_push_action [OF restart(6)]
        start_results_initial_episode [OF restart(7)]
      by (auto simp: start_result_event_def)
  next
    case (started i wid s ev1 i' j i2 ev2)
    then show ?thesis
      using a start_results_push_action [OF started(6)] start_results_initial_episode [OF started(7)]
      by (auto simp: start_result_event_def)
  qed
qed (use assms in \<open>auto simp: start_one_def start_result_event_def\<close>)

lemma start_results_loop:
  "start_loop E cid now t specs seen m conn ev = Some (m', conn', ev') \<Longrightarrow>
     map sr_section (start_results ev') = map sr_section (start_results ev) @ map spec_section specs
     \<and> ((\<forall>r \<in> set (start_results ev). sr_watch_id r \<noteq> None \<longleftrightarrow> sr_disposition r \<in> {DispStarted, DispRestarted})
        \<longrightarrow> (\<forall>r \<in> set (start_results ev'). sr_watch_id r \<noteq> None \<longleftrightarrow> sr_disposition r \<in> {DispStarted, DispRestarted}))"
proof (induction specs arbitrary: seen m conn ev)
  case (Cons spec specs)
  show ?case
  proof (cases "bm_contains seen (spec_section spec)")
    case True
    then show ?thesis
      using Cons.IH [of seen m conn "ev @ [start_result_event (spec_section spec) RejectedDuplicate None]"] Cons.prems
      by (auto simp: start_result_event_def)
  next
    case False
    obtain m1 conn1 ev1 where one: "start_one E cid now t spec m conn ev = Some (m1, conn1, ev1)"
      and rest: "start_loop E cid now t specs (bs_insert (spec_section spec) seen) m1 conn1 ev1 = Some (m', conn', ev')"
      using Cons.prems False by (auto split: option.splits)
    show ?thesis
      using start_results_one [OF one] Cons.IH [OF rest] by auto
  qed
qed simp

text \<open>C9. A start that is not a replay answers every spec exactly once and in order; an answer carries a
  watch identifier exactly when the watch was started or restarted; and the reported count is the
  number of watches the connection then holds, within the configured limit.\<close>
theorem start_answers:
  assumes "reachable E m" "start E m cid mid specs = (Ok out, m')" "\<not> so_replayed out"
  shows "map sr_section (start_results (d_events (so_dispatch out))) = map spec_section specs
    \<and> (\<forall>r \<in> set (start_results (d_events (so_dispatch out))).
         sr_watch_id r \<noteq> None \<longleftrightarrow> sr_disposition r \<in> {DispStarted, DispRestarted})
    \<and> unat (so_active_watch_count out) = length (connection_watches m' cid)
    \<and> so_active_watch_count out \<le> mgr_max_active_watches m'"
proof -
  note wf = wf_reachable [OF assms(1)]
  have new: "\<not> replays_start m cid mid"
    using assms(2,3) by (auto simp: replays_start_def start_def take_connection_def)
  from start_Ok_cases [OF assms(2) new] obtain conn conn' ev t m0 now m0' where
    loop: "start_loop E cid now t specs bm_empty m0 (conn\<lparr>conn_last_touch := now\<rparr>) [] = Some (m0', conn', ev)"
    and out: "so_dispatch out = \<lparr>d_connection_id = cid, d_emitted_at = t,
       d_events = push_mixer_if_changed conn' (active_episode_ids conn) NoUnacknowledgedEpisodes ev\<rparr>"
      "so_active_watch_count out = of_nat (bm_len (conn_watches conn'))"
    and conns: "mgr_connections m' = bm_insert cid
       (remember_start mid (so_dispatch out) (so_active_watch_count out) conn') (mgr_connections m)"
    by metis
  have results: "start_results (d_events (so_dispatch out)) = start_results ev"
    by (simp add: out(1) push_mixer_if_changed_def Let_def)
  let ?r = "remember_start mid (so_dispatch out) (so_active_watch_count out) conn'"
  have watches: "conn_watches ?r = conn_watches conn'"
    by (simp add: remember_start_def Let_def split: list.splits)
  have "wf_manager m'"
    using safe_start [OF wf, of E cid mid specs] assms(2) by (simp add: safe_def)
  then have "wf_connection (mgr_max_active_watches m') ?r"
    by (rule wf_manager_connection [of _ cid]) (simp add: conns)
  then have len: "bm_len (conn_watches conn') \<le> unat (mgr_max_active_watches m')"
    by (simp add: wf_connection_def watches)
  moreover have "unat (mgr_max_active_watches m') < 2 ^ LENGTH(8)"
    by (rule unsigned_less)
  ultimately have count: "unat (so_active_watch_count out) = bm_len (conn_watches conn')"
    by (simp add: out(2) unat_of_nat)
  show ?thesis
    using start_results_loop [OF loop] count len
    by (simp add: results connection_watches_def conns watches word_le_nat_alt)
qed

theorem start_answers_witness:
  "\<exists>out m'. start sample_env sample_connected (TraceId 1) (TraceId 2) [sample_spec] = (Ok out, m')
     \<and> map sr_section (start_results (d_events (so_dispatch out))) = [sample_section]
     \<and> unat (so_active_watch_count out) = length (connection_watches m' (TraceId 1))"
proof -
  have "\<exists>out m'. start sample_env sample_connected (TraceId 1) (TraceId 2) [sample_spec] = (Ok out, m') \<and> \<not> so_replayed out"
    by (simp add: sample_defs watch_eval)
  moreover have "reachable sample_env sample_connected"
    unfolding sample_connected_def by (intro reachable.command reachable_sample)
  moreover have "map spec_section [sample_spec] = [sample_section]"
    by (simp add: sample_spec_def)
  ultimately show ?thesis
    using start_answers by metis
qed

subsection \<open>Clean-up, shutdown, ticks and queries\<close>

lemma cleanup_all_reports:
  assumes "distinct cids" "\<And>c. c \<in> set cids \<Longrightarrow> bm_get (mgr_connections m) c \<noteq> None"
  shows "map cr_connection_id (fst (cleanup_all E reason cids m)) = cids
    \<and> (\<forall>r \<in> set (fst (cleanup_all E reason cids m)). cr_reason r = reason
         \<and> (\<exists>conn. bm_get (mgr_connections m) (cr_connection_id r) = Some conn
                \<and> cr_sections r = bm_keys (conn_watches conn)))"
  using assms
proof (induction cids arbitrary: m)
  case (Cons cid cids)
  obtain conn where conn: "bm_get (mgr_connections m) cid = Some conn"
    using Cons.prems(2) [of cid] by auto
  obtain acts m1 where c: "cleanup E m cid reason =
      (Ok \<lparr>cr_connection_id = cid, cr_reason = reason, cr_recorded_at = fst (clock_wall_now E (mgr_clock m)),
           cr_sections = bm_keys (conn_watches conn), cr_actions = acts\<rparr>, m1)"
    using cleanup_Some [OF conn, of E reason] by metis
  have m1: "mgr_connections m1 = bm_remove cid (mgr_connections m)"
    using cleanup_connections [of E m cid reason] by (simp add: c)
  have fresh: "cid \<notin> set cids" "distinct cids"
    using Cons.prems(1) by auto
  have "bm_get (mgr_connections m1) x \<noteq> None" if "x \<in> set cids" for x
    using Cons.prems(2) [of x] that fresh(1) by (auto simp: m1)
  note ih = Cons.IH [OF fresh(2) this]
  show ?case
    using ih conn by (auto simp: c m1 case_prod_beta split: if_splits)
qed simp

text \<open>C12. Disconnecting releases everything the connection held: the report lists exactly the sections it
  watched, the connection and its entries of the section index are gone, and every other connection,
  with its place in the index, is untouched.\<close>
theorem disconnect_releases:
  assumes "reachable E m" "bm_get (mgr_connections m) cid = Some conn"
  shows "\<exists>report m'. disconnect E m cid = (Ok report, m')
    \<and> cr_sections report = connection_watches m cid
    \<and> mgr_connections m' = bm_remove cid (mgr_connections m)
    \<and> (\<forall>sec. indexed m' sec = indexed m sec - {cid})"
proof -
  note wf = wf_reachable [OF assms(1)]
  obtain acts m' where c: "cleanup E m cid CleanupConnectionClosed =
      (Ok \<lparr>cr_connection_id = cid, cr_reason = CleanupConnectionClosed,
           cr_recorded_at = fst (clock_wall_now E (mgr_clock m)),
           cr_sections = bm_keys (conn_watches conn), cr_actions = acts\<rparr>, m')"
    "mgr_connections m' = bm_remove cid (mgr_connections m)"
    using cleanup_Some [OF assms(2), of E CleanupConnectionClosed] by metis
  have wf': "wf_manager m'"
    using wf_cleanup [OF wf, of E cid CleanupConnectionClosed] by (simp add: c(1))
  have "indexed m' sec = indexed m sec - {cid}" for sec
    using watchers_drop [of cid m sec] watchers_cong [of m' "drop_connection cid m"]
    by (simp add: wf_managerD(1) [OF wf] wf_managerD(1) [OF wf'] c(2))
  then show ?thesis
    using c assms(2) by (simp add: disconnect_def connection_watches_def)
qed

theorem disconnect_releases_witness:
  "\<exists>report m'. disconnect sample_env sample_running (TraceId 1) = (Ok report, m')
     \<and> cr_sections report = connection_watches sample_running (TraceId 1)
     \<and> indexed m' sample_section = indexed sample_running sample_section - {TraceId 1}"
proof -
  have "\<exists>conn. bm_get (mgr_connections sample_running) (TraceId 1) = Some conn"
    by (simp add: sample_defs watch_eval)
  then show ?thesis
    using disconnect_releases [OF reachable_running] by metis
qed

text \<open>C13. Stopping the process cleans up every connection once, in the order of their identifiers, each
  report listing that connection's watched sections, and leaves no connection and an empty index.\<close>
theorem process_stop_empties:
  assumes "reachable E m" "process_stop E m = (reports, m')"
  shows "mgr_connections m' = bm_empty \<and> mgr_connections_by_section m' = bm_empty
    \<and> map cr_connection_id reports = bm_keys (mgr_connections m)
    \<and> (\<forall>r \<in> set reports. cr_sections r = connection_watches m (cr_connection_id r))"
proof (intro conjI)
  have m': "m' = snd (cleanup_all E CleanupProcessStopped (bm_keys (mgr_connections m)) m)"
    and reports: "reports = fst (cleanup_all E CleanupProcessStopped (bm_keys (mgr_connections m)) m)"
    using assms(2) by (simp_all add: process_stop_def)
  have "bm_get (mgr_connections m') c = None" for c
    unfolding m' cleanup_all_get by (simp add: in_bm_keys)
  then show empty: "mgr_connections m' = bm_empty"
    by (simp add: bm_empty_iff)
  have wf: "wf_manager m'"
    unfolding m' by (rule wf_cleanup_all [OF wf_reachable [OF assms(1)]])
  have "indexed m' sec = {}" for sec
    using wf_managerD(1) [OF wf] by (simp add: watchers_def empty)
  then have "bm_get (mgr_connections_by_section m') sec = None" for sec
    using wf_managerD(2) [OF wf]
    by (cases "bm_get (mgr_connections_by_section m') sec")
      (auto simp: indexed_def tight_index_def bs_set_empty_iff dest: meta_spec [of _ sec])
  then show "mgr_connections_by_section m' = bm_empty"
    by (simp add: bm_empty_iff)
  note all = cleanup_all_reports [OF bm_keys_distinct [of "mgr_connections m"], of m E CleanupProcessStopped]
  show "map cr_connection_id reports = bm_keys (mgr_connections m)"
    using all by (simp add: reports in_bm_keys)
  show "\<forall>r \<in> set reports. cr_sections r = connection_watches m (cr_connection_id r)"
    using all by (force simp: reports in_bm_keys connection_watches_def)
qed

theorem process_stop_empties_witness:
  "\<exists>reports m'. process_stop sample_env sample_running = (reports, m')
     \<and> mgr_connections m' = bm_empty \<and> mgr_connections_by_section m' = bm_empty
     \<and> map cr_connection_id reports = bm_keys (mgr_connections sample_running)"
  using process_stop_empties [OF reachable_running] by (metis surj_pair)

lemma keys_filter:
  "map fst (filter (\<lambda>(k, v). P v) (bm_entries m)) = filter (\<lambda>k. \<exists>v. bm_get m k = Some v \<and> P v) (bm_keys m)"
proof -
  have "filter (\<lambda>(k, v). P v) (bm_entries m)
      = filter ((\<lambda>k. \<exists>v. bm_get m k = Some v \<and> P v) \<circ> fst) (bm_entries m)"
    by (rule filter_cong [OF refl]) (auto simp: bm_get_iff [symmetric])
  then show ?thesis
    by (simp add: bm_keys_def filter_map)
qed

lemma alarm_overdue_settled:
  "\<not> alarm_overdue now (settle_session (alarm_overdue now) TimedOut t s)"
proof (cases "alarm_overdue now s")
  case True
  then show ?thesis
    by (auto simp: alarm_overdue_def continuous_alarm_active_def settle_session_def update_episode_def
        settle_episode_def split: option.splits)
qed (simp add: settle_session_def)

text \<open>C11. After a tick no remaining connection has missed its heartbeat and no continuous alarm is past its
  deadline, at the instant the tick read; the connections that had missed it, and only those, are
  reported expired, in the order of their identifiers, and removed.\<close>
theorem tick_settles:
  assumes "reachable E m" "tick E m = (out, m')" "now = fst (clock_now E (mgr_clock m))"
  shows "(\<forall>cid conn. bm_get (mgr_connections m') cid = Some conn \<longrightarrow>
            \<not> heartbeat_expired now (mgr_heartbeat_timeout m) conn
            \<and> (\<forall>sec s. bm_get (conn_watches conn) sec = Some s \<longrightarrow> \<not> alarm_overdue now s))
    \<and> map cr_connection_id (to_expired_connections out) =
        filter (\<lambda>cid. \<exists>conn. bm_get (mgr_connections m) cid = Some conn
                  \<and> heartbeat_expired now (mgr_heartbeat_timeout m) conn) (bm_keys (mgr_connections m))
    \<and> (\<forall>cid conn. bm_get (mgr_connections m) cid = Some conn
          \<longrightarrow> \<not> heartbeat_expired now (mgr_heartbeat_timeout m) conn
          \<longrightarrow> bm_get (mgr_connections m') cid \<noteq> None)"
proof -
  have mem: "cid \<in> set (expired_at E m) \<longleftrightarrow> (\<exists>conn. bm_get (mgr_connections m) cid = Some conn
      \<and> heartbeat_expired now (mgr_heartbeat_timeout m) conn)" for cid
    by (force simp: expired_at_def bm_get_iff assms(3))
  have m': "m' = snd (tick E m)" and out: "out = fst (tick E m)"
    using assms(2) by simp_all
  have settled: "heartbeat_expired now T (settled_connection now t conn) = heartbeat_expired now T conn" for T t conn
    by (simp add: heartbeat_expired_def settled_connection_def)
  have "\<not> heartbeat_expired now (mgr_heartbeat_timeout m) conn
      \<and> (\<forall>sec s. bm_get (conn_watches conn) sec = Some s \<longrightarrow> \<not> alarm_overdue now s)"
    if "bm_get (mgr_connections m') cid = Some conn" for cid conn
    using that mem [of cid] alarm_overdue_settled [of now]
    by (auto simp: m' tick_get assms(3) [symmetric] settled split: if_splits)
      (auto simp: settled_connection_def)
  moreover have "bm_get (mgr_connections m') cid \<noteq> None"
    if "bm_get (mgr_connections m) cid = Some conn" "\<not> heartbeat_expired now (mgr_heartbeat_timeout m) conn" for cid conn
    using that mem [of cid] by (simp add: m' tick_get)
  moreover have eq: "expired_at E m = filter (\<lambda>cid. \<exists>conn. bm_get (mgr_connections m) cid = Some conn
      \<and> heartbeat_expired now (mgr_heartbeat_timeout m) conn) (bm_keys (mgr_connections m))"
    unfolding expired_at_def assms(3) by (rule keys_filter)
  moreover have "map cr_connection_id (to_expired_connections out) = expired_at E m"
  proof -
    let ?m = "m\<lparr>mgr_clock := snd (clock_wall_now E (snd (clock_now E (mgr_clock m))))\<rparr>"
    have "distinct (expired_at E m)"
      unfolding eq by simp
    moreover have "bm_get (mgr_connections ?m) c \<noteq> None" if "c \<in> set (expired_at E m)" for c
      using that mem [of c] by auto
    moreover have "to_expired_connections out = fst (cleanup_all E CleanupHeartbeatExpired (expired_at E m) ?m)"
      unfolding out by (rule tick_unfold [of E m])
    ultimately show ?thesis
      using cleanup_all_reports [of "expired_at E m" ?m E CleanupHeartbeatExpired] by simp
  qed
  ultimately show ?thesis
    by simp
qed

theorem tick_settles_witness:
  "\<exists>out m'. tick sample_env (sample_running\<lparr>mgr_clock := 100000\<rparr>) = (out, m')
     \<and> map cr_connection_id (to_expired_connections out) = [TraceId 1]"
proof -
  obtain out m' where t: "tick sample_env (sample_running\<lparr>mgr_clock := 100000\<rparr>) = (out, m')"
    by fastforce
  have "filter (\<lambda>cid. \<exists>conn. bm_get (mgr_connections (sample_running\<lparr>mgr_clock := 100000\<rparr>)) cid = Some conn
        \<and> heartbeat_expired 100000 (mgr_heartbeat_timeout (sample_running\<lparr>mgr_clock := 100000\<rparr>)) conn)
        (bm_keys (mgr_connections (sample_running\<lparr>mgr_clock := 100000\<rparr>))) = [TraceId 1]"
    by (simp add: sample_defs watch_eval heartbeat_expired_def instant_elapsed_since_def
        saturating_sub_def duration_from_millis_def nanos_per_milli_def)
  moreover have "100000 = fst (clock_now sample_env (mgr_clock (sample_running\<lparr>mgr_clock := 100000\<rparr>)))"
    by (simp add: sample_env_def)
  ultimately show ?thesis
    using tick_settles [OF reachable.clock [OF reachable_running] t] t by metis
qed

text \<open>C14. The sections reported as watched for a target are, without repetition and in key order, exactly
  the sections of that target that some connection watches, and their number is the active watch
  count (capped at the largest \<open>u64\<close>).\<close>
theorem watched_sections_exact:
  assumes "reachable E m"
  shows "set (watched_sections m target) =
           {sec. section_key_target sec = target \<and> (\<exists>cid. sec \<in> set (connection_watches m cid))}
    \<and> sorted_wrt (<) (watched_sections m target)
    \<and> unat (active_watch_count m target) = min (length (watched_sections m target)) (2 ^ 64 - 1)"
proof (intro conjI)
  note wf = wf_reachable [OF assms]
  have "sec \<in> set (bm_keys (mgr_connections_by_section m)) \<longleftrightarrow> watchers m sec \<noteq> {}" for sec
    using wf_managerD(1) [OF wf, of sec] wf_managerD(2) [OF wf]
    by (cases "bm_get (mgr_connections_by_section m) sec")
      (auto simp: in_bm_keys indexed_def tight_index_def bs_set_empty_iff)
  moreover have "watchers m sec \<noteq> {} \<longleftrightarrow> (\<exists>cid. sec \<in> set (connection_watches m cid))" for sec
    by (auto simp: watchers_def connection_watches_def in_bm_keys split: option.splits) metis+
  ultimately show "set (watched_sections m target) =
      {sec. section_key_target sec = target \<and> (\<exists>cid. sec \<in> set (connection_watches m cid))}"
    by (auto simp: watched_sections_def)
  show "sorted_wrt (<) (watched_sections m target)"
    unfolding watched_sections_def by (rule sorted_wrt_filter) (rule bm_keys_sorted)
  show "unat (active_watch_count m target) = min (length (watched_sections m target)) (2 ^ 64 - 1)"
    by (simp add: active_watch_count_def u64_from_len_def u64_try_from_def u64_max_def unat_of_nat
        unsigned_minus_1_eq_mask mask_eq_exp_minus_1)
qed

theorem watched_sections_exact_witness:
  "set (watched_sections sample_running (section_key_target sample_section)) =
     {sec. section_key_target sec = section_key_target sample_section
        \<and> (\<exists>cid. sec \<in> set (connection_watches sample_running cid))}"
  using watched_sections_exact [OF reachable_running] by blast

end
