(* ===== verification/Open_Reconcile.thy ===== *)
theory Open_Reconcile
  imports Identity
begin

text \<open>
  Reconciliation of a fetched open-section set with a catalog
  (\<open>crates/bcsp-open/src/reconcile.rs\<close>), with the hexadecimal digests of
  \<open>crates/bcsp-rutgers-client/src/hashing.rs\<close>.  The digest function of the \<open>sha2\<close> crate is the
  argument \<open>H\<close> of the definitions that hash; nothing is assumed of it.
\<close>

subsection \<open>Digests\<close>

type_synonym digest = "string \<Rightarrow> u8 list"

definition hex_digit :: "nat \<Rightarrow> char" where
  "hex_digit n = (if n < 10 then char_of (48 + n) else char_of (87 + n))"

definition hex_byte :: "u8 \<Rightarrow> string" where
  "hex_byte b = [hex_digit (unat b div 16), hex_digit (unat b mod 16)]"

definition sha256_hex :: "digest \<Rightarrow> string \<Rightarrow> string" where
  "sha256_hex H bytes = concat (map hex_byte (H bytes))"

definition newline :: char where "newline = char_of (10 :: nat)"
definition tab :: char where "tab = char_of (9 :: nat)"

subsection \<open>Catalog batches and open sets\<close>

datatype reconciled_open_state = ReconciledClosed | ReconciledOpen

fun wire_name :: "reconciled_open_state \<Rightarrow> string" where
  "wire_name ReconciledClosed = ''CLOSED''"
| "wire_name ReconciledOpen = ''OPEN''"

type_synonym catalog_content_version = u64

record catalog_open_batch =
  cob_target :: term_campus_key
  cob_content_version :: catalog_content_version
  cob_sections :: "(section_index, section_key) bmap"

datatype reconcile_input_error =
  ForeignCatalogSection | DuplicateCatalogSectionIndex | InvalidOpenSetCount | ForeignOpenBatch

fun collect_sections ::
  "term_campus_key \<Rightarrow> (section_index, section_key) bmap \<Rightarrow> section_key list
     \<Rightarrow> reconcile_input_error + (section_index, section_key) bmap" where
  "collect_sections target by_index [] = Inr by_index"
| "collect_sections target by_index (sec # sections) =
     (if section_key_target sec \<noteq> target then Inl ForeignCatalogSection
      else if bm_get by_index (sk_index sec) \<noteq> None then Inl DuplicateCatalogSectionIndex
      else collect_sections target (bm_insert (sk_index sec) sec by_index) sections)"

definition catalog_open_batch_try_new ::
  "term_campus_key \<Rightarrow> catalog_content_version \<Rightarrow> section_key list
     \<Rightarrow> reconcile_input_error + catalog_open_batch" where
  "catalog_open_batch_try_new target version sections =
     (case collect_sections target bm_empty sections of
        Inl e \<Rightarrow> Inl e
      | Inr by_index \<Rightarrow> Inr \<lparr>cob_target = target, cob_content_version = version, cob_sections = by_index\<rparr>)"

definition section_count :: "catalog_open_batch \<Rightarrow> nat" where
  "section_count batch = bm_len (cob_sections batch)"

definition section_indexes :: "catalog_open_batch \<Rightarrow> section_index list" where
  "section_indexes batch = bm_keys (cob_sections batch)"

definition contains_index :: "catalog_open_batch \<Rightarrow> section_index \<Rightarrow> bool" where
  "contains_index batch index = bm_contains (cob_sections batch) index"

definition canonical_open_set_hash_v1 :: "digest \<Rightarrow> section_index list \<Rightarrow> string" where
  "canonical_open_set_hash_v1 H indexes =
     sha256_hex H (''bcsp-open-set-v1'' @ [newline] @ concat (map (\<lambda>i. index_str i @ [newline]) indexes))"

record open_set_evidence =
  ose_target :: term_campus_key
  ose_indexes :: "section_index bset"
  ose_raw_value_count :: u64
  ose_duplicate_count :: u64
  ose_canonical_set_hash :: string

definition checked_sub :: "u64 \<Rightarrow> u64 \<Rightarrow> u64 option" where
  "checked_sub a b = (if b \<le> a then Some (a - b) else None)"

definition open_set_evidence_try_new ::
  "digest \<Rightarrow> term_campus_key \<Rightarrow> section_index list \<Rightarrow> u64 \<Rightarrow> reconcile_input_error + open_set_evidence" where
  "open_set_evidence_try_new H target indexes raw_value_count =
     (let indexes = bs_of_list indexes;
          unique_count = u64_from_len (bm_len indexes)
      in case checked_sub raw_value_count unique_count of
           None \<Rightarrow> Inl InvalidOpenSetCount
         | Some duplicate_count \<Rightarrow>
             Inr \<lparr>ose_target = target, ose_indexes = indexes, ose_raw_value_count = raw_value_count,
                  ose_duplicate_count = duplicate_count,
                  ose_canonical_set_hash = canonical_open_set_hash_v1 H (bm_keys indexes)\<rparr>)"

subsection \<open>Plans\<close>

datatype open_reconcile_classification =
    ValidApplied | ValidEmptyNoRows | UnsafeEmpty | UnsafeZeroIntersection
  | SuspectPartialSnapshot | StaleCatalogRace

definition classification_is_valid :: "open_reconcile_classification \<Rightarrow> bool" where
  "classification_is_valid c \<longleftrightarrow> c = ValidApplied \<or> c = ValidEmptyNoRows"

record section_open_update =
  upd_section_key :: section_key
  upd_state :: reconciled_open_state

record open_reconcile_plan =
  plan_target :: term_campus_key
  plan_captured_version :: catalog_content_version
  plan_current_version :: catalog_content_version
  plan_classification :: open_reconcile_classification
  plan_canonical_set_hash :: string
  plan_state_hash :: "string option"
  plan_raw_value_count :: u64
  plan_unique_value_count :: u64
  plan_duplicate_count :: u64
  plan_catalog_section_count :: u64
  plan_orphan_count :: u64
  plan_open_count :: u64
  plan_closed_count :: u64
  plan_observed_intersection_count :: u64
  plan_updates :: "section_open_update list"

definition open_state_hash_v1 :: "digest \<Rightarrow> term_campus_key \<Rightarrow> section_open_update list \<Rightarrow> string" where
  "open_state_hash_v1 H target updates =
     sha256_hex H (''bcsp-open-state-v1'' @ [newline] @ term_str (tc_term target) @ [newline]
       @ campus_str (tc_campus target) @ [newline]
       @ concat (map (\<lambda>u. index_str (sk_index (upd_section_key u)) @ [tab] @ wire_name (upd_state u) @ [newline]) updates))"

definition observed_intersection :: "catalog_open_batch \<Rightarrow> open_set_evidence \<Rightarrow> nat" where
  "observed_intersection catalog open_set =
     length (filter (\<lambda>i. bm_contains (cob_sections catalog) i) (bm_keys (ose_indexes open_set)))"

definition reconcile_base ::
  "digest \<Rightarrow> catalog_content_version \<Rightarrow> catalog_open_batch \<Rightarrow> open_set_evidence
     \<Rightarrow> open_reconcile_classification \<Rightarrow> nat \<Rightarrow> section_open_update list \<Rightarrow> open_reconcile_plan" where
  "reconcile_base H captured catalog open_set classification orphan_count updates =
     (let open_count = length (filter (\<lambda>u. upd_state u = ReconciledOpen) updates);
          closed_count = length updates - open_count
      in \<lparr>plan_target = cob_target catalog, plan_captured_version = captured,
          plan_current_version = cob_content_version catalog, plan_classification = classification,
          plan_canonical_set_hash = ose_canonical_set_hash open_set,
          plan_state_hash = (if classification_is_valid classification
             then Some (open_state_hash_v1 H (cob_target catalog) updates) else None),
          plan_raw_value_count = ose_raw_value_count open_set,
          plan_unique_value_count = u64_from_len (bm_len (ose_indexes open_set)),
          plan_duplicate_count = ose_duplicate_count open_set,
          plan_catalog_section_count = u64_from_len (bm_len (cob_sections catalog)),
          plan_orphan_count = u64_from_len orphan_count, plan_open_count = u64_from_len open_count,
          plan_closed_count = u64_from_len closed_count,
          plan_observed_intersection_count = u64_from_len (observed_intersection catalog open_set),
          plan_updates = updates\<rparr>)"

definition reconcile_open_set ::
  "digest \<Rightarrow> catalog_content_version \<Rightarrow> catalog_open_batch \<Rightarrow> open_set_evidence \<Rightarrow> bool
     \<Rightarrow> reconcile_input_error + open_reconcile_plan" where
  "reconcile_open_set H captured catalog open_set gate_hold =
     (if ose_target open_set \<noteq> cob_target catalog then Inl ForeignOpenBatch
      else
        let base = reconcile_base H captured catalog open_set in
        if captured \<noteq> cob_content_version catalog then Inr (base StaleCatalogRace 0 [])
        else if bm_is_empty (ose_indexes open_set)
        then Inr (if bm_is_empty (cob_sections catalog) then base ValidEmptyNoRows 0 []
                  else if gate_hold then base SuspectPartialSnapshot 0 []
                  else base ValidApplied 0
                    (map (\<lambda>k. \<lparr>upd_section_key = k, upd_state = ReconciledClosed\<rparr>) (bm_values (cob_sections catalog))))
        else
          let orphan_count = bm_len (ose_indexes open_set) - observed_intersection catalog open_set in
          if \<not> bm_is_empty (cob_sections catalog) \<and> observed_intersection catalog open_set = 0
          then Inr (base UnsafeZeroIntersection orphan_count [])
          else if gate_hold then Inr (base SuspectPartialSnapshot orphan_count [])
          else Inr (base ValidApplied orphan_count
                 (map (\<lambda>(i, k). \<lparr>upd_section_key = k,
                     upd_state = (if bm_contains (ose_indexes open_set) i then ReconciledOpen else ReconciledClosed)\<rparr>)
                   (bm_entries (cob_sections catalog)))))"

subsection \<open>Construction\<close>

lemma collect_sections_get:
  assumes "collect_sections target m secs = Inr m'"
  shows "bm_get m' i = Some k \<longleftrightarrow> bm_get m i = Some k \<or> (k \<in> set secs \<and> sk_index k = i)"
    "\<forall>k \<in> set secs. section_key_target k = target"
    "distinct (map sk_index secs)" "\<forall>k \<in> set secs. bm_get m (sk_index k) = None"
  using assms
proof (induction secs arbitrary: m)
  case (Cons sec secs)
  {
    case 1
    then show ?case
      using Cons.IH(1) [of "bm_insert (sk_index sec) sec m"] by (auto split: if_splits)
  next
    case 2
    then show ?case
      using Cons.IH(2) [of "bm_insert (sk_index sec) sec m"] by (auto split: if_splits)
  next
    case 3
    then show ?case
      using Cons.IH(3,4) [of "bm_insert (sk_index sec) sec m"] by (fastforce split: if_splits)
  next
    case 4
    then show ?case
      using Cons.IH(4) [of "bm_insert (sk_index sec) sec m"] by (fastforce split: if_splits)
  }
qed simp_all

lemma try_new_sections:
  assumes "catalog_open_batch_try_new target version secs = Inr batch"
  shows "bm_get (cob_sections batch) i = Some k \<longleftrightarrow> k \<in> set secs \<and> sk_index k = i"
    and "cob_target batch = target" "cob_content_version batch = version" "distinct (map sk_index secs)"
    and "\<forall>k \<in> set secs. section_key_target k = target"
  using assms collect_sections_get [of target bm_empty secs]
  by (auto simp: catalog_open_batch_try_new_def split: sum.splits)

lemma try_new_length:
  assumes "catalog_open_batch_try_new target version secs = Inr batch"
  shows "bm_len (cob_sections batch) = length secs"
proof -
  have "set (bm_keys (cob_sections batch)) = set (map sk_index secs)"
    using try_new_sections(1) [OF assms] by (auto simp: in_bm_keys)
  then show ?thesis
    using distinct_card [OF bm_keys_distinct [of "cob_sections batch"]]
      distinct_card [OF try_new_sections(4) [OF assms]] by simp
qed

lemma evidence_indexes:
  "open_set_evidence_try_new H target ixs raw = Inr ev \<Longrightarrow>
     bs_set (ose_indexes ev) = set ixs \<and> ose_target ev = target \<and> ose_raw_value_count ev = raw"
  by (auto simp: open_set_evidence_try_new_def Let_def split: option.splits)

subsection \<open>Counting\<close>

lemma length_filter_inter:
  "length (filter (\<lambda>k. bm_contains m k) (bm_keys n)) = card (set (bm_keys n) \<inter> set (bm_keys m))"
proof -
  have "distinct (filter (\<lambda>k. bm_contains m k) (bm_keys n))"
    by simp
  moreover have "set (filter (\<lambda>k. bm_contains m k) (bm_keys n)) = set (bm_keys n) \<inter> set (bm_keys m)"
    by (auto simp: bm_contains_def in_bm_keys)
  ultimately show ?thesis
    by (metis distinct_card)
qed

definition update_for :: "section_index bset \<Rightarrow> section_index \<times> section_key \<Rightarrow> section_open_update" where
  "update_for open_set = (\<lambda>(i, k). \<lparr>upd_section_key = k,
     upd_state = (if bm_contains open_set i then ReconciledOpen else ReconciledClosed)\<rparr>)"

lemma open_updates_count:
  "length (filter (\<lambda>u. upd_state u = ReconciledOpen) (map (update_for ix) (bm_entries m)))
     = card (set (bm_keys ix) \<inter> set (bm_keys m))"
proof -
  have "length (filter (\<lambda>u. upd_state u = ReconciledOpen) (map (update_for ix) (bm_entries m)))
      = length (filter (\<lambda>i. bm_contains ix i) (bm_keys m))"
    by (simp add: bm_keys_def filter_map update_for_def comp_def case_prod_beta)
  also have "\<dots> = card (set (bm_keys m) \<inter> set (bm_keys ix))"
    by (rule length_filter_inter)
  finally show ?thesis
    by (simp add: Int_commute)
qed

lemma all_closed_updates:
  assumes "bm_is_empty ix"
  shows "map (\<lambda>k. \<lparr>upd_section_key = k, upd_state = ReconciledClosed\<rparr>) (bm_values m) = map (update_for ix) (bm_entries m)"
  using assms by (simp add: bm_values_def update_for_def case_prod_beta bm_contains_def bm_is_empty_iff)

lemma observed_empty: "bm_is_empty (ose_indexes ev) \<Longrightarrow> observed_intersection cat ev = 0"
  by (simp add: observed_intersection_def bm_is_empty_def bm_keys_def)

lemma observed_card:
  "observed_intersection cat ev = card (set (bm_keys (ose_indexes ev)) \<inter> set (bm_keys (cob_sections cat)))"
  unfolding observed_intersection_def by (rule length_filter_inter)

lemma reconcile_base_fields [simp]:
  "plan_classification (reconcile_base H v cat ev c n us) = c"
  "plan_updates (reconcile_base H v cat ev c n us) = us"
  "plan_observed_intersection_count (reconcile_base H v cat ev c n us) = u64_from_len (observed_intersection cat ev)"
  "plan_state_hash (reconcile_base H v cat ev c n us) =
     (if classification_is_valid c then Some (open_state_hash_v1 H (cob_target cat) us) else None)"
  "plan_open_count (reconcile_base H v cat ev c n us) =
     u64_from_len (length (filter (\<lambda>u. upd_state u = ReconciledOpen) us))"
  "plan_closed_count (reconcile_base H v cat ev c n us) =
     u64_from_len (length us - length (filter (\<lambda>u. upd_state u = ReconciledOpen) us))"
  by (simp_all add: reconcile_base_def Let_def)

lemma reconcile_applied_updates:
  assumes "reconcile_open_set H captured cat ev hold = Inr plan" "plan_classification plan = ValidApplied"
  shows "plan_updates plan = map (update_for (ose_indexes ev)) (bm_entries (cob_sections cat))"
    "plan_open_count plan = u64_from_len (observed_intersection cat ev)"
    "plan_closed_count plan = u64_from_len (bm_len (cob_sections cat) - observed_intersection cat ev)"
proof -
  have "\<exists>n. plan = reconcile_base H captured cat ev ValidApplied n (map (update_for (ose_indexes ev)) (bm_entries (cob_sections cat)))"
    using assms
    by (auto simp: reconcile_open_set_def Let_def all_closed_updates [of "ose_indexes ev"] update_for_def [symmetric]
        split: if_splits)
  then obtain n where plan: "plan = reconcile_base H captured cat ev ValidApplied n
      (map (update_for (ose_indexes ev)) (bm_entries (cob_sections cat)))" ..
  show "plan_updates plan = map (update_for (ose_indexes ev)) (bm_entries (cob_sections cat))"
    "plan_open_count plan = u64_from_len (observed_intersection cat ev)"
    "plan_closed_count plan = u64_from_len (bm_len (cob_sections cat) - observed_intersection cat ev)"
    unfolding plan reconcile_base_fields open_updates_count observed_card by (simp_all add: bm_len_def)
qed

subsection \<open>Properties\<close>

text \<open>C19. An applied plan updates every section of the catalog exactly once, marking it open exactly when its
  index was in the fetched list; the open count is the size of the overlap and the closed count
  covers the rest of the catalog.\<close>
theorem reconcile_applied_exact:
  assumes "catalog_open_batch_try_new target version secs = Inr cat"
    and "open_set_evidence_try_new H target' ixs raw = Inr ev"
    and "reconcile_open_set H captured cat ev hold = Inr plan" "plan_classification plan = ValidApplied"
  shows "distinct (map upd_section_key (plan_updates plan))
    \<and> set (map upd_section_key (plan_updates plan)) = set secs
    \<and> (\<forall>u \<in> set (plan_updates plan). upd_state u = ReconciledOpen \<longleftrightarrow> sk_index (upd_section_key u) \<in> set ixs)
    \<and> plan_open_count plan = u64_from_len (card (set ixs \<inter> sk_index ` set secs))
    \<and> plan_closed_count plan = u64_from_len (length secs - card (set ixs \<inter> sk_index ` set secs))"
proof -
  note upd = reconcile_applied_updates [OF assms(3,4)]
  note get = try_new_sections(1) [OF assms(1)]
  have ev: "bs_set (ose_indexes ev) = set ixs"
    using evidence_indexes [OF assms(2)] by simp
  have ent: "(i, k) \<in> set (bm_entries (cob_sections cat)) \<longleftrightarrow> k \<in> set secs \<and> sk_index k = i" for i k
    using get [of i k] by (simp add: bm_get_iff)
  have keys: "set (bm_keys (cob_sections cat)) = sk_index ` set secs"
    using get by (auto simp: in_bm_keys)
  have "map (sk_index \<circ> snd) (bm_entries (cob_sections cat)) = map fst (bm_entries (cob_sections cat))"
    by (rule map_cong [OF refl]) (auto simp: ent)
  then have "distinct (map sk_index (map snd (bm_entries (cob_sections cat))))"
    using bm_keys_distinct [of "cob_sections cat"] by (simp only: map_map bm_keys_def)
  then have dist: "distinct (map snd (bm_entries (cob_sections cat)))"
    by (simp only: distinct_map)
  have ids: "map upd_section_key (plan_updates plan) = map snd (bm_entries (cob_sections cat))"
    by (simp add: upd(1) update_for_def case_prod_beta)
  have set: "set (map snd (bm_entries (cob_sections cat))) = set secs"
    using ent by force
  have "observed_intersection cat ev = card (set ixs \<inter> sk_index ` set secs)"
    unfolding observed_card keys using ev by (simp add: bs_set_def)
  moreover have "upd_state u = ReconciledOpen \<longleftrightarrow> sk_index (upd_section_key u) \<in> set ixs"
    if "u \<in> set (plan_updates plan)" for u
    using that ent ev by (auto simp: upd(1) update_for_def bm_contains_bs)
  ultimately show ?thesis
    unfolding ids using dist set upd(2,3) try_new_length [OF assms(1)] by simp
qed

definition sample_key :: section_key where
  "sample_key = SectionKey (TermId ''92026'') (CampusCode ''NB'') (SectionIndex ''12345'')"

theorem reconcile_applied_exact_witness:
  "\<exists>cat ev plan. catalog_open_batch_try_new (section_key_target sample_key) 7 [sample_key] = Inr cat
     \<and> open_set_evidence_try_new (\<lambda>_. []) (section_key_target sample_key) [sk_index sample_key, sk_index sample_key] 2 = Inr ev
     \<and> reconcile_open_set (\<lambda>_. []) 7 cat ev False = Inr plan
     \<and> set (map upd_section_key (plan_updates plan)) = {sample_key}
     \<and> plan_open_count plan = u64_from_len (card (set [sk_index sample_key, sk_index sample_key] \<inter> sk_index ` set [sample_key]))"
proof -
  have "\<exists>cat ev plan. catalog_open_batch_try_new (section_key_target sample_key) 7 [sample_key] = Inr cat
     \<and> open_set_evidence_try_new (\<lambda>_. []) (section_key_target sample_key) [sk_index sample_key, sk_index sample_key] 2 = Inr ev
     \<and> reconcile_open_set (\<lambda>_. []) 7 cat ev False = Inr plan \<and> plan_classification plan = ValidApplied"
    by (simp add: catalog_open_batch_try_new_def open_set_evidence_try_new_def bs_of_list_def bs_insert_def
        bm_len_def u64_from_len_def u64_try_from_def checked_sub_def Let_def reconcile_open_set_def
        bm_is_empty_def observed_intersection_def bm_contains_def bm_keys_def)
  then show ?thesis
    using reconcile_applied_exact [of "section_key_target sample_key" 7 "[sample_key]"] by fastforce
qed











subsection \<open>Order and repetition\<close>

lemma collect_sections_total:
  assumes "\<forall>k \<in> set secs. section_key_target k = target" "distinct (map sk_index secs)" "\<forall>k \<in> set secs. bm_get m (sk_index k) = None"
  shows "\<exists>m'. collect_sections target m secs = Inr m'"
  using assms
proof (induction secs arbitrary: m)
  case (Cons k secs)
  have fresh: "bm_get (bm_insert (sk_index k) k m) (sk_index j) = None" if "j \<in> set secs" for j
  proof -
    have "sk_index j \<in> sk_index ` set secs"
      using that by (rule imageI)
    then have "sk_index j \<noteq> sk_index k"
      using Cons.prems(2) by auto
    then show ?thesis
      using Cons.prems(3) that by simp
  qed
  have "\<exists>m'. collect_sections target (bm_insert (sk_index k) k m) secs = Inr m'"
    by (rule Cons.IH) (use Cons.prems fresh in simp_all)
  then show ?case
    using Cons.prems by simp
qed simp

text \<open>C39. Neither the order of the catalog rows nor the order and repetition of the received indexes matters.  A
  catalog built from a reordering of its sections, and evidence built from any list of the same indexes and the
  same number of received values, are the same, and the canonical hash is that of the ordered indexes.\<close>

theorem inputs_order_free:
  assumes "catalog_open_batch_try_new target version secs = Inr cat"
    and "open_set_evidence_try_new H target ixs raw = Inr ev"
    and "set secs' = set secs" "length secs' = length secs" "set ixs' = set ixs"
  shows "catalog_open_batch_try_new target version secs' = Inr cat
    \<and> open_set_evidence_try_new H target ixs' raw = Inr ev
    \<and> ose_canonical_set_hash ev = canonical_open_set_hash_v1 H (sorted_list_of_set (set ixs'))"
proof -
  have "distinct secs"
    using try_new_sections(4) [OF assms(1)] by (simp add: distinct_map)
  then have "distinct secs'"
    using assms(3,4) by (metis card_distinct distinct_card)
  moreover have "inj_on sk_index (set secs)"
    using try_new_sections(4) [OF assms(1)] by (simp add: distinct_map)
  ultimately have "distinct (map sk_index secs')"
    by (simp add: distinct_map assms(3))
  then obtain m where m: "collect_sections target bm_empty secs' = Inr m"
    using collect_sections_total [of secs' target bm_empty] try_new_sections(5) [OF assms(1)] assms(3) by auto
  have "m = cob_sections cat"
  proof (rule bm.map_ext)
    fix i
    show "bm_get m i = bm_get (cob_sections cat) i"
      using collect_sections_get(1) [OF m, of i] try_new_sections(1) [OF assms(1), of i] assms(3)
      by (cases "bm_get m i"; cases "bm_get (cob_sections cat) i") auto
  qed
  then have cat: "catalog_open_batch_try_new target version secs' = Inr cat"
    using m try_new_sections(2,3) [OF assms(1)] by (cases cat) (simp add: catalog_open_batch_try_new_def)
  have keys: "set (bm_keys (bs_of_list xs)) = set xs" for xs :: "section_index list"
    using bs_set_of_list [of xs] by (simp add: bs_set_def)
  have same: "bs_of_list ixs' = bs_of_list ixs"
  proof (rule bm.map_ext)
    fix i
    have "bm_get (bs_of_list ixs') i = None \<longleftrightarrow> bm_get (bs_of_list ixs) i = None"
      using keys [of ixs] keys [of ixs'] assms(5) in_bm_keys [of i "bs_of_list ixs"] in_bm_keys [of i "bs_of_list ixs'"] by blast
    then show "bm_get (bs_of_list ixs') i = bm_get (bs_of_list ixs) i"
      by (cases "bm_get (bs_of_list ixs') i"; cases "bm_get (bs_of_list ixs) i") simp_all
  qed
  have "bm_keys (bs_of_list ixs') = sorted_list_of_set (set ixs')"
    using bm_keys_sorted [of "bs_of_list ixs'"] sorted_list_of_set.idem_if_sorted_distinct [of "bm_keys (bs_of_list ixs')"]
    by (simp add: strict_sorted_iff keys)
  then show ?thesis
    using cat assms(2) by (auto simp: open_set_evidence_try_new_def same Let_def split: option.splits)
qed

theorem inputs_order_free_witness:
  "\<exists>cat ev. catalog_open_batch_try_new (section_key_target sample_key) 7 [sample_key] = Inr cat
     \<and> open_set_evidence_try_new (\<lambda>_. []) (section_key_target sample_key)
         [SectionIndex ''99999'', sk_index sample_key, sk_index sample_key] 3 = Inr ev
     \<and> open_set_evidence_try_new (\<lambda>_. []) (section_key_target sample_key)
         [sk_index sample_key, SectionIndex ''99999''] 3 = Inr ev"
proof -
  let ?ixs = "[SectionIndex ''99999'', sk_index sample_key, sk_index sample_key]"
  obtain cat where cat: "catalog_open_batch_try_new (section_key_target sample_key) 7 [sample_key] = Inr cat"
    by (simp add: catalog_open_batch_try_new_def)
  have "bm_len (bs_of_list ?ixs) = 2"
    by (simp add: bs_of_list_def bs_insert_def bm_len_insert sample_key_def)
  then obtain ev where ev: "open_set_evidence_try_new (\<lambda>_. []) (section_key_target sample_key) ?ixs 3 = Inr ev"
    by (simp add: open_set_evidence_try_new_def Let_def u64_from_len_def u64_try_from_def checked_sub_def)
  have "set [sk_index sample_key, SectionIndex ''99999''] = set ?ixs"
    by auto
  from inputs_order_free [OF cat ev refl refl this] show ?thesis
    using cat ev by blast
qed

end
