(* ===== verification/Open_Gate.thy ===== *)
theory Open_Gate
  imports Open_Reconcile
begin

text \<open>
  The snapshot integrity gate (\<open>crates/bcsp-open/src/gate.rs\<close>): a per-target state machine that
  withholds implausibly shrunken snapshots until the feed recovers or proves stable, the rebuild of
  its state after a restart, and the serving and candidate runtimes of a target.

  A failed \<open>assert_eq!\<close> or \<open>expect\<close> is the value \<open>None\<close>.  Times are nanoseconds; differences are
  compared in whole seconds, which the \<open>time\<close> crate truncates towards zero.
\<close>

subsection \<open>Constants and data\<close>

definition GATE_DROP_THRESHOLD_DENOMINATOR :: u64 where "GATE_DROP_THRESHOLD_DENOMINATOR = 10"
definition GATE_RECOVERY_THRESHOLD_DENOMINATOR :: u64 where "GATE_RECOVERY_THRESHOLD_DENOMINATOR = 20"
definition GATE_MIN_ABSOLUTE_DROP :: u64 where "GATE_MIN_ABSOLUTE_DROP = 25"
definition GATE_BASELINE_WINDOW :: nat where "GATE_BASELINE_WINDOW = 16"
definition GATE_CONFIRM_MIN_CONSISTENT :: u32 where "GATE_CONFIRM_MIN_CONSISTENT = 3"
definition GATE_CONFIRM_MIN_SPAN_SECONDS :: int where "GATE_CONFIRM_MIN_SPAN_SECONDS = 300"
definition GATE_MAX_SAMPLE_GAP_SECONDS :: int where "GATE_MAX_SAMPLE_GAP_SECONDS = 120"
definition GATE_CONSISTENCY_DENOMINATOR :: nat where "GATE_CONSISTENCY_DENOMINATOR = 100"
definition GATE_QUARANTINE_PROBE_CAP_SECONDS :: nat where "GATE_QUARANTINE_PROBE_CAP_SECONDS = 30"

datatype catalog_set_identity = CatalogSetIdentity (identity_str: string)

definition identity_from_sha256_hex :: "string \<Rightarrow> catalog_set_identity option" where
  "identity_from_sha256_hex v =
     (if length v = 64 \<and> list_all is_lower_hex v then Some (CatalogSetIdentity v) else None)"

definition catalog_section_set_identity_v1 :: "digest \<Rightarrow> section_index list \<Rightarrow> catalog_set_identity" where
  "catalog_section_set_identity_v1 H indexes =
     CatalogSetIdentity (sha256_hex H (''bcsp-catalog-set-v1'' @ [newline]
       @ concat (map (\<lambda>i. index_str i @ [newline]) indexes)))"

record gate_sample =
  gs_catalog_identity :: catalog_set_identity
  gs_observed :: "section_index bset"
  gs_observed_at :: offset_date_time

datatype gate_disposition = Apply | Hold

datatype gate_decision_kind = Pass | Suspect | QuarantineRecover | QuarantineConfirm

record baseline_epoch =
  be_catalog_identity :: catalog_set_identity
  be_window :: "u64 list"
  be_lkg_floor :: "u64 option"

record candidate_episode =
  ce_anchor_set :: "section_index bset option"
  ce_anchor_set_sha256 :: string
  ce_first_seen :: offset_date_time
  ce_last_seen :: offset_date_time
  ce_consistent_count :: u32

datatype gate_state =
    Healthy "baseline_epoch option"
  | Quarantined baseline_epoch candidate_episode

record gate_decision =
  gd_disposition :: gate_disposition
  gd_kind :: gate_decision_kind
  gd_catalog_identity :: catalog_set_identity
  gd_observed_intersection_count :: u64
  gd_response_set_sha256 :: string
  gd_gate_epoch :: u64
  gd_next_state :: gate_state

record gate_runtime =
  gr_epoch :: u64
  gr_state :: gate_state

subsection \<open>Baselines\<close>

definition baseline_seeded :: "catalog_set_identity \<Rightarrow> u64 option \<Rightarrow> baseline_epoch" where
  "baseline_seeded identity lkg_floor =
     \<lparr>be_catalog_identity = identity, be_window = [], be_lkg_floor = lkg_floor\<rparr>"

definition push_applied :: "baseline_epoch \<Rightarrow> u64 \<Rightarrow> baseline_epoch" where
  "push_applied b observed =
     b\<lparr>be_window := (if length (be_window b) = GATE_BASELINE_WINDOW then drop 1 (be_window b)
                      else be_window b) @ [observed]\<rparr>"

definition lower_median :: "baseline_epoch \<Rightarrow> u64 option" where
  "lower_median b =
     (if be_window b = [] then None
      else let sorted = sort (be_window b) in Some (sorted ! ((length sorted - 1) div 2)))"

definition baseline_value :: "baseline_epoch \<Rightarrow> u64 option" where
  "baseline_value b =
     (case (lower_median b, be_lkg_floor b) of
        (Some median, Some floor) \<Rightarrow> Some (max median floor)
      | (Some median, None) \<Rightarrow> Some median
      | (None, Some floor) \<Rightarrow> Some floor
      | (None, None) \<Rightarrow> None)"

definition set_lkg_floor :: "baseline_epoch \<Rightarrow> u64 option \<Rightarrow> baseline_epoch" where
  "set_lkg_floor b floor = b\<lparr>be_lkg_floor := floor\<rparr>"

subsection \<open>Thresholds and episodes\<close>

definition div_ceil :: "u64 \<Rightarrow> u64 \<Rightarrow> u64" where
  "div_ceil a d = (if a mod d = 0 then a div d else a div d + 1)"

definition shrink_is_suspect :: "u64 \<Rightarrow> u64 \<Rightarrow> bool" where
  "shrink_is_suspect baseline observed \<longleftrightarrow>
     (let missing = saturating_sub baseline observed;
          relative = div_ceil baseline GATE_DROP_THRESHOLD_DENOMINATOR
      in max relative GATE_MIN_ABSOLUTE_DROP \<le> missing)"

definition recovered_near_reference :: "u64 \<Rightarrow> u64 \<Rightarrow> bool" where
  "recovered_near_reference reference observed \<longleftrightarrow>
     (let missing = saturating_sub reference observed;
          relative = div_ceil reference GATE_RECOVERY_THRESHOLD_DENOMINATOR
      in missing < max relative GATE_MIN_ABSOLUTE_DROP)"

definition symmetric_difference_count :: "'a::linorder bset \<Rightarrow> 'a bset \<Rightarrow> nat" where
  "symmetric_difference_count a b =
     length (filter (\<lambda>x. \<not> bm_contains b x) (bm_keys a)) + length (filter (\<lambda>x. \<not> bm_contains a x) (bm_keys b))"

definition sets_consistent :: "section_index bset \<Rightarrow> section_index bset \<Rightarrow> bool" where
  "sets_consistent anchor observed \<longleftrightarrow>
     (let tolerance = (bm_len anchor + GATE_CONSISTENCY_DENOMINATOR - 1) div GATE_CONSISTENCY_DENOMINATOR
      in symmetric_difference_count anchor observed \<le> tolerance)"

definition consistent_with_anchor :: "candidate_episode \<Rightarrow> gate_sample \<Rightarrow> string \<Rightarrow> bool" where
  "consistent_with_anchor episode sample hash \<longleftrightarrow>
     (case ce_anchor_set episode of
        Some anchor \<Rightarrow> sets_consistent anchor (gs_observed sample)
      | None \<Rightarrow> ce_anchor_set_sha256 episode = hash)"

definition anchored_episode :: "gate_sample \<Rightarrow> string \<Rightarrow> candidate_episode" where
  "anchored_episode sample hash =
     \<lparr>ce_anchor_set = Some (gs_observed sample), ce_anchor_set_sha256 = hash,
      ce_first_seen = gs_observed_at sample, ce_last_seen = gs_observed_at sample, ce_consistent_count = 1\<rparr>"

definition gap_in_range :: "offset_date_time \<Rightarrow> offset_date_time \<Rightarrow> bool" where
  "gap_in_range earlier later \<longleftrightarrow>
     (let gap = whole_seconds (later - earlier) in 0 \<le> gap \<and> gap \<le> GATE_MAX_SAMPLE_GAP_SECONDS)"

definition continue_episode :: "candidate_episode \<Rightarrow> gate_sample \<Rightarrow> candidate_episode" where
  "continue_episode episode sample =
     episode\<lparr>ce_consistent_count := saturating_add (ce_consistent_count episode) 1,
             ce_last_seen := gs_observed_at sample,
             ce_anchor_set := (case ce_anchor_set episode of None \<Rightarrow> Some (gs_observed sample) | Some a \<Rightarrow> Some a)\<rparr>"

definition may_confirm :: "candidate_episode \<Rightarrow> bool" where
  "may_confirm episode \<longleftrightarrow> GATE_CONFIRM_MIN_CONSISTENT \<le> ce_consistent_count episode
     \<and> GATE_CONFIRM_MIN_SPAN_SECONDS \<le> whole_seconds (ce_last_seen episode - ce_first_seen episode)"

subsection \<open>The state machine\<close>

definition new_unseeded :: gate_runtime where
  "new_unseeded = \<lparr>gr_epoch = 0, gr_state = Healthy None\<rparr>"

definition runtime_seeded :: "catalog_set_identity \<Rightarrow> u64 \<Rightarrow> gate_runtime" where
  "runtime_seeded identity lkg_floor =
     \<lparr>gr_epoch = 0, gr_state = Healthy (Some (baseline_seeded identity (Some lkg_floor)))\<rparr>"

fun is_quarantined :: "gate_state \<Rightarrow> bool" where
  "is_quarantined (Healthy _) = False"
| "is_quarantined (Quarantined _ _) = True"

fun state_catalog_identity :: "gate_state \<Rightarrow> catalog_set_identity option" where
  "state_catalog_identity (Healthy baseline) = map_option be_catalog_identity baseline"
| "state_catalog_identity (Quarantined baseline _) = Some (be_catalog_identity baseline)"

definition reference_of :: "baseline_epoch \<Rightarrow> u64" where
  "reference_of b = (case baseline_value b of None \<Rightarrow> 0 | Some v \<Rightarrow> v)"

definition decide :: "gate_state \<Rightarrow> gate_sample \<Rightarrow> u64 \<Rightarrow> string
    \<Rightarrow> (gate_decision_kind \<times> gate_disposition \<times> gate_state) option" where
  "decide state sample observed_count hash =
     (case state of
        Healthy None \<Rightarrow>
          Some (Pass, Apply, Healthy (Some (push_applied
            (baseline_seeded (gs_catalog_identity sample) None) observed_count)))
      | Healthy (Some baseline) \<Rightarrow>
          if be_catalog_identity baseline \<noteq> gs_catalog_identity sample then None
          else if shrink_is_suspect (reference_of baseline) observed_count
          then Some (Suspect, Hold, Quarantined baseline (anchored_episode sample hash))
          else Some (Pass, Apply, Healthy (Some (push_applied baseline observed_count)))
      | Quarantined baseline episode \<Rightarrow>
          if be_catalog_identity baseline \<noteq> gs_catalog_identity sample then None
          else if recovered_near_reference (reference_of baseline) observed_count
          then Some (QuarantineRecover, Apply, Healthy (Some (push_applied baseline observed_count)))
          else if \<not> gap_in_range (ce_last_seen episode) (gs_observed_at sample)
                  \<or> \<not> consistent_with_anchor episode sample hash
          then Some (Suspect, Hold, Quarantined baseline (anchored_episode sample hash))
          else
            let continued = continue_episode episode sample in
            if may_confirm continued
            then Some (QuarantineConfirm, Apply, Healthy (Some (push_applied
                   (baseline_seeded (be_catalog_identity baseline) None) observed_count)))
            else Some (Suspect, Hold, Quarantined baseline continued))"

definition evaluate :: "digest \<Rightarrow> gate_runtime \<Rightarrow> gate_sample \<Rightarrow> gate_decision option" where
  "evaluate H runtime sample =
     (let observed_count = of_nat (bm_len (gs_observed sample));
          sample_hash = canonical_open_set_hash_v1 H (bm_keys (gs_observed sample))
      in map_option (\<lambda>(kind, disposition, next_state).
           \<lparr>gd_disposition = disposition, gd_kind = kind,
            gd_catalog_identity = gs_catalog_identity sample,
            gd_observed_intersection_count = observed_count, gd_response_set_sha256 = sample_hash,
            gd_gate_epoch = gr_epoch runtime, gd_next_state = next_state\<rparr>)
         (decide (gr_state runtime) sample observed_count sample_hash))"

definition advance :: "gate_runtime \<Rightarrow> gate_decision \<Rightarrow> gate_runtime option" where
  "advance runtime decision =
     (if gd_gate_epoch decision \<noteq> gr_epoch runtime then None
      else Some \<lparr>gr_epoch = gr_epoch runtime + 1, gr_state = gd_next_state decision\<rparr>)"

definition reset_for_catalog_identity ::
  "gate_runtime \<Rightarrow> catalog_set_identity \<Rightarrow> u64 option \<Rightarrow> gate_runtime" where
  "reset_for_catalog_identity runtime identity transferred_floor =
     \<lparr>gr_epoch = gr_epoch runtime + 1,
      gr_state = Healthy (map_option (\<lambda>floor. baseline_seeded identity (Some floor)) transferred_floor)\<rparr>"

subsection \<open>Rebuilding after a restart\<close>

record restart_attempt_summary =
  ra_is_suspect_partial :: bool
  ra_canonical_set_sha256 :: string
  ra_completed_at :: offset_date_time
  ra_catalog_set_identity :: "catalog_set_identity option"

fun suspect_run ::
  "catalog_set_identity \<Rightarrow> string \<Rightarrow> restart_attempt_summary list \<Rightarrow> restart_attempt_summary list
     \<Rightarrow> restart_attempt_summary list" where
  "suspect_run identity hash run [] = run"
| "suspect_run identity hash run (attempt # attempts) =
     (let within_gap = (run = [] \<or> gap_in_range (ra_completed_at attempt) (ra_completed_at (last run))) in
      if ra_is_suspect_partial attempt \<and> ra_canonical_set_sha256 attempt = hash
         \<and> ra_catalog_set_identity attempt = Some identity \<and> within_gap
      then suspect_run identity hash (run @ [attempt]) attempts
      else run)"

definition rebuild_healthy :: "catalog_set_identity \<Rightarrow> u64 option \<Rightarrow> gate_runtime" where
  "rebuild_healthy identity floor =
     (case floor of Some f \<Rightarrow> runtime_seeded identity f | None \<Rightarrow> new_unseeded)"

definition rebuild_after_restart ::
  "catalog_set_identity \<Rightarrow> u64 option \<Rightarrow> restart_attempt_summary list \<Rightarrow> offset_date_time
     \<Rightarrow> gate_runtime option" where
  "rebuild_after_restart identity lkg_reference attempts now =
     (case attempts of
        [] \<Rightarrow> Some (rebuild_healthy identity lkg_reference)
      | newest # _ \<Rightarrow>
          if \<not> ra_is_suspect_partial newest \<or> ra_catalog_set_identity newest \<noteq> Some identity
          then Some (rebuild_healthy identity lkg_reference)
          else (case lkg_reference of
             None \<Rightarrow> Some (rebuild_healthy identity None)
           | Some reference \<Rightarrow>
               if \<not> gap_in_range (ra_completed_at newest) now
               then Some (rebuild_healthy identity (Some reference))
               else
                 let run = suspect_run identity (ra_canonical_set_sha256 newest) [] attempts in
                 if run = [] then None
                 else
                   let oldest = last run;
                       baseline = set_lkg_floor (baseline_seeded identity (Some reference)) (Some reference)
                   in Some \<lparr>gr_epoch = 0, gr_state = Quarantined baseline
                        \<lparr>ce_anchor_set = None, ce_anchor_set_sha256 = ra_canonical_set_sha256 newest,
                         ce_first_seen = ra_completed_at oldest, ce_last_seen = ra_completed_at newest,
                         ce_consistent_count = of_nat (length run)\<rparr>\<rparr>))"

subsection \<open>Serving and candidate runtimes of a target\<close>

instantiation catalog_set_identity :: linorder
begin
definition less_eq_catalog_set_identity :: "catalog_set_identity \<Rightarrow> catalog_set_identity \<Rightarrow> bool" where
  "less_eq_catalog_set_identity a b \<longleftrightarrow> identity_str a \<le> identity_str b"
definition less_catalog_set_identity :: "catalog_set_identity \<Rightarrow> catalog_set_identity \<Rightarrow> bool" where
  "less_catalog_set_identity a b \<longleftrightarrow> identity_str a < identity_str b"
instance
  by standard
    (auto simp: less_eq_catalog_set_identity_def less_catalog_set_identity_def catalog_set_identity.expand)
end

record target_gate_set =
  tg_serving :: "gate_runtime option"
  tg_candidates :: "(catalog_set_identity, gate_runtime) bmap"

definition target_gate_set_new :: target_gate_set where
  "target_gate_set_new = \<lparr>tg_serving = None, tg_candidates = bm_empty\<rparr>"

definition serving_installed :: "target_gate_set \<Rightarrow> bool" where
  "serving_installed gates \<longleftrightarrow> tg_serving gates \<noteq> None"

text \<open>A method that returns a mutable reference is a pair: the value read through the reference, and
  the set after the call.  Writing through it is \<open>put_serving\<close> or \<open>put_candidate\<close>.\<close>

definition serving_mut :: "target_gate_set \<Rightarrow> gate_runtime \<times> target_gate_set" where
  "serving_mut gates =
     (case tg_serving gates of
        Some runtime \<Rightarrow> (runtime, gates)
      | None \<Rightarrow> (new_unseeded, gates\<lparr>tg_serving := Some new_unseeded\<rparr>))"

definition install_serving :: "target_gate_set \<Rightarrow> gate_runtime \<Rightarrow> target_gate_set" where
  "install_serving gates runtime = gates\<lparr>tg_serving := Some runtime\<rparr>"

definition candidate_mut ::
  "target_gate_set \<Rightarrow> catalog_set_identity \<Rightarrow> u64 option \<Rightarrow> gate_runtime \<times> target_gate_set" where
  "candidate_mut gates identity seed =
     (let retained = bm_retain (\<lambda>existing _. existing = identity) (tg_candidates gates);
          runtime = (case bm_get retained identity of
            Some existing \<Rightarrow> existing
          | None \<Rightarrow> (case seed of
               Some floor \<Rightarrow> runtime_seeded identity floor
             | None \<Rightarrow> new_unseeded))
      in (runtime, gates\<lparr>tg_candidates := bm_insert identity runtime retained\<rparr>))"

definition put_candidate ::
  "target_gate_set \<Rightarrow> catalog_set_identity \<Rightarrow> gate_runtime \<Rightarrow> target_gate_set" where
  "put_candidate gates identity runtime =
     gates\<lparr>tg_candidates := bm_insert identity runtime (tg_candidates gates)\<rparr>"

definition promote_candidate :: "target_gate_set \<Rightarrow> catalog_set_identity \<Rightarrow> target_gate_set" where
  "promote_candidate gates identity =
     (case bm_get (tg_candidates gates) identity of
        Some promoted \<Rightarrow> gates\<lparr>tg_serving := Some promoted, tg_candidates := bm_empty\<rparr>
      | None \<Rightarrow> gates\<lparr>tg_candidates := bm_empty\<rparr>)"

end
