(* ===== verification/Gate_Guarantees.thy ===== *)
theory Gate_Guarantees
  imports Open_Gate
begin

text \<open>
  What the integrity gate guarantees: the rule of a single decision, the evidence behind every
  confirmation, that a stable feed is confirmed, the rebuild after a restart, and the routing of
  samples to the serving and candidate runtimes.
\<close>

subsection \<open>Runs\<close>

definition observed_count :: "gate_sample \<Rightarrow> u64" where
  "observed_count s = of_nat (bm_len (gs_observed s))"

definition sample_hash :: "digest \<Rightarrow> gate_sample \<Rightarrow> string" where
  "sample_hash H s = canonical_open_set_hash_v1 H (bm_keys (gs_observed s))"

text \<open>The caller's protocol for one sample, with a committed transaction: decide, then advance.\<close>

definition gate_step :: "digest \<Rightarrow> gate_runtime \<Rightarrow> gate_sample \<Rightarrow> (gate_decision \<times> gate_runtime) option" where
  "gate_step H r s = (case evaluate H r s of None \<Rightarrow> None
     | Some d \<Rightarrow> map_option (\<lambda>r'. (d, r')) (advance r d))"

fun gate_run :: "digest \<Rightarrow> gate_runtime \<Rightarrow> gate_sample list \<Rightarrow> (gate_decision list \<times> gate_runtime) option" where
  "gate_run H r [] = Some ([], r)"
| "gate_run H r (s # ss) = (case gate_step H r s of None \<Rightarrow> None
     | Some (d, r') \<Rightarrow> map_option (\<lambda>(ds, r''). (d # ds, r'')) (gate_run H r' ss))"

fun state_baseline :: "gate_state \<Rightarrow> baseline_epoch option" where
  "state_baseline (Healthy b) = b"
| "state_baseline (Quarantined b _) = Some b"

lemma evaluate_decide:
  "evaluate H r s = Some d \<longleftrightarrow>
     decide (gr_state r) s (observed_count s) (sample_hash H s) = Some (gd_kind d, gd_disposition d, gd_next_state d)
     \<and> gd_gate_epoch d = gr_epoch r \<and> gd_catalog_identity d = gs_catalog_identity s
     \<and> gd_observed_intersection_count d = observed_count s \<and> gd_response_set_sha256 d = sample_hash H s"
  unfolding evaluate_def Let_def observed_count_def [symmetric] sample_hash_def [symmetric] by (cases d) auto

lemma gate_step_Some:
  "gate_step H r s = Some (d, r') \<longleftrightarrow>
     evaluate H r s = Some d \<and> r' = \<lparr>gr_epoch = gr_epoch r + 1, gr_state = gd_next_state d\<rparr>"
proof (cases "evaluate H r s")
  case (Some e)
  then have "gd_gate_epoch e = gr_epoch r"
    by (simp add: evaluate_decide)
  with Some show ?thesis
    by (auto simp: gate_step_def advance_def)
qed (simp add: gate_step_def)

lemma gate_run_snoc:
  "gate_run H r (ss @ [s]) = Some (es, r'') \<longleftrightarrow>
     (\<exists>ds d r'. es = ds @ [d] \<and> gate_run H r ss = Some (ds, r') \<and> gate_step H r' s = Some (d, r''))"
proof (induction ss arbitrary: r es)
  case Nil
  show ?case by (auto split: option.splits)
next
  case (Cons x ss)
  show ?case
    by (cases "gate_step H r x") (auto simp: Cons.IH)
qed

lemma gate_run_length: "gate_run H r ss = Some (ds, r') \<Longrightarrow> length ds = length ss"
  by (induction ss arbitrary: r ds) (auto split: option.splits)

subsection \<open>Thresholds\<close>

lemma nat_div_ceil:
  fixes n m :: nat
  assumes "0 < m"
  shows "(n + m - 1) div m = (if n mod m = 0 then n div m else n div m + 1)"
proof -
  define q r where "q = n div m" and "r = n mod m"
  have n: "n = m * q + r" and r: "r < m"
    using assms by (simp_all add: q_def r_def)
  have "(n + m - 1) div m = (if r = 0 then q else Suc q)"
    using n r assms by (intro div_nat_eqI) (auto simp: mult_Suc_right)
  then show ?thesis
    by (simp add: q_def r_def)
qed

lemma unat_div_ceil:
  assumes "2 \<le> unat d"
  shows "unat (div_ceil a d) = (unat a + unat d - 1) div unat d"
proof -
  have "unat a div unat d \<le> unat a div 2"
    using assms by (simp add: div_le_mono2)
  also have "\<dots> < 2 ^ 63"
    using unsigned_less [of a, where ?'a = nat] by simp
  finally have "unat (a div d + 1) = unat a div unat d + 1"
    by (simp add: unat_word_ariths unat_div_distrib)
  moreover have "a mod d = 0 \<longleftrightarrow> unat a mod unat d = 0"
    by (simp add: unat_eq_zero [symmetric] unat_mod_distrib)
  moreover have "0 < unat d"
    using assms by simp
  ultimately show ?thesis
    using nat_div_ceil [of "unat d" "unat a"] by (simp add: div_ceil_def unat_div_distrib)
qed

lemma suspect_iff:
  "shrink_is_suspect b c \<longleftrightarrow> unat c + max ((unat b + 9) div 10) 25 \<le> unat b"
  by (auto simp: shrink_is_suspect_def Let_def word_le_nat_alt unat_saturating_sub max_def unat_div_ceil
      GATE_DROP_THRESHOLD_DENOMINATOR_def GATE_MIN_ABSOLUTE_DROP_def)

lemma recovered_iff:
  "recovered_near_reference b c \<longleftrightarrow> unat b < unat c + max ((unat b + 19) div 20) 25"
  by (auto simp: recovered_near_reference_def Let_def word_less_nat_alt word_le_nat_alt unat_saturating_sub max_def
      unat_div_ceil GATE_RECOVERY_THRESHOLD_DENOMINATOR_def GATE_MIN_ABSOLUTE_DROP_def)

lemma recovered_not_suspect: "recovered_near_reference b c \<Longrightarrow> \<not> shrink_is_suspect b c"
  unfolding suspect_iff recovered_iff by linarith

text \<open>For references of at most 250 sections both rules use the absolute floor: there is no hysteresis.\<close>

lemma no_hysteresis_small: "unat b \<le> 250 \<Longrightarrow> recovered_near_reference b c \<longleftrightarrow> \<not> shrink_is_suspect b c"
  unfolding suspect_iff recovered_iff by linarith

text \<open>The accepted gap reaches from just above minus one second to just below 121 seconds.\<close>

lemma gap_in_range_iff:
  "gap_in_range t u \<longleftrightarrow> - 1000000000 < u - t \<and> u - t < 121000000000"
  unfolding gap_in_range_def Let_def GATE_MAX_SAMPLE_GAP_SECONDS_def
  using whole_seconds_in_range_iff [of 120 "u - t"] by simp

lemma symmetric_difference_self [simp]: "symmetric_difference_count a a = 0"
  by (auto simp: symmetric_difference_count_def bm_contains_def in_bm_keys)

lemma sets_consistent_self [simp]: "sets_consistent a a"
  by (simp add: sets_consistent_def)

subsection \<open>One decision\<close>

lemma decide_Some_cases:
  assumes "decide st s c h = Some (k, disp, st')"
  obtains (unseeded) "st = Healthy None" "k = Pass" "disp = Apply"
      "st' = Healthy (Some (push_applied (baseline_seeded (gs_catalog_identity s) None) c))"
    | (enter) b where "st = Healthy (Some b)" "shrink_is_suspect (reference_of b) c" "k = Suspect" "disp = Hold"
      "st' = Quarantined b (anchored_episode s h)"
    | (pass) b where "st = Healthy (Some b)" "\<not> shrink_is_suspect (reference_of b) c" "k = Pass" "disp = Apply"
      "st' = Healthy (Some (push_applied b c))"
    | (recover) b e where "st = Quarantined b e" "recovered_near_reference (reference_of b) c"
      "k = QuarantineRecover" "disp = Apply" "st' = Healthy (Some (push_applied b c))"
    | (reanchor) b e where "st = Quarantined b e" "\<not> recovered_near_reference (reference_of b) c"
      "\<not> gap_in_range (ce_last_seen e) (gs_observed_at s) \<or> \<not> consistent_with_anchor e s h"
      "k = Suspect" "disp = Hold" "st' = Quarantined b (anchored_episode s h)"
    | (confirm) b e where "st = Quarantined b e" "\<not> recovered_near_reference (reference_of b) c"
      "gap_in_range (ce_last_seen e) (gs_observed_at s)" "consistent_with_anchor e s h"
      "may_confirm (continue_episode e s)" "k = QuarantineConfirm" "disp = Apply"
      "st' = Healthy (Some (push_applied (baseline_seeded (be_catalog_identity b) None) c))"
    | (continue) b e where "st = Quarantined b e" "\<not> recovered_near_reference (reference_of b) c"
      "gap_in_range (ce_last_seen e) (gs_observed_at s)" "consistent_with_anchor e s h"
      "\<not> may_confirm (continue_episode e s)" "k = Suspect" "disp = Hold"
      "st' = Quarantined b (continue_episode e s)"
proof (cases st)
  case (Healthy bo)
  then show thesis
  proof (cases bo)
    case None
    with Healthy assms show thesis
      by (intro unseeded) (simp_all add: decide_def)
  next
    case (Some b)
    with Healthy assms show thesis
      using enter [of b] pass [of b] by (auto simp: decide_def split: if_splits)
  qed
next
  case (Quarantined b e)
  with assms show thesis
    using recover [of b e] reanchor [of b e] confirm [of b e] continue [of b e]
    by (auto simp: decide_def Let_def split: if_splits)
qed

lemma decide_total:
  "(\<exists>x. decide st s c h = Some x) \<longleftrightarrow> state_catalog_identity st \<in> {None, Some (gs_catalog_identity s)}"
  by (cases st) (auto simp: decide_def Let_def split: option.splits)

lemma decide_identity:
  assumes "decide st s c h = Some (k, disp, st')"
  shows "state_catalog_identity st' = Some (gs_catalog_identity s)"
proof -
  have "state_catalog_identity st \<in> {None, Some (gs_catalog_identity s)}"
    using assms decide_total [of st s c h] by auto
  with assms show ?thesis
    by (cases rule: decide_Some_cases) (auto simp: push_applied_def baseline_seeded_def)
qed

text \<open>C17. A decision holds the snapshot exactly when it leaves the target quarantined, and then the frozen
  baseline is untouched, so the reference the snapshot was measured against stays.  A snapshot applied
  without a confirmation never falls short of the reference by the entry threshold.  The decision is
  bound to its inputs, it can be applied once to the runtime that made it, and applying it again
  panics.\<close>
theorem gate_decision_rule:
  assumes "evaluate H r s = Some d"
  shows "(gd_disposition d = Hold \<longleftrightarrow> is_quarantined (gd_next_state d))
    \<and> (gd_disposition d = Hold \<longrightarrow> gd_kind d = Suspect \<and> state_baseline (gd_next_state d) = state_baseline (gr_state r)
         \<and> (\<exists>b. state_baseline (gr_state r) = Some b \<and> \<not> recovered_near_reference (reference_of b) (gd_observed_intersection_count d)))
    \<and> (gd_disposition d = Apply \<and> gd_kind d \<noteq> QuarantineConfirm \<longrightarrow>
         (\<forall>b. state_baseline (gr_state r) = Some b \<longrightarrow> \<not> shrink_is_suspect (reference_of b) (gd_observed_intersection_count d)))
    \<and> gd_observed_intersection_count d = observed_count s \<and> gd_catalog_identity d = gs_catalog_identity s
    \<and> (\<exists>r'. advance r d = Some r' \<and> gr_state r' = gd_next_state d \<and> advance r' d = None)"
proof -
  note d = assms [unfolded evaluate_decide]
  have "advance r d = Some \<lparr>gr_epoch = gr_epoch r + 1, gr_state = gd_next_state d\<rparr>"
    "advance \<lparr>gr_epoch = gr_epoch r + 1, gr_state = gd_next_state d\<rparr> d = None"
    using d by (simp_all add: advance_def)
  then have adv: "\<exists>r'. advance r d = Some r' \<and> gr_state r' = gd_next_state d \<and> advance r' d = None"
    by auto
  from d have "decide (gr_state r) s (observed_count s) (sample_hash H s) = Some (gd_kind d, gd_disposition d, gd_next_state d)"
    by simp
  then show ?thesis
    using recovered_not_suspect d adv by (cases rule: decide_Some_cases) auto
qed

subsection \<open>The evidence behind a quarantine\<close>

text \<open>An episode summarises a block of consecutive samples: their first set is the anchor, every later
  set agrees with it, neighbours are close in time, and their number is the episode's count.\<close>

definition steady :: "gate_sample list \<Rightarrow> bool" where
  "steady ss \<longleftrightarrow> successively (\<lambda>a b. gap_in_range (gs_observed_at a) (gs_observed_at b)) ss
     \<and> (\<forall>s \<in> set ss. sets_consistent (gs_observed (hd ss)) (gs_observed s))"

definition summarises :: "candidate_episode \<Rightarrow> gate_sample list \<Rightarrow> bool" where
  "summarises e ss \<longleftrightarrow> ss \<noteq> [] \<and> steady ss \<and> ce_anchor_set e = Some (gs_observed (hd ss))
     \<and> ce_first_seen e = gs_observed_at (hd ss) \<and> ce_last_seen e = gs_observed_at (last ss)
     \<and> unat (ce_consistent_count e) = min (length ss) (2 ^ 32 - 1)"

lemma steady_snoc:
  assumes "ss \<noteq> []"
  shows "steady (ss @ [s]) \<longleftrightarrow> steady ss \<and> gap_in_range (gs_observed_at (last ss)) (gs_observed_at s)
    \<and> sets_consistent (gs_observed (hd ss)) (gs_observed s)"
  using assms by (auto simp: steady_def successively_append_iff)

lemma summarises_anchored: "summarises (anchored_episode s h) [s]"
  by (simp add: summarises_def steady_def anchored_episode_def)

lemma summarises_continue:
  assumes "summarises e ss" "gap_in_range (ce_last_seen e) (gs_observed_at s)" "consistent_with_anchor e s h"
  shows "summarises (continue_episode e s) (ss @ [s])"
  using assms
  by (auto simp: summarises_def steady_snoc continue_episode_def consistent_with_anchor_def unat_saturating_add)

lemma steady_span:
  assumes "steady (s # ss)"
  shows "gs_observed_at (last (s # ss)) - gs_observed_at s \<le> 121000000000 * int (length ss)"
proof -
  have "successively (\<lambda>a b. gap_in_range (gs_observed_at a) (gs_observed_at b)) (s # ss) \<Longrightarrow> ?thesis"
  proof (induction ss arbitrary: s)
    case (Cons t ss)
    then have "gs_observed_at (last (t # ss)) - gs_observed_at t \<le> 121000000000 * int (length ss)"
      "gs_observed_at t - gs_observed_at s < 121000000000"
      by (simp_all add: gap_in_range_iff)
    then show ?case
      by simp
  qed simp
  then show ?thesis
    using assms by (simp add: steady_def)
qed

lemma may_confirm_summary:
  assumes "summarises e ss"
  shows "may_confirm e \<longleftrightarrow> 300000000000 \<le> gs_observed_at (last ss) - gs_observed_at (hd ss)"
proof -
  have "3 \<le> length ss" if span: "300000000000 \<le> gs_observed_at (last ss) - gs_observed_at (hd ss)"
  proof (cases ss)
    case (Cons s ts)
    then have "300000000000 \<le> 121000000000 * int (length ts)"
      using steady_span [of s ts] assms span by (simp add: summarises_def)
    then show ?thesis
      using Cons by simp
  qed (use assms in \<open>simp add: summarises_def\<close>)
  then show ?thesis
    using assms
    by (auto simp: may_confirm_def summarises_def whole_seconds_ge_iff GATE_CONFIRM_MIN_SPAN_SECONDS_def
        GATE_CONFIRM_MIN_CONSISTENT_def word_le_nat_alt)
qed

text \<open>Throughout a run that starts healthy, a quarantine is backed by the latest samples: they were all
  held, and none of them recovered the frozen reference.\<close>

lemma run_quarantine_evidence:
  assumes "\<not> is_quarantined (gr_state r)"
    and "gate_run H r ss = Some (ds, r')" "gr_state r' = Quarantined b e"
  shows "\<exists>pre ev ds0 rp. ss = pre @ ev \<and> summarises e ev
    \<and> gate_run H r pre = Some (ds0, rp) \<and> state_baseline (gr_state rp) = Some b
    \<and> (\<forall>d \<in> set (drop (length pre) ds). gd_disposition d = Hold)
    \<and> (\<forall>s \<in> set ev. \<not> recovered_near_reference (reference_of b) (observed_count s))"
  using assms(2,3)
proof (induction ss arbitrary: ds r' b e rule: rev_induct)
  case Nil
  then show ?case using assms(1) by auto
next
  case (snoc s ss)
  then obtain ds0 d r0 where run: "gate_run H r ss = Some (ds0, r0)" "ds = ds0 @ [d]"
    and step: "evaluate H r0 s = Some d" "gr_state r' = gd_next_state d"
    by (auto simp: gate_run_snoc gate_step_Some)
  have len: "length ds0 = length ss"
    using run(1) by (rule gate_run_length)
  have dec: "decide (gr_state r0) s (observed_count s) (sample_hash H s) = Some (gd_kind d, gd_disposition d, Quarantined b e)"
    using step snoc.prems(2) by (simp add: evaluate_decide)
  have fresh: ?case if "e = anchored_episode s (sample_hash H s)" "gd_disposition d = Hold"
      "\<not> recovered_near_reference (reference_of b) (observed_count s)" "state_baseline (gr_state r0) = Some b"
    using that run len by (intro exI [of _ ss] exI [of _ "[s]"] exI [of _ ds0] exI [of _ r0]) (auto simp: summarises_anchored)
  from dec show ?case
  proof (cases rule: decide_Some_cases)
    case (enter b')
    then show ?thesis
      by (intro fresh) (auto dest: recovered_not_suspect)
  next
    case (reanchor b' e')
    then show ?thesis
      by (intro fresh) auto
  next
    case (continue b' e')
    then have "gr_state r0 = Quarantined b' e'"
      by simp
    then obtain pre ev ds1 rp where ev: "ss = pre @ ev" "summarises e' ev"
      "gate_run H r pre = Some (ds1, rp)" "state_baseline (gr_state rp) = Some b'"
      "\<forall>d \<in> set (drop (length pre) ds0). gd_disposition d = Hold"
      "\<forall>s \<in> set ev. \<not> recovered_near_reference (reference_of b') (observed_count s)"
      by (elim snoc.IH [OF run(1), elim_format] exE conjE)
    then have "summarises e (ev @ [s])"
      using continue summarises_continue by simp
    with ev continue run(2) len show ?thesis
      by (intro exI [of _ pre] exI [of _ "ev @ [s]"] exI [of _ ds1] exI [of _ rp]) auto
  qed simp_all
qed

text \<open>C15. A shrunken snapshot is only ever confirmed on evidence.  In any run from a healthy runtime, a
  confirmation is preceded by at least three held samples of one steady feed: with the confirmed one
  they span at least five minutes, every two neighbours are less than 121 seconds apart, every set
  stays within the tolerance of the first, and none of them came back near the reference the runtime
  had when they began.\<close>
theorem gate_confirm_evidence:
  assumes "\<not> is_quarantined (gr_state r)"
    and "gate_run H r (ss @ [s]) = Some (ds @ [d], r')" "gd_kind d = QuarantineConfirm"
  shows "\<exists>pre ev ds0 rp b. ss = pre @ ev \<and> 3 \<le> length ev \<and> steady (ev @ [s])
    \<and> 300000000000 \<le> gs_observed_at s - gs_observed_at (hd ev)
    \<and> (\<forall>e \<in> set (drop (length pre) ds). gd_disposition e = Hold)
    \<and> gate_run H r pre = Some (ds0, rp) \<and> state_baseline (gr_state rp) = Some b
    \<and> (\<forall>t \<in> set (ev @ [s]). \<not> recovered_near_reference (reference_of b) (observed_count t))"
proof -
  obtain r0 where run: "gate_run H r ss = Some (ds, r0)" and step: "evaluate H r0 s = Some d"
    using assms(2) by (auto simp: gate_run_snoc gate_step_Some)
  from step have "decide (gr_state r0) s (observed_count s) (sample_hash H s) = Some (QuarantineConfirm, gd_disposition d, gd_next_state d)"
    using assms(3) by (simp add: evaluate_decide)
  then obtain b e where q: "gr_state r0 = Quarantined b e"
    and no: "\<not> recovered_near_reference (reference_of b) (observed_count s)"
    and cont: "gap_in_range (ce_last_seen e) (gs_observed_at s)" "consistent_with_anchor e s (sample_hash H s)"
      "may_confirm (continue_episode e s)"
    by (cases rule: decide_Some_cases) auto
  obtain pre ev ds0 rp where ev: "ss = pre @ ev" "summarises e ev"
    "gate_run H r pre = Some (ds0, rp)" "state_baseline (gr_state rp) = Some b"
    "\<forall>d \<in> set (drop (length pre) ds). gd_disposition d = Hold"
    "\<forall>t \<in> set ev. \<not> recovered_near_reference (reference_of b) (observed_count t)"
    using run_quarantine_evidence [OF assms(1) run q] by blast
  have sum: "summarises (continue_episode e s) (ev @ [s])"
    using summarises_continue [OF ev(2) cont(1,2)] .
  then have steady: "steady (ev @ [s])" and span: "300000000000 \<le> gs_observed_at s - gs_observed_at (hd ev)"
    using cont(3) may_confirm_summary [OF sum] ev(2) by (auto simp: summarises_def)
  obtain a ts where a: "ev = a # ts"
    using ev(2) by (cases ev) (auto simp: summarises_def)
  have "300000000000 \<le> 121000000000 * int (length (ts @ [s]))"
    using steady_span [of a "ts @ [s]"] steady span a by simp
  then have "3 \<le> length ev"
    using a by simp
  then show ?thesis
    using ev steady span no by (intro exI [of _ pre] exI [of _ ev] exI [of _ ds0] exI [of _ rp] exI [of _ b]) auto
qed

subsection \<open>A steady feed is confirmed\<close>

lemma steady_prefix: "steady (s # ss @ [t]) \<Longrightarrow> steady (s # ss)"
  using steady_snoc [of "s # ss" t] by simp

lemma run_holds_steady:
  assumes "gr_state r = Healthy (Some b)" "shrink_is_suspect (reference_of b) (observed_count s)"
    and "\<forall>t \<in> set (s # ss). gs_catalog_identity t = be_catalog_identity b
           \<and> \<not> recovered_near_reference (reference_of b) (observed_count t)"
    and "steady (s # ss)" "\<forall>t \<in> set ss. gs_observed_at t - gs_observed_at s < 300000000000"
  shows "\<exists>ds r' e. gate_run H r (s # ss) = Some (ds, r') \<and> (\<forall>d \<in> set ds. gd_disposition d = Hold)
    \<and> gr_state r' = Quarantined b e \<and> summarises e (s # ss)"
  using assms(3-5)
proof (induction ss rule: rev_induct)
  case Nil
  have "decide (gr_state r) s (observed_count s) (sample_hash H s) = Some (Suspect, Hold, Quarantined b (anchored_episode s (sample_hash H s)))"
    using assms(1,2) Nil by (simp add: decide_def)
  then obtain d where d: "evaluate H r s = Some d" "gd_disposition d = Hold"
      "gd_next_state d = Quarantined b (anchored_episode s (sample_hash H s))"
    by (auto simp: evaluate_def observed_count_def sample_hash_def Let_def)
  then have "gate_step H r s = Some (d, \<lparr>gr_epoch = gr_epoch r + 1, gr_state = gd_next_state d\<rparr>)"
    by (simp add: gate_step_Some)
  with d show ?case
    by (simp add: summarises_anchored)
next
  case (snoc t ss)
  have "\<forall>t \<in> set (s # ss). gs_catalog_identity t = be_catalog_identity b
      \<and> \<not> recovered_near_reference (reference_of b) (observed_count t)"
    "steady (s # ss)" "\<forall>t \<in> set ss. gs_observed_at t - gs_observed_at s < 300000000000"
    using snoc.prems by (simp_all add: steady_prefix)
  note IH = snoc.IH [OF this]
  then obtain ds r0 e where run: "gate_run H r (s # ss) = Some (ds, r0)" "\<forall>d \<in> set ds. gd_disposition d = Hold"
    and q: "gr_state r0 = Quarantined b e" and sum: "summarises e (s # ss)"
    by (elim exE conjE)
  have cont: "gap_in_range (ce_last_seen e) (gs_observed_at t)" "consistent_with_anchor e t (sample_hash H t)"
    using sum snoc.prems(2) steady_snoc [of "s # ss" t] by (simp_all add: summarises_def consistent_with_anchor_def)
  have sum': "summarises (continue_episode e t) (s # ss @ [t])"
    using summarises_continue [OF sum cont] by simp
  then have "\<not> may_confirm (continue_episode e t)"
    using may_confirm_summary [OF sum'] snoc.prems(3) by auto
  then have "decide (gr_state r0) t (observed_count t) (sample_hash H t) = Some (Suspect, Hold, Quarantined b (continue_episode e t))"
    using q cont snoc.prems(1) by (simp add: decide_def Let_def)
  then obtain d where "evaluate H r0 t = Some d" "gd_disposition d = Hold" "gd_next_state d = Quarantined b (continue_episode e t)"
    by (auto simp: evaluate_def observed_count_def sample_hash_def Let_def)
  then have "gate_run H r ((s # ss) @ [t]) = Some (ds @ [d], \<lparr>gr_epoch = gr_epoch r0 + 1, gr_state = Quarantined b (continue_episode e t)\<rparr>)"
    using run(1) by (subst gate_run_snoc) (auto simp: gate_step_Some)
  with run(2) sum' \<open>gd_disposition d = Hold\<close> show ?case
    by (intro exI [of _ "ds @ [d]"] exI [of _ "\<lparr>gr_epoch = gr_epoch r0 + 1, gr_state = Quarantined b (continue_episode e t)\<rparr>"]
        exI [of _ "continue_episode e t"]) (auto simp del: gate_run.simps)
qed

text \<open>The first sample of a steady shrunken feed at least five minutes after the shrink is confirmed.\<close>

lemma run_confirms_steady:
  assumes "gr_state r = Healthy (Some b)" "shrink_is_suspect (reference_of b) (observed_count s)"
    and "\<forall>t \<in> set (s # ss @ [z]). gs_catalog_identity t = be_catalog_identity b
           \<and> \<not> recovered_near_reference (reference_of b) (observed_count t)"
    and "steady (s # ss @ [z])" "300000000000 \<le> gs_observed_at z - gs_observed_at s"
    and "\<forall>t \<in> set ss. gs_observed_at t - gs_observed_at s < 300000000000"
  shows "\<exists>ds d r'. gate_run H r (s # ss @ [z]) = Some (ds @ [d], r') \<and> (\<forall>e \<in> set ds. gd_disposition e = Hold)
    \<and> gd_kind d = QuarantineConfirm \<and> gd_disposition d = Apply
    \<and> gr_state r' = Healthy (Some (push_applied (baseline_seeded (be_catalog_identity b) None) (observed_count z)))"
proof -
  have "\<forall>t \<in> set (s # ss). gs_catalog_identity t = be_catalog_identity b
      \<and> \<not> recovered_near_reference (reference_of b) (observed_count t)"
    using assms(3) by simp
  note run_holds_steady [OF assms(1,2) this steady_prefix [OF assms(4)] assms(6), of H]
  then obtain ds r0 e where run: "gate_run H r (s # ss) = Some (ds, r0)" "\<forall>d \<in> set ds. gd_disposition d = Hold"
    and q: "gr_state r0 = Quarantined b e" and sum: "summarises e (s # ss)"
    by (elim exE conjE)
  have cont: "gap_in_range (ce_last_seen e) (gs_observed_at z)" "consistent_with_anchor e z (sample_hash H z)"
    using sum assms(4) steady_snoc [of "s # ss" z] by (simp_all add: summarises_def consistent_with_anchor_def)
  have sum': "summarises (continue_episode e z) ((s # ss) @ [z])"
    by (rule summarises_continue [OF sum cont])
  then have "may_confirm (continue_episode e z)"
    using may_confirm_summary [OF sum'] assms(5) by simp
  then have "decide (gr_state r0) z (observed_count z) (sample_hash H z)
      = Some (QuarantineConfirm, Apply, Healthy (Some (push_applied (baseline_seeded (be_catalog_identity b) None) (observed_count z))))"
    using q cont assms(3) by (simp add: decide_def Let_def)
  then obtain d where d: "evaluate H r0 z = Some d" "gd_kind d = QuarantineConfirm" "gd_disposition d = Apply"
    "gd_next_state d = Healthy (Some (push_applied (baseline_seeded (be_catalog_identity b) None) (observed_count z)))"
    by (auto simp: evaluate_def observed_count_def sample_hash_def Let_def)
  then have "gate_run H r ((s # ss) @ [z]) = Some (ds @ [d], \<lparr>gr_epoch = gr_epoch r0 + 1, gr_state = gd_next_state d\<rparr>)"
    using run(1) by (subst gate_run_snoc) (auto simp: gate_step_Some)
  with run(2) d show ?thesis
    by (intro exI [of _ ds] exI [of _ d] exI [of _ "\<lparr>gr_epoch = gr_epoch r0 + 1, gr_state = gd_next_state d\<rparr>"])
      (simp del: gate_run.simps)
qed

subsection \<open>Restart\<close>

definition run_member :: "catalog_set_identity \<Rightarrow> string \<Rightarrow> restart_attempt_summary \<Rightarrow> bool" where
  "run_member identity hash a \<longleftrightarrow> ra_is_suspect_partial a \<and> ra_canonical_set_sha256 a = hash
     \<and> ra_catalog_set_identity a = Some identity"

text \<open>A newest-first list of attempts whose neighbours lie within the accepted gap.\<close>

definition close_attempts :: "restart_attempt_summary list \<Rightarrow> bool" where
  "close_attempts as \<longleftrightarrow> successively (\<lambda>later earlier. gap_in_range (ra_completed_at earlier) (ra_completed_at later)) as"

lemma suspect_run_Cons:
  assumes "close_attempts run"
  shows "suspect_run identity hash run (a # as) =
    (if run_member identity hash a \<and> close_attempts (run @ [a]) then suspect_run identity hash (run @ [a]) as else run)"
  using assms by (auto simp: run_member_def close_attempts_def successively_append_iff Let_def)

lemma suspect_run_prefix:
  assumes "close_attempts run" "list_all (run_member identity hash) run"
  shows "\<exists>n. suspect_run identity hash run as = run @ take n as \<and> n \<le> length as
    \<and> close_attempts (run @ take n as) \<and> list_all (run_member identity hash) (run @ take n as)
    \<and> (n < length as \<longrightarrow> \<not> (close_attempts (run @ take (Suc n) as) \<and> run_member identity hash (as ! n)))"
  using assms
proof (induction as arbitrary: run)
  case (Cons a as)
  show ?case
  proof (cases "run_member identity hash a \<and> close_attempts (run @ [a])")
    case True
    then have "\<exists>n. suspect_run identity hash (run @ [a]) as = (run @ [a]) @ take n as \<and> n \<le> length as
      \<and> close_attempts ((run @ [a]) @ take n as) \<and> list_all (run_member identity hash) ((run @ [a]) @ take n as)
      \<and> (n < length as \<longrightarrow> \<not> (close_attempts ((run @ [a]) @ take (Suc n) as) \<and> run_member identity hash (as ! n)))"
      using Cons.prems(2) by (intro Cons.IH) simp_all
    then obtain n where "suspect_run identity hash (run @ [a]) as = (run @ [a]) @ take n as" "n \<le> length as"
      "close_attempts ((run @ [a]) @ take n as)" "list_all (run_member identity hash) ((run @ [a]) @ take n as)"
      "n < length as \<longrightarrow> \<not> (close_attempts ((run @ [a]) @ take (Suc n) as) \<and> run_member identity hash (as ! n))"
      by (elim exE conjE)
    with True Cons.prems(1) show ?thesis
      by (intro exI [of _ "Suc n"]) (simp add: suspect_run_Cons del: suspect_run.simps)
  next
    case False
    with Cons.prems show ?thesis
      by (intro exI [of _ 0]) (auto simp: suspect_run_Cons simp del: suspect_run.simps)
  qed
qed simp

lemma suspect_run_newest:
  assumes "run_member identity hash a"
  obtains n where "suspect_run identity hash [] (a # as) = a # take n as" "n \<le> length as"
    "close_attempts (a # take n as)" "list_all (run_member identity hash) (a # take n as)"
    "n < length as \<longrightarrow> \<not> (close_attempts (a # take (Suc n) as) \<and> run_member identity hash (as ! n))"
proof -
  have "suspect_run identity hash [] (a # as) = suspect_run identity hash [a] as"
    using assms by (simp add: suspect_run_Cons close_attempts_def del: suspect_run.simps)
  moreover have "close_attempts [a]" "list_all (run_member identity hash) [a]"
    using assms by (simp_all add: close_attempts_def)
  ultimately show thesis
    using suspect_run_prefix [of "[a]" identity hash as] that by auto
qed

text \<open>C18. The rebuild after a restart never panics, starts at epoch zero and keeps the persisted count as
  the reference: a healthy runtime is seeded with exactly that floor (or unseeded without one).  It
  re-enters quarantine exactly when a reference exists and the newest attempt is a suspect of this
  catalog completed within the gap before now; the episode then covers the longest run of newest
  attempts that are suspects of this catalog with one hash and neighbouring completion times, counts
  exactly them, and holds no set, so only an identical hash continues it.  A failure between two
  suspects only ends the run: the rebuild still quarantines, with the newest suspect counted alone,
  where the comment of rebuild_after_restart says that it resets to healthy.\<close>
theorem restart_rebuild:
  "\<exists>r. rebuild_after_restart identity lkg attempts now = Some r \<and> gr_epoch r = 0
    \<and> (if lkg \<noteq> None \<and> attempts \<noteq> [] \<and> ra_is_suspect_partial (hd attempts)
          \<and> ra_catalog_set_identity (hd attempts) = Some identity \<and> gap_in_range (ra_completed_at (hd attempts)) now
       then \<exists>e n. gr_state r = Quarantined (baseline_seeded identity lkg) e
          \<and> 0 < n \<and> n \<le> length attempts \<and> close_attempts (take n attempts)
          \<and> list_all (run_member identity (ra_canonical_set_sha256 (hd attempts))) (take n attempts)
          \<and> (n < length attempts \<longrightarrow> \<not> (close_attempts (take (Suc n) attempts)
                \<and> run_member identity (ra_canonical_set_sha256 (hd attempts)) (attempts ! n)))
          \<and> e = \<lparr>ce_anchor_set = None, ce_anchor_set_sha256 = ra_canonical_set_sha256 (hd attempts),
                 ce_first_seen = ra_completed_at (attempts ! (n - 1)), ce_last_seen = ra_completed_at (hd attempts),
                 ce_consistent_count = of_nat n\<rparr>
       else gr_state r = Healthy (map_option (\<lambda>floor. baseline_seeded identity (Some floor)) lkg))"
proof (cases attempts)
  case Nil
  then show ?thesis
    by (auto simp: rebuild_after_restart_def rebuild_healthy_def runtime_seeded_def new_unseeded_def split: option.splits)
next
  case (Cons a as)
  show ?thesis
  proof (cases "lkg \<noteq> None \<and> ra_is_suspect_partial a \<and> ra_catalog_set_identity a = Some identity
      \<and> gap_in_range (ra_completed_at a) now")
    case True
    then have "run_member identity (ra_canonical_set_sha256 a) a"
      by (simp add: run_member_def)
    then obtain n where n: "suspect_run identity (ra_canonical_set_sha256 a) [] (a # as) = a # take n as" "n \<le> length as"
      "close_attempts (a # take n as)" "list_all (run_member identity (ra_canonical_set_sha256 a)) (a # take n as)"
      "n < length as \<longrightarrow> \<not> (close_attempts (a # take (Suc n) as) \<and> run_member identity (ra_canonical_set_sha256 a) (as ! n))"
      by (rule suspect_run_newest)
    have "last (a # take n as) = (a # as) ! n"
      using n(2) by (cases n) (auto simp: take_Suc_conv_app_nth)
    with True n Cons show ?thesis
      by (auto simp: rebuild_after_restart_def Let_def set_lkg_floor_def baseline_seeded_def
          simp del: suspect_run.simps intro!: exI [of _ "Suc n"])
  next
    case False
    with Cons show ?thesis
      by (auto simp: rebuild_after_restart_def Let_def rebuild_healthy_def runtime_seeded_def new_unseeded_def
          split: option.splits)
  qed
qed

subsection \<open>Routing\<close>

definition keyed :: "catalog_set_identity \<Rightarrow> gate_runtime \<Rightarrow> bool" where
  "keyed identity r \<longleftrightarrow> state_catalog_identity (gr_state r) \<in> {None, Some identity}"

definition wf_gates :: "target_gate_set \<Rightarrow> bool" where
  "wf_gates gates \<longleftrightarrow> bm_len (tg_candidates gates) \<le> 1
     \<and> (\<forall>k r. bm_get (tg_candidates gates) k = Some r \<longrightarrow> keyed k r)"

lemma evaluate_keyed:
  "(\<exists>d. evaluate H r s = Some d) \<longleftrightarrow> keyed (gs_catalog_identity s) r"
  using decide_total [of "gr_state r" s "observed_count s" "sample_hash H s"]
  unfolding keyed_def evaluate_def Let_def observed_count_def sample_hash_def by auto

lemma advance_keyed:
  assumes "evaluate H r s = Some d" "advance r d = Some r'"
  shows "keyed (gs_catalog_identity s) r'"
  using assms decide_identity by (auto simp: evaluate_decide advance_def keyed_def)

lemma keyed_new [simp]: "keyed k new_unseeded" "keyed k (runtime_seeded k f)"
  by (simp_all add: keyed_def new_unseeded_def runtime_seeded_def baseline_seeded_def)

lemma keyed_reset [simp]: "keyed k (reset_for_catalog_identity r k f)"
  by (cases f) (simp_all add: keyed_def reset_for_catalog_identity_def baseline_seeded_def)

lemma keyed_rebuild: "rebuild_after_restart k lkg attempts now = Some r \<Longrightarrow> keyed k r"
  by (auto simp: rebuild_after_restart_def rebuild_healthy_def Let_def keyed_def new_unseeded_def
      runtime_seeded_def baseline_seeded_def set_lkg_floor_def split: list.splits if_splits option.splits)

lemma candidate_mut_spec:
  assumes "candidate_mut gates k seed = (r, gates')" "wf_gates gates"
  shows "keyed k r" "wf_gates gates'" "tg_serving gates' = tg_serving gates"
    "tg_candidates gates' = bm_insert k r bm_empty"
proof -
  have retained: "bm_insert k x (bm_retain (\<lambda>e _. e = k) (tg_candidates gates)) = bm_insert k x bm_empty" for x
    by (rule bm.map_ext) (auto split: option.splits)
  have gates': "gates' = gates\<lparr>tg_candidates := bm_insert k r bm_empty\<rparr>"
    using assms(1) by (auto simp: candidate_mut_def Let_def retained)
  show "keyed k r"
    using assms by (auto simp: candidate_mut_def Let_def wf_gates_def split: option.splits)
  then show "wf_gates gates'"
    by (simp add: gates' wf_gates_def bm_len_insert)
  show "tg_serving gates' = tg_serving gates" "tg_candidates gates' = bm_insert k r bm_empty"
    by (simp_all add: gates')
qed

lemma wf_gates_new: "wf_gates target_gate_set_new"
  by (simp add: wf_gates_def target_gate_set_new_def)

lemma wf_gates_serving [simp]: "wf_gates (gates\<lparr>tg_serving := x\<rparr>) \<longleftrightarrow> wf_gates gates"
  by (simp add: wf_gates_def)

lemma wf_gates_promote: "wf_gates (promote_candidate gates k)"
  by (auto simp: promote_candidate_def wf_gates_def split: option.splits)

subsection \<open>Witnesses\<close>

definition sample_identity :: catalog_set_identity where
  "sample_identity = CatalogSetIdentity ''a''"

definition empty_sample :: "int \<Rightarrow> gate_sample" where
  "empty_sample seconds = \<lparr>gs_catalog_identity = sample_identity, gs_observed = bm_empty, gs_observed_at = seconds * 1000000000\<rparr>"

lemmas gate_eval =
  gate_step_def evaluate_def advance_def decide_def runtime_seeded_def baseline_seeded_def reference_of_def baseline_value_def
  lower_median_def suspect_iff recovered_iff anchored_episode_def continue_episode_def consistent_with_anchor_def
  may_confirm_def gap_in_range_iff whole_seconds_def push_applied_def saturating_add_def empty_sample_def
  GATE_CONFIRM_MIN_SPAN_SECONDS_def GATE_CONFIRM_MIN_CONSISTENT_def GATE_BASELINE_WINDOW_def

lemma sample_run_confirms:
  "\<exists>ds d r. gate_run (\<lambda>_. []) (runtime_seeded sample_identity 25) (map empty_sample [0, 100, 200] @ [empty_sample 300]) = Some (ds @ [d], r)
     \<and> gd_kind d = QuarantineConfirm"
  by (simp add: gate_eval Let_def)

theorem gate_confirm_evidence_witness:
  "\<exists>pre ev. map empty_sample [0, 100, 200] = pre @ ev \<and> 3 \<le> length ev \<and> steady (ev @ [empty_sample 300])"
proof -
  have healthy: "\<not> is_quarantined (gr_state (runtime_seeded sample_identity 25))"
    by (simp add: runtime_seeded_def)
  obtain ds d r where run: "gate_run (\<lambda>_. []) (runtime_seeded sample_identity 25)
      (map empty_sample [0, 100, 200] @ [empty_sample 300]) = Some (ds @ [d], r)" "gd_kind d = QuarantineConfirm"
    using sample_run_confirms by (elim exE conjE)
  from gate_confirm_evidence [OF healthy run] show ?thesis
    by (elim exE conjE) (intro exI conjI)
qed

theorem gate_decision_rule_witness:
  "\<exists>d. evaluate (\<lambda>_. []) (runtime_seeded sample_identity 25) (empty_sample 0) = Some d \<and> gd_disposition d = Hold
     \<and> is_quarantined (gd_next_state d)"
proof -
  have "\<exists>d. evaluate (\<lambda>_. []) (runtime_seeded sample_identity 25) (empty_sample 0) = Some d \<and> gd_disposition d = Hold"
    by (simp add: gate_eval Let_def)
  then show ?thesis
    using gate_decision_rule by blast
qed

text \<open>A failure between two suspects: the target is quarantined again, with an episode of one sample.\<close>
definition suspect_at :: "bool \<Rightarrow> int \<Rightarrow> restart_attempt_summary" where
  "suspect_at suspect at = \<lparr>ra_is_suspect_partial = suspect, ra_canonical_set_sha256 = ''h'', ra_completed_at = at,
     ra_catalog_set_identity = (if suspect then Some sample_identity else None)\<rparr>"

lemma suspect_at_fields [simp]:
  "ra_is_suspect_partial (suspect_at b at) = b" "ra_canonical_set_sha256 (suspect_at b at) = ''h''"
  "ra_completed_at (suspect_at b at) = at"
  "ra_catalog_set_identity (suspect_at b at) = (if b then Some sample_identity else None)"
  by (simp_all add: suspect_at_def)

lemma interrupted_run:
  assumes "0 < n" "list_all (run_member sample_identity ''h'') (take n [suspect_at True 2, suspect_at False 1, suspect_at True 0])"
  shows "n = 1"
proof (rule ccontr)
  assume "n \<noteq> 1"
  with assms(1) obtain k where "n = Suc (Suc k)"
    by (metis One_nat_def gr0_conv_Suc not0_implies_Suc)
  with assms(2) show False
    by (simp add: run_member_def)
qed

theorem restart_rebuild_witness:
  "\<exists>r e. rebuild_after_restart sample_identity (Some 25) [suspect_at True 2, suspect_at False 1, suspect_at True 0] 3
       = Some r
     \<and> gr_state r = Quarantined (baseline_seeded sample_identity (Some 25)) e \<and> ce_consistent_count e = 1"
proof -
  have newest: "Some 25 \<noteq> None \<and> [suspect_at True 2, suspect_at False 1, suspect_at True 0] \<noteq> []
      \<and> ra_is_suspect_partial (hd [suspect_at True 2, suspect_at False 1, suspect_at True 0])
      \<and> ra_catalog_set_identity (hd [suspect_at True 2, suspect_at False 1, suspect_at True 0]) = Some sample_identity
      \<and> gap_in_range (ra_completed_at (hd [suspect_at True 2, suspect_at False 1, suspect_at True 0])) 3"
    by (simp add: gap_in_range_iff)
  have hash: "ra_canonical_set_sha256 (hd [suspect_at True 2, suspect_at False 1, suspect_at True 0]) = ''h''"
    by simp
  show ?thesis
    using restart_rebuild [of sample_identity "Some 25" "[suspect_at True 2, suspect_at False 1, suspect_at True 0]" 3,
        unfolded if_P [OF newest] hash]
    by (elim exE conjE) (intro exI conjI, assumption, assumption, auto dest: interrupted_run)
qed

end
