(* ===== verification/Open_Policy.thy ===== *)
theory Open_Policy
  imports Gate_Guarantees
begin

text \<open>
  Refresh intervals and retry directives of the open pipeline (\<open>crates/bcsp-open/src/policy.rs\<close>):
  interval constructors with their bounds, the backoff ladders, the deterministic jitter and the
  quarantine probe.  The jitter hashes with the digest parameter \<open>H\<close>.
\<close>

subsection \<open>Intervals\<close>

definition PUBLIC_GENERAL_OPEN_INTERVAL_SECONDS :: u32 where "PUBLIC_GENERAL_OPEN_INTERVAL_SECONDS = 30"
definition LOCAL_DEFAULT_OPEN_INTERVAL_SECONDS :: u32 where "LOCAL_DEFAULT_OPEN_INTERVAL_SECONDS = 30"
definition LOCAL_MINIMUM_OPEN_INTERVAL_SECONDS :: u32 where "LOCAL_MINIMUM_OPEN_INTERVAL_SECONDS = 3"
definition LOCAL_MAXIMUM_OPEN_INTERVAL_SECONDS :: u32 where "LOCAL_MAXIMUM_OPEN_INTERVAL_SECONDS = 3600"
definition PUBLIC_WATCH_OPEN_INTERVAL_SECONDS :: u32 where "PUBLIC_WATCH_OPEN_INTERVAL_SECONDS = 10"
definition LOCAL_DEFAULT_WATCH_OPEN_INTERVAL_SECONDS :: u32 where "LOCAL_DEFAULT_WATCH_OPEN_INTERVAL_SECONDS = 10"
definition LOCAL_MINIMUM_WATCH_OPEN_INTERVAL_SECONDS :: u32 where "LOCAL_MINIMUM_WATCH_OPEN_INTERVAL_SECONDS = 3"
definition LOCAL_MAXIMUM_WATCH_OPEN_INTERVAL_SECONDS :: u32 where "LOCAL_MAXIMUM_WATCH_OPEN_INTERVAL_SECONDS = 60"
definition MISSING_RETRY_AFTER_CIRCUIT_SECONDS :: u32 where "MISSING_RETRY_AFTER_CIRCUIT_SECONDS = 60"

definition NB_TRANSIENT_BACKOFF_SECONDS :: "u32 list" where "NB_TRANSIENT_BACKOFF_SECONDS = [5, 10, 20, 30, 60]"
definition OTHER_TRANSIENT_BACKOFF_SECONDS :: "u32 list" where "OTHER_TRANSIENT_BACKOFF_SECONDS = [15, 30, 60, 120, 300]"
definition CONTENT_BACKOFF_SECONDS :: "u32 list" where "CONTENT_BACKOFF_SECONDS = [60, 300, 900, 1800]"

lemmas interval_limits =
  PUBLIC_GENERAL_OPEN_INTERVAL_SECONDS_def LOCAL_DEFAULT_OPEN_INTERVAL_SECONDS_def
  LOCAL_MINIMUM_OPEN_INTERVAL_SECONDS_def LOCAL_MAXIMUM_OPEN_INTERVAL_SECONDS_def
  PUBLIC_WATCH_OPEN_INTERVAL_SECONDS_def LOCAL_DEFAULT_WATCH_OPEN_INTERVAL_SECONDS_def
  LOCAL_MINIMUM_WATCH_OPEN_INTERVAL_SECONDS_def LOCAL_MAXIMUM_WATCH_OPEN_INTERVAL_SECONDS_def

datatype open_runtime_mode = ModeLocal | ModePublic

record general_open_interval =
  goi_seconds :: u32
  goi_mode :: open_runtime_mode

datatype open_interval_error = LocalOutOfRange | PublicIsFixed | LocalWatchOutOfRange | PublicWatchIsFixed

record watch_open_interval =
  woi_seconds :: u32
  woi_mode :: open_runtime_mode

definition watch_local :: "u32 \<Rightarrow> open_interval_error + watch_open_interval" where
  "watch_local seconds =
     (if \<not> (LOCAL_MINIMUM_WATCH_OPEN_INTERVAL_SECONDS \<le> seconds \<and> seconds \<le> LOCAL_MAXIMUM_WATCH_OPEN_INTERVAL_SECONDS)
      then Inl LocalWatchOutOfRange
      else Inr \<lparr>woi_seconds = seconds, woi_mode = ModeLocal\<rparr>)"

definition watch_local_default :: watch_open_interval where
  "watch_local_default = \<lparr>woi_seconds = LOCAL_DEFAULT_WATCH_OPEN_INTERVAL_SECONDS, woi_mode = ModeLocal\<rparr>"

definition watch_public :: watch_open_interval where
  "watch_public = \<lparr>woi_seconds = PUBLIC_WATCH_OPEN_INTERVAL_SECONDS, woi_mode = ModePublic\<rparr>"

definition watch_public_checked :: "u32 \<Rightarrow> open_interval_error + watch_open_interval" where
  "watch_public_checked seconds =
     (if seconds \<noteq> PUBLIC_WATCH_OPEN_INTERVAL_SECONDS then Inl PublicWatchIsFixed else Inr watch_public)"

definition general_local :: "u32 \<Rightarrow> open_interval_error + general_open_interval" where
  "general_local seconds =
     (if \<not> (LOCAL_MINIMUM_OPEN_INTERVAL_SECONDS \<le> seconds \<and> seconds \<le> LOCAL_MAXIMUM_OPEN_INTERVAL_SECONDS)
      then Inl LocalOutOfRange
      else Inr \<lparr>goi_seconds = seconds, goi_mode = ModeLocal\<rparr>)"

definition general_public :: general_open_interval where
  "general_public = \<lparr>goi_seconds = PUBLIC_GENERAL_OPEN_INTERVAL_SECONDS, goi_mode = ModePublic\<rparr>"

definition general_local_default :: general_open_interval where
  "general_local_default = \<lparr>goi_seconds = LOCAL_DEFAULT_OPEN_INTERVAL_SECONDS, goi_mode = ModeLocal\<rparr>"

definition general_public_checked :: "u32 \<Rightarrow> open_interval_error + general_open_interval" where
  "general_public_checked seconds =
     (if seconds \<noteq> PUBLIC_GENERAL_OPEN_INTERVAL_SECONDS then Inl PublicIsFixed else Inr general_public)"

record open_refresh_intervals =
  ori_general :: general_open_interval
  ori_watch :: watch_open_interval

definition intervals_local_default :: open_refresh_intervals where
  "intervals_local_default = \<lparr>ori_general = general_local_default, ori_watch = watch_local_default\<rparr>"

definition intervals_public :: open_refresh_intervals where
  "intervals_public = \<lparr>ori_general = general_public, ori_watch = watch_public\<rparr>"

definition intervals_from_general :: "general_open_interval \<Rightarrow> open_refresh_intervals" where
  "intervals_from_general general = \<lparr>ori_general = general, ori_watch = watch_public\<rparr>"

definition effective_seconds :: "open_refresh_intervals \<Rightarrow> bool \<Rightarrow> u32" where
  "effective_seconds intervals has_active_watch =
     (if has_active_watch \<and> woi_seconds (ori_watch intervals) < goi_seconds (ori_general intervals)
      then woi_seconds (ori_watch intervals) else goi_seconds (ori_general intervals))"

definition effective :: "open_refresh_intervals \<Rightarrow> bool \<Rightarrow> duration" where
  "effective intervals has_active_watch = duration_from_secs (unat (effective_seconds intervals has_active_watch))"

definition general_effective_seconds :: "general_open_interval \<Rightarrow> bool \<Rightarrow> u32" where
  "general_effective_seconds general has_active_watch =
     effective_seconds (intervals_from_general general) has_active_watch"

subsection \<open>Retry directives\<close>

datatype open_failure_kind =
    FailTransient | FailUnsafeEmpty | FailUnsafeZeroIntersection | FailSuspectPartial
  | FailRateLimited "duration option" | FailFatalProtocol

datatype retry_mode = Automatic | OriginCircuitMode | ExplicitDiagnosticRecheck

record retry_directive_rec =
  rd_delay :: duration
  rd_mode :: retry_mode
  rd_next_failure_streak :: u32
  rd_clears_fatal_diagnostic :: bool

datatype target_retry_class = ClassTransient | ClassContent

definition quarantine_probe_directive :: "duration \<Rightarrow> u32 \<Rightarrow> retry_directive_rec" where
  "quarantine_probe_directive requested_effective current_failure_streak =
     (let cap = duration_from_secs GATE_QUARANTINE_PROBE_CAP_SECONDS;
          base = (if requested_effective = 0 then cap else min requested_effective cap)
      in \<lparr>rd_delay = base, rd_mode = Automatic,
          rd_next_failure_streak = saturating_add current_failure_streak 1,
          rd_clears_fatal_diagnostic = True\<rparr>)"

text \<open>Decimal printing of an unsigned integer, and ASCII case folding.\<close>

fun decimal :: "nat \<Rightarrow> string" where
  "decimal n = (if n < 10 then [char_of (48 + n)] else decimal (n div 10) @ [char_of (48 + n mod 10)])"

definition to_ascii_lowercase :: "char \<Rightarrow> char" where
  "to_ascii_lowercase c = (if is_ascii_uppercase c then char_of ((of_char c :: nat) + 32) else c)"

definition eq_ignore_ascii_case :: "string \<Rightarrow> string \<Rightarrow> bool" where
  "eq_ignore_ascii_case a b \<longleftrightarrow> map to_ascii_lowercase a = map to_ascii_lowercase b"

definition hex_nibble :: "char \<Rightarrow> u64" where
  "hex_nibble c = (let byte = of_char c :: nat in
     if 48 \<le> byte \<and> byte \<le> 57 then of_nat (byte - 48)
     else if 97 \<le> byte \<and> byte \<le> 102 then of_nat (byte - 97 + 10)
     else 0)"

definition nul :: char where "nul = char_of (0 :: nat)"

definition jitter_preimage :: "term_campus_key \<Rightarrow> u32 \<Rightarrow> duration \<Rightarrow> string" where
  "jitter_preimage target failure_streak selected_delay =
     ''bcsp-open-jitter-v1'' @ [nul] @ term_str (tc_term target) @ [nul] @ campus_str (tc_campus target)
       @ [nul] @ decimal (unat failure_streak) @ [nul] @ decimal (duration_as_millis selected_delay)"

definition deterministic_jitter_v1 :: "digest \<Rightarrow> term_campus_key \<Rightarrow> u32 \<Rightarrow> duration \<Rightarrow> duration" where
  "deterministic_jitter_v1 H target failure_streak selected_delay =
     (let digest = sha256_hex H (jitter_preimage target failure_streak selected_delay);
          prefix = foldl (\<lambda>v byte. v * 16 + hex_nibble byte) (0 :: u64) (take 16 digest);
          maximum_millis = duration_as_millis selected_delay div 10;
          bounded_maximum = (case u64_try_from maximum_millis of Some w \<Rightarrow> w | None \<Rightarrow> u64_max)
      in if bounded_maximum = 0 then 0
         else duration_from_millis (unat (prefix mod saturating_add bounded_maximum 1)))"

definition backoff_steps :: "term_campus_key \<Rightarrow> target_retry_class \<Rightarrow> u32 list" where
  "backoff_steps target cls =
     (case cls of
        ClassContent \<Rightarrow> CONTENT_BACKOFF_SECONDS
      | ClassTransient \<Rightarrow> if eq_ignore_ascii_case (campus_str (tc_campus target)) ''NB''
          then NB_TRANSIENT_BACKOFF_SECONDS else OTHER_TRANSIENT_BACKOFF_SECONDS)"

definition target_retry_directive ::
  "digest \<Rightarrow> term_campus_key \<Rightarrow> u32 \<Rightarrow> target_retry_class \<Rightarrow> retry_directive_rec" where
  "target_retry_directive H target current_failure_streak cls =
     (let next_failure_streak = saturating_add current_failure_streak 1;
          steps = backoff_steps target cls;
          step_index = min (unat (saturating_sub next_failure_streak 1)) (length steps - 1);
          base = duration_from_secs (unat (steps ! step_index))
      in \<lparr>rd_delay = base + deterministic_jitter_v1 H target next_failure_streak base, rd_mode = Automatic,
          rd_next_failure_streak = next_failure_streak, rd_clears_fatal_diagnostic = False\<rparr>)"

definition retry_directive ::
  "digest \<Rightarrow> term_campus_key \<Rightarrow> duration \<Rightarrow> u32 \<Rightarrow> open_failure_kind \<Rightarrow> retry_directive_rec" where
  "retry_directive H target requested_effective current_failure_streak failure =
     (case failure of
        FailTransient \<Rightarrow> target_retry_directive H target current_failure_streak ClassTransient
      | FailSuspectPartial \<Rightarrow> quarantine_probe_directive requested_effective current_failure_streak
      | FailUnsafeEmpty \<Rightarrow>
          (target_retry_directive H target current_failure_streak ClassContent)\<lparr>rd_clears_fatal_diagnostic := True\<rparr>
      | FailUnsafeZeroIntersection \<Rightarrow>
          (target_retry_directive H target current_failure_streak ClassContent)\<lparr>rd_clears_fatal_diagnostic := True\<rparr>
      | FailFatalProtocol \<Rightarrow> target_retry_directive H target current_failure_streak ClassContent
      | FailRateLimited retry_after \<Rightarrow>
          let circuit = (case retry_after of Some d \<Rightarrow> d
                | None \<Rightarrow> duration_from_secs (unat MISSING_RETRY_AFTER_CIRCUIT_SECONDS))
          in \<lparr>rd_delay = circuit, rd_mode = OriginCircuitMode,
              rd_next_failure_streak = saturating_add current_failure_streak 1,
              rd_clears_fatal_diagnostic = True\<rparr>)"

subsection \<open>Jitter and ladders\<close>

lemma hex_nibble_less: "unat (hex_nibble c) < 16"
proof -
  have less: "unat (of_nat n :: u64) < 16" if "n < 16" for n
  proof -
    have "unat (of_nat n :: u64) \<le> n"
      by (simp add: unat_of_nat take_bit_nat_less_eq_self)
    with that show ?thesis by simp
  qed
  show ?thesis
    unfolding hex_nibble_def Let_def by (auto intro!: less simp del: of_nat_diff)
qed

text \<open>The addition of a step of the prefix fold never overflows: the multiplication leaves the low
  four bits clear.\<close>

lemma prefix_step_exact:
  "unat (v * 16) + unat (hex_nibble c) < 2 ^ 64 \<and> unat (v * 16 + hex_nibble c) = unat (v * 16) + unat (hex_nibble c)"
  for v :: u64
proof -
  have "unat (v * 16) = (unat v * 16) mod (1152921504606846976 * 16)"
    by (simp add: unat_word_ariths)
  also have "\<dots> = unat v mod 1152921504606846976 * 16"
    by (rule mult_mod_left [symmetric])
  finally have v: "unat (v * 16) = unat v mod 1152921504606846976 * 16" .
  have "unat v mod 1152921504606846976 < 1152921504606846976"
    by simp
  then have "unat (v * 16) + unat (hex_nibble c) < 18446744073709551616"
    using hex_nibble_less [of c] unfolding v by linarith
  then show ?thesis
    by (simp add: unat_word_ariths)
qed

lemma jitter_bound: "deterministic_jitter_v1 H target n d \<le> d div 10"
proof -
  define m where "m = duration_as_millis d div 10"
  define w where "w = (case u64_try_from m of Some w \<Rightarrow> w | None \<Rightarrow> u64_max)"
  have w: "unat w \<le> m"
    by (auto simp: w_def u64_try_from_def u64_max_def unat_of_nat take_bit_nat_eq_self_iff
        unsigned_minus_1_eq_mask mask_eq_exp_minus_1)
  have "unat (p mod saturating_add w 1) \<le> m" if "w \<noteq> 0" for p :: u64
  proof -
    have "unat p mod unat (saturating_add w 1) < unat (saturating_add w 1)"
      using that by (simp add: unat_saturating_add word_neq_0_conv word_less_nat_alt)
    also have "\<dots> \<le> Suc m"
      using w by (simp add: unat_saturating_add)
    finally show ?thesis
      by (simp add: unat_mod_distrib)
  qed
  moreover have "m * nanos_per_milli \<le> d div 10"
  proof -
    have "10 * (m * nanos_per_milli) \<le> duration_as_millis d * nanos_per_milli"
      by (simp add: m_def)
    also have "\<dots> \<le> d"
      by (simp add: duration_as_millis_def nanos_per_milli_def)
    finally show ?thesis
      by linarith
  qed
  ultimately show ?thesis
    by (auto simp: deterministic_jitter_v1_def Let_def duration_from_millis_def m_def [symmetric] w_def [symmetric]
        nanos_per_milli_def intro: order_trans [OF mult_right_mono])
qed

definition backoff_base :: "term_campus_key \<Rightarrow> target_retry_class \<Rightarrow> u32 \<Rightarrow> duration" where
  "backoff_base target cls streak =
     duration_from_secs (unat (backoff_steps target cls ! min (unat streak) (length (backoff_steps target cls) - 1)))"

lemma backoff_steps_length: "length (backoff_steps target cls) \<in> {4, 5}"
  by (auto simp: backoff_steps_def CONTENT_BACKOFF_SECONDS_def NB_TRANSIENT_BACKOFF_SECONDS_def
      OTHER_TRANSIENT_BACKOFF_SECONDS_def split: target_retry_class.splits)

lemma target_retry_base:
  "rd_delay (target_retry_directive H target streak cls)
     = backoff_base target cls streak
       + deterministic_jitter_v1 H target (saturating_add streak 1) (backoff_base target cls streak)"
proof -
  have "min (unat (saturating_sub (saturating_add streak 1) 1)) (length (backoff_steps target cls) - 1)
      = min (unat streak) (length (backoff_steps target cls) - 1)"
  proof -
    have "unat (saturating_sub (saturating_add streak 1) 1) = unat streak \<or> 4 < unat (saturating_sub (saturating_add streak 1) 1) \<and> 4 < unat streak"
      by (auto simp: unat_saturating_sub unat_saturating_add min_def)
    then show ?thesis
      using backoff_steps_length [of target cls] by auto
  qed
  then show ?thesis
    by (simp add: target_retry_directive_def Let_def backoff_base_def)
qed

subsection \<open>Properties\<close>

text \<open>C36. Every failure is retried at a bounded time, whatever the digest function.  Transient, content and
  protocol failures wait the ladder step of the streak plus at most a tenth of it; a quarantined target
  is probed after the smaller of 30 seconds and its interval, without jitter; a rate limit opens the
  origin circuit for exactly the announced delay, or 60 seconds.  The streak grows by one and
  saturates.\<close>
theorem retry_directive_bounds:
  "rd_next_failure_streak (retry_directive H target interval streak failure) = saturating_add streak 1
   \<and> (case failure of
        FailSuspectPartial \<Rightarrow>
          rd_mode (retry_directive H target interval streak failure) = Automatic
          \<and> rd_delay (retry_directive H target interval streak failure)
              = (if interval = 0 then duration_from_secs 30 else min interval (duration_from_secs 30))
      | FailRateLimited retry_after \<Rightarrow>
          rd_mode (retry_directive H target interval streak failure) = OriginCircuitMode
          \<and> rd_delay (retry_directive H target interval streak failure)
              = (case retry_after of Some d \<Rightarrow> d | None \<Rightarrow> duration_from_secs 60)
      | _ \<Rightarrow>
          rd_mode (retry_directive H target interval streak failure) = Automatic
          \<and> (let base = backoff_base target (if failure = FailTransient then ClassTransient else ClassContent) streak
             in base \<le> rd_delay (retry_directive H target interval streak failure)
                \<and> rd_delay (retry_directive H target interval streak failure) \<le> base + base div 10))"
proof -
  have streak: "rd_next_failure_streak (target_retry_directive H target streak cls) = saturating_add streak 1"
    "rd_mode (target_retry_directive H target streak cls) = Automatic" for cls
    by (simp_all add: target_retry_directive_def Let_def)
  show ?thesis
    by (cases failure)
      (simp_all add: retry_directive_def streak target_retry_base jitter_bound quarantine_probe_directive_def Let_def
        GATE_QUARANTINE_PROBE_CAP_SECONDS_def MISSING_RETRY_AFTER_CIRCUIT_SECONDS_def split: option.split)
qed

text \<open>Every interval the constructors admit is at least three seconds and at most an hour.\<close>

definition admitted_general :: "general_open_interval \<Rightarrow> bool" where
  "admitted_general g \<longleftrightarrow> (\<exists>s. general_local s = Inr g) \<or> (\<exists>s. general_public_checked s = Inr g)
     \<or> g = general_public \<or> g = general_local_default"

definition admitted_watch :: "watch_open_interval \<Rightarrow> bool" where
  "admitted_watch w \<longleftrightarrow> (\<exists>s. watch_local s = Inr w) \<or> (\<exists>s. watch_public_checked s = Inr w)
     \<or> w = watch_public \<or> w = watch_local_default"

definition admitted :: "open_refresh_intervals \<Rightarrow> bool" where
  "admitted i \<longleftrightarrow> admitted_general (ori_general i) \<and> admitted_watch (ori_watch i)"

lemma admitted_general_bounds: "admitted_general g \<Longrightarrow> 3 \<le> goi_seconds g \<and> goi_seconds g \<le> 3600"
  by (auto simp: admitted_general_def general_local_def general_public_checked_def general_public_def
      general_local_default_def interval_limits split: if_splits)

lemma admitted_watch_bounds: "admitted_watch w \<Longrightarrow> 3 \<le> woi_seconds w \<and> woi_seconds w \<le> 60"
  by (auto simp: admitted_watch_def watch_local_def watch_public_checked_def watch_public_def
      watch_local_default_def interval_limits split: if_splits)

lemma admitted_effective:
  assumes "admitted i"
  shows "3 * nanos_per_second \<le> effective i w" "effective i w \<le> 3600 * nanos_per_second"
proof -
  have "3 \<le> effective_seconds i w \<and> effective_seconds i w \<le> 3600"
    using assms admitted_general_bounds [of "ori_general i"] admitted_watch_bounds [of "ori_watch i"]
    by (auto simp: admitted_def effective_seconds_def)
  then show "3 * nanos_per_second \<le> effective i w" "effective i w \<le> 3600 * nanos_per_second"
    by (simp_all add: effective_def duration_from_secs_def word_le_nat_alt)
qed

text \<open>The effective interval of an admitted configuration lies between 3 seconds and one hour, is never
  longer than the general interval, is the general interval without an active watch, and with one is at
  most the watch interval.\<close>

lemma effective_interval_bounds:
  assumes "admitted i"
  shows "duration_from_secs 3 \<le> effective i w \<and> effective i w \<le> duration_from_secs 3600
    \<and> effective_seconds i w \<le> goi_seconds (ori_general i)
    \<and> effective_seconds i False = goi_seconds (ori_general i)
    \<and> effective_seconds i True \<le> woi_seconds (ori_watch i)"
  using admitted_effective [OF assms, of w] by (auto simp: duration_from_secs_def effective_seconds_def)

subsection \<open>The probe cadence resolves a quarantine\<close>

definition probe_delay :: "digest \<Rightarrow> term_campus_key \<Rightarrow> duration \<Rightarrow> u32 \<Rightarrow> duration" where
  "probe_delay H target interval streak = rd_delay (retry_directive H target interval streak FailSuspectPartial)"

lemma probe_delay_bounds:
  assumes "admitted i"
  shows "3000000000 \<le> probe_delay H target (effective i w) streak \<and> probe_delay H target (effective i w) streak \<le> 30000000000"
  using admitted_effective(1) [OF assms, of w]
  by (auto simp: probe_delay_def retry_directive_def quarantine_probe_directive_def Let_def duration_from_secs_def
      nanos_per_second_def GATE_QUARANTINE_PROBE_CAP_SECONDS_def)

lemma steady_map:
  assumes "\<And>i. gap_in_range (gs_observed_at (f i)) (gs_observed_at (f (Suc i)))"
    and "\<And>i. sets_consistent (gs_observed (f 0)) (gs_observed (f i))"
  shows "steady (map f [0..<Suc n])"
proof (induction n)
  case (Suc n)
  have "hd (map f [0..<Suc n]) = f 0" "last (map f [0..<Suc n]) = f n"
    by (simp_all add: hd_map last_map del: upt_Suc)
  then show ?case
    using Suc assms steady_snoc [of "map f [0..<Suc n]" "f (Suc n)"] by simp
qed (simp add: steady_def)

text \<open>C16. A quarantine always ends.  Take a feed that shrinks suspiciously and then keeps answering within the
  consistency tolerance, never back near the reference, probed as the retry policy prescribes with a
  request latency below 91 seconds.  Then one of the first hundred probes is confirmed and applied,
  every earlier snapshot is held, and the baseline restarts from the confirmed count alone.\<close>
theorem quarantine_resolves:
  assumes "gr_state r = Healthy (Some b)" "shrink_is_suspect (reference_of b) (observed_count (f 0))"
    and "\<And>i. gs_catalog_identity (f i) = be_catalog_identity b"
    and "\<And>i. \<not> recovered_near_reference (reference_of b) (observed_count (f i))"
    and "\<And>i. sets_consistent (gs_observed (f 0)) (gs_observed (f i))"
    and "admitted intervals"
    and "\<And>i. gs_observed_at (f (Suc i)) = gs_observed_at (f i)
            + int (probe_delay H target (effective intervals (watched i)) (streak i)) + latency i"
    and "\<And>i. 0 \<le> latency i \<and> latency i < 91000000000"
  shows "\<exists>n \<le> 100. \<exists>ds d r'. gate_run H r (map f [0..<Suc n]) = Some (ds @ [d], r')
    \<and> (\<forall>e \<in> set ds. gd_disposition e = Hold) \<and> gd_kind d = QuarantineConfirm \<and> gd_disposition d = Apply
    \<and> gr_state r' = Healthy (Some (push_applied (baseline_seeded (be_catalog_identity b) None) (observed_count (f n))))"
proof -
  let ?at = "\<lambda>i. gs_observed_at (f i)"
  have step: "?at (Suc i) - ?at i \<ge> 3000000000" "?at (Suc i) - ?at i < 121000000000" for i
    using probe_delay_bounds [OF assms(6), of H target "watched i" "streak i"] assms(7,8) [of i] by linarith+
  have span: "int n * 3000000000 \<le> ?at n - ?at 0" for n
  proof (induction n)
    case (Suc n)
    then show ?case
      using step(1) [of n] by (simp add: algebra_simps)
  qed simp
  define n where "n = (LEAST n. 300000000000 \<le> ?at n - ?at 0)"
  have long: "300000000000 \<le> ?at 100 - ?at 0"
    using span [of 100] by simp
  then have n: "300000000000 \<le> ?at n - ?at 0" "n \<le> 100"
    unfolding n_def by (rule LeastI, rule Least_le)
  have early: "?at m - ?at 0 < 300000000000" if "m < n" for m
    using not_less_Least [of m] that unfolding n_def by force
  have "0 < n"
    using n(1) by (cases n) auto
  then have list: "map f [0..<Suc n] = f 0 # map f [1..<n] @ [f n]"
    by (simp add: upt_conv_Cons)
  have "steady (map f [0..<Suc n])"
    using step assms(5) by (intro steady_map) (simp_all add: gap_in_range_iff order_less_le_trans [of "-1000000000" "3000000000"])
  then have steady: "steady (f 0 # map f [1..<n] @ [f n])"
    by (simp only: list)
  have "\<forall>t \<in> set (f 0 # map f [1..<n] @ [f n]). gs_catalog_identity t = be_catalog_identity b
      \<and> \<not> recovered_near_reference (reference_of b) (observed_count t)"
    using assms(3,4) by auto
  from run_confirms_steady [OF assms(1,2) this steady n(1), of H] early n(2) show ?thesis
    by (intro exI [of _ n]) (simp only: list, simp)
qed

theorem quarantine_resolves_witness:
  "\<exists>n \<le> 100. \<exists>ds d r'. gate_run (\<lambda>_. []) (runtime_seeded sample_identity 25) (map (\<lambda>i. empty_sample (10 * int i)) [0..<Suc n])
       = Some (ds @ [d], r') \<and> gd_kind d = QuarantineConfirm"
proof -
  let ?target = "TermCampusKey (TermId ''92026'') (CampusCode ''NB'')"
  have "admitted intervals_public"
    by (simp add: admitted_def admitted_general_def admitted_watch_def intervals_public_def)
  moreover have "probe_delay (\<lambda>_. []) ?target (effective intervals_public True) 0 = 10000000000"
    by (simp add: probe_delay_def retry_directive_def quarantine_probe_directive_def Let_def effective_def
        effective_seconds_def intervals_public_def general_public_def watch_public_def interval_limits
        duration_from_secs_def nanos_per_second_def GATE_QUARANTINE_PROBE_CAP_SECONDS_def)
  ultimately show ?thesis
    using quarantine_resolves [of "runtime_seeded sample_identity 25" "baseline_seeded sample_identity (Some 25)"
        "\<lambda>i. empty_sample (10 * int i)" intervals_public "\<lambda>_. []" ?target "\<lambda>_. True" "\<lambda>_. 0" "\<lambda>_. 0"]
    by (simp add: gate_eval observed_count_def del: upt_Suc gate_run.simps) blast
qed

end
