(* ===== verification/Open_Scheduler.thy ===== *)
theory Open_Scheduler
  imports Open_Policy
begin

text \<open>
  The origin scheduler (\<open>crates/bcsp-open/src/scheduler.rs\<close>): earliest-deadline-first dispatch of one
  catalog and one open job per target, with watch priority, retries, an origin circuit and at most one
  job in flight.  A method on \<open>&mut self\<close> returns its result with the scheduler after the call, because
  some of them fail after a first write.
\<close>

subsection \<open>Time and keys\<close>

type_synonym monotonic_time = u64

definition monotonic_saturating_add :: "monotonic_time \<Rightarrow> duration \<Rightarrow> monotonic_time" where
  "monotonic_saturating_add t d =
     (let millis = (case u64_try_from (duration_as_millis d) of Some w \<Rightarrow> w | None \<Rightarrow> u64_max)
      in saturating_add t millis)"

definition saturating_duration_since :: "monotonic_time \<Rightarrow> monotonic_time \<Rightarrow> duration" where
  "saturating_duration_since t earlier = duration_from_millis (unat (saturating_sub t earlier))"

definition saturating_mul :: "u64 \<Rightarrow> u64 \<Rightarrow> u64" where
  "saturating_mul a b = (if unat a * unat b < 2 ^ 64 then a * b else u64_max)"

datatype origin_job_kind = JobCatalog | JobOpen

datatype origin_job_key = OriginJobKey (job_kind: origin_job_kind) (job_target: term_campus_key)

definition key_catalog :: "term_campus_key \<Rightarrow> origin_job_key" where
  "key_catalog target = OriginJobKey JobCatalog target"

definition key_open :: "term_campus_key \<Rightarrow> origin_job_key" where
  "key_open target = OriginJobKey JobOpen target"

fun kind_rank :: "origin_job_kind \<Rightarrow> nat" where
  "kind_rank JobCatalog = 0"
| "kind_rank JobOpen = 1"

instantiation origin_job_key :: linorder
begin
definition less_eq_origin_job_key :: "origin_job_key \<Rightarrow> origin_job_key \<Rightarrow> bool" where
  "less_eq_origin_job_key a b \<longleftrightarrow> (kind_rank (job_kind a), job_target a) \<le> (kind_rank (job_kind b), job_target b)"
definition less_origin_job_key :: "origin_job_key \<Rightarrow> origin_job_key \<Rightarrow> bool" where
  "less_origin_job_key a b \<longleftrightarrow> (kind_rank (job_kind a), job_target a) < (kind_rank (job_kind b), job_target b)"
instance
proof
  fix a b c :: origin_job_key
  have inj: "kind_rank x = kind_rank y \<Longrightarrow> x = y" for x y
    by (cases x; cases y) simp_all
  show "a < b \<longleftrightarrow> a \<le> b \<and> \<not> b \<le> a"
    unfolding less_eq_origin_job_key_def less_origin_job_key_def by (rule less_le_not_le)
  show "a \<le> a"
    unfolding less_eq_origin_job_key_def by (rule order_refl)
  show "a \<le> b \<Longrightarrow> b \<le> c \<Longrightarrow> a \<le> c"
    unfolding less_eq_origin_job_key_def by (rule order_trans)
  show "a \<le> b \<Longrightarrow> b \<le> a \<Longrightarrow> a = b"
    unfolding less_eq_origin_job_key_def using inj by (metis Pair_inject order_antisym origin_job_key.expand)
  show "a \<le> b \<or> b \<le> a"
    unfolding less_eq_origin_job_key_def by (rule linear)
qed
end

subsection \<open>Data\<close>

datatype origin_scheduler_lane =
  SchedCatalog | OpenGeneral | OpenActiveWatch | OpenFirstLoad | OpenManualRefresh | OpenCatalogRaceRecheck

definition watched_priority :: "origin_scheduler_lane \<Rightarrow> bool" where
  "watched_priority lane \<longleftrightarrow> lane = OpenActiveWatch"

record job_schedule =
  js_active :: bool
  js_interval :: duration
  js_next_due :: monotonic_time
  js_lane :: origin_scheduler_lane
  js_normal_lane :: origin_scheduler_lane
  js_active_watch_count :: u64
  js_recurring :: bool
  js_one_shot_pending :: bool
  js_generation_pending :: bool
  js_last_start :: "monotonic_time option"
  js_failure_streak :: u32

datatype job_registration_mode = RegRecurring | RegOneShot

record job_registration =
  jr_interval :: duration
  jr_first_due :: monotonic_time
  jr_normal_lane :: origin_scheduler_lane
  jr_active_watch_count :: u64
  jr_mode :: job_registration_mode
  jr_generation_pending :: bool

datatype origin_circuit =
    OriginClosed
  | OriginRetryAfter monotonic_time
  | OriginFatalDiagnostic origin_job_key monotonic_time bool

record in_flight_job =
  if_token :: u64
  if_key :: origin_job_key
  if_scheduled_due :: monotonic_time
  if_started_at :: monotonic_time
  if_diagnostic_probe :: bool

record origin_dispatch =
  od_token :: u64
  od_key :: origin_job_key
  od_lane :: origin_scheduler_lane
  od_scheduled_due :: monotonic_time
  od_started_at :: monotonic_time
  od_scheduler_lag :: duration
  od_actual_start_to_start_interval :: "duration option"
  od_requested_interval :: duration
  od_failure_streak :: u32
  od_first_load_one_shot :: bool

record origin_dispatch_hint =
  oh_key :: origin_job_key
  oh_lane :: origin_scheduler_lane
  oh_scheduled_due :: monotonic_time
  oh_active_watch_count :: u64
  oh_generation_pending :: bool
  oh_failure_streak :: u32

datatype completion_schedule = CompletionSuccess | CompletionCatalogRace | CompletionRetry retry_directive_rec

datatype scheduler_error =
  SchedZeroInterval | UnknownJob | InvalidCompletionToken | CompletionBeforeStart | DiagnosticCooldownActive

record origin_edf_scheduler =
  sc_jobs :: "(origin_job_key, job_schedule) bmap"
  sc_in_flight :: "in_flight_job option"
  sc_circuit :: origin_circuit
  sc_next_token :: u64

type_synonym 'a sched_result = "(scheduler_error + 'a) \<times> origin_edf_scheduler"

definition scheduler_new :: origin_edf_scheduler where
  "scheduler_new = \<lparr>sc_jobs = bm_empty, sc_in_flight = None, sc_circuit = OriginClosed, sc_next_token = 0\<rparr>"

definition CATALOG_ONE_SHOT_INTERVAL :: duration where
  "CATALOG_ONE_SHOT_INTERVAL = duration_from_secs (24 * 60 * 60)"

definition put_job :: "origin_job_key \<Rightarrow> job_schedule \<Rightarrow> origin_edf_scheduler \<Rightarrow> origin_edf_scheduler" where
  "put_job key job s = s\<lparr>sc_jobs := bm_insert key job (sc_jobs s)\<rparr>"

text \<open>Updating a registered job in place; an unknown key is the error \<open>UnknownJob\<close>.\<close>

definition modify_job ::
  "origin_job_key \<Rightarrow> (job_schedule \<Rightarrow> job_schedule) \<Rightarrow> origin_edf_scheduler \<Rightarrow> unit sched_result" where
  "modify_job key f s =
     (case bm_get (sc_jobs s) key of
        None \<Rightarrow> (Inl UnknownJob, s)
      | Some job \<Rightarrow> (Inr (), put_job key (f job) s))"

subsection \<open>Registration\<close>

definition upsert :: "origin_job_key \<Rightarrow> job_registration \<Rightarrow> origin_edf_scheduler \<Rightarrow> unit sched_result" where
  "upsert key registration s =
     (if jr_interval registration = 0 then (Inl SchedZeroInterval, s)
      else case bm_get (sc_jobs s) key of
        Some job \<Rightarrow>
          (Inr (), put_job key (job\<lparr>js_active := True, js_interval := jr_interval registration,
             js_normal_lane := jr_normal_lane registration, js_lane := jr_normal_lane registration,
             js_active_watch_count := jr_active_watch_count registration,
             js_recurring := js_recurring job \<or> jr_mode registration = RegRecurring,
             js_one_shot_pending := js_one_shot_pending job \<or> jr_mode registration = RegOneShot,
             js_generation_pending := js_generation_pending job \<or> jr_generation_pending registration\<rparr>) s)
      | None \<Rightarrow>
          (Inr (), put_job key \<lparr>js_active = True, js_interval = jr_interval registration,
             js_next_due = jr_first_due registration, js_lane = jr_normal_lane registration,
             js_normal_lane = jr_normal_lane registration,
             js_active_watch_count = jr_active_watch_count registration,
             js_recurring = (jr_mode registration = RegRecurring),
             js_one_shot_pending = (jr_mode registration = RegOneShot),
             js_generation_pending = jr_generation_pending registration,
             js_last_start = None, js_failure_streak = 0\<rparr> s))"

definition register_catalog ::
  "term_campus_key \<Rightarrow> duration \<Rightarrow> monotonic_time \<Rightarrow> origin_edf_scheduler \<Rightarrow> unit sched_result" where
  "register_catalog target interval first_due s =
     upsert (key_catalog target) \<lparr>jr_interval = interval, jr_first_due = first_due, jr_normal_lane = SchedCatalog,
       jr_active_watch_count = 0, jr_mode = RegRecurring, jr_generation_pending = False\<rparr> s"

definition register_catalog_initial ::
  "term_campus_key \<Rightarrow> duration \<Rightarrow> u64 \<Rightarrow> monotonic_time \<Rightarrow> origin_edf_scheduler \<Rightarrow> unit sched_result" where
  "register_catalog_initial target interval active_watch_count first_due s =
     upsert (key_catalog target) \<lparr>jr_interval = interval, jr_first_due = first_due, jr_normal_lane = SchedCatalog,
       jr_active_watch_count = active_watch_count, jr_mode = RegRecurring, jr_generation_pending = True\<rparr> s"

definition register_catalog_one_shot ::
  "term_campus_key \<Rightarrow> u64 \<Rightarrow> monotonic_time \<Rightarrow> origin_edf_scheduler \<Rightarrow> unit sched_result" where
  "register_catalog_one_shot target active_watch_count first_due s =
     upsert (key_catalog target) \<lparr>jr_interval = CATALOG_ONE_SHOT_INTERVAL, jr_first_due = first_due,
       jr_normal_lane = SchedCatalog, jr_active_watch_count = active_watch_count, jr_mode = RegOneShot,
       jr_generation_pending = True\<rparr> s"

definition anchored_due :: "job_schedule \<Rightarrow> monotonic_time \<Rightarrow> monotonic_time" where
  "anchored_due job now =
     monotonic_saturating_add (case js_last_start job of Some t \<Rightarrow> t | None \<Rightarrow> now) (js_interval job)"

definition update_due_for_interval_change ::
  "origin_job_key \<Rightarrow> monotonic_time \<Rightarrow> origin_edf_scheduler \<Rightarrow> origin_edf_scheduler" where
  "update_due_for_interval_change key now s =
     (case bm_get (sc_jobs s) key of
        None \<Rightarrow> s
      | Some job \<Rightarrow>
          let anchored = anchored_due job now in
          if watched_priority (js_normal_lane job)
          then put_job key (job\<lparr>js_next_due := min (js_next_due job) anchored\<rparr>) s
          else if js_last_start job \<noteq> None then put_job key (job\<lparr>js_next_due := anchored\<rparr>) s
          else s)"

definition register_open_with_mode ::
  "term_campus_key \<Rightarrow> open_refresh_intervals \<Rightarrow> u64 \<Rightarrow> monotonic_time \<Rightarrow> monotonic_time \<Rightarrow> bool
     \<Rightarrow> origin_edf_scheduler \<Rightarrow> unit sched_result" where
  "register_open_with_mode target intervals active_watch_count now first_due recurring s =
     (let watched = (active_watch_count > 0);
          normal_lane = (if watched then OpenActiveWatch else OpenGeneral);
          key = key_open target;
          existed = bm_contains (sc_jobs s) key
      in case upsert key \<lparr>jr_interval = effective intervals watched, jr_first_due = first_due,
             jr_normal_lane = normal_lane, jr_active_watch_count = active_watch_count,
             jr_mode = (if recurring then RegRecurring else RegOneShot),
             jr_generation_pending = (\<not> recurring)\<rparr> s of
           (Inl e, s') \<Rightarrow> (Inl e, s')
         | (Inr _, s') \<Rightarrow> (Inr (), if existed then update_due_for_interval_change key now s' else s'))"

definition register_open ::
  "term_campus_key \<Rightarrow> open_refresh_intervals \<Rightarrow> u64 \<Rightarrow> monotonic_time \<Rightarrow> monotonic_time
     \<Rightarrow> origin_edf_scheduler \<Rightarrow> unit sched_result" where
  "register_open target intervals active_watch_count now first_due s =
     register_open_with_mode target intervals active_watch_count now first_due True s"

text \<open>The job just registered is updated in place; the \<open>expect\<close> that it exists is the outer \<open>None\<close>.\<close>

definition register_open_initial ::
  "term_campus_key \<Rightarrow> open_refresh_intervals \<Rightarrow> u64 \<Rightarrow> monotonic_time \<Rightarrow> monotonic_time
     \<Rightarrow> origin_edf_scheduler \<Rightarrow> unit sched_result option" where
  "register_open_initial target intervals active_watch_count now first_due s =
     (case register_open_with_mode target intervals active_watch_count now first_due False s of
        (Inl e, s') \<Rightarrow> Some (Inl e, s')
      | (Inr _, s') \<Rightarrow>
          if active_watch_count = 0
          then case bm_get (sc_jobs s') (key_open target) of
                 None \<Rightarrow> None
               | Some job \<Rightarrow> Some (Inr (), put_job (key_open target) (job\<lparr>js_lane := OpenFirstLoad\<rparr>) s')
          else Some (Inr (), s'))"

subsection \<open>Demand changes\<close>

definition set_catalog_watch_count ::
  "term_campus_key \<Rightarrow> u64 \<Rightarrow> origin_edf_scheduler \<Rightarrow> unit sched_result" where
  "set_catalog_watch_count target active_watch_count s =
     modify_job (key_catalog target) (\<lambda>job. job\<lparr>js_active_watch_count := active_watch_count\<rparr>) s"

definition activate_catalog ::
  "term_campus_key \<Rightarrow> duration \<Rightarrow> monotonic_time \<Rightarrow> origin_edf_scheduler \<Rightarrow> unit sched_result" where
  "activate_catalog target interval now s =
     (if interval = 0 then (Inl SchedZeroInterval, s)
      else modify_job (key_catalog target)
        (\<lambda>job. job\<lparr>js_active := True, js_recurring := True, js_interval := interval,
           js_normal_lane := SchedCatalog, js_lane := SchedCatalog,
           js_next_due := min (js_next_due job) (monotonic_saturating_add now interval)\<rparr>) s)"

definition demote_catalog ::
  "term_campus_key \<Rightarrow> duration option \<Rightarrow> monotonic_time \<Rightarrow> origin_edf_scheduler \<Rightarrow> unit sched_result" where
  "demote_catalog target maintenance_interval now s =
     (case bm_get (sc_jobs s) (key_catalog target) of
        None \<Rightarrow> (Inl UnknownJob, s)
      | Some job \<Rightarrow>
          let job = job\<lparr>js_normal_lane := SchedCatalog, js_lane := SchedCatalog\<rparr> in
          (case maintenance_interval of
             Some interval \<Rightarrow>
               if interval \<noteq> 0
               then (Inr (), put_job (key_catalog target)
                 (job\<lparr>js_interval := interval, js_recurring := True, js_active := True,
                    js_next_due := (case js_last_start job of
                       None \<Rightarrow> monotonic_saturating_add now interval
                     | Some started \<Rightarrow> monotonic_saturating_add started interval)\<rparr>) s)
               else (Inl SchedZeroInterval, put_job (key_catalog target) job s)
           | None \<Rightarrow> (Inr (), put_job (key_catalog target)
               (job\<lparr>js_recurring := False,
                  js_active := js_generation_pending job \<or> js_one_shot_pending job\<rparr>) s)))"

definition open_lane :: "bool \<Rightarrow> origin_scheduler_lane" where
  "open_lane watched = (if watched then OpenActiveWatch else OpenGeneral)"

definition activate_open ::
  "term_campus_key \<Rightarrow> open_refresh_intervals \<Rightarrow> monotonic_time \<Rightarrow> origin_edf_scheduler \<Rightarrow> unit sched_result" where
  "activate_open target intervals now s =
     modify_job (key_open target) (\<lambda>job.
       let watched = (js_active_watch_count job > 0);
           was_active = js_active job;
           job = job\<lparr>js_active := True, js_recurring := True, js_interval := effective intervals watched,
                    js_normal_lane := open_lane watched\<rparr>;
           job = (if \<not> js_one_shot_pending job \<or> \<not> was_active then job\<lparr>js_lane := js_normal_lane job\<rparr> else job)
       in if \<not> was_active \<and> js_next_due job < now then job\<lparr>js_next_due := now\<rparr> else job) s"

definition demote_open ::
  "term_campus_key \<Rightarrow> open_refresh_intervals \<Rightarrow> u64 \<Rightarrow> monotonic_time \<Rightarrow> origin_edf_scheduler
     \<Rightarrow> unit sched_result" where
  "demote_open target intervals active_watch_count now s =
     modify_job (key_open target) (\<lambda>job.
       let job = job\<lparr>js_active_watch_count := active_watch_count,
                    js_interval := effective intervals (active_watch_count > 0)\<rparr>
       in if active_watch_count > 0
          then let job = job\<lparr>js_active := True, js_recurring := True, js_normal_lane := OpenActiveWatch,
                      js_lane := OpenActiveWatch\<rparr>
               in if js_next_due job < now then job\<lparr>js_next_due := now\<rparr> else job
          else let job = job\<lparr>js_recurring := False, js_active := js_one_shot_pending job,
                      js_normal_lane := OpenGeneral\<rparr>
               in if js_one_shot_pending job then job\<lparr>js_lane := OpenFirstLoad\<rparr> else job) s"

definition set_open_watch_count ::
  "term_campus_key \<Rightarrow> open_refresh_intervals \<Rightarrow> u64 \<Rightarrow> monotonic_time \<Rightarrow> origin_edf_scheduler
     \<Rightarrow> unit sched_result" where
  "set_open_watch_count target intervals active_watch_count now s =
     modify_job (key_open target) (\<lambda>job.
       let previously_watched = (js_active_watch_count job > 0);
           was_active = js_active job;
           watched = (active_watch_count > 0);
           job = job\<lparr>js_active_watch_count := active_watch_count, js_interval := effective intervals watched,
                    js_normal_lane := open_lane watched\<rparr>;
           job = (if watched \<or> \<not> js_one_shot_pending job then job\<lparr>js_lane := js_normal_lane job\<rparr> else job);
           anchored = anchored_due job now
       in if watched \<and> \<not> previously_watched
          then let job = job\<lparr>js_active := True, js_next_due := min (js_next_due job) anchored\<rparr>
               in if \<not> was_active \<and> js_next_due job < now then job\<lparr>js_next_due := now\<rparr> else job
          else if \<not> watched \<and> previously_watched
          then job\<lparr>js_next_due := anchored, js_active := js_recurring job \<or> js_one_shot_pending job\<rparr>
          else job) s"

subsection \<open>Explicit requests\<close>

definition request_open_due ::
  "term_campus_key \<Rightarrow> monotonic_time \<Rightarrow> origin_scheduler_lane \<Rightarrow> origin_edf_scheduler \<Rightarrow> unit sched_result" where
  "request_open_due target due lane s =
     (let key = key_open target in
      case bm_get (sc_jobs s) key of
        None \<Rightarrow> (Inl UnknownJob, s)
      | Some job \<Rightarrow>
          if (case sc_in_flight s of None \<Rightarrow> False | Some f \<Rightarrow> if_key f = key) then (Inr (), s)
          else (Inr (), put_job key
            (job\<lparr>js_active := True,
               js_one_shot_pending := (if \<not> js_recurring job then True else js_one_shot_pending job),
               js_next_due := (if js_active job then min (js_next_due job) due else due),
               js_lane := (if js_active_watch_count job > 0 then OpenActiveWatch else lane)\<rparr>) s))"

text \<open>The key a manual retry picks and the circuit it leaves; \<open>None\<close> ends the request without a job.\<close>

definition manual_retry_key ::
  "term_campus_key \<Rightarrow> monotonic_time \<Rightarrow> origin_circuit \<Rightarrow> (origin_job_key \<times> origin_circuit) option" where
  "manual_retry_key target now circuit =
     (case circuit of
        OriginClosed \<Rightarrow> Some (key_catalog target, circuit)
      | OriginRetryAfter until \<Rightarrow> if now < until then None else Some (key_catalog target, OriginClosed)
      | OriginFatalDiagnostic job _ _ \<Rightarrow>
          if job_target job = target then Some (job, OriginFatalDiagnostic job now True) else None)"

definition request_manual_target_retry ::
  "term_campus_key \<Rightarrow> monotonic_time \<Rightarrow> origin_edf_scheduler \<Rightarrow> (origin_job_kind option) sched_result" where
  "request_manual_target_retry target now s =
     (if sc_in_flight s \<noteq> None then (Inr None, s)
      else case manual_retry_key target now (sc_circuit s) of
        None \<Rightarrow> (Inr None, s)
      | Some (key, circuit) \<Rightarrow>
          let s = s\<lparr>sc_circuit := circuit\<rparr> in
          (case bm_get (sc_jobs s) key of
             None \<Rightarrow> (Inl UnknownJob, s)
           | Some job \<Rightarrow> (Inr (Some (job_kind key)), put_job key
               (job\<lparr>js_active := True,
                  js_one_shot_pending := (if \<not> js_recurring job then True else js_one_shot_pending job),
                  js_next_due := now,
                  js_lane := (case job_kind key of
                     JobCatalog \<Rightarrow> SchedCatalog
                   | JobOpen \<Rightarrow> if js_active_watch_count job > 0 then OpenActiveWatch else OpenManualRefresh)\<rparr>) s)))"

definition complete_open_bootstrap ::
  "term_campus_key \<Rightarrow> monotonic_time \<Rightarrow> origin_edf_scheduler \<Rightarrow> unit sched_result" where
  "complete_open_bootstrap target completed_at s =
     modify_job (key_open target) (\<lambda>job. job\<lparr>js_failure_streak := 0, js_lane := js_normal_lane job,
        js_generation_pending := False, js_one_shot_pending := False,
        js_next_due := monotonic_saturating_add completed_at (js_interval job),
        js_active := js_recurring job \<or> js_active_watch_count job > 0\<rparr>) s"

definition adopt_external_open_state ::
  "term_campus_key \<Rightarrow> monotonic_time \<Rightarrow> monotonic_time \<Rightarrow> u32 \<Rightarrow> origin_edf_scheduler \<Rightarrow> unit sched_result" where
  "adopt_external_open_state target now next_due failure_streak s =
     modify_job (key_open target) (\<lambda>job. job\<lparr>js_failure_streak := failure_streak, js_last_start := Some now,
        js_next_due := next_due, js_lane := js_normal_lane job, js_one_shot_pending := False,
        js_generation_pending := False,
        js_active := js_recurring job \<or> js_active_watch_count job > 0\<rparr>) s"

subsection \<open>Dispatch\<close>

datatype dispatch_priority_level =
  PrioActiveWatchOpen | PrioWatchedCatalogPrerequisite | PrioGeneration | PrioRecovery | PrioOrdinary

fun priority_rank :: "dispatch_priority_level \<Rightarrow> nat" where
  "priority_rank PrioActiveWatchOpen = 0"
| "priority_rank PrioWatchedCatalogPrerequisite = 1"
| "priority_rank PrioGeneration = 2"
| "priority_rank PrioRecovery = 3"
| "priority_rank PrioOrdinary = 4"

definition dispatch_priority :: "origin_job_key \<Rightarrow> job_schedule \<Rightarrow> dispatch_priority_level" where
  "dispatch_priority key job =
     (if js_active_watch_count job > 0 \<and> job_kind key = JobCatalog \<and> js_generation_pending job
      then PrioWatchedCatalogPrerequisite
      else if js_active_watch_count job > 0 \<and> job_kind key = JobOpen then PrioActiveWatchOpen
      else if js_generation_pending job then PrioGeneration
      else if js_failure_streak job > 0 then PrioRecovery
      else PrioOrdinary)"

datatype ordering = OrdLess | OrdEqual | OrdGreater

definition ord_cmp :: "'a::linorder \<Rightarrow> 'a \<Rightarrow> ordering" where
  "ord_cmp a b = (if a < b then OrdLess else if a = b then OrdEqual else OrdGreater)"

definition compare_due_jobs :: "origin_job_key \<Rightarrow> job_schedule \<Rightarrow> origin_job_key \<Rightarrow> job_schedule \<Rightarrow> ordering" where
  "compare_due_jobs left_key left right_key right =
     (let priority = ord_cmp (priority_rank (dispatch_priority left_key left)) (priority_rank (dispatch_priority right_key right))
      in if priority \<noteq> OrdEqual then priority
         else case ord_cmp (js_next_due left) (js_next_due right) of
                OrdEqual \<Rightarrow> ord_cmp left_key right_key
              | order \<Rightarrow> order)"

text \<open>\<open>Iterator::min_by\<close> keeps the earlier of two equal elements.\<close>

fun min_due_job :: "(origin_job_key \<times> job_schedule) list \<Rightarrow> (origin_job_key \<times> job_schedule) option" where
  "min_due_job [] = None"
| "min_due_job (e # es) =
     Some (foldl (\<lambda>best e. if compare_due_jobs (fst best) (snd best) (fst e) (snd e) = OrdGreater then e else best) e es)"

datatype circuit_verdict = CircuitBlocked | CircuitProceed "origin_job_key option"

definition circuit_decision :: "origin_circuit \<Rightarrow> monotonic_time \<Rightarrow> circuit_verdict" where
  "circuit_decision circuit now =
     (case circuit of
        OriginClosed \<Rightarrow> CircuitProceed None
      | OriginRetryAfter until \<Rightarrow> if until \<le> now then CircuitProceed None else CircuitBlocked
      | OriginFatalDiagnostic job recheck_after authorized \<Rightarrow>
          if authorized \<and> recheck_after \<le> now then CircuitProceed (Some job) else CircuitBlocked)"

definition select_job ::
  "(origin_job_key, job_schedule) bmap \<Rightarrow> monotonic_time \<Rightarrow> origin_job_key option
     \<Rightarrow> (origin_job_key \<times> job_schedule) option" where
  "select_job jobs now diagnostic_job =
     (case diagnostic_job of
        Some key \<Rightarrow> (case bm_get jobs key of
            None \<Rightarrow> None
          | Some job \<Rightarrow> if js_next_due job > now then None else Some (key, job))
      | None \<Rightarrow> min_due_job (filter (\<lambda>(_, job). js_active job \<and> js_next_due job \<le> now) (bm_entries jobs)))"

definition hint_of :: "origin_job_key \<Rightarrow> job_schedule \<Rightarrow> origin_dispatch_hint" where
  "hint_of key schedule =
     \<lparr>oh_key = key, oh_lane = js_lane schedule, oh_scheduled_due = js_next_due schedule,
      oh_active_watch_count = js_active_watch_count schedule, oh_generation_pending = js_generation_pending schedule,
      oh_failure_streak = js_failure_streak schedule\<rparr>"

definition start_next ::
  "monotonic_time \<Rightarrow> origin_edf_scheduler \<Rightarrow> (origin_dispatch option \<times> origin_edf_scheduler) option" where
  "start_next now s =
     (if sc_in_flight s \<noteq> None then Some (None, s)
      else case circuit_decision (sc_circuit s) now of
        CircuitBlocked \<Rightarrow> Some (None, s)
      | CircuitProceed diagnostic_job \<Rightarrow>
          let s = (case sc_circuit s of OriginRetryAfter _ \<Rightarrow> s\<lparr>sc_circuit := OriginClosed\<rparr> | _ \<Rightarrow> s);
              diagnostic_probe = (diagnostic_job \<noteq> None)
          in case select_job (sc_jobs s) now diagnostic_job of
               None \<Rightarrow> Some (None, s)
             | Some (key, job) \<Rightarrow>
                 let token = max (saturating_add (sc_next_token s) 1) 1 in
                 (case bm_get (sc_jobs s) key of
                    None \<Rightarrow> None
                  | Some registered \<Rightarrow>
                      Some (Some \<lparr>od_token = token, od_key = key, od_lane = js_lane job,
                              od_scheduled_due = js_next_due job, od_started_at = now,
                              od_scheduler_lag = saturating_duration_since now (js_next_due job),
                              od_actual_start_to_start_interval =
                                map_option (\<lambda>started. saturating_duration_since now started) (js_last_start job),
                              od_requested_interval = js_interval job, od_failure_streak = js_failure_streak job,
                              od_first_load_one_shot =
                                (job_kind key = JobOpen \<and> js_one_shot_pending job \<and> \<not> js_recurring job)\<rparr>,
                        (put_job key (registered\<lparr>js_last_start := Some now\<rparr>) s)
                          \<lparr>sc_next_token := token,
                           sc_in_flight := Some \<lparr>if_token = token, if_key = key, if_scheduled_due = js_next_due job,
                             if_started_at = now, if_diagnostic_probe = diagnostic_probe\<rparr>,
                           sc_circuit := (case sc_circuit s of
                              OriginFatalDiagnostic j t authorized \<Rightarrow>
                                if diagnostic_probe then OriginFatalDiagnostic j t False else sc_circuit s
                            | _ \<Rightarrow> sc_circuit s)\<rparr>)))"

text \<open>The hint repeats the choice of \<open>start_next\<close> in code of its own, without changing the scheduler.\<close>

definition next_dispatch_hint :: "origin_edf_scheduler \<Rightarrow> monotonic_time \<Rightarrow> origin_dispatch_hint option" where
  "next_dispatch_hint s now =
     (if sc_in_flight s \<noteq> None then None
      else
        let diagnostic_job =
              (case sc_circuit s of
                 OriginClosed \<Rightarrow> Some None
               | OriginRetryAfter until \<Rightarrow> if now \<ge> until then Some None else None
               | OriginFatalDiagnostic job recheck_after authorized \<Rightarrow>
                   if authorized \<and> now \<ge> recheck_after then Some (Some job) else None)
        in case diagnostic_job of
             None \<Rightarrow> None
           | Some (Some key) \<Rightarrow>
               (case bm_get (sc_jobs s) key of
                  None \<Rightarrow> None
                | Some schedule \<Rightarrow> if js_next_due schedule > now then None else Some (hint_of key schedule))
           | Some None \<Rightarrow>
               (case min_due_job (filter (\<lambda>(_, schedule). js_active schedule \<and> js_next_due schedule \<le> now)
                   (bm_entries (sc_jobs s))) of
                  None \<Rightarrow> None
                | Some (key, schedule) \<Rightarrow> Some (hint_of key schedule)))"

subsection \<open>Completion\<close>

definition first_future_due :: "monotonic_time \<Rightarrow> duration \<Rightarrow> monotonic_time \<Rightarrow> monotonic_time" where
  "first_future_due scheduled_due interval completed_at =
     (if scheduled_due > completed_at then scheduled_due
      else
        let interval_millis = max (case u64_try_from (duration_as_millis interval) of Some w \<Rightarrow> w | None \<Rightarrow> u64_max) 1;
            elapsed = saturating_sub completed_at scheduled_due;
            steps = elapsed div interval_millis + 1
        in saturating_add scheduled_due (saturating_mul steps interval_millis))"

text \<open>The job and the circuit after a completion, by the kind of completion.\<close>

definition complete_job ::
  "in_flight_job \<Rightarrow> monotonic_time \<Rightarrow> completion_schedule \<Rightarrow> job_schedule \<Rightarrow> origin_circuit
     \<Rightarrow> job_schedule \<times> origin_circuit" where
  "complete_job f completed_at completion job circuit =
     (let job = job\<lparr>js_lane := js_normal_lane job\<rparr> in
      case completion of
        CompletionSuccess \<Rightarrow>
          (job\<lparr>js_failure_streak := 0,
             js_next_due := first_future_due (if_scheduled_due f) (js_interval job) completed_at\<rparr>,
           if if_diagnostic_probe f then OriginClosed else circuit)
      | CompletionCatalogRace \<Rightarrow>
          (job\<lparr>js_failure_streak := 0,
             js_next_due := first_future_due (if_scheduled_due f) (js_interval job) completed_at\<rparr>,
           if if_diagnostic_probe f then OriginClosed else circuit)
      | CompletionRetry directive \<Rightarrow>
          let next_due = monotonic_saturating_add completed_at (rd_delay directive);
              circuit = (case rd_mode directive of
                 Automatic \<Rightarrow> circuit
               | OriginCircuitMode \<Rightarrow> OriginRetryAfter next_due
               | ExplicitDiagnosticRecheck \<Rightarrow> OriginFatalDiagnostic (if_key f) next_due False)
          in (job\<lparr>js_failure_streak := rd_next_failure_streak directive, js_next_due := next_due\<rparr>,
              if if_diagnostic_probe f \<and> rd_mode directive = Automatic \<and> rd_clears_fatal_diagnostic directive
              then OriginClosed
              else if if_diagnostic_probe f \<and> rd_mode directive = Automatic \<and> \<not> rd_clears_fatal_diagnostic directive
              then OriginFatalDiagnostic (if_key f) next_due False
              else circuit))"

definition settle_success :: "in_flight_job \<Rightarrow> completion_schedule \<Rightarrow> job_schedule \<Rightarrow> job_schedule" where
  "settle_success f completion job =
     (let job = (if completion = CompletionSuccess \<and> js_one_shot_pending job
            then job\<lparr>js_one_shot_pending := False,
               js_active := js_recurring job \<or> (job_kind (if_key f) = JobOpen \<and> js_active_watch_count job > 0)\<rparr>
            else job)
      in if completion = CompletionSuccess then job\<lparr>js_generation_pending := False\<rparr> else job)"

definition finish ::
  "u64 \<Rightarrow> monotonic_time \<Rightarrow> completion_schedule \<Rightarrow> origin_edf_scheduler \<Rightarrow> unit sched_result" where
  "finish token completed_at completion s =
     (case sc_in_flight s of
        None \<Rightarrow> (Inl InvalidCompletionToken, s)
      | Some f \<Rightarrow>
          if if_token f \<noteq> token then (Inl InvalidCompletionToken, s)
          else if completed_at < if_started_at f then (Inl CompletionBeforeStart, s)
          else
            let s = s\<lparr>sc_in_flight := None\<rparr> in
            (case bm_get (sc_jobs s) (if_key f) of
               None \<Rightarrow> (Inl UnknownJob, s)
             | Some job \<Rightarrow>
                 let (job, circuit) = complete_job f completed_at completion job (sc_circuit s)
                 in (Inr (), (put_job (if_key f) (settle_success f completion job) s)\<lparr>sc_circuit := circuit\<rparr>)))"

definition authorize_diagnostic_recheck :: "monotonic_time \<Rightarrow> origin_edf_scheduler \<Rightarrow> unit sched_result" where
  "authorize_diagnostic_recheck now s =
     (case sc_circuit s of
        OriginFatalDiagnostic job recheck_after authorized \<Rightarrow>
          if recheck_after \<le> now then (Inr (), s\<lparr>sc_circuit := OriginFatalDiagnostic job recheck_after True\<rparr>)
          else (Inl DiagnosticCooldownActive, s)
      | _ \<Rightarrow> (Inr (), s))"

definition scheduler_next_due :: "origin_edf_scheduler \<Rightarrow> origin_job_key \<Rightarrow> monotonic_time option" where
  "scheduler_next_due s key =
     (case bm_get (sc_jobs s) key of
        None \<Rightarrow> None
      | Some job \<Rightarrow> if js_active job then Some (js_next_due job) else None)"

definition scheduler_is_active :: "origin_edf_scheduler \<Rightarrow> origin_job_key \<Rightarrow> bool" where
  "scheduler_is_active s key = (case bm_get (sc_jobs s) key of None \<Rightarrow> False | Some job \<Rightarrow> js_active job)"

text \<open>Wall-clock milliseconds are \<open>i128\<close>; their difference saturates at its bounds.\<close>

definition i128_saturating_sub :: "int \<Rightarrow> int \<Rightarrow> int" where
  "i128_saturating_sub a b = max (- (2 ^ 127)) (min (2 ^ 127 - 1) (a - b))"

definition restore_monotonic_due :: "monotonic_time \<Rightarrow> int \<Rightarrow> int \<Rightarrow> monotonic_time" where
  "restore_monotonic_due now_monotonic now_wall_millis persisted_due_wall_millis =
     (let remaining = max (i128_saturating_sub persisted_due_wall_millis now_wall_millis) 0
      in saturating_add now_monotonic (u64_from_len (nat remaining)))"

end
