(* ===== verification/Scheduler_Guarantees.thy ===== *)
theory Scheduler_Guarantees
  imports Open_Scheduler
begin

text \<open>
  What the origin scheduler guarantees: its invariant over every sequence of calls, earliest-deadline
  selection, agreement of the read-only hint with the dispatch, and drift-free recurrence.
\<close>

subsection \<open>Selection by a comparison\<close>

text \<open>A comparison function that is the order of a rank: what \<open>min_by\<close> relies on.\<close>

locale ranked_comparison =
  fixes comparison :: "'a \<Rightarrow> 'a \<Rightarrow> ordering"
    and rank :: "'a \<Rightarrow> 'k::linorder"
  assumes comparison_rank: "comparison x y = ord_cmp (rank x) (rank y)"
begin

lemma fold_min:
  "foldl (\<lambda>best e. if comparison best e = OrdGreater then e else best) x xs \<in> set (x # xs)
   \<and> (\<forall>y \<in> set (x # xs). rank (foldl (\<lambda>best e. if comparison best e = OrdGreater then e else best) x xs) \<le> rank y)"
proof (induction xs arbitrary: x)
  case (Cons a xs)
  have step: "(if comparison x a = OrdGreater then a else x) = (if rank a < rank x then a else x)"
    by (auto simp: comparison_rank ord_cmp_def)
  show ?case
    using Cons.IH [of "if rank a < rank x then a else x"] unfolding foldl_Cons step
    by (auto split: if_splits)
qed simp

end

definition due_rank :: "origin_job_key \<times> job_schedule \<Rightarrow> nat \<times> monotonic_time \<times> origin_job_key" where
  "due_rank e = (priority_rank (dispatch_priority (fst e) (snd e)), js_next_due (snd e), fst e)"

interpretation due: ranked_comparison "\<lambda>a b. compare_due_jobs (fst a) (snd a) (fst b) (snd b)" due_rank
  by unfold_locales (auto simp: compare_due_jobs_def due_rank_def ord_cmp_def Let_def)

lemma min_due_job_None: "min_due_job es = None \<longleftrightarrow> es = []"
  by (cases es) auto

lemma min_due_job_Some:
  assumes "min_due_job es = Some e"
  shows "e \<in> set es" "\<forall>y \<in> set es. due_rank e \<le> due_rank y"
proof -
  obtain x xs where es: "es = x # xs"
    using assms by (cases es) auto
  then have e: "e = foldl (\<lambda>best e. if compare_due_jobs (fst best) (snd best) (fst e) (snd e) = OrdGreater then e else best) x xs"
    using assms by simp
  show "e \<in> set es" "\<forall>y \<in> set es. due_rank e \<le> due_rank y"
    using due.fold_min [of x xs] unfolding e es by blast+
qed

definition due_jobs :: "origin_edf_scheduler \<Rightarrow> monotonic_time \<Rightarrow> (origin_job_key \<times> job_schedule) set" where
  "due_jobs s now = {(k, j). bm_get (sc_jobs s) k = Some j \<and> js_active j \<and> js_next_due j \<le> now}"

definition due_list :: "origin_edf_scheduler \<Rightarrow> monotonic_time \<Rightarrow> (origin_job_key \<times> job_schedule) list" where
  "due_list s now = filter (\<lambda>(_, job). js_active job \<and> js_next_due job \<le> now) (bm_entries (sc_jobs s))"

lemma set_due_list: "set (due_list s now) = due_jobs s now"
  by (auto simp: due_list_def due_jobs_def bm_get_iff)

lemma select_unforced: "select_job (sc_jobs s) now None = min_due_job (due_list s now)"
  for s :: origin_edf_scheduler
  by (simp add: select_job_def due_list_def)

lemma select_unforced_None: "select_job (sc_jobs s) now None = None \<longleftrightarrow> due_jobs s now = {}"
  for s :: origin_edf_scheduler
  unfolding select_unforced min_due_job_None by (simp flip: set_due_list)

lemma select_unforced_Some:
  fixes s :: origin_edf_scheduler
  assumes "select_job (sc_jobs s) now None = Some e"
  shows "e \<in> due_jobs s now" "\<forall>y \<in> due_jobs s now. due_rank e \<le> due_rank y"
  using min_due_job_Some [OF assms [unfolded select_unforced]] unfolding set_due_list by auto

lemma select_job_registered:
  fixes s :: origin_edf_scheduler
  assumes "select_job (sc_jobs s) now d = Some (k, j)"
  shows "bm_get (sc_jobs s) k = Some j \<and> js_next_due j \<le> now"
proof (cases d)
  case None
  then show ?thesis
    using select_unforced_Some(1) [of s now "(k, j)"] assms by (simp add: due_jobs_def)
next
  case (Some key)
  then show ?thesis
    using assms by (auto simp: select_job_def not_less split: option.splits if_splits)
qed

subsection \<open>Well-formed schedulers\<close>

text \<open>Work is never parked: a recurring job, a pending one-shot and a watched open job are active.\<close>

definition wf_job :: "origin_job_key \<Rightarrow> job_schedule \<Rightarrow> bool" where
  "wf_job k j \<longleftrightarrow> 0 < js_interval j
     \<and> (js_recurring j \<or> js_one_shot_pending j \<or> (job_kind k = JobOpen \<and> js_active_watch_count j > 0) \<longrightarrow> js_active j)
     \<and> js_normal_lane j = (if job_kind k = JobCatalog then SchedCatalog else open_lane (js_active_watch_count j > 0))"

definition wf_scheduler :: "origin_edf_scheduler \<Rightarrow> bool" where
  "wf_scheduler s \<longleftrightarrow>
     (\<forall>k j. bm_get (sc_jobs s) k = Some j \<longrightarrow> wf_job k j)
     \<and> (\<forall>f. sc_in_flight s = Some f \<longrightarrow> bm_get (sc_jobs s) (if_key f) \<noteq> None \<and> if_token f = sc_next_token s \<and> 0 < if_token f)
     \<and> (\<forall>k t a. sc_circuit s = OriginFatalDiagnostic k t a \<longrightarrow> bm_get (sc_jobs s) k \<noteq> None)"

lemma wf_jobD: "wf_scheduler s \<Longrightarrow> bm_get (sc_jobs s) k = Some j \<Longrightarrow> wf_job k j"
  by (simp add: wf_scheduler_def)

lemma wf_put_job:
  assumes "wf_scheduler s" "wf_job k j"
  shows "wf_scheduler (put_job k j s)"
  using assms by (auto simp: wf_scheduler_def put_job_def)

lemma wf_modify_job:
  assumes "wf_scheduler s" "\<And>j. wf_job k j \<Longrightarrow> wf_job k (f j)"
  shows "wf_scheduler (snd (modify_job k f s))"
  using assms wf_put_job [OF assms(1)] by (auto simp: modify_job_def wf_scheduler_def [of s] split: option.splits)

lemma job_kind_keys [simp]: "job_kind (key_open t) = JobOpen" "job_kind (key_catalog t) = JobCatalog"
  by (simp_all add: key_open_def key_catalog_def)

lemma admitted_positive: "admitted i \<Longrightarrow> 0 < effective i w"
  using admitted_effective(1) [of i w] by (simp add: nanos_per_second_def)

lemma wf_upsert:
  assumes "wf_scheduler s"
    and "jr_normal_lane r = (if job_kind k = JobCatalog then SchedCatalog else open_lane (jr_active_watch_count r > 0))"
  shows "wf_scheduler (snd (upsert k r s))"
proof (cases "jr_interval r = 0")
  case False
  show ?thesis
  proof (cases "bm_get (sc_jobs s) k")
    case None
    with False assms show ?thesis
      by (simp add: upsert_def wf_put_job wf_job_def)
  next
    case (Some j)
    with False assms show ?thesis
      by (simp add: upsert_def wf_put_job wf_job_def)
  qed
qed (simp add: upsert_def assms)

lemma wf_update_due: "wf_scheduler s \<Longrightarrow> wf_scheduler (update_due_for_interval_change k now s)"
  by (auto simp: update_due_for_interval_change_def Let_def wf_job_def intro!: wf_put_job dest: wf_jobD split: option.splits)

lemma wf_register_open_with_mode:
  "wf_scheduler s \<Longrightarrow> wf_scheduler (snd (register_open_with_mode target i n now first recurring s))"
proof -
  assume wf: "wf_scheduler s"
  let ?r = "\<lparr>jr_interval = effective i (n > 0), jr_first_due = first,
     jr_normal_lane = (if n > 0 then OpenActiveWatch else OpenGeneral), jr_active_watch_count = n,
     jr_mode = (if recurring then RegRecurring else RegOneShot), jr_generation_pending = (\<not> recurring)\<rparr>"
  have "wf_scheduler (snd (upsert (key_open target) ?r s))"
    using wf by (rule wf_upsert) (simp add: open_lane_def)
  then show ?thesis
    by (auto simp: register_open_with_mode_def Let_def wf_update_due split: prod.splits sum.splits)
qed

lemma upsert_registers: "upsert k r s = (Inr u, s') \<Longrightarrow> \<exists>j. bm_get (sc_jobs s') k = Some j"
  by (auto simp: upsert_def put_job_def split: if_splits option.splits)

lemma update_due_keys:
  "bm_get (sc_jobs s) k' = Some j \<Longrightarrow> \<exists>j. bm_get (sc_jobs (update_due_for_interval_change k now s)) k' = Some j"
  by (auto simp: update_due_for_interval_change_def Let_def put_job_def split: option.splits)

lemma register_open_registers:
  assumes "register_open_with_mode target i n now first recurring s = (Inr u, s')"
  shows "\<exists>j. bm_get (sc_jobs s') (key_open target) = Some j"
proof -
  obtain r s1 where up: "upsert (key_open target) r s = (Inr (), s1)"
    and s': "s' = s1 \<or> s' = update_due_for_interval_change (key_open target) now s1"
    using assms by (auto simp: register_open_with_mode_def Let_def split: prod.splits sum.splits if_splits)
  from upsert_registers [OF up] obtain j where "bm_get (sc_jobs s1) (key_open target) = Some j" ..
  then show ?thesis
    using s' update_due_keys by blast
qed

subsection \<open>Preservation\<close>

lemma wf_register_catalogs:
  assumes "wf_scheduler s"
  shows "wf_scheduler (snd (register_catalog target interval first s))"
    "wf_scheduler (snd (register_catalog_initial target interval n first s))"
    "wf_scheduler (snd (register_catalog_one_shot target n first s))"
  using assms
  by (simp_all add: register_catalog_def register_catalog_initial_def register_catalog_one_shot_def wf_upsert)

lemma wf_demand_catalog:
  assumes "wf_scheduler s"
  shows "wf_scheduler (snd (set_catalog_watch_count target n s))"
    "wf_scheduler (snd (activate_catalog target interval now s))"
    "wf_scheduler (snd (demote_catalog target maintenance now s))"
proof -
  show "wf_scheduler (snd (set_catalog_watch_count target n s))"
    unfolding set_catalog_watch_count_def using assms by (rule wf_modify_job) (simp add: wf_job_def)
  show "wf_scheduler (snd (activate_catalog target interval now s))"
    unfolding activate_catalog_def using assms by (auto simp: wf_job_def intro!: wf_modify_job)
  show "wf_scheduler (snd (demote_catalog target maintenance now s))"
    using assms wf_jobD [OF assms, of "key_catalog target"]
    by (auto simp: demote_catalog_def Let_def wf_job_def intro!: wf_put_job split: option.splits)
qed

lemma wf_demand_open:
  assumes "wf_scheduler s" "admitted i"
  shows "wf_scheduler (snd (activate_open target i now s))"
    "wf_scheduler (snd (demote_open target i n now s))"
    "wf_scheduler (snd (set_open_watch_count target i n now s))"
proof -
  note pos = admitted_positive [OF assms(2)]
  show "wf_scheduler (snd (activate_open target i now s))"
    unfolding activate_open_def using assms(1) by (rule wf_modify_job) (simp add: wf_job_def Let_def pos)
  show "wf_scheduler (snd (demote_open target i n now s))"
    unfolding demote_open_def using assms(1) by (rule wf_modify_job) (simp add: wf_job_def Let_def pos open_lane_def)
  show "wf_scheduler (snd (set_open_watch_count target i n now s))"
    unfolding set_open_watch_count_def using assms(1)
    by (rule wf_modify_job) (auto simp: wf_job_def Let_def pos)
qed

lemma wf_settled_open:
  assumes "wf_scheduler s"
  shows "wf_scheduler (snd (complete_open_bootstrap target at s))"
    "wf_scheduler (snd (adopt_external_open_state target now due streak s))"
  unfolding complete_open_bootstrap_def adopt_external_open_state_def
  using assms by (auto simp: wf_job_def intro!: wf_modify_job)

lemma wf_request_open_due: "wf_scheduler s \<Longrightarrow> wf_scheduler (snd (request_open_due target due lane s))"
  using wf_jobD [of s "key_open target"]
  by (auto simp: request_open_due_def Let_def wf_job_def intro!: wf_put_job split: option.splits)

lemma wf_circuit_closed: "wf_scheduler s \<Longrightarrow> wf_scheduler (s\<lparr>sc_circuit := OriginClosed\<rparr>)"
  by (auto simp: wf_scheduler_def)

lemma wf_manual_retry: "wf_scheduler s \<Longrightarrow> wf_scheduler (snd (request_manual_target_retry target now s))"
proof -
  assume wf: "wf_scheduler s"
  have circuit: "wf_scheduler (s\<lparr>sc_circuit := c\<rparr>)" if "manual_retry_key target now (sc_circuit s) = Some (k, c)" for k c
    using that wf by (auto simp: manual_retry_key_def wf_scheduler_def split: origin_circuit.splits if_splits)
  have job: "wf_job k (j\<lparr>js_active := True, js_one_shot_pending := a, js_next_due := now, js_lane := l\<rparr>)"
      "wf_job k (j\<lparr>js_active := True, js_next_due := now, js_lane := l\<rparr>)"
    if "bm_get (sc_jobs s) k = Some j" for k j a l
    using wf_jobD [OF wf that] by (auto simp: wf_job_def)
  show ?thesis
    using wf by (auto simp: request_manual_target_retry_def Let_def circuit intro!: wf_put_job job split: option.splits)
qed

text \<open>
  \<open>start_next\<close> without its panic branch: the selected job is always registered, so the
  operation is total, and its outcome is one of three states.
\<close>

definition lifted :: "origin_circuit \<Rightarrow> origin_circuit" where
  "lifted c = (case c of OriginRetryAfter _ \<Rightarrow> OriginClosed | _ \<Rightarrow> c)"

definition probing :: "origin_circuit \<Rightarrow> bool \<Rightarrow> origin_circuit" where
  "probing c probe = (case c of OriginFatalDiagnostic j t a \<Rightarrow> OriginFatalDiagnostic j t (a \<and> \<not> probe) | _ \<Rightarrow> c)"

definition next_token :: "origin_edf_scheduler \<Rightarrow> u64" where
  "next_token s = max (saturating_add (sc_next_token s) 1) 1"

definition dispatch_of :: "monotonic_time \<Rightarrow> origin_edf_scheduler \<Rightarrow> origin_job_key \<Rightarrow> job_schedule \<Rightarrow> origin_dispatch" where
  "dispatch_of now s key job =
     \<lparr>od_token = next_token s, od_key = key, od_lane = js_lane job,
      od_scheduled_due = js_next_due job, od_started_at = now,
      od_scheduler_lag = saturating_duration_since now (js_next_due job),
      od_actual_start_to_start_interval =
        map_option (\<lambda>started. saturating_duration_since now started) (js_last_start job),
      od_requested_interval = js_interval job, od_failure_streak = js_failure_streak job,
      od_first_load_one_shot = (job_kind key = JobOpen \<and> js_one_shot_pending job \<and> \<not> js_recurring job)\<rparr>"

definition dispatched ::
  "monotonic_time \<Rightarrow> origin_edf_scheduler \<Rightarrow> origin_job_key \<Rightarrow> job_schedule \<Rightarrow> bool \<Rightarrow> origin_edf_scheduler" where
  "dispatched now s key job probe =
     (put_job key (job\<lparr>js_last_start := Some now\<rparr>) s)
       \<lparr>sc_next_token := next_token s,
        sc_in_flight := Some \<lparr>if_token = next_token s, if_key = key, if_scheduled_due = js_next_due job,
          if_started_at = now, if_diagnostic_probe = probe\<rparr>,
        sc_circuit := probing (lifted (sc_circuit s)) probe\<rparr>"

lemma start_next_eq:
  "start_next now s =
     (if sc_in_flight s \<noteq> None then Some (None, s)
      else case circuit_decision (sc_circuit s) now of
        CircuitBlocked \<Rightarrow> Some (None, s)
      | CircuitProceed d \<Rightarrow>
          (case select_job (sc_jobs s) now d of
             None \<Rightarrow> Some (None, s\<lparr>sc_circuit := lifted (sc_circuit s)\<rparr>)
           | Some (key, job) \<Rightarrow>
               Some (Some (dispatch_of now s key job), dispatched now s key job (d \<noteq> None))))"
proof (cases "circuit_decision (sc_circuit s) now")
  case (CircuitProceed d)
  let ?s = "case sc_circuit s of OriginRetryAfter _ \<Rightarrow> s\<lparr>sc_circuit := OriginClosed\<rparr> | _ \<Rightarrow> s"
  have lift: "?s = s\<lparr>sc_circuit := lifted (sc_circuit s)\<rparr>"
    by (cases "sc_circuit s") (simp_all add: lifted_def)
  show ?thesis
  proof (cases "select_job (sc_jobs s) now d")
    case None
    then show ?thesis
      using CircuitProceed unfolding start_next_def lift Let_def by simp
  next
    case (Some kj)
    then obtain k j where kj: "select_job (sc_jobs s) now d = Some (k, j)" by (cases kj) simp
    have get: "bm_get (sc_jobs s) k = Some j" using select_job_registered [OF kj] by simp
    have probe: "probing c p = (case c of OriginFatalDiagnostic j t a \<Rightarrow> if p then OriginFatalDiagnostic j t False else c | _ \<Rightarrow> c)" for c p
      by (cases c) (simp_all add: probing_def)
    show ?thesis
      using CircuitProceed kj get unfolding start_next_def lift Let_def
      by (cases "sc_circuit s") (simp_all add: dispatch_of_def dispatched_def next_token_def probe put_job_def lifted_def)
  qed
qed (simp add: start_next_def)

lemma start_next_total: "\<exists>x. start_next now s = Some x"
  by (auto simp: start_next_eq split: circuit_verdict.splits option.splits)

lemma wf_lifted: "wf_scheduler s \<Longrightarrow> wf_scheduler (s\<lparr>sc_circuit := lifted (sc_circuit s)\<rparr>)"
  by (cases "sc_circuit s") (auto simp: wf_scheduler_def lifted_def)

lemma next_token_positive: "0 < next_token s"
proof -
  have "0 < (1 :: u64)" by simp
  then show ?thesis unfolding next_token_def by (simp only: less_max_iff_disj simp_thms)
qed

lemma wf_dispatched:
  assumes wf: "wf_scheduler s" and j: "bm_get (sc_jobs s) k = Some j"
  shows "wf_scheduler (dispatched now s k j p)"
proof -
  have "wf_scheduler (put_job k (j\<lparr>js_last_start := Some now\<rparr>) s)"
    using wf wf_jobD [OF wf j] by (intro wf_put_job) (simp_all add: wf_job_def)
  then show ?thesis
    using next_token_positive [of s]
    by (cases "sc_circuit s") (auto simp: dispatched_def wf_scheduler_def put_job_def lifted_def probing_def)
qed

lemma wf_start_next:
  assumes "wf_scheduler s" "start_next now s = Some (d, s')"
  shows "wf_scheduler s'"
  using assms wf_lifted [OF assms(1)] select_job_registered [of s now]
  by (auto simp: start_next_eq intro!: wf_dispatched split: if_splits circuit_verdict.splits option.splits)

lemma complete_job_fields:
  assumes "complete_job f at completion j c = (j', c')"
  shows "js_interval j' = js_interval j" "js_active j' = js_active j" "js_recurring j' = js_recurring j"
    "js_one_shot_pending j' = js_one_shot_pending j" "js_active_watch_count j' = js_active_watch_count j"
    "js_normal_lane j' = js_normal_lane j"
    "c' = c \<or> c' = OriginClosed \<or> (\<exists>t. c' = OriginRetryAfter t) \<or> (\<exists>t. c' = OriginFatalDiagnostic (if_key f) t False)"
  using assms by (auto simp: complete_job_def Let_def split: completion_schedule.splits retry_mode.splits if_splits)

lemma wf_finish: "wf_scheduler s \<Longrightarrow> wf_scheduler (snd (finish token at completion s))"
proof -
  assume wf: "wf_scheduler s"
  have idle: "wf_scheduler (s\<lparr>sc_in_flight := None\<rparr>)"
    using wf by (auto simp: wf_scheduler_def)
  have settled: "wf_scheduler ((put_job k (settle_success f completion j') (s\<lparr>sc_in_flight := None\<rparr>))\<lparr>sc_circuit := c'\<rparr>)"
    if k: "k = if_key f" and j: "bm_get (sc_jobs s) k = Some j"
      and c: "complete_job f at completion j (sc_circuit s) = (j', c')" for k f j j' c'
  proof -
    have "wf_job k (settle_success f completion j')"
      using wf_jobD [OF wf j] complete_job_fields [OF c] k by (auto simp: settle_success_def Let_def wf_job_def)
    then have "wf_scheduler (put_job k (settle_success f completion j') (s\<lparr>sc_in_flight := None\<rparr>))"
      using idle by (rule wf_put_job [rotated])
    moreover have "\<forall>k' t a. c' = OriginFatalDiagnostic k' t a \<longrightarrow> bm_get (sc_jobs s) k' \<noteq> None"
      using complete_job_fields(7) [OF c] wf j k unfolding wf_scheduler_def
      by (metis option.distinct(1) origin_circuit.distinct origin_circuit.inject(2))
    ultimately show ?thesis
      by (auto simp: wf_scheduler_def put_job_def)
  qed
  show ?thesis
    using wf idle by (auto simp: finish_def Let_def settled split: option.splits prod.splits)
qed

lemma wf_authorize: "wf_scheduler s \<Longrightarrow> wf_scheduler (snd (authorize_diagnostic_recheck now s))"
  by (auto simp: authorize_diagnostic_recheck_def wf_scheduler_def split: origin_circuit.splits)

lemma wf_register_open_initial:
  assumes "wf_scheduler s"
  shows "\<exists>x. register_open_initial target i n now first s = Some x \<and> wf_scheduler (snd x)"
proof -
  obtain e s' where reg: "register_open_with_mode target i n now first False s = (e, s')"
    by (cases "register_open_with_mode target i n now first False s")
  then have wf: "wf_scheduler s'"
    using wf_register_open_with_mode [OF assms, of target i n now first False] by simp
  show ?thesis
  proof (cases e)
    case (Inr u)
    then obtain j where j: "bm_get (sc_jobs s') (key_open target) = Some j"
      using register_open_registers reg by blast
    then show ?thesis
      using wf_jobD [OF wf j] wf reg Inr
      by (auto simp: register_open_initial_def wf_job_def intro!: wf_put_job)
  qed (use wf reg in \<open>simp add: register_open_initial_def\<close>)
qed

subsection \<open>Reachable schedulers\<close>

text \<open>
  The public operations as commands.  A command is legitimate when the intervals it carries
  were admitted by the interval types; every other argument is arbitrary.
\<close>

datatype sched_command =
    CmdRegisterCatalog term_campus_key duration monotonic_time
  | CmdRegisterCatalogInitial term_campus_key duration u64 monotonic_time
  | CmdRegisterCatalogOneShot term_campus_key u64 monotonic_time
  | CmdRegisterOpen term_campus_key open_refresh_intervals u64 monotonic_time monotonic_time
  | CmdRegisterOpenInitial term_campus_key open_refresh_intervals u64 monotonic_time monotonic_time
  | CmdSetCatalogWatchCount term_campus_key u64
  | CmdActivateCatalog term_campus_key duration monotonic_time
  | CmdDemoteCatalog term_campus_key "duration option" monotonic_time
  | CmdActivateOpen term_campus_key open_refresh_intervals monotonic_time
  | CmdDemoteOpen term_campus_key open_refresh_intervals u64 monotonic_time
  | CmdSetOpenWatchCount term_campus_key open_refresh_intervals u64 monotonic_time
  | CmdRequestOpenDue term_campus_key monotonic_time origin_scheduler_lane
  | CmdManualRetry term_campus_key monotonic_time
  | CmdCompleteBootstrap term_campus_key monotonic_time
  | CmdAdoptExternal term_campus_key monotonic_time monotonic_time u32
  | CmdStartNext monotonic_time
  | CmdFinish u64 monotonic_time completion_schedule
  | CmdAuthorizeRecheck monotonic_time

fun command_admitted :: "sched_command \<Rightarrow> bool" where
  "command_admitted (CmdRegisterOpen _ i _ _ _) = admitted i"
| "command_admitted (CmdRegisterOpenInitial _ i _ _ _) = admitted i"
| "command_admitted (CmdActivateOpen _ i _) = admitted i"
| "command_admitted (CmdDemoteOpen _ i _ _) = admitted i"
| "command_admitted (CmdSetOpenWatchCount _ i _ _) = admitted i"
| "command_admitted _ = True"

fun sched_execute :: "sched_command \<Rightarrow> origin_edf_scheduler \<Rightarrow> origin_edf_scheduler option" where
  "sched_execute (CmdRegisterCatalog t i due) s = Some (snd (register_catalog t i due s))"
| "sched_execute (CmdRegisterCatalogInitial t i n due) s = Some (snd (register_catalog_initial t i n due s))"
| "sched_execute (CmdRegisterCatalogOneShot t n due) s = Some (snd (register_catalog_one_shot t n due s))"
| "sched_execute (CmdRegisterOpen t i n now due) s = Some (snd (register_open t i n now due s))"
| "sched_execute (CmdRegisterOpenInitial t i n now due) s = map_option snd (register_open_initial t i n now due s)"
| "sched_execute (CmdSetCatalogWatchCount t n) s = Some (snd (set_catalog_watch_count t n s))"
| "sched_execute (CmdActivateCatalog t i now) s = Some (snd (activate_catalog t i now s))"
| "sched_execute (CmdDemoteCatalog t m now) s = Some (snd (demote_catalog t m now s))"
| "sched_execute (CmdActivateOpen t i now) s = Some (snd (activate_open t i now s))"
| "sched_execute (CmdDemoteOpen t i n now) s = Some (snd (demote_open t i n now s))"
| "sched_execute (CmdSetOpenWatchCount t i n now) s = Some (snd (set_open_watch_count t i n now s))"
| "sched_execute (CmdRequestOpenDue t due lane) s = Some (snd (request_open_due t due lane s))"
| "sched_execute (CmdManualRetry t now) s = Some (snd (request_manual_target_retry t now s))"
| "sched_execute (CmdCompleteBootstrap t at) s = Some (snd (complete_open_bootstrap t at s))"
| "sched_execute (CmdAdoptExternal t now due streak) s = Some (snd (adopt_external_open_state t now due streak s))"
| "sched_execute (CmdStartNext now) s = map_option snd (start_next now s)"
| "sched_execute (CmdFinish token at c) s = Some (snd (finish token at c s))"
| "sched_execute (CmdAuthorizeRecheck now) s = Some (snd (authorize_diagnostic_recheck now s))"

inductive sched_reachable :: "origin_edf_scheduler \<Rightarrow> bool" where
  init: "sched_reachable scheduler_new"
| step: "sched_reachable s \<Longrightarrow> command_admitted c \<Longrightarrow> sched_execute c s = Some s' \<Longrightarrow> sched_reachable s'"

lemma wf_scheduler_new: "wf_scheduler scheduler_new"
  by (simp add: wf_scheduler_def scheduler_new_def)

lemma sched_execute_wf:
  assumes wf: "wf_scheduler s" and adm: "command_admitted c"
  shows "\<exists>s'. sched_execute c s = Some s' \<and> wf_scheduler s'"
proof (cases c)
  case (CmdRegisterOpenInitial t i n now due)
  then show ?thesis
    using wf_register_open_initial [OF wf, of t i n now due] by auto
next
  case (CmdStartNext now)
  obtain d s' where st: "start_next now s = Some (d, s')"
    using start_next_total [of now s] by auto
  then show ?thesis
    using CmdStartNext wf_start_next [OF wf st] by simp
qed (use adm in \<open>simp_all add: register_open_def wf_register_catalogs [OF wf] wf_demand_catalog [OF wf]
      wf_demand_open [OF wf] wf_request_open_due [OF wf] wf_manual_retry [OF wf] wf_settled_open [OF wf]
      wf_finish [OF wf] wf_authorize [OF wf] wf_register_open_with_mode [OF wf]\<close>)

lemma sched_reachable_wf: "sched_reachable s \<Longrightarrow> wf_scheduler s"
proof (induction rule: sched_reachable.induct)
  case (step s c s')
  then show ?case
    using sched_execute_wf [of s c] by auto
qed (rule wf_scheduler_new)

subsection \<open>The next due time\<close>

definition interval_millis :: "duration \<Rightarrow> nat" where
  "interval_millis d = max (min (duration_as_millis d) (2 ^ 64 - 1)) 1"

lemma unat_try_millis:
  "unat (max (case u64_try_from (duration_as_millis d) of Some w \<Rightarrow> w | None \<Rightarrow> u64_max) 1) = interval_millis d"
proof -
  have top: "unat u64_max = 18446744073709551615"
    by (simp add: u64_max_def unsigned_minus_1_eq_mask mask_eq_exp_minus_1)
  have mx: "unat (max a b) = max (unat a) (unat b)" for a b :: u64
    by (simp add: max_def word_le_nat_alt)
  have one: "unat (1 :: u64) = 1" by simp
  show ?thesis
  proof (cases "duration_as_millis d < 18446744073709551616")
    case True
    then have "unat (of_nat (duration_as_millis d) :: u64) = duration_as_millis d"
      by (simp add: unat_of_nat)
    then show ?thesis
      using True unfolding u64_try_from_def interval_millis_def mx one by simp
  next
    case False
    then show ?thesis
      unfolding u64_try_from_def interval_millis_def mx one by (simp add: top)
  qed
qed

lemma unat_saturating_mul: "unat (saturating_mul a b) = min (unat a * unat b) (2 ^ 64 - 1)"
proof (cases "unat a * unat b < 2 ^ 64")
  case True
  then show ?thesis by (simp add: saturating_mul_def unat_word_ariths)
next
  case False
  then show ?thesis by (simp add: saturating_mul_def u64_max_def unsigned_minus_1_eq_mask mask_eq_exp_minus_1)
qed

lemma first_future_due_eq:
  assumes late: "due \<le> at" and bound: "at < u64_max"
  shows "unat (first_future_due due interval at)
    = min (unat due + ((unat at - unat due) div interval_millis interval + 1) * interval_millis interval) (2 ^ 64 - 1)"
proof -
  let ?m = "max (case u64_try_from (duration_as_millis interval) of Some w \<Rightarrow> w | None \<Rightarrow> u64_max) 1"
  let ?i = "interval_millis interval"
  let ?q = "(unat at - unat due) div ?i"
  have "unat at < 18446744073709551615"
    using bound by (simp add: word_less_nat_alt u64_max_def unsigned_minus_1_eq_mask mask_eq_exp_minus_1)
  then have small: "?q + 1 < 18446744073709551616"
    using div_le_dividend [of "unat at - unat due" ?i] by linarith
  have q: "unat (saturating_sub at due div ?m) = ?q"
    by (simp add: unat_div unat_saturating_sub unat_try_millis)
  have succ: "unat (w + 1) = unat w + 1" if "unat w + 1 < 18446744073709551616" for w :: u64
    using that by (simp add: unat_word_ariths)
  have steps: "unat (saturating_sub at due div ?m + 1) = ?q + 1"
    using succ [of "saturating_sub at due div ?m"] small unfolding q by blast
  have "unat (first_future_due due interval at)
      = unat (saturating_add due (saturating_mul (saturating_sub at due div ?m + 1) ?m))"
    using leD [OF late] unfolding first_future_due_def Let_def by (simp only: if_False)
  also have "\<dots> = min (unat due + min ((?q + 1) * ?i) (2 ^ 64 - 1)) (2 ^ 64 - 1)"
    unfolding unat_saturating_add unat_saturating_mul steps unat_try_millis by simp
  also have "\<dots> = min (unat due + (?q + 1) * ?i) (2 ^ 64 - 1)"
    by (simp add: min_def)
  finally show ?thesis .
qed

lemma grid_step:
  fixes a b i :: nat
  assumes "a \<le> b" "0 < i"
  shows "b < a + ((b - a) div i + 1) * i" "a + ((b - a) div i + 1) * i \<le> b + i"
proof -
  have split: "(b - a) div i * i + (b - a) mod i = b - a" by simp
  have rest: "(b - a) mod i < i" using assms(2) by simp
  have expand: "((b - a) div i + 1) * i = (b - a) div i * i + i" by (simp add: algebra_simps)
  show "b < a + ((b - a) div i + 1) * i" "a + ((b - a) div i + 1) * i \<le> b + i"
    unfolding expand using split rest assms(1) by linarith+
qed

lemma interval_millis_positive: "0 < interval_millis d"
  by (simp add: interval_millis_def)

text \<open>The next due time is after the completion, at most one interval away, and on the grid of the old one.\<close>

definition future_grid_due :: "monotonic_time \<Rightarrow> duration \<Rightarrow> monotonic_time \<Rightarrow> monotonic_time \<Rightarrow> bool" where
  "future_grid_due due interval at next_due \<longleftrightarrow> at < next_due
     \<and> (due > at \<longrightarrow> next_due = due)
     \<and> (due \<le> at \<longrightarrow> unat next_due \<le> unat at + interval_millis interval
         \<and> (next_due = u64_max \<or> (\<exists>k > 0. unat next_due = unat due + k * interval_millis interval)))"

lemma first_future_due_grid:
  assumes bound: "at < u64_max"
  shows "future_grid_due due interval at (first_future_due due interval at)"
proof (cases "due \<le> at")
  case True
  let ?i = "interval_millis interval"
  let ?n = "(unat at - unat due) div ?i + 1"
  let ?r = "first_future_due due interval at"
  have le: "unat due \<le> unat at" using True by (simp add: word_le_nat_alt)
  note step = grid_step [OF le interval_millis_positive [of interval]]
  have eq: "unat ?r = min (unat due + ?n * ?i) (2 ^ 64 - 1)"
    by (rule first_future_due_eq [OF True bound])
  have top: "unat u64_max = 18446744073709551615"
    by (simp add: u64_max_def unsigned_minus_1_eq_mask mask_eq_exp_minus_1)
  then have at: "unat at < 18446744073709551615"
    using bound by (simp add: word_less_nat_alt)
  have "at < ?r"
    unfolding word_less_nat_alt eq using step(1) at by simp
  moreover have "unat ?r \<le> unat at + ?i"
    unfolding eq using step(2) by linarith
  moreover have "?r = u64_max \<or> unat ?r = unat due + ?n * ?i"
  proof (cases "unat due + ?n * ?i \<le> 18446744073709551615")
    case False
    then have "unat ?r = unat u64_max" unfolding eq top by simp
    then show ?thesis by (simp only: word_unat_eq_iff simp_thms)
  qed (use eq in simp)
  moreover have "0 < ?n" by simp
  ultimately show ?thesis
    unfolding future_grid_due_def using True by (metis not_le)
next
  case False
  then show ?thesis
    by (auto simp: future_grid_due_def first_future_due_def)
qed

lemma finish_success_eq:
  assumes f: "sc_in_flight s = Some f" and j: "bm_get (sc_jobs s) (if_key f) = Some j"
    and late: "if_started_at f \<le> at" and c: "complete_job f at completion j (sc_circuit s) = (j', c')"
  shows "finish (if_token f) at completion s
    = (Inr (), (put_job (if_key f) (settle_success f completion j') (s\<lparr>sc_in_flight := None\<rparr>))\<lparr>sc_circuit := c'\<rparr>)"
  using assms by (simp add: finish_def Let_def not_less)

subsection \<open>Guarantees\<close>

text \<open>C21. Invariant of the scheduler.  In every scheduler that the public operations can reach, no
  operation panics (the \<open>expect\<close>s of \<open>register_open_initial\<close> and \<open>start_next\<close> hold), every
  registered job has a positive interval, a job that is recurring, has a pending one-shot or
  is a watched open job is active, the job in flight is registered and carries the newest
  token, and the job a fatal circuit waits for is registered.
\<close>

theorem scheduler_invariant:
  assumes "sched_reachable s"
  shows "wf_scheduler s \<and> (\<forall>c. command_admitted c \<longrightarrow> sched_execute c s \<noteq> None)"
  using sched_reachable_wf [OF assms] sched_execute_wf [OF sched_reachable_wf [OF assms]] by auto

definition sample_target :: term_campus_key where
  "sample_target = TermCampusKey (TermId ''92026'') (CampusCode ''NB'')"

definition sample_scheduler :: origin_edf_scheduler where
  "sample_scheduler = snd (register_catalog_one_shot sample_target 1 5 scheduler_new)"

lemma sample_reachable: "sched_reachable sample_scheduler"
  unfolding sample_scheduler_def
  by (rule sched_reachable.step [OF sched_reachable.init, of "CmdRegisterCatalogOneShot sample_target 1 5"]) simp_all

definition sample_job :: job_schedule where
  "sample_job = \<lparr>js_active = True, js_interval = CATALOG_ONE_SHOT_INTERVAL, js_next_due = 5, js_lane = SchedCatalog,
     js_normal_lane = SchedCatalog, js_active_watch_count = 1, js_recurring = False, js_one_shot_pending = True,
     js_generation_pending = True, js_last_start = None, js_failure_streak = 0\<rparr>"

lemma sample_scheduler_eq:
  "sample_scheduler = \<lparr>sc_jobs = bm_insert (key_catalog sample_target) sample_job bm_empty, sc_in_flight = None,
     sc_circuit = OriginClosed, sc_next_token = 0\<rparr>"
  by (simp add: sample_scheduler_def register_catalog_one_shot_def upsert_def scheduler_new_def sample_job_def
      put_job_def CATALOG_ONE_SHOT_INTERVAL_def duration_from_secs_def nanos_per_second_def bm_get_empty)

lemma sample_idle:
  "sc_in_flight sample_scheduler = None" "circuit_decision (sc_circuit sample_scheduler) 7 = CircuitProceed None"
  by (simp_all add: sample_scheduler_eq circuit_decision_def)

lemma sample_due: "due_jobs sample_scheduler 7 = {(key_catalog sample_target, sample_job)}"
  by (auto simp: due_jobs_def sample_scheduler_eq bm_get_insert bm_get_empty sample_job_def split: if_splits)

lemma sample_job_due [simp]: "js_next_due sample_job = 5"
  by (simp add: sample_job_def)

lemma sample_selected: "select_job (sc_jobs sample_scheduler) 7 None = Some (key_catalog sample_target, sample_job)"
  using select_unforced_None [of sample_scheduler 7] select_unforced_Some(1) [of sample_scheduler 7]
  unfolding sample_due by (cases "select_job (sc_jobs sample_scheduler) 7 None") auto

theorem scheduler_invariant_witness:
  "sched_execute (CmdStartNext 7) sample_scheduler \<noteq> None"
  using conjunct2 [OF scheduler_invariant [OF sample_reachable], THEN spec, of "CmdStartNext 7"]
  by (simp only: command_admitted.simps simp_thms not_False_eq_True)

text \<open>C22. Earliest-due-first dispatch.  With nothing in flight and a circuit that lets ordinary
  work through, \<open>start_next\<close> starts a job whenever some active job is due.  The job it starts
  is the least active due job by priority level, then due time, then key; the dispatch
  reports its due time, lag and streak; the job is then the one in flight, a second
  \<open>start_next\<close> starts nothing, and only the token of this dispatch can complete it.
\<close>

theorem dispatch_exact:
  assumes "sc_in_flight s = None" "circuit_decision (sc_circuit s) now = CircuitProceed None"
  shows "\<exists>d s'. start_next now s = Some (d, s')
    \<and> (d = None \<longleftrightarrow> due_jobs s now = {})
    \<and> (\<forall>x. d = Some x \<longrightarrow>
        (\<exists>j. (od_key x, j) \<in> due_jobs s now
           \<and> (\<forall>e \<in> due_jobs s now. due_rank (od_key x, j) \<le> due_rank e)
           \<and> od_scheduled_due x = js_next_due j \<and> od_lane x = js_lane j
           \<and> od_failure_streak x = js_failure_streak j
           \<and> od_scheduler_lag x = duration_from_millis (unat now - unat (js_next_due j)))
        \<and> map_option if_token (sc_in_flight s') = Some (od_token x)
        \<and> map_option if_key (sc_in_flight s') = Some (od_key x)
        \<and> start_next later s' = Some (None, s')
        \<and> (\<forall>t at c. t \<noteq> od_token x \<longrightarrow> finish t at c s' = (Inl InvalidCompletionToken, s')))"
proof (cases "select_job (sc_jobs s) now None")
  case None
  then show ?thesis
    using assms select_unforced_None [of s now] by (simp add: start_next_eq)
next
  case (Some e)
  obtain k j where e: "e = (k, j)" by (cases e)
  have start: "start_next now s = Some (Some (dispatch_of now s k j), dispatched now s k j False)"
    using assms Some e by (simp add: start_next_eq)
  have due: "(k, j) \<in> due_jobs s now" "\<forall>y \<in> due_jobs s now. due_rank (k, j) \<le> due_rank y"
    using select_unforced_Some [OF Some] e by auto
  have flight: "sc_in_flight (dispatched now s k j False) = Some \<lparr>if_token = next_token s, if_key = k,
      if_scheduled_due = js_next_due j, if_started_at = now, if_diagnostic_probe = False\<rparr>"
    by (simp add: dispatched_def)
  have "start_next later (dispatched now s k j False) = Some (None, dispatched now s k j False)"
    by (simp add: start_next_def flight)
  moreover have "finish t at c (dispatched now s k j False) = (Inl InvalidCompletionToken, dispatched now s k j False)"
    if "t \<noteq> next_token s" for t at c
    using that by (simp add: finish_def flight)
  ultimately show ?thesis
    using start due flight
    by (auto simp: dispatch_of_def saturating_duration_since_def unat_saturating_sub intro!: exI [of _ j])
qed

theorem dispatch_exact_witness:
  "\<exists>x s'. start_next 7 sample_scheduler = Some (Some x, s') \<and> od_key x = key_catalog sample_target
     \<and> od_scheduled_due x = 5"
  using dispatch_exact [OF sample_idle, of 8] unfolding sample_due by auto

text \<open>The two copies of the choice, the one of \<open>start_next\<close> and the one of the hint, agree.\<close>

lemma hint_eq:
  "next_dispatch_hint s now =
     (if sc_in_flight s \<noteq> None then None
      else case circuit_decision (sc_circuit s) now of
        CircuitBlocked \<Rightarrow> None
      | CircuitProceed d \<Rightarrow> map_option (\<lambda>(key, job). hint_of key job) (select_job (sc_jobs s) now d))"
  by (cases "sc_circuit s")
    (auto simp: next_dispatch_hint_def circuit_decision_def select_job_def split: option.split)

text \<open>C24. The hint is honest.  Without a hint \<open>start_next\<close> starts nothing and leaves the jobs and the origin as
  they are.  With a hint it starts the announced job, with the announced lane, due time and failure streak; the
  watch count and the pending generation announced are those of the job, which is due.  Unless the circuit
  forces a diagnostic job, no due job precedes it by priority, due time and key.  After the start there is no hint
  until the origin is free again.
\<close>

theorem hint_agrees:
  "case next_dispatch_hint s now of
     None \<Rightarrow> \<exists>s'. start_next now s = Some (None, s') \<and> sc_jobs s' = sc_jobs s \<and> sc_in_flight s' = sc_in_flight s
   | Some h \<Rightarrow> \<exists>x s' j. start_next now s = Some (Some x, s')
       \<and> (od_key x, od_lane x, od_scheduled_due x, od_failure_streak x)
         = (oh_key h, oh_lane h, oh_scheduled_due h, oh_failure_streak h)
       \<and> bm_get (sc_jobs s) (oh_key h) = Some j \<and> js_next_due j \<le> now
       \<and> oh_active_watch_count h = js_active_watch_count j \<and> oh_generation_pending h = js_generation_pending j
       \<and> (case sc_circuit s of
            OriginFatalDiagnostic job recheck_after authorized \<Rightarrow> authorized \<and> recheck_after \<le> now \<and> oh_key h = job
          | _ \<Rightarrow> js_active j \<and> (\<forall>e. e \<in> due_jobs s now \<longrightarrow> due_rank (oh_key h, j) \<le> due_rank e))
       \<and> next_dispatch_hint s' later = None"
proof (cases "next_dispatch_hint s now")
  case None
  then show ?thesis
    by (auto simp: hint_eq start_next_eq split: if_splits circuit_verdict.splits option.splits)
next
  case (Some h)
  then obtain d k j where idle: "sc_in_flight s = None" and d: "circuit_decision (sc_circuit s) now = CircuitProceed d"
    and sel: "select_job (sc_jobs s) now d = Some (k, j)" and h: "h = hint_of k j"
    by (auto simp: hint_eq split: if_splits circuit_verdict.splits)
  have start: "start_next now s = Some (Some (dispatch_of now s k j), dispatched now s k j (d \<noteq> None))"
    using idle d sel by (simp add: start_next_eq)
  have job: "bm_get (sc_jobs s) k = Some j" "js_next_due j \<le> now"
    using select_job_registered [OF sel] by simp_all
  have choice: "case sc_circuit s of
      OriginFatalDiagnostic job recheck_after authorized \<Rightarrow> authorized \<and> recheck_after \<le> now \<and> k = job
    | _ \<Rightarrow> js_active j \<and> (\<forall>e. e \<in> due_jobs s now \<longrightarrow> due_rank (k, j) \<le> due_rank e)"
  proof (cases d)
    case None
    then have "(k, j) \<in> due_jobs s now" "\<forall>e \<in> due_jobs s now. due_rank (k, j) \<le> due_rank e"
      using select_unforced_Some [of s now "(k, j)"] sel by auto
    then show ?thesis
      using d None by (auto simp: circuit_decision_def due_jobs_def split: origin_circuit.splits if_splits)
  next
    case forced: (Some key)
    then have "k = key"
      using sel by (auto simp: select_job_def split: option.splits if_splits)
    then show ?thesis
      using d forced by (auto simp: circuit_decision_def split: origin_circuit.splits if_splits)
  qed
  have after: "next_dispatch_hint (dispatched now s k j (d \<noteq> None)) later = None"
    by (simp add: next_dispatch_hint_def dispatched_def)
  have key: "oh_key h = k"
    by (simp add: h hint_of_def)
  show ?thesis
    unfolding Some option.case key
    by (intro exI [of _ "dispatch_of now s k j"] exI [of _ "dispatched now s k j (d \<noteq> None)"] exI [of _ j])
      (use start job choice after in \<open>simp add: h hint_of_def dispatch_of_def\<close>)
qed

theorem hint_agrees_witness:
  "\<exists>h x s'. next_dispatch_hint sample_scheduler 7 = Some h \<and> oh_key h = key_catalog sample_target
     \<and> start_next 7 sample_scheduler = Some (Some x, s') \<and> od_key x = oh_key h \<and> next_dispatch_hint s' 8 = None"
proof -
  have "next_dispatch_hint sample_scheduler 7 = Some (hint_of (key_catalog sample_target) sample_job)"
    using sample_idle sample_selected by (simp add: hint_eq)
  then show ?thesis
    using hint_agrees [of 7 sample_scheduler 8] by (auto simp: hint_of_def)
qed

text \<open>C23. No drift and no busy loop.  A successful completion of the job in flight is accepted,
  frees the origin, clears the failure streak and the pending generation, and puts the next
  due time strictly after the completion, at most one interval later, on the grid of the due
  time that was dispatched (or at the end of the clock).
\<close>

theorem success_keeps_grid:
  assumes "wf_scheduler s" "sc_in_flight s = Some f" "if_started_at f \<le> at" "at < u64_max"
  shows "\<exists>j s' j'. bm_get (sc_jobs s) (if_key f) = Some j
    \<and> finish (if_token f) at CompletionSuccess s = (Inr (), s')
    \<and> sc_in_flight s' = None \<and> bm_get (sc_jobs s') (if_key f) = Some j'
    \<and> js_failure_streak j' = 0 \<and> \<not> js_generation_pending j' \<and> \<not> js_one_shot_pending j'
    \<and> future_grid_due (if_scheduled_due f) (js_interval j) at (js_next_due j')
    \<and> (\<forall>k. k \<noteq> if_key f \<longrightarrow> bm_get (sc_jobs s') k = bm_get (sc_jobs s) k)"
proof -
  obtain j where j: "bm_get (sc_jobs s) (if_key f) = Some j"
    using assms(1,2) unfolding wf_scheduler_def by blast
  obtain j' c' where c: "complete_job f at CompletionSuccess j (sc_circuit s) = (j', c')"
    by (cases "complete_job f at CompletionSuccess j (sc_circuit s)")
  then have "js_next_due j' = first_future_due (if_scheduled_due f) (js_interval j) at" "js_failure_streak j' = 0"
    by (auto simp: complete_job_def)
  then have "future_grid_due (if_scheduled_due f) (js_interval j) at (js_next_due (settle_success f CompletionSuccess j'))"
    "js_failure_streak (settle_success f CompletionSuccess j') = 0"
    using first_future_due_grid [OF assms(4)] by (auto simp: settle_success_def Let_def)
  then show ?thesis
    using finish_success_eq [OF assms(2) j assms(3) c] j
    by (auto simp: put_job_def bm_get_insert settle_success_def Let_def)
qed

theorem success_keeps_grid_witness:
  "\<exists>x s' s''. start_next 7 sample_scheduler = Some (Some x, s')
     \<and> finish (od_token x) 9 CompletionSuccess s' = (Inr (), s'') \<and> sc_in_flight s'' = None"
proof -
  let ?k = "key_catalog sample_target"
  have start: "start_next 7 sample_scheduler
      = Some (Some (dispatch_of 7 sample_scheduler ?k sample_job), dispatched 7 sample_scheduler ?k sample_job False)"
    using sample_idle sample_selected by (simp add: start_next_eq)
  have wf: "wf_scheduler (dispatched 7 sample_scheduler ?k sample_job False)"
    using wf_start_next [OF sched_reachable_wf [OF sample_reachable] start] .
  have flight: "sc_in_flight (dispatched 7 sample_scheduler ?k sample_job False)
      = Some \<lparr>if_token = next_token sample_scheduler, if_key = ?k, if_scheduled_due = 5, if_started_at = 7,
          if_diagnostic_probe = False\<rparr>"
    by (simp add: dispatched_def)
  have "(9 :: u64) < u64_max" by (simp add: u64_max_def)
  then show ?thesis
    using success_keeps_grid [OF wf flight, of 9] start by (auto simp: dispatch_of_def)
qed

subsection \<open>Parking a demoted catalog job\<close>

text \<open>
  A recurring catalog job that is demoted without maintenance before its first success keeps
  running on account of its pending generation.  The success that ends that generation only
  recomputes the activity of jobs with a pending one-shot, so the job stays active although
  nothing asks for it any more.
\<close>

lemma demoted_generation_stays_active:
  assumes f: "sc_in_flight s = Some f" "if_started_at f \<le> at"
    and j: "bm_get (sc_jobs s) (if_key f) = Some j" "js_active j" "\<not> js_recurring j" "\<not> js_one_shot_pending j"
  shows "\<exists>s' j'. finish (if_token f) at CompletionSuccess s = (Inr (), s')
    \<and> bm_get (sc_jobs s') (if_key f) = Some j' \<and> js_active j'
    \<and> \<not> js_recurring j' \<and> \<not> js_one_shot_pending j' \<and> \<not> js_generation_pending j'"
proof -
  obtain j' c' where c: "complete_job f at CompletionSuccess j (sc_circuit s) = (j', c')"
    by (cases "complete_job f at CompletionSuccess j (sc_circuit s)")
  show ?thesis
    using finish_success_eq [OF f(1) j(1) f(2) c] complete_job_fields [OF c] j
    by (auto simp: put_job_def bm_get_insert settle_success_def Let_def)
qed

lemma demote_before_first_success:
  assumes "js_active j" "js_generation_pending j" "\<not> js_one_shot_pending j"
    and "bm_get (sc_jobs s) (key_catalog t) = Some j"
  shows "\<exists>s' j'. demote_catalog t None now s = (Inr (), s') \<and> bm_get (sc_jobs s') (key_catalog t) = Some j'
    \<and> js_active j' \<and> \<not> js_recurring j' \<and> \<not> js_one_shot_pending j'"
  using assms by (auto simp: demote_catalog_def Let_def put_job_def bm_get_insert)

end
