(* ===== verification/Open_Contracts.thy ===== *)
theory Open_Contracts
  imports Watch_State
begin

text \<open>
  The open-state contracts of \<open>crates/bcsp-contracts/src/open.rs\<close> that the open pipeline produces:
  versions, sequences, validated texts (hashes, header values, Rutgers days), the wire enumerations
  with their names, freshness and status records, and the validity of observations and requests.
  Serialisation itself is not modelled.
\<close>

subsection \<open>Versions, sequences and validated texts\<close>

type_synonym u16 = "16 word"

datatype open_contract_version = V1

definition contract_version_as_u16 :: "open_contract_version \<Rightarrow> u16" where
  "contract_version_as_u16 v = (case v of V1 \<Rightarrow> 1)"

definition contract_version_try_from :: "u16 \<Rightarrow> u16 + open_contract_version" where
  "contract_version_try_from v = (if v = 1 then Inr V1 else Inl v)"

datatype open_sequence = OpenSequence (seq_get: u64)

definition open_sequence_try_from :: "u64 \<Rightarrow> open_sequence option" where
  "open_sequence_try_from v = (if v = 0 then None else Some (OpenSequence v))"

definition is_ascii_hexdigit :: "char \<Rightarrow> bool" where
  "is_ascii_hexdigit c \<longleftrightarrow> is_ascii_digit c \<or> (97 \<le> (of_char c :: nat) \<and> (of_char c :: nat) \<le> 102)
     \<or> (65 \<le> (of_char c :: nat) \<and> (of_char c :: nat) \<le> 70)"

definition open_hash_try_from :: "string \<Rightarrow> string option" where
  "open_hash_try_from v =
     (if length v = SHA256_HEX_BYTES \<and> list_all is_ascii_hexdigit v \<and> \<not> list_ex is_ascii_uppercase v
      then Some v else None)"

definition OPEN_HTTP_HEADER_VALUE_MAX_BYTES :: nat where "OPEN_HTTP_HEADER_VALUE_MAX_BYTES = 4096"

text \<open>\<open>str::trim\<close> strips Unicode white space.  A value with a byte outside the accepted range is
  rejected whatever its ends are, so only the ASCII white space matters here.\<close>

definition is_ascii_space :: "char \<Rightarrow> bool" where
  "is_ascii_space c \<longleftrightarrow> (9 \<le> (of_char c :: nat) \<and> (of_char c :: nat) \<le> 13) \<or> (of_char c :: nat) = 32"

definition trim_ascii :: "string \<Rightarrow> string" where
  "trim_ascii v = rev (dropWhile is_ascii_space (rev (dropWhile is_ascii_space v)))"

definition open_http_header_value_try_from :: "string \<Rightarrow> string option" where
  "open_http_header_value_try_from v =
     (if v = [] \<or> length v > OPEN_HTTP_HEADER_VALUE_MAX_BYTES \<or> trim_ascii v \<noteq> v
         \<or> \<not> list_all (\<lambda>c. (of_char c :: nat) = 9 \<or> (32 \<le> (of_char c :: nat) \<and> (of_char c :: nat) \<le> 126)) v
      then None else Some v)"

subsection \<open>Rutgers days\<close>

datatype rutgers_day = RutgersDay (day_str: string)

definition digit_value :: "char \<Rightarrow> nat" where
  "digit_value c = (of_char c :: nat) - 48"

fun parse_digits :: "nat \<Rightarrow> string \<Rightarrow> nat" where
  "parse_digits n [] = n"
| "parse_digits n (c # cs) = parse_digits (10 * n + digit_value c) cs"

definition is_leap_year :: "nat \<Rightarrow> bool" where
  "is_leap_year year \<longleftrightarrow> 4 dvd year \<and> (\<not> 100 dvd year \<or> 400 dvd year)"

definition month_length :: "nat \<Rightarrow> nat \<Rightarrow> nat option" where
  "month_length year month =
     (if month \<in> {1, 3, 5, 7, 8, 10, 12} then Some 31
      else if month \<in> {4, 6, 9, 11} then Some 30
      else if month = 2 \<and> is_leap_year year then Some 29
      else if month = 2 then Some 28
      else None)"

definition rutgers_day_try_from :: "string \<Rightarrow> rutgers_day option" where
  "rutgers_day_try_from value =
     (if length value \<noteq> 10 \<or> value ! 4 \<noteq> CHR ''-'' \<or> value ! 7 \<noteq> CHR ''-''
         \<or> list_ex (\<lambda>i. i \<noteq> 4 \<and> i \<noteq> 7 \<and> \<not> is_ascii_digit (value ! i)) [0..<10]
      then None
      else
        let year = parse_digits 0 (take 4 value);
            month = parse_digits 0 (take 2 (drop 5 value));
            day = parse_digits 0 (take 2 (drop 8 value))
        in case month_length year month of
             None \<Rightarrow> None
           | Some maximum \<Rightarrow> if day = 0 \<or> day > maximum then None else Some (RutgersDay value))"

subsection \<open>Wire enumerations\<close>

datatype open_refresh_classification =
    RefreshInFlight | RefreshValidApplied | RefreshValidEmptyNoRows | RefreshUnsafeEmpty
  | RefreshUnsafeZeroIntersection | RefreshSuspectPartialSnapshot | RefreshStaleCatalogRace | RefreshFailed

definition refresh_classification_all :: "open_refresh_classification list" where
  "refresh_classification_all = [RefreshInFlight, RefreshValidApplied, RefreshValidEmptyNoRows, RefreshUnsafeEmpty,
     RefreshUnsafeZeroIntersection, RefreshSuspectPartialSnapshot, RefreshStaleCatalogRace, RefreshFailed]"

fun refresh_classification_wire_name :: "open_refresh_classification \<Rightarrow> string" where
  "refresh_classification_wire_name RefreshInFlight = ''IN_FLIGHT''"
| "refresh_classification_wire_name RefreshValidApplied = ''VALID_APPLIED''"
| "refresh_classification_wire_name RefreshValidEmptyNoRows = ''VALID_EMPTY_NO_ROWS''"
| "refresh_classification_wire_name RefreshUnsafeEmpty = ''UNSAFE_EMPTY''"
| "refresh_classification_wire_name RefreshUnsafeZeroIntersection = ''UNSAFE_ZERO_INTERSECTION''"
| "refresh_classification_wire_name RefreshSuspectPartialSnapshot = ''SUSPECT_PARTIAL_SNAPSHOT''"
| "refresh_classification_wire_name RefreshStaleCatalogRace = ''STALE_CATALOG_RACE''"
| "refresh_classification_wire_name RefreshFailed = ''FAILED''"

datatype open_failure_class =
    ClassNetwork | ClassTimeout | ClassHttp408 | ClassHttp429 | ClassForbidden | ClassOtherHttp4xx | ClassHttp5xx
  | ClassOffOriginRedirect | ClassNonJson | ClassOversize | ClassSchemaViolation | ClassInvalidValue | ClassPersist
  | ClassUnsafeEmpty | ClassUnsafeZeroIntersection | ClassSuspectPartialSnapshot

definition failure_class_all :: "open_failure_class list" where
  "failure_class_all = [ClassNetwork, ClassTimeout, ClassHttp408, ClassHttp429, ClassForbidden, ClassOtherHttp4xx,
     ClassHttp5xx, ClassOffOriginRedirect, ClassNonJson, ClassOversize, ClassSchemaViolation, ClassInvalidValue,
     ClassPersist, ClassUnsafeEmpty, ClassUnsafeZeroIntersection, ClassSuspectPartialSnapshot]"

fun failure_class_wire_name :: "open_failure_class \<Rightarrow> string" where
  "failure_class_wire_name ClassNetwork = ''NETWORK''"
| "failure_class_wire_name ClassTimeout = ''TIMEOUT''"
| "failure_class_wire_name ClassHttp408 = ''HTTP_408''"
| "failure_class_wire_name ClassHttp429 = ''HTTP_429''"
| "failure_class_wire_name ClassForbidden = ''FORBIDDEN''"
| "failure_class_wire_name ClassOtherHttp4xx = ''OTHER_HTTP_4XX''"
| "failure_class_wire_name ClassHttp5xx = ''HTTP_5XX''"
| "failure_class_wire_name ClassOffOriginRedirect = ''OFF_ORIGIN_REDIRECT''"
| "failure_class_wire_name ClassNonJson = ''NON_JSON''"
| "failure_class_wire_name ClassOversize = ''OVERSIZE''"
| "failure_class_wire_name ClassSchemaViolation = ''SCHEMA_VIOLATION''"
| "failure_class_wire_name ClassInvalidValue = ''INVALID_VALUE''"
| "failure_class_wire_name ClassPersist = ''PERSIST''"
| "failure_class_wire_name ClassUnsafeEmpty = ''UNSAFE_EMPTY''"
| "failure_class_wire_name ClassUnsafeZeroIntersection = ''UNSAFE_ZERO_INTERSECTION''"
| "failure_class_wire_name ClassSuspectPartialSnapshot = ''SUSPECT_PARTIAL_SNAPSHOT''"

fun open_state_wire_name :: "open_state \<Rightarrow> string" where
  "open_state_wire_name StateOpen = ''OPEN''"
| "open_state_wire_name StateClosed = ''CLOSED''"
| "open_state_wire_name StateUnknown = ''UNKNOWN''"

datatype open_freshness_state = FreshnessUnknown | FreshnessFresh | FreshnessStale

fun freshness_state_wire_name :: "open_freshness_state \<Rightarrow> string" where
  "freshness_state_wire_name FreshnessUnknown = ''UNKNOWN''"
| "freshness_state_wire_name FreshnessFresh = ''FRESH''"
| "freshness_state_wire_name FreshnessStale = ''STALE''"

datatype open_uncertainty_reason =
    NeverObserved | StaleLastKnownGood | LatestAttemptFailed | LatestAttemptUnsafe
  | SuspectPartialUpstream | UncertainCatalogRace | CatalogVersionUnavailable

definition uncertainty_reason_all :: "open_uncertainty_reason list" where
  "uncertainty_reason_all = [NeverObserved, StaleLastKnownGood, LatestAttemptFailed, LatestAttemptUnsafe,
     SuspectPartialUpstream, UncertainCatalogRace, CatalogVersionUnavailable]"

fun uncertainty_reason_wire_name :: "open_uncertainty_reason \<Rightarrow> string" where
  "uncertainty_reason_wire_name NeverObserved = ''NEVER_OBSERVED''"
| "uncertainty_reason_wire_name StaleLastKnownGood = ''STALE_LAST_KNOWN_GOOD''"
| "uncertainty_reason_wire_name LatestAttemptFailed = ''LATEST_ATTEMPT_FAILED''"
| "uncertainty_reason_wire_name LatestAttemptUnsafe = ''LATEST_ATTEMPT_UNSAFE''"
| "uncertainty_reason_wire_name SuspectPartialUpstream = ''SUSPECT_PARTIAL_UPSTREAM''"
| "uncertainty_reason_wire_name UncertainCatalogRace = ''STALE_CATALOG_RACE''"
| "uncertainty_reason_wire_name CatalogVersionUnavailable = ''CATALOG_VERSION_UNAVAILABLE''"

datatype open_scheduler_lane = LaneGeneral | LaneActiveWatch | LaneFirstLoad | LaneManualRefresh | LaneCatalogRaceRecheck

datatype open_circuit_state = CircuitClosed | CircuitRetryAfter | CircuitFatalDiagnostic

datatype open_circuit_reason =
    ReasonRateLimited | ReasonForbidden | ReasonOtherHttp4xx | ReasonOffOriginRedirect | ReasonSameOriginRedirect
  | ReasonInvalidRedirect | ReasonNonJson | ReasonInvalidContentType | ReasonSchemaViolation | ReasonInvalidValue
  | ReasonOversize

subsection \<open>Status records\<close>

record open_freshness_v1 =
  fr_state :: open_freshness_state
  fr_observed_at :: "offset_date_time option"
  fr_fresh_until :: "offset_date_time option"
  fr_last_known_good_age_seconds :: "u64 option"
  fr_uncertainty :: "open_uncertainty_reason option"

record open_attempt_point_v1 =
  ap_attempt_sequence :: open_sequence
  ap_started_at :: offset_date_time
  ap_completed_at :: "offset_date_time option"
  ap_classification :: open_refresh_classification
  ap_failure_class :: "open_failure_class option"

record open_failure_point_v1 =
  fp_attempt_sequence :: open_sequence
  fp_failed_at :: offset_date_time
  fp_failure_class :: open_failure_class

record open_observation_point_v1 =
  op_observation_id :: trace_id
  op_observation_sequence :: open_sequence
  op_catalog_content_version :: u64
  op_observed_at :: offset_date_time
  op_canonical_set_hash :: string
  op_state_hash :: string

record open_circuit_status_v1 =
  cs_state :: open_circuit_state
  cs_reason :: "open_circuit_reason option"
  cs_opened_at :: "offset_date_time option"
  cs_retry_at :: "offset_date_time option"
  cs_diagnostic_recheck_required :: bool

record open_scheduler_status_v1 =
  ss_lane :: open_scheduler_lane
  ss_requested_general_interval_seconds :: u32
  ss_requested_effective_interval_seconds :: u32
  ss_active_watch_count :: u64
  ss_next_due_at :: "offset_date_time option"
  ss_in_flight :: bool
  ss_scheduler_lag_milliseconds :: u64
  ss_actual_start_to_start_interval_milliseconds :: "u64 option"
  ss_failure_streak :: u32

record open_refresh_status_v1 =
  rs_batch :: term_campus_key
  rs_catalog_content_version :: "u64 option"
  rs_latest_attempt :: "open_attempt_point_v1 option"
  rs_latest_failure :: "open_failure_point_v1 option"
  rs_last_valid_observation :: "open_observation_point_v1 option"
  rs_last_body_change_at :: "offset_date_time option"
  rs_last_state_change_at :: "offset_date_time option"
  rs_freshness :: open_freshness_v1
  rs_scheduler :: open_scheduler_status_v1
  rs_circuit :: open_circuit_status_v1
  rs_counter_snapshot :: open_counter_snapshot

record open_section_status_v1 =
  st_section_key :: section_key
  st_state :: open_state
  st_last_observation_id :: "trace_id option"
  st_catalog_content_version :: "u64 option"
  st_freshness :: open_freshness_v1
  st_scheduler_lag_milliseconds :: u64
  st_counter_snapshot :: open_counter_snapshot

subsection \<open>Observations and requests\<close>

definition open_observation_try_new ::
  "trace_id \<Rightarrow> trace_id \<Rightarrow> term_campus_key \<Rightarrow> section_key \<Rightarrow> open_sequence \<Rightarrow> u64 \<Rightarrow> open_state
     \<Rightarrow> offset_date_time \<Rightarrow> offset_date_time \<Rightarrow> u64 \<Rightarrow> open_counter_snapshot \<Rightarrow> open_observation option" where
  "open_observation_try_new observation_id refresh_observation_id batch sec pull_sequence version state
       observed_at fresh_until lag counters =
     (if batch \<noteq> section_key_target sec then None
      else Some \<lparr>obs_observation_id = observation_id, obs_refresh_observation_id = refresh_observation_id,
        obs_batch = batch, obs_section_key = sec, obs_pull_sequence = seq_get pull_sequence,
        obs_catalog_content_version = version, obs_state = state, obs_observed_at = observed_at,
        obs_fresh_until = fresh_until, obs_scheduler_lag_milliseconds = lag, obs_counter_snapshot = counters\<rparr>)"

definition MAX_OPEN_BATCH_STATUS_SECTIONS :: nat where "MAX_OPEN_BATCH_STATUS_SECTIONS = 510"

record open_batch_status_request_v1 =
  br_batch :: term_campus_key
  br_section_keys :: "section_key list"

fun all_bound_and_unique :: "term_campus_key \<Rightarrow> section_key bset \<Rightarrow> section_key list \<Rightarrow> bool" where
  "all_bound_and_unique target unique [] = True"
| "all_bound_and_unique target unique (sec # secs) =
     (section_key_target sec = target \<and> \<not> bm_contains unique sec
      \<and> all_bound_and_unique target (bs_insert sec unique) secs)"

definition batch_status_request_is_valid :: "open_batch_status_request_v1 \<Rightarrow> bool" where
  "batch_status_request_is_valid request \<longleftrightarrow>
     \<not> (br_section_keys request = [] \<or> length (br_section_keys request) > MAX_OPEN_BATCH_STATUS_SECTIONS)
     \<and> all_bound_and_unique (br_batch request) bm_empty (br_section_keys request)"

subsection \<open>Calendar texts\<close>

definition two_digits :: "nat \<Rightarrow> string" where
  "two_digits n = [char_of (48 + n div 10), char_of (48 + n mod 10)]"

definition date_text :: "nat \<Rightarrow> nat \<Rightarrow> nat \<Rightarrow> string" where
  "date_text year month day = two_digits (year div 100) @ two_digits (year mod 100) @ ''-'' @ two_digits month @ ''-'' @ two_digits day"

text \<open>The Gregorian calendar, as a table of its own: the days of each month of a year.\<close>

definition gregorian_months :: "nat \<Rightarrow> nat list" where
  "gregorian_months year =
     [31, if 400 dvd year \<or> 4 dvd year \<and> \<not> 100 dvd year then 29 else 28, 31, 30, 31, 30, 31, 31, 30, 31, 30, 31]"

definition calendar_date :: "nat \<Rightarrow> nat \<Rightarrow> nat \<Rightarrow> bool" where
  "calendar_date year month day \<longleftrightarrow> year < 10000 \<and> 1 \<le> month \<and> month \<le> 12
     \<and> 1 \<le> day \<and> day \<le> gregorian_months year ! (month - 1)"

lemma month_length_gregorian:
  "month_length y m = (if 1 \<le> m \<and> m \<le> 12 then Some (gregorian_months y ! (m - 1)) else None)"
proof (cases "1 \<le> m \<and> m \<le> 12")
  case True
  have four: "400 dvd y \<Longrightarrow> 4 dvd y"
    by (rule dvd_trans [of 4 400]) simp_all
  from True have "m = 1 \<or> m = 2 \<or> m = 3 \<or> m = 4 \<or> m = 5 \<or> m = 6 \<or> m = 7 \<or> m = 8 \<or> m = 9 \<or> m = 10 \<or> m = 11 \<or> m = 12"
    by presburger
  then show ?thesis
    by (elim disjE) (auto simp: month_length_def is_leap_year_def gregorian_months_def dest: four)
qed (auto simp: month_length_def)

lemma calendar_date_iff:
  "calendar_date y m d \<longleftrightarrow> y < 10000 \<and> 1 \<le> d \<and> (\<exists>maximum. month_length y m = Some maximum \<and> d \<le> maximum)"
  by (auto simp: calendar_date_def month_length_gregorian)

lemma digit_char:
  assumes "is_ascii_digit c"
  shows "digit_value c < 10" "char_of (48 + digit_value c) = c"
  using assms by (auto simp: is_ascii_digit_def digit_value_def)

lemma digit_of_nat:
  assumes "n < 10"
  shows "is_ascii_digit (char_of (48 + n))" "digit_value (char_of (48 + n)) = n"
proof -
  have "of_char (char_of (48 + n) :: char) = 48 + n"
    using assms by (simp add: of_char_of take_bit_nat_eq_self_iff)
  then show "is_ascii_digit (char_of (48 + n))" "digit_value (char_of (48 + n)) = n"
    using assms by (simp_all add: is_ascii_digit_def digit_value_def)
qed

lemma two_digits_parse:
  assumes "is_ascii_digit a" "is_ascii_digit b"
  shows "two_digits (10 * digit_value a + digit_value b) = [a, b]"
  using digit_char [OF assms(1)] digit_char [OF assms(2)] by (simp add: two_digits_def)

lemma two_digits_shape:
  assumes "n < 100"
  shows "\<exists>a b. two_digits n = [a, b] \<and> is_ascii_digit a \<and> is_ascii_digit b \<and> 10 * digit_value a + digit_value b = n"
proof -
  have "n div 10 < 10" "n mod 10 < 10"
    using assms by auto
  then show ?thesis
    by (simp add: two_digits_def digit_of_nat)
qed

lemma month_length_bounds: "month_length y m = Some k \<Longrightarrow> 1 \<le> m \<and> m \<le> 12 \<and> 28 \<le> k \<and> k \<le> 31"
  by (auto simp: month_length_def split: if_splits)

lemma ten_characters: "length v = 10 \<Longrightarrow> \<exists>a b c d e f g h i j. v = [a, b, c, d, e, f, g, h, i, j]"
  by (auto simp: numeral_eq_Suc length_Suc_conv)

lemma date_text_parses:
  assumes "calendar_date y m d"
  shows "rutgers_day_try_from (date_text y m d) = Some (RutgersDay (date_text y m d))"
proof -
  obtain k where k: "month_length y m = Some k" "d \<le> k" "1 \<le> d" "y < 10000"
    using assms by (auto simp: calendar_date_iff)
  have bounds: "m < 100" "d < 100" "y div 100 < 100" "y mod 100 < 100"
    using k month_length_bounds [OF k(1)] by auto
  obtain a1 a2 b1 b2 c1 c2 d1 d2 where
    "two_digits (y div 100) = [a1, a2]" "two_digits (y mod 100) = [b1, b2]" "two_digits m = [c1, c2]" "two_digits d = [d1, d2]"
    and dig: "list_all is_ascii_digit [a1, a2, b1, b2, c1, c2, d1, d2]"
    and eqs: "10 * digit_value a1 + digit_value a2 = y div 100" "10 * digit_value b1 + digit_value b2 = y mod 100"
      "10 * digit_value c1 + digit_value c2 = m" "10 * digit_value d1 + digit_value d2 = d"
    using two_digits_shape [OF bounds(1)] two_digits_shape [OF bounds(2)] two_digits_shape [OF bounds(3)]
      two_digits_shape [OF bounds(4)] by auto
  then have v: "date_text y m d = [a1, a2, b1, b2, CHR ''-'', c1, c2, CHR ''-'', d1, d2]"
    by (simp add: date_text_def)
  have year: "parse_digits 0 (take 4 (date_text y m d)) = y"
  proof -
    have "parse_digits 0 (take 4 (date_text y m d))
        = 100 * (10 * digit_value a1 + digit_value a2) + (10 * digit_value b1 + digit_value b2)"
      by (simp add: v)
    then show ?thesis
      unfolding eqs by simp
  qed
  have md: "parse_digits 0 (take 2 (drop 5 (date_text y m d))) = m" "parse_digits 0 (take 2 (drop 8 (date_text y m d))) = d"
    using eqs(3,4) by (simp_all add: v)
  have "length (date_text y m d) = 10" "date_text y m d ! 4 = CHR ''-''" "date_text y m d ! 7 = CHR ''-''"
    "\<not> list_ex (\<lambda>i. i \<noteq> 4 \<and> i \<noteq> 7 \<and> \<not> is_ascii_digit (date_text y m d ! i)) [0..<10]"
    using dig by (simp_all add: v upt_rec)
  with year md k show ?thesis
    by (simp add: rutgers_day_try_from_def)
qed

lemma parsed_date_text:
  assumes "rutgers_day_try_from v = Some r"
  shows "r = RutgersDay v \<and> (\<exists>y m d. calendar_date y m d \<and> v = date_text y m d)"
proof -
  have len: "length v = 10" and seps: "v ! 4 = CHR ''-''" "v ! 7 = CHR ''-''"
    and digs: "\<not> list_ex (\<lambda>i. i \<noteq> 4 \<and> i \<noteq> 7 \<and> \<not> is_ascii_digit (v ! i)) [0..<10]"
    using assms by (auto simp: rutgers_day_try_from_def split: if_splits)
  obtain a1 a2 b1 b2 x c1 c2 z d1 d2 where v: "v = [a1, a2, b1, b2, x, c1, c2, z, d1, d2]"
    using ten_characters [OF len] by blast
  then have dig: "is_ascii_digit a1" "is_ascii_digit a2" "is_ascii_digit b1" "is_ascii_digit b2"
    "is_ascii_digit c1" "is_ascii_digit c2" "is_ascii_digit d1" "is_ascii_digit d2"
    and xz: "x = CHR ''-''" "z = CHR ''-''"
    using digs seps by (simp_all add: upt_rec)
  define hi lo where "hi = 10 * digit_value a1 + digit_value a2" and "lo = 10 * digit_value b1 + digit_value b2"
  let ?y = "100 * hi + lo"
  let ?m = "10 * digit_value c1 + digit_value c2" and ?d = "10 * digit_value d1 + digit_value d2"
  have small: "lo < 100" "hi < 100"
    using digit_char(1) [OF dig(1)] digit_char(1) [OF dig(2)] digit_char(1) [OF dig(3)] digit_char(1) [OF dig(4)]
    unfolding hi_def lo_def by linarith+
  then have "?y div 100 = hi" "?y mod 100 = lo"
    by simp_all
  then have "v = date_text ?y ?m ?d"
    using dig xz by (simp add: v date_text_def two_digits_parse hi_def lo_def)
  moreover have "parse_digits 0 (take 4 v) = ?y" "parse_digits 0 (take 2 (drop 5 v)) = ?m" "parse_digits 0 (take 2 (drop 8 v)) = ?d"
    by (simp_all add: v hi_def lo_def)
  then have "r = RutgersDay v \<and> calendar_date ?y ?m ?d"
    using assms small by (auto simp: rutgers_day_try_from_def calendar_date_iff Let_def split: if_splits option.splits)
  ultimately show ?thesis
    by blast
qed

lemma all_bound_iff:
  "all_bound_and_unique target unique secs \<longleftrightarrow>
     (\<forall>s \<in> set secs. section_key_target s = target \<and> \<not> bm_contains unique s) \<and> distinct secs"
  by (induction target unique secs rule: all_bound_and_unique.induct) (auto simp: bm_contains_bs)

subsection \<open>Properties\<close>

text \<open>C38. A text is accepted as a Rutgers day exactly when it is the \<open>YYYY-MM-DD\<close> form of a date of the
  Gregorian calendar with a year of four digits, and the accepted day keeps the text.  The calendar is the table
  \<open>gregorian_months\<close>: February has 29 days in the years divisible by 400 and in those divisible by 4 and not
  by 100.\<close>

theorem rutgers_day_roundtrip:
  "rutgers_day_try_from v = Some r \<longleftrightarrow>
     r = RutgersDay v \<and> (\<exists>y m d. y < 10000 \<and> 1 \<le> m \<and> m \<le> 12 \<and> 1 \<le> d \<and> d \<le> gregorian_months y ! (m - 1)
       \<and> v = date_text y m d)"
  using parsed_date_text date_text_parses unfolding calendar_date_def by blast

text \<open>C37. A batch status request is valid exactly when it names between 1 and 510 sections, all of the
  requested target and no two alike.\<close>
theorem batch_request_valid_iff:
  "batch_status_request_is_valid request \<longleftrightarrow>
     br_section_keys request \<noteq> [] \<and> length (br_section_keys request) \<le> 510 \<and> distinct (br_section_keys request)
     \<and> section_key_target ` set (br_section_keys request) = {br_batch request}"
  by (auto simp: batch_status_request_is_valid_def all_bound_iff bm_contains_bs MAX_OPEN_BATCH_STATUS_SECTIONS_def
      image_constant_conv)

end
