(* ===== verification/Open_Freshness.thy ===== *)
theory Open_Freshness
  imports Open_Contracts
begin

text \<open>
  Freshness of the last valid open observation (\<open>crates/bcsp-open/src/freshness.rs\<close>).  Adding a
  duration to a date-time is an operation of the \<open>time\<close> crate that fails out of its range; it is the
  argument \<open>checked_add\<close>, and \<open>exact_add\<close> is what the code relies on: a successful addition is exact.
\<close>

type_synonym date_time_add = "offset_date_time \<Rightarrow> int \<Rightarrow> offset_date_time option"

definition OPEN_FRESHNESS_GRACE_SECONDS :: int where "OPEN_FRESHNESS_GRACE_SECONDS = 15"

record last_valid_open_point =
  lv_attempt_sequence :: open_sequence
  lv_observed_at :: offset_date_time
  lv_completed_at :: offset_date_time
  lv_requested_effective_interval_seconds :: u32

record latest_open_attempt_point =
  la_attempt_sequence :: open_sequence
  la_completed_at :: offset_date_time
  la_classification :: open_refresh_classification

datatype open_freshness_error = ZeroInterval | TimestampOverflow

fun invalidation_reason :: "open_refresh_classification \<Rightarrow> open_uncertainty_reason option" where
  "invalidation_reason RefreshFailed = Some LatestAttemptFailed"
| "invalidation_reason RefreshUnsafeEmpty = Some LatestAttemptUnsafe"
| "invalidation_reason RefreshUnsafeZeroIntersection = Some LatestAttemptUnsafe"
| "invalidation_reason RefreshSuspectPartialSnapshot = Some SuspectPartialUpstream"
| "invalidation_reason RefreshStaleCatalogRace = Some UncertainCatalogRace"
| "invalidation_reason RefreshInFlight = None"
| "invalidation_reason RefreshValidApplied = None"
| "invalidation_reason RefreshValidEmptyNoRows = None"

definition I64_MAX :: int where "I64_MAX = 9223372036854775807"

definition i64_checked :: "int \<Rightarrow> int option" where
  "i64_checked v = (if - I64_MAX - 1 \<le> v \<and> v \<le> I64_MAX then Some v else None)"

definition invalidation ::
  "last_valid_open_point \<Rightarrow> latest_open_attempt_point option \<Rightarrow> open_uncertainty_reason option" where
  "invalidation last_valid latest_attempt =
     (case latest_attempt of
        None \<Rightarrow> None
      | Some attempt \<Rightarrow>
          if seq_get (la_attempt_sequence attempt) > seq_get (lv_attempt_sequence last_valid)
          then invalidation_reason (la_classification attempt) else None)"

definition project_open_freshness ::
  "date_time_add \<Rightarrow> offset_date_time \<Rightarrow> last_valid_open_point option \<Rightarrow> latest_open_attempt_point option
     \<Rightarrow> open_uncertainty_reason option \<Rightarrow> open_freshness_error + open_freshness_v1" where
  "project_open_freshness checked_add now last_valid latest_attempt unavailable_reason =
     (case last_valid of
        None \<Rightarrow> Inr \<lparr>fr_state = FreshnessUnknown, fr_observed_at = None, fr_fresh_until = None,
            fr_last_known_good_age_seconds = None,
            fr_uncertainty = Some (case unavailable_reason of Some r \<Rightarrow> r | None \<Rightarrow> NeverObserved)\<rparr>
      | Some last_valid \<Rightarrow>
          if lv_requested_effective_interval_seconds last_valid = 0 then Inl ZeroInterval
          else case Option.bind (i64_checked (uint (lv_requested_effective_interval_seconds last_valid) * 2))
                      (\<lambda>v. i64_checked (v + OPEN_FRESHNESS_GRACE_SECONDS)) of
            None \<Rightarrow> Inl TimestampOverflow
          | Some lifetime_seconds \<Rightarrow>
              (case checked_add (lv_completed_at last_valid) (lifetime_seconds * 1000000000) of
                 None \<Rightarrow> Inl TimestampOverflow
               | Some fresh_until \<Rightarrow>
                   let age = now - lv_completed_at last_valid;
                       last_known_good_age_seconds = u64_from_len (nat (max (whole_seconds age) 0));
                       (state, uncertainty) =
                         (case invalidation last_valid latest_attempt of
                            Some reason \<Rightarrow> (FreshnessStale, Some reason)
                          | None \<Rightarrow> if now \<le> fresh_until then (FreshnessFresh, None)
                                    else (FreshnessStale, Some StaleLastKnownGood))
                   in Inr \<lparr>fr_state = state, fr_observed_at = Some (lv_observed_at last_valid),
                        fr_fresh_until = Some fresh_until,
                        fr_last_known_good_age_seconds = Some last_known_good_age_seconds,
                        fr_uncertainty = uncertainty\<rparr>))"

subsection \<open>Properties\<close>

definition exact_add :: "date_time_add \<Rightarrow> bool" where
  "exact_add checked_add \<longleftrightarrow> (\<forall>t d u. checked_add t d = Some u \<longrightarrow> u = t + d)"

lemma lifetime_total:
  fixes interval :: u32
  shows "Option.bind (i64_checked (uint interval * 2)) (\<lambda>v. i64_checked (v + OPEN_FRESHNESS_GRACE_SECONDS))
     = Some (uint interval * 2 + 15)"
proof -
  have "0 \<le> uint interval" "uint interval < 4294967296"
    using unsigned_less [of interval, where ?'a = int] by simp_all
  then have "- I64_MAX - 1 \<le> uint interval * 2" "uint interval * 2 + 15 \<le> I64_MAX" "- I64_MAX - 1 \<le> uint interval * 2 + 15"
    unfolding I64_MAX_def by linarith+
  then show ?thesis
    by (simp add: i64_checked_def OPEN_FRESHNESS_GRACE_SECONDS_def)
qed

text \<open>An attempt after the point \<open>p\<close>, by sequence, ended with one of the classifications \<open>C\<close>.\<close>

definition later_ended ::
  "last_valid_open_point \<Rightarrow> latest_open_attempt_point option \<Rightarrow> open_refresh_classification set \<Rightarrow> bool" where
  "later_ended p latest C \<longleftrightarrow> (\<exists>a. latest = Some a
     \<and> seq_get (lv_attempt_sequence p) < seq_get (la_attempt_sequence a) \<and> la_classification a \<in> C)"

abbreviation adverse :: "open_refresh_classification set" where
  "adverse \<equiv> {RefreshFailed, RefreshUnsafeEmpty, RefreshUnsafeZeroIntersection, RefreshSuspectPartialSnapshot, RefreshStaleCatalogRace}"

lemma invalidation_None: "invalidation p latest = None \<longleftrightarrow> \<not> later_ended p latest adverse"
  by (cases latest; cases "la_classification (the latest)") (auto simp: invalidation_def later_ended_def)

lemma invalidation_reason_cases:
  "invalidation_reason c = (if c = RefreshFailed then Some LatestAttemptFailed
     else if c \<in> {RefreshUnsafeEmpty, RefreshUnsafeZeroIntersection} then Some LatestAttemptUnsafe
     else if c = RefreshSuspectPartialSnapshot then Some SuspectPartialUpstream
     else if c = RefreshStaleCatalogRace then Some UncertainCatalogRace else None)"
  by (cases c) simp_all

lemma invalidation_Some:
  "invalidation p latest = Some LatestAttemptFailed \<longleftrightarrow> later_ended p latest {RefreshFailed}"
  "invalidation p latest = Some LatestAttemptUnsafe \<longleftrightarrow> later_ended p latest {RefreshUnsafeEmpty, RefreshUnsafeZeroIntersection}"
  "invalidation p latest = Some SuspectPartialUpstream \<longleftrightarrow> later_ended p latest {RefreshSuspectPartialSnapshot}"
  "invalidation p latest = Some UncertainCatalogRace \<longleftrightarrow> later_ended p latest {RefreshStaleCatalogRace}"
  unfolding invalidation_def later_ended_def
  by (simp_all add: invalidation_reason_cases split: option.split)

lemma invalidation_not_age: "invalidation p latest \<noteq> Some StaleLastKnownGood"
  by (cases latest; cases "la_classification (the latest)") (auto simp: invalidation_def)

definition fresh_lifetime :: "last_valid_open_point \<Rightarrow> int" where
  "fresh_lifetime p = (uint (lv_requested_effective_interval_seconds p) * 2 + 15) * 1000000000"

lemma freshness_of_point:
  assumes "lv_requested_effective_interval_seconds p \<noteq> 0" "checked_add (lv_completed_at p) (fresh_lifetime p) = Some u"
  shows "\<exists>f. project_open_freshness checked_add now (Some p) latest unavailable = Inr f
    \<and> (fr_state f, fr_uncertainty f) = (case invalidation p latest of
         Some reason \<Rightarrow> (FreshnessStale, Some reason)
       | None \<Rightarrow> if now \<le> u then (FreshnessFresh, None) else (FreshnessStale, Some StaleLastKnownGood))
    \<and> fr_observed_at f = Some (lv_observed_at p) \<and> fr_fresh_until f = Some u"
  using assms
  by (auto simp: project_open_freshness_def lifetime_total fresh_lifetime_def Let_def split: option.split)

text \<open>C32. Freshness is decided by the last valid point alone unless a later attempt overrules it.  Without a
  valid point the state is unknown.  With one, the projection fails exactly for a zero interval or a date out
  of range.  Otherwise the state is fresh exactly when no attempt with a later sequence ended in a failure,
  an unsafe or suspect snapshot or a catalog race, and now is at most twice the interval plus 15 seconds
  after the completion of the point; it is stale in every other case, with the reason that the later
  attempt gives, and with the age of the point as the reason exactly when no later attempt gives one.  An
  attempt in flight or a valid later one overrules nothing.\<close>

theorem freshness_decided:
  assumes "exact_add checked_add"
  shows "case project_open_freshness checked_add now last_valid latest unavailable of
      Inl e \<Rightarrow> (\<exists>p. last_valid = Some p \<and>
        (if lv_requested_effective_interval_seconds p = 0 then e = ZeroInterval
         else e = TimestampOverflow \<and> checked_add (lv_completed_at p) (fresh_lifetime p) = None))
    | Inr f \<Rightarrow>
        (case last_valid of
           None \<Rightarrow> fr_state f = FreshnessUnknown \<and> fr_uncertainty f \<noteq> None \<and> fr_observed_at f = None
         | Some p \<Rightarrow>
             fr_state f = (if \<not> later_ended p latest {RefreshFailed, RefreshUnsafeEmpty, RefreshUnsafeZeroIntersection,
                                 RefreshSuspectPartialSnapshot, RefreshStaleCatalogRace}
                              \<and> now \<le> lv_completed_at p + fresh_lifetime p then FreshnessFresh else FreshnessStale)
             \<and> (fr_uncertainty f = None \<longleftrightarrow> fr_state f = FreshnessFresh)
             \<and> (fr_uncertainty f = Some LatestAttemptFailed \<longleftrightarrow> later_ended p latest {RefreshFailed})
             \<and> (fr_uncertainty f = Some LatestAttemptUnsafe
                  \<longleftrightarrow> later_ended p latest {RefreshUnsafeEmpty, RefreshUnsafeZeroIntersection})
             \<and> (fr_uncertainty f = Some SuspectPartialUpstream \<longleftrightarrow> later_ended p latest {RefreshSuspectPartialSnapshot})
             \<and> (fr_uncertainty f = Some UncertainCatalogRace \<longleftrightarrow> later_ended p latest {RefreshStaleCatalogRace})
             \<and> (fr_uncertainty f = Some StaleLastKnownGood \<longleftrightarrow>
                  \<not> later_ended p latest {RefreshFailed, RefreshUnsafeEmpty, RefreshUnsafeZeroIntersection,
                      RefreshSuspectPartialSnapshot, RefreshStaleCatalogRace}
                  \<and> lv_completed_at p + fresh_lifetime p < now)
             \<and> fr_observed_at f = Some (lv_observed_at p)
             \<and> fr_fresh_until f = Some (lv_completed_at p + fresh_lifetime p))"
proof (cases last_valid)
  case None
  then show ?thesis
    by (simp add: project_open_freshness_def)
next
  case (Some p)
  show ?thesis
  proof (cases "lv_requested_effective_interval_seconds p = 0 \<or> checked_add (lv_completed_at p) (fresh_lifetime p) = None")
    case True
    with Some show ?thesis
      by (auto simp: project_open_freshness_def lifetime_total fresh_lifetime_def)
  next
    case False
    then obtain u where u: "lv_requested_effective_interval_seconds p \<noteq> 0" "checked_add (lv_completed_at p) (fresh_lifetime p) = Some u"
      by auto
    then have exact: "u = lv_completed_at p + fresh_lifetime p"
      using assms by (simp add: exact_add_def)
    obtain f where f: "project_open_freshness checked_add now last_valid latest unavailable = Inr f"
        "(fr_state f, fr_uncertainty f) = (case invalidation p latest of
           Some reason \<Rightarrow> (FreshnessStale, Some reason)
         | None \<Rightarrow> if now \<le> u then (FreshnessFresh, None) else (FreshnessStale, Some StaleLastKnownGood))"
        "fr_observed_at f = Some (lv_observed_at p)" "fr_fresh_until f = Some u"
      using freshness_of_point [of p checked_add u now latest unavailable, OF u] unfolding Some by blast
    note why = invalidation_None invalidation_Some
    show ?thesis
    proof (cases "invalidation p latest")
      case None
      then have "\<not> later_ended p latest adverse" "\<not> later_ended p latest {RefreshFailed}"
          "\<not> later_ended p latest {RefreshUnsafeEmpty, RefreshUnsafeZeroIntersection}"
          "\<not> later_ended p latest {RefreshSuspectPartialSnapshot}" "\<not> later_ended p latest {RefreshStaleCatalogRace}"
        by (simp_all flip: why)
      then show ?thesis
        using f None by (auto simp: Some exact split: if_splits)
    next
      case (Some reason)
      then have "later_ended p latest adverse"
        using invalidation_None [of p latest] by simp
      then show ?thesis
        using f Some invalidation_not_age [of p latest] by (simp add: \<open>last_valid = Some p\<close> exact flip: why)
    qed
  qed
qed

theorem freshness_decided_witness:
  "\<exists>f. project_open_freshness (\<lambda>t d. Some (t + d)) 110000000000
        (Some \<lparr>lv_attempt_sequence = OpenSequence 1, lv_observed_at = 100000000000, lv_completed_at = 100000000000,
               lv_requested_effective_interval_seconds = 30\<rparr>)
        (Some \<lparr>la_attempt_sequence = OpenSequence 2, la_completed_at = 105000000000, la_classification = RefreshFailed\<rparr>)
        None = Inr f
     \<and> fr_state f = FreshnessStale \<and> fr_uncertainty f = Some LatestAttemptFailed"
proof -
  let ?p = "\<lparr>lv_attempt_sequence = OpenSequence 1, lv_observed_at = 100000000000, lv_completed_at = 100000000000,
               lv_requested_effective_interval_seconds = 30\<rparr>"
  let ?a = "\<lparr>la_attempt_sequence = OpenSequence 2, la_completed_at = 105000000000, la_classification = RefreshFailed\<rparr>"
  have add: "exact_add (\<lambda>t d. Some (t + d))"
    by (simp add: exact_add_def)
  have "later_ended ?p (Some ?a) {RefreshFailed}"
    by (simp add: later_ended_def)
  moreover obtain f where "project_open_freshness (\<lambda>t d. Some (t + d)) 110000000000 (Some ?p) (Some ?a) None = Inr f"
    using freshness_of_point [of ?p "\<lambda>t d. Some (t + d)" _ 110000000000 "Some ?a" None] by auto
  ultimately show ?thesis
    using freshness_decided [OF add, where now = 110000000000 and last_valid = "Some ?p" and latest = "Some ?a" and unavailable = None]
    by (auto split: if_splits)
qed

end
