(* ===== verification/Open_Client.thy ===== *)
theory Open_Client
  imports Open_Freshness Open_Policy
begin

text \<open>
  The client of the Rutgers open-sections endpoint
  (\<open>crates/bcsp-rutgers-client/src/open_sections.rs\<close>): discovery-bound requests, the classification
  of HTTP failures, \<open>Retry-After\<close> headers and the decoding of a response into a canonical set.

  What the code takes from other packages is the record \<open>http_lib\<close>: the classes of status codes,
  the parts of a URL, the join of a redirect location, the JSON parser and the SHA-256 digest.
  A response is what the client can read of it: its status, its URL, its header values (\<open>None\<close> for
  a value that is not text) and the results of the successive reads of its body.
\<close>

subsection \<open>Requests\<close>

datatype json_type = JtBoolean | JtNumber | JtString | JtArray | JtObject

record malformed_field =
  mf_json_type :: json_type
  mf_canonical_sha256 :: string

datatype 'a presence = PresMissing | PresNull | PresMalformed malformed_field | PresValue 'a

fun presence_value :: "'a presence \<Rightarrow> 'a option" where
  "presence_value (PresValue v) = Some v"
| "presence_value _ = None"

datatype discovery_source_id = DiscoverySourceId (source_id_str: string)

definition source_id_from_persisted :: "string \<Rightarrow> discovery_source_id option" where
  "source_id_from_persisted v =
     (case (case strip_prefix ''selector:'' v of Some d \<Rightarrow> Some d | None \<Rightarrow> strip_prefix ''bootstrap:'' v) of
        None \<Rightarrow> None
      | Some digest \<Rightarrow>
          if length digest = 64
             \<and> list_all (\<lambda>c. is_ascii_digit c \<or> (97 \<le> (of_char c :: nat) \<and> (of_char c :: nat) \<le> 102)) digest
          then Some (DiscoverySourceId v) else None)"

record discovered_term =
  dt_source_id :: discovery_source_id
  dt_term_id :: term_id
  dt_year :: "int presence"
  dt_term_code :: "string presence"
  dt_display :: "string presence"
  dt_published :: "bool presence"

record discovered_target =
  dg_source_id :: discovery_source_id
  dg_key :: term_campus_key
  dg_enabled :: "bool presence"

datatype open_sections_request_error =
    SourceMismatch | TermMismatch | MissingYear | InvalidYear | MissingTermCode | InvalidTermCode
  | InvalidDiscoverySourceId

record open_sections_request =
  osr_discovery_source_id :: discovery_source_id
  osr_target :: term_campus_key
  osr_year :: u16
  osr_term_code :: u8

definition u16_try_from_i64 :: "int \<Rightarrow> u16 option" where
  "u16_try_from_i64 v = (if 0 \<le> v \<and> v < 65536 then Some (of_int v) else None)"

definition parse_term_code :: "string \<Rightarrow> open_sections_request_error + u8" where
  "parse_term_code code =
     (if code = [] \<or> length code > 2 \<or> \<not> list_all is_ascii_digit code
         \<or> (length code > 1 \<and> take 1 code = ''0'')
      then Inl InvalidTermCode
      else let v = parse_digits 0 code in
           if v < 256 then Inr (of_nat v) else Inl InvalidTermCode)"

definition try_from_discovery ::
  "discovered_term \<Rightarrow> discovered_target \<Rightarrow> open_sections_request_error + open_sections_request" where
  "try_from_discovery trm target =
     (if dt_source_id trm \<noteq> dg_source_id target then Inl SourceMismatch
      else if dt_term_id trm \<noteq> tc_term (dg_key target) then Inl TermMismatch
      else case presence_value (dt_year trm) of
        None \<Rightarrow> Inl MissingYear
      | Some year \<Rightarrow>
          (case u16_try_from_i64 year of
             None \<Rightarrow> Inl InvalidYear
           | Some year \<Rightarrow>
               if \<not> (1000 \<le> year \<and> year \<le> 9999) then Inl InvalidYear
               else case presence_value (dt_term_code trm) of
                 None \<Rightarrow> Inl MissingTermCode
               | Some code \<Rightarrow>
                   (case parse_term_code code of
                      Inl e \<Rightarrow> Inl e
                    | Inr term_code \<Rightarrow>
                        Inr \<lparr>osr_discovery_source_id = dt_source_id trm,
                          osr_target = TermCampusKey (dt_term_id trm) (tc_campus (dg_key target)),
                          osr_year = year, osr_term_code = term_code\<rparr>)))"

definition try_from_persisted_discovery ::
  "string \<Rightarrow> term_id \<Rightarrow> term_campus_key \<Rightarrow> u16 option \<Rightarrow> string option
     \<Rightarrow> open_sections_request_error + open_sections_request" where
  "try_from_persisted_discovery source_id trm target year term_code =
     (if trm \<noteq> tc_term target then Inl TermMismatch
      else case source_id_from_persisted source_id of
        None \<Rightarrow> Inl InvalidDiscoverySourceId
      | Some discovery_source_id \<Rightarrow>
          (case year of
             None \<Rightarrow> Inl MissingYear
           | Some year \<Rightarrow>
               if \<not> (1000 \<le> year \<and> year \<le> 9999) then Inl InvalidYear
               else case term_code of
                 None \<Rightarrow> Inl MissingTermCode
               | Some code \<Rightarrow>
                   (case parse_term_code code of
                      Inl e \<Rightarrow> Inl e
                    | Inr term_code \<Rightarrow>
                        Inr \<lparr>osr_discovery_source_id = discovery_source_id,
                          osr_target = TermCampusKey trm (tc_campus target),
                          osr_year = year, osr_term_code = term_code\<rparr>)))"

subsection \<open>Responses and failures\<close>

datatype open_payload_classification = PayloadNonempty | PayloadEmpty

record open_response_metadata =
  om_http_status :: u16
  om_decoded_bytes :: nat
  om_decoded_body_sha256 :: string
  om_canonical_set_sha256 :: string
  om_raw_value_count :: nat
  om_unique_value_count :: nat
  om_duplicate_value_count :: nat
  om_content_type :: string
  om_etag :: "string option"
  om_cache_control :: "string option"
  om_date :: "string option"
  om_age_seconds :: "u64 option"
  om_last_modified :: "string option"

record open_sections_response =
  or_target :: term_campus_key
  or_classification :: open_payload_classification
  or_open_indexes :: "section_index list"
  or_metadata :: open_response_metadata

datatype retry_after_value = DelaySeconds u64 | HttpDateUnixSeconds int

datatype retry_after_header = RetryAfterMissing | RetryAfterInvalid | RetryAfterValid retry_after_value

record open_failure_response_metadata =
  fm_http_status :: u16
  fm_decoded_bytes :: "nat option"
  fm_decoded_body_sha256 :: "string option"
  fm_content_type :: "string option"
  fm_etag :: "string option"
  fm_cache_control :: "string option"
  fm_date :: "string option"
  fm_age :: "string option"
  fm_age_seconds :: "u64 option"
  fm_last_modified :: "string option"
  fm_retry_after_raw :: "string option"
  fm_retry_after :: retry_after_header

datatype redirect_scope = SameOrigin | OffOrigin | InvalidLocation

datatype open_failure_disposition =
  TransientBackoff | RateLimitedOriginGate | FatalProtocolOriginCircuit | LocalConfiguration

datatype open_sections_error =
    ErrTimeout
  | ErrNetwork
  | ErrRequestConstruction
  | ErrResponseUrlMismatch
  | ErrTransientHttp u16
  | ErrRateLimited retry_after_header
  | ErrForbidden
  | ErrRedirect u16 redirect_scope
  | ErrFatalClientHttp u16
  | ErrUnsupportedHttp u16
  | ErrInvalidContentType
  | ErrResponseTooLarge
  | ErrContentDecoding
  | ErrInvalidJson
  | ErrRootNotArray
  | ErrNonStringValue nat
  | ErrInvalidSectionIndex nat

record open_sections_failure =
  of_kind :: open_sections_error
  of_response_metadata :: "open_failure_response_metadata option"

definition before_response :: "open_sections_error \<Rightarrow> open_sections_failure" where
  "before_response kind = \<lparr>of_kind = kind, of_response_metadata = None\<rparr>"

definition from_response :: "open_sections_error \<Rightarrow> open_failure_response_metadata \<Rightarrow> open_sections_failure" where
  "from_response kind metadata = \<lparr>of_kind = kind, of_response_metadata = Some metadata\<rparr>"

fun disposition :: "open_sections_error \<Rightarrow> open_failure_disposition" where
  "disposition ErrTimeout = TransientBackoff"
| "disposition ErrNetwork = TransientBackoff"
| "disposition (ErrTransientHttp _) = TransientBackoff"
| "disposition (ErrRateLimited _) = RateLimitedOriginGate"
| "disposition ErrRequestConstruction = LocalConfiguration"
| "disposition _ = FatalProtocolOriginCircuit"

subsection \<open>The HTTP library\<close>

datatype json_value =
  JsonNull | JsonBool bool | JsonNumber string | JsonString string | JsonArray "json_value list"
| JsonObject "(string \<times> json_value) list"

record reqwest_error =
  re_is_timeout :: bool
  re_is_decode :: bool

record 'u http_lib =
  hl_is_success :: "u16 \<Rightarrow> bool"
  hl_is_server_error :: "u16 \<Rightarrow> bool"
  hl_is_redirection :: "u16 \<Rightarrow> bool"
  hl_is_client_error :: "u16 \<Rightarrow> bool"
  hl_scheme :: "'u \<Rightarrow> string"
  hl_host_str :: "'u \<Rightarrow> string option"
  hl_port_or_known_default :: "'u \<Rightarrow> u16 option"
  hl_join :: "'u \<Rightarrow> string \<Rightarrow> 'u option"
  hl_json_from_slice :: "string \<Rightarrow> json_value option"
  hl_digest :: digest

record 'u http_response =
  hr_status :: u16
  hr_url :: 'u
  hr_headers :: "(string \<times> string option) list"
  hr_chunks :: "(reqwest_error + string) list"

definition header_get_all :: "(string \<times> string option) list \<Rightarrow> string \<Rightarrow> string option list" where
  "header_get_all headers name = map snd (filter (\<lambda>h. fst h = name) headers)"

definition header_text :: "(string \<times> string option) list \<Rightarrow> string \<Rightarrow> string option" where
  "header_text headers name = (case header_get_all headers name of [] \<Rightarrow> None | v # _ \<Rightarrow> v)"

definition single_header_text :: "(string \<times> string option) list \<Rightarrow> string \<Rightarrow> string option" where
  "single_header_text headers name = (case header_get_all headers name of [v] \<Rightarrow> v | _ \<Rightarrow> None)"

text \<open>\<open>str::parse::<u64>\<close>: an optional plus sign, then at least one digit, in range.\<close>

definition parse_u64 :: "string \<Rightarrow> u64 option" where
  "parse_u64 v =
     (let digits = (if take 1 v = ''+'' then drop 1 v else v) in
      if digits = [] \<or> \<not> list_all is_ascii_digit digits then None
      else u64_try_from (parse_digits 0 digits))"

subsection \<open>Retry-After\<close>

fun decimal_fold :: "nat \<Rightarrow> string \<Rightarrow> nat option" where
  "decimal_fold value [] = Some value"
| "decimal_fold value (byte # bytes) =
     (if value * 10 < 2 ^ 32 \<and> value * 10 + digit_value byte < 2 ^ 32
      then decimal_fold (value * 10 + digit_value byte) bytes else None)"

definition parse_decimal :: "string \<Rightarrow> nat option" where
  "parse_decimal bytes = (if bytes = [] \<or> \<not> list_all is_ascii_digit bytes then None else decimal_fold 0 bytes)"

definition days_in_month :: "nat \<Rightarrow> nat \<Rightarrow> nat" where
  "days_in_month year month =
     (if month \<in> {1, 3, 5, 7, 8, 10, 12} then 31
      else if month \<in> {4, 6, 9, 11} then 30
      else if month = 2 \<and> (400 dvd year \<or> (4 dvd year \<and> \<not> 100 dvd year)) then 29
      else if month = 2 then 28
      else 0)"

text \<open>Integer division of the language truncates towards zero; all divisors here are positive.\<close>

definition trunc_div :: "int \<Rightarrow> int \<Rightarrow> int" where
  "trunc_div a b = (if 0 \<le> a then a div b else - ((- a) div b))"

definition days_from_civil :: "int \<Rightarrow> int \<Rightarrow> int \<Rightarrow> int" where
  "days_from_civil year month day =
     (let adjusted_year = year - (if month \<le> 2 then 1 else 0);
          era = trunc_div (if adjusted_year \<ge> 0 then adjusted_year else adjusted_year - 399) 400;
          year_of_era = adjusted_year - era * 400;
          month_prime = month + (if month > 2 then - 3 else 9);
          day_of_year = trunc_div (153 * month_prime + 2) 5 + day - 1;
          day_of_era = year_of_era * 365 + trunc_div year_of_era 4 - trunc_div year_of_era 100 + day_of_year
      in era * 146097 + day_of_era - 719468)"

definition weekday_names :: "string list" where
  "weekday_names = [''Sun'', ''Mon'', ''Tue'', ''Wed'', ''Thu'', ''Fri'', ''Sat'']"

definition month_names :: "string list" where
  "month_names = [''Jan'', ''Feb'', ''Mar'', ''Apr'', ''May'', ''Jun'', ''Jul'', ''Aug'', ''Sep'', ''Oct'', ''Nov'', ''Dec'']"

fun name_position :: "string list \<Rightarrow> string \<Rightarrow> nat option" where
  "name_position [] v = None"
| "name_position (x # xs) v = (if x = v then Some 0 else map_option Suc (name_position xs v))"

definition slice :: "nat \<Rightarrow> nat \<Rightarrow> string \<Rightarrow> string" where
  "slice a b v = take (b - a) (drop a v)"

definition imf_seconds :: "nat \<Rightarrow> nat \<Rightarrow> nat \<Rightarrow> nat \<Rightarrow> nat \<Rightarrow> nat \<Rightarrow> nat \<Rightarrow> int option" where
  "imf_seconds weekday year month day hour minute second =
     (if year < 1601 \<or> day = 0 \<or> day > days_in_month year month \<or> hour > 23 \<or> minute > 59 \<or> second > 59
      then None
      else let days = days_from_civil (int year) (int month) (int day) in
        if (days + 4) mod 7 \<noteq> int weekday then None
        else Option.bind (i64_checked (days * 86400))
          (\<lambda>v. i64_checked (v + int (hour * 3600 + minute * 60 + second))))"

definition parse_imf_fixdate :: "string \<Rightarrow> int option" where
  "parse_imf_fixdate v =
     (if length v \<noteq> 29 \<or> v ! 3 \<noteq> CHR '','' \<or> v ! 4 \<noteq> CHR '' '' \<or> v ! 7 \<noteq> CHR '' '' \<or> v ! 11 \<noteq> CHR '' ''
         \<or> v ! 16 \<noteq> CHR '' '' \<or> v ! 19 \<noteq> CHR '':'' \<or> v ! 22 \<noteq> CHR '':'' \<or> v ! 25 \<noteq> CHR '' '' \<or> drop 26 v \<noteq> ''GMT''
      then None
      else Option.bind (name_position weekday_names (slice 0 3 v)) (\<lambda>weekday.
        Option.bind (parse_decimal (slice 5 7 v)) (\<lambda>day.
        Option.bind (name_position month_names (slice 8 11 v)) (\<lambda>month.
        Option.bind (parse_decimal (slice 12 16 v)) (\<lambda>year.
        Option.bind (parse_decimal (slice 17 19 v)) (\<lambda>hour.
        Option.bind (parse_decimal (slice 20 22 v)) (\<lambda>minute.
        Option.bind (parse_decimal (slice 23 25 v)) (\<lambda>second.
          imf_seconds weekday year (month + 1) day hour minute second))))))))"

definition retry_after :: "(string \<times> string option) list \<Rightarrow> retry_after_header" where
  "retry_after headers =
     (case header_get_all headers ''retry-after'' of
        [] \<Rightarrow> RetryAfterMissing
      | [Some v] \<Rightarrow>
          if v \<noteq> [] \<and> list_all is_ascii_digit v
          then (case parse_u64 v of Some s \<Rightarrow> RetryAfterValid (DelaySeconds s) | None \<Rightarrow> RetryAfterInvalid)
          else (case parse_imf_fixdate v of
             Some s \<Rightarrow> RetryAfterValid (HttpDateUnixSeconds s) | None \<Rightarrow> RetryAfterInvalid)
      | _ \<Rightarrow> RetryAfterInvalid)"

subsection \<open>Classification\<close>

definition same_origin :: "'u http_lib \<Rightarrow> 'u \<Rightarrow> 'u \<Rightarrow> bool" where
  "same_origin L left right \<longleftrightarrow> hl_scheme L left = hl_scheme L right
     \<and> hl_host_str L left = hl_host_str L right
     \<and> hl_port_or_known_default L left = hl_port_or_known_default L right"

definition redirect_scope_of :: "'u http_lib \<Rightarrow> 'u http_response \<Rightarrow> redirect_scope" where
  "redirect_scope_of L r =
     (case header_text (hr_headers r) ''location'' of
        None \<Rightarrow> InvalidLocation
      | Some location \<Rightarrow>
          (case hl_join L (hr_url r) location of
             None \<Rightarrow> InvalidLocation
           | Some destination \<Rightarrow> if same_origin L (hr_url r) destination then SameOrigin else OffOrigin))"

definition classify_reqwest_error :: "reqwest_error \<Rightarrow> open_sections_error" where
  "classify_reqwest_error e =
     (if re_is_timeout e then ErrTimeout else if re_is_decode e then ErrContentDecoding else ErrNetwork)"

definition classify_http_failure :: "'u http_lib \<Rightarrow> 'u http_response \<Rightarrow> open_sections_error" where
  "classify_http_failure L r =
     (let status = hr_status r in
      if status = 408 \<or> hl_is_server_error L status then ErrTransientHttp status
      else if status = 429 then ErrRateLimited (retry_after (hr_headers r))
      else if status = 403 then ErrForbidden
      else if hl_is_redirection L status \<and> status \<noteq> 304 then ErrRedirect status (redirect_scope_of L r)
      else if hl_is_client_error L status then ErrFatalClientHttp status
      else ErrUnsupportedHttp status)"

definition media_type :: "string \<Rightarrow> string" where
  "media_type v = trim_ascii (takeWhile (\<lambda>c. c \<noteq> CHR '';'') v)"

definition json_content_type :: "(string \<times> string option) list \<Rightarrow> string option" where
  "json_content_type headers =
     (case header_text headers ''content-type'' of
        None \<Rightarrow> None
      | Some v \<Rightarrow> if eq_ignore_ascii_case (media_type v) ''application/json'' then Some v else None)"

definition failure_capture :: "'u http_response \<Rightarrow> open_failure_response_metadata" where
  "failure_capture r =
     (let headers = hr_headers r; age = header_text headers ''age'' in
      \<lparr>fm_http_status = hr_status r, fm_decoded_bytes = None, fm_decoded_body_sha256 = None,
       fm_content_type = header_text headers ''content-type'', fm_etag = header_text headers ''etag'',
       fm_cache_control = header_text headers ''cache-control'', fm_date = header_text headers ''date'',
       fm_age = age, fm_age_seconds = Option.bind age parse_u64,
       fm_last_modified = header_text headers ''last-modified'',
       fm_retry_after_raw = single_header_text headers ''retry-after'',
       fm_retry_after = retry_after headers\<rparr>)"

subsection \<open>Decoding\<close>

definition OPEN_MAX_DECODED_BYTES :: nat where "OPEN_MAX_DECODED_BYTES = 10 * 1024 * 1024"

fun collect_indexes ::
  "nat \<Rightarrow> section_index bset \<Rightarrow> json_value list \<Rightarrow> open_sections_error + section_index bset" where
  "collect_indexes position unique [] = Inr unique"
| "collect_indexes position unique (v # vs) =
     (case v of
        JsonString text \<Rightarrow>
          (case section_index_try_from text of
             Inl _ \<Rightarrow> Inl (ErrInvalidSectionIndex position)
           | Inr index \<Rightarrow> collect_indexes (position + 1) (bs_insert index unique) vs)
      | _ \<Rightarrow> Inl (ErrNonStringValue position))"

definition decode_open_array ::
  "'u http_lib \<Rightarrow> string \<Rightarrow> open_sections_error + (nat \<times> nat \<times> section_index list)" where
  "decode_open_array L body =
     (case hl_json_from_slice L body of
        None \<Rightarrow> Inl ErrInvalidJson
      | Some root \<Rightarrow>
          (case root of
             JsonArray values \<Rightarrow>
               (case collect_indexes 0 bm_empty values of
                  Inl e \<Rightarrow> Inl e
                | Inr unique \<Rightarrow> Inr (length values, length values - bm_len unique, bm_keys unique))
           | _ \<Rightarrow> Inl ErrRootNotArray))"

text \<open>The final \<open>expect\<close> is the \<open>None\<close> case.\<close>

definition canonical_open_set_sha256 :: "digest \<Rightarrow> section_index list \<Rightarrow> string option" where
  "canonical_open_set_sha256 H indexes =
     open_hash_try_from (sha256_hex H (''bcsp-open-set-v1'' @ [newline]
       @ concat (map (\<lambda>i. index_str i @ [newline]) (bm_keys (bs_of_list indexes)))))"

text \<open>Reading the body: the bytes, or a failure with the number of bytes it reports.\<close>

fun read_body :: "nat \<Rightarrow> string \<Rightarrow> (reqwest_error + string) list \<Rightarrow> (open_sections_error \<times> nat) + string" where
  "read_body limit body [] = Inr body"
| "read_body limit body (Inl e # rest) = Inl (classify_reqwest_error e, length body)"
| "read_body limit body (Inr chunk # rest) =
     (let next_len = length body + length chunk in
      if 2 ^ 64 \<le> next_len then Inl (ErrResponseTooLarge, length body)
      else if next_len > limit then Inl (ErrResponseTooLarge, next_len)
      else read_body limit (body @ chunk) rest)"

definition decode_response ::
  "'u http_lib \<Rightarrow> nat \<Rightarrow> term_campus_key \<Rightarrow> 'u http_response
     \<Rightarrow> (open_sections_failure + open_sections_response) option" where
  "decode_response L limit target r =
     (let metadata = failure_capture r in
      if \<not> hl_is_success L (hr_status r) then Some (Inl (from_response (classify_http_failure L r) metadata))
      else case json_content_type (hr_headers r) of
        None \<Rightarrow> Some (Inl (from_response ErrInvalidContentType metadata))
      | Some content_type \<Rightarrow>
          if (case Option.bind (header_text (hr_headers r) ''content-length'') parse_u64 of
                None \<Rightarrow> False | Some len \<Rightarrow> unat len > limit)
          then Some (Inl (from_response ErrResponseTooLarge metadata))
          else case read_body limit [] (hr_chunks r) of
            Inl (e, bytes) \<Rightarrow> Some (Inl (from_response e (metadata\<lparr>fm_decoded_bytes := Some bytes\<rparr>)))
          | Inr body \<Rightarrow>
              let sha = sha256_hex (hl_digest L) body;
                  metadata = metadata\<lparr>fm_decoded_bytes := Some (length body), fm_decoded_body_sha256 := Some sha\<rparr>
              in (case decode_open_array L body of
                    Inl e \<Rightarrow> Some (Inl (from_response e metadata))
                  | Inr (raw, duplicates, indexes) \<Rightarrow>
                      map_option (\<lambda>set_hash. Inr \<lparr>or_target = target,
                          or_classification = (if indexes = [] then PayloadEmpty else PayloadNonempty),
                          or_open_indexes = indexes,
                          or_metadata = \<lparr>om_http_status = hr_status r, om_decoded_bytes = length body,
                            om_decoded_body_sha256 = sha, om_canonical_set_sha256 = set_hash,
                            om_raw_value_count = raw, om_unique_value_count = length indexes,
                            om_duplicate_value_count = duplicates, om_content_type = content_type,
                            om_etag = header_text (hr_headers r) ''etag'',
                            om_cache_control = header_text (hr_headers r) ''cache-control'',
                            om_date = header_text (hr_headers r) ''date'',
                            om_age_seconds = Option.bind (header_text (hr_headers r) ''age'') parse_u64,
                            om_last_modified = header_text (hr_headers r) ''last-modified''\<rparr>\<rparr>)
                        (canonical_open_set_sha256 (hl_digest L) indexes)))"

text \<open>The outbound request and its execution are I/O: \<open>outbound\<close> is the result of building and
  sending it, with the URL that was requested.\<close>

definition fetch ::
  "'u http_lib \<Rightarrow> nat \<Rightarrow> open_sections_request \<Rightarrow> ('u \<times> (reqwest_error + 'u http_response)) option
     \<Rightarrow> (open_sections_failure + open_sections_response) option" where
  "fetch L limit request outbound =
     (case outbound of
        None \<Rightarrow> Some (Inl (before_response ErrRequestConstruction))
      | Some (requested_url, result) \<Rightarrow>
          (case result of
             Inl e \<Rightarrow> Some (Inl (before_response (classify_reqwest_error e)))
           | Inr r \<Rightarrow>
               if \<not> same_origin L (hr_url r) requested_url
               then Some (Inl (from_response ErrResponseUrlMismatch (failure_capture r)))
               else decode_response L limit (osr_target request) r))"

end
