(* ===== verification/Client_Guarantees.thy ===== *)
theory Client_Guarantees
  imports Open_Client
begin

text \<open>
  What the open-sections client guarantees: its calendar arithmetic counts days, the dates of
  \<open>Retry-After\<close> headers denote the instant they print, and a decoded response is the canonical
  set of what the endpoint sent.
\<close>

subsection \<open>The civil calendar\<close>

definition next_date :: "nat \<Rightarrow> nat \<Rightarrow> nat \<Rightarrow> nat \<times> nat \<times> nat" where
  "next_date y m d = (if d < days_in_month y m then (y, m, d + 1)
     else if m < 12 then (y, m + 1, 1) else (y + 1, 1, 1))"

definition civil_days :: "nat \<times> nat \<times> nat \<Rightarrow> int" where
  "civil_days date = (case date of (y, m, d) \<Rightarrow> days_from_civil (int y) (int m) (int d))"

text \<open>Days before the first of March of year \<open>a\<close>, counted from the year 0.\<close>

definition march_days :: "int \<Rightarrow> int" where
  "march_days a = 365 * a + a div 4 - a div 100 + a div 400"

lemma era_split:
  fixes a :: int
  assumes "0 \<le> a"
  shows "(a div 400) * 146097 + (a - (a div 400) * 400) * 365 + (a - (a div 400) * 400) div 4 - (a - (a div 400) * 400) div 100
    = march_days a"
proof -
  define e r where "e = a div 400" and "r = a mod 400"
  have a: "a = 400 * e + r" "0 \<le> r" "r < 400"
    by (simp_all add: e_def r_def)
  have "(r + 4 * (100 * e)) div 4 = 100 * e + r div 4" "(r + 100 * (4 * e)) div 100 = 4 * e + r div 100"
    by (rule div_mult_self2, simp)+
  moreover have "r + 4 * (100 * e) = a" "r + 100 * (4 * e) = a" "a - e * 400 = r"
    using a(1) by linarith+
  ultimately have "a div 4 = 100 * e + r div 4" "a div 100 = 4 * e + r div 100" "a - e * 400 = r"
    by (simp_all only:)
  note parts = this
  show ?thesis
    unfolding march_days_def e_def [symmetric] parts using a(1) by linarith
qed

lemma days_from_civil_eq:
  assumes "1 \<le> y" "1 \<le> m"
  shows "days_from_civil y m d =
    march_days (y - (if m \<le> 2 then 1 else 0)) + (153 * (m + (if m > 2 then - 3 else 9)) + 2) div 5 + d - 719469"
proof -
  define a p where "a = y - (if m \<le> 2 then 1 else 0)" and "p = m + (if m > 2 then - 3 else 9)"
  have a: "0 \<le> a" "0 \<le> 153 * p + 2" using assms by (simp_all add: a_def p_def)
  have r: "0 \<le> a - a div 400 * 400" by (simp add: minus_div_mult_eq_mod)
  show ?thesis
    using era_split [OF a(1)] a r
    unfolding days_from_civil_def Let_def trunc_div_def a_def [symmetric] p_def [symmetric] by simp
qed

lemma div_step:
  fixes a n :: int
  assumes n: "0 < n"
  shows "(a + 1) div n = a div n + (if n dvd a + 1 then 1 else 0)"
proof (cases "a mod n + 1 = n")
  case True
  have "n * (a div n) + a mod n = a" by simp
  then have "a + 1 = n * (a div n + 1)" using True unfolding distrib_left by linarith
  then show ?thesis using n by simp
next
  case False
  have r: "0 \<le> a mod n" "a mod n < n" using n by simp_all
  have eq: "a + 1 = n * (a div n) + (a mod n + 1)" by simp
  have "(a + 1) div n = a div n" "(a + 1) mod n = a mod n + 1"
    using int_div_pos_eq [OF eq] int_mod_pos_eq [OF eq] r False by auto
  then show ?thesis using r by (simp add: dvd_eq_mod_eq_0)
qed

lemma march_days_step:
  "march_days (a + 1) = march_days a + 365 + (if 4 dvd a + 1 \<and> (\<not> 100 dvd a + 1 \<or> 400 dvd a + 1) then 1 else 0)"
proof -
  have count: "(Q \<Longrightarrow> P) \<Longrightarrow> (R \<Longrightarrow> Q) \<Longrightarrow> x + (if P then 1 else 0) - (if Q then 1 else 0) + (if R then 1 else 0)
      = x + (if P \<and> (\<not> Q \<or> R) then 1 else 0)" for P Q R and x :: int
    by auto
  have dvd: "100 dvd a + 1 \<Longrightarrow> 4 dvd a + 1" "400 dvd a + 1 \<Longrightarrow> 100 dvd a + 1"
    by (rule dvd_trans [of 4 100], simp, assumption, rule dvd_trans [of 100 400], simp)
  have "march_days (a + 1) = march_days a + 365 + (if 4 dvd a + 1 then 1 else 0)
      - (if 100 dvd a + 1 then 1 else 0) + (if 400 dvd a + 1 then 1 else 0)"
    unfolding march_days_def div_step [OF zero_less_numeral] by (simp only: distrib_left mult_1_right)
  also have "\<dots> = march_days a + 365 + (if 4 dvd a + 1 \<and> (\<not> 100 dvd a + 1 \<or> 400 dvd a + 1) then 1 else 0)"
    using count [of "100 dvd a + 1" "4 dvd a + 1" "400 dvd a + 1" "march_days a + 365", OF dvd] .
  finally show ?thesis .
qed

lemma leap_int: "days_in_month y 2 = (if 4 dvd int y \<and> (\<not> 100 dvd int y \<or> 400 dvd int y) then 29 else 28)"
proof -
  have "400 dvd y \<Longrightarrow> 4 dvd y" by (rule dvd_trans [of 4 400]) simp
  moreover have "(n :: nat) dvd y \<longleftrightarrow> int n dvd int y" for n by simp
  then have "4 dvd int y \<longleftrightarrow> 4 dvd y" "100 dvd int y \<longleftrightarrow> 100 dvd y" "400 dvd int y \<longleftrightarrow> 400 dvd y"
    by (metis of_nat_numeral)+
  ultimately show ?thesis
    by (auto simp: days_in_month_def)
qed

lemma month_cases:
  assumes "1 \<le> m" "m \<le> (12 :: nat)"
  shows "m = 1 \<or> m = 2 \<or> m = 3 \<or> m = 4 \<or> m = 5 \<or> m = 6 \<or> m = 7 \<or> m = 8 \<or> m = 9 \<or> m = 10 \<or> m = 11 \<or> m = 12"
  using assms by presburger

lemma next_date_counts:
  assumes y: "1 \<le> y" and m: "1 \<le> m" "m \<le> 12" and d: "1 \<le> d" "d \<le> days_in_month y m"
  shows "civil_days (next_date y m d) = civil_days (y, m, d) + 1"
proof (cases "d < days_in_month y m")
  case True
  then show ?thesis
    using y m by (simp add: next_date_def civil_days_def days_from_civil_eq)
next
  case False
  then have last: "d = days_in_month y m" using d by simp
  show ?thesis
  proof (cases "m = 2")
    case True
    have "march_days (int y) = march_days (int y - 1) + 365 + (int (days_in_month y 2) - 28)"
      using march_days_step [of "int y - 1"] leap_int [of y] by simp
    then show ?thesis
      using True y last by (simp add: next_date_def civil_days_def days_from_civil_eq)
  next
    case False
    then show ?thesis
      using month_cases [OF m] y last
      by (elim disjE) (simp_all add: next_date_def civil_days_def days_from_civil_eq days_in_month_def)
  qed
qed

subsection \<open>HTTP dates\<close>

definition imf_text :: "nat \<Rightarrow> nat \<Rightarrow> nat \<Rightarrow> nat \<Rightarrow> nat \<Rightarrow> nat \<Rightarrow> nat \<Rightarrow> string" where
  "imf_text weekday year month day hour minute second =
     weekday_names ! weekday @ '', '' @ two_digits day @ '' '' @ month_names ! (month - 1) @ '' ''
     @ two_digits (year div 100) @ two_digits (year mod 100) @ '' '' @ two_digits hour @ '':'' @ two_digits minute
     @ '':'' @ two_digits second @ '' GMT''"

text \<open>A moment of the calendar, with the weekday of its day (1970-01-01 was a Thursday).\<close>

definition valid_moment :: "nat \<Rightarrow> nat \<Rightarrow> nat \<Rightarrow> nat \<Rightarrow> nat \<Rightarrow> nat \<Rightarrow> nat \<Rightarrow> bool" where
  "valid_moment weekday year month day hour minute second \<longleftrightarrow>
     1601 \<le> year \<and> year < 10000 \<and> 1 \<le> month \<and> month \<le> 12 \<and> 1 \<le> day \<and> day \<le> days_in_month year month
     \<and> hour < 24 \<and> minute < 60 \<and> second < 60 \<and> int weekday = (civil_days (year, month, day) + 4) mod 7"

lemma march_days_bounds:
  assumes "0 \<le> a" "a < 10000"
  shows "0 \<le> march_days a" "march_days a < 3700000"
proof -
  have q: "n * (a div n) + a mod n = a" "0 \<le> a mod n" "a mod n < n" if "0 < n" for n :: int
    using that by simp_all
  have "0 \<le> a div 4" "0 \<le> a div 400" using assms by (simp_all add: pos_imp_zdiv_nonneg_iff)
  then show "0 \<le> march_days a" "march_days a < 3700000"
    using assms q [where n = 4, OF zero_less_numeral] q [where n = 100, OF zero_less_numeral] q [where n = 400, OF zero_less_numeral] unfolding march_days_def by linarith+
qed

lemma imf_seconds_eq:
  assumes "year < 10000" "1 \<le> month" "month \<le> 12"
  shows "imf_seconds weekday year month day hour minute second =
    (if valid_moment weekday year month day hour minute second
     then Some (civil_days (year, month, day) * 86400 + int (hour * 3600 + minute * 60 + second)) else None)"
proof (cases "1601 \<le> year \<and> 1 \<le> day \<and> day \<le> days_in_month year month \<and> hour < 24 \<and> minute < 60 \<and> second < 60")
  case True
  let ?days = "days_from_civil (int year) (int month) (int day)"
  have "int month + (if int month > 2 then - 3 else 9) \<le> 11" "0 \<le> int month + (if int month > 2 then - 3 else 9)"
    using assms by auto
  then have "0 \<le> (153 * (int month + (if int month > 2 then - 3 else 9)) + 2) div 5"
    "(153 * (int month + (if int month > 2 then - 3 else 9)) + 2) div 5 \<le> 337"
    by (simp_all add: pos_imp_zdiv_nonneg_iff)
  moreover have "day \<le> 31" using True by (auto simp: days_in_month_def split: if_splits)
  moreover have "0 \<le> march_days (int year - (if int month \<le> 2 then 1 else 0))"
    "march_days (int year - (if int month \<le> 2 then 1 else 0)) < 3700000"
    using march_days_bounds [of "int year - (if int month \<le> 2 then 1 else 0)"] True assms by auto
  ultimately have bounds: "- 800000 \<le> ?days" "?days \<le> 4000000"
    using True assms by (simp_all add: days_from_civil_eq)
  have time: "hour * 3600 + minute * 60 + second < 86400" using True by linarith
  have "- I64_MAX - 1 \<le> ?days * 86400" "?days * 86400 + int (hour * 3600 + minute * 60 + second) \<le> I64_MAX"
    using bounds time unfolding I64_MAX_def by linarith+
  then have "i64_checked (?days * 86400) = Some (?days * 86400)"
    "i64_checked (?days * 86400 + int (hour * 3600 + minute * 60 + second))
       = Some (?days * 86400 + int (hour * 3600 + minute * 60 + second))"
    by (simp_all add: i64_checked_def)
  then show ?thesis
    using True assms by (auto simp: imf_seconds_def valid_moment_def civil_days_def)
next
  case False
  then show ?thesis
    by (auto simp: imf_seconds_def valid_moment_def)
qed

lemma name_position_Some: "name_position xs v = Some i \<Longrightarrow> i < length xs \<and> xs ! i = v"
  by (induction xs arbitrary: i) (auto split: if_splits)

lemma name_position_nth: "distinct xs \<Longrightarrow> i < length xs \<Longrightarrow> name_position xs (xs ! i) = Some i"
  by (induction xs arbitrary: i) (auto simp: nth_Cons split: nat.splits)

lemma decimal_two:
  "parse_decimal [a, b] = Some n \<longleftrightarrow> is_ascii_digit a \<and> is_ascii_digit b \<and> n = 10 * digit_value a + digit_value b"
  using digit_char(1) [of a] digit_char(1) [of b] by (auto simp: parse_decimal_def)

lemma decimal_four:
  "parse_decimal [a, b, c, d] = Some n \<longleftrightarrow> list_all is_ascii_digit [a, b, c, d]
     \<and> n = 100 * (10 * digit_value a + digit_value b) + (10 * digit_value c + digit_value d)"
  using digit_char(1) [of a] digit_char(1) [of b] digit_char(1) [of c] digit_char(1) [of d]
  by (auto simp: parse_decimal_def)

lemma decimal_pair: "n < 100 \<Longrightarrow> parse_decimal (two_digits n) = Some n"
  using two_digits_shape [of n] by (auto simp: decimal_two)

lemma decimal_year: "n < 10000 \<Longrightarrow> parse_decimal (two_digits (n div 100) @ two_digits (n mod 100)) = Some n"
proof -
  assume "n < 10000"
  then have "n div 100 < 100" "n mod 100 < 100" by auto
  then obtain a b c d where "two_digits (n div 100) = [a, b]" "two_digits (n mod 100) = [c, d]"
    "list_all is_ascii_digit [a, b, c, d]"
    "10 * digit_value a + digit_value b = n div 100" "10 * digit_value c + digit_value d = n mod 100"
    using two_digits_shape [of "n div 100"] two_digits_shape [of "n mod 100"] by auto
  then show ?thesis
    by (simp only: append.simps decimal_four) simp
qed

lemma decimal_pair_text: "parse_decimal [a, b] = Some n \<Longrightarrow> [a, b] = two_digits n \<and> n < 100"
  using two_digits_parse [of a b] digit_char(1) [of a] digit_char(1) [of b] by (auto simp: decimal_two)

lemma decimal_year_text:
  assumes "parse_decimal [a, b, c, d] = Some n"
  shows "[a, b, c, d] = two_digits (n div 100) @ two_digits (n mod 100) \<and> n < 10000"
proof -
  define hi lo where "hi = 10 * digit_value a + digit_value b" and "lo = 10 * digit_value c + digit_value d"
  have dig: "is_ascii_digit a" "is_ascii_digit b" "is_ascii_digit c" "is_ascii_digit d" and n: "n = 100 * hi + lo"
    using assms by (simp_all add: decimal_four hi_def lo_def)
  have "lo < 100" "hi < 100"
    using digit_char(1) [OF dig(1)] digit_char(1) [OF dig(2)] digit_char(1) [OF dig(3)] digit_char(1) [OF dig(4)]
    unfolding hi_def lo_def by linarith+
  then have "n div 100 = hi" "n mod 100 = lo" "n < 10000"
    by (simp_all add: n)
  then show ?thesis
    using two_digits_parse [OF dig(1,2)] two_digits_parse [OF dig(3,4)] by (simp add: hi_def lo_def)
qed

lemma names_distinct: "distinct weekday_names" "length weekday_names = 7" "distinct month_names" "length month_names = 12"
  by (simp_all add: weekday_names_def month_names_def)

lemma name_letters:
  "w < 7 \<Longrightarrow> \<exists>a b c. weekday_names ! w = [a, b, c]"
  "m < 12 \<Longrightarrow> \<exists>a b c. month_names ! m = [a, b, c]"
proof -
  have "list_all (\<lambda>n. length n = 3) weekday_names" "list_all (\<lambda>n. length n = 3) month_names"
    by (simp_all add: weekday_names_def month_names_def)
  then have "w < 7 \<Longrightarrow> length (weekday_names ! w) = 3" "m < 12 \<Longrightarrow> length (month_names ! m) = 3"
    by (simp_all add: list_all_length names_distinct)
  then show "w < 7 \<Longrightarrow> \<exists>a b c. weekday_names ! w = [a, b, c]" "m < 12 \<Longrightarrow> \<exists>a b c. month_names ! m = [a, b, c]"
    unfolding numeral_3_eq_3 length_Suc_conv by auto
qed

lemma imf_text_parses:
  assumes v: "valid_moment w y m d hh mm ss"
  shows "parse_imf_fixdate (imf_text w y m d hh mm ss)
    = Some (civil_days (y, m, d) * 86400 + int (hh * 3600 + mm * 60 + ss))"
proof -
  have bounds: "y < 10000" "1 \<le> m" "m \<le> 12" "d < 100" "hh < 100" "mm < 100" "ss < 100" "m - 1 < 12"
    using v by (auto simp: valid_moment_def days_in_month_def split: if_splits)
  have "int w < 7" using v by (simp add: valid_moment_def)
  then have w: "w < 7" by simp
  have "y div 100 < 100" "y mod 100 < 100" using bounds by auto
  then obtain a1 a2 b1 b2 d1 d2 h1 h2 i1 i2 s1 s2 where
    tw: "two_digits (y div 100) = [a1, a2]" "two_digits (y mod 100) = [b1, b2]" "two_digits d = [d1, d2]"
      "two_digits hh = [h1, h2]" "two_digits mm = [i1, i2]" "two_digits ss = [s1, s2]"
    using two_digits_def by blast
  obtain w1 w2 w3 m1 m2 m3 where nm: "weekday_names ! w = [w1, w2, w3]" "month_names ! (m - 1) = [m1, m2, m3]"
    using name_letters(1) [OF w] name_letters(2) [OF bounds(8)] by blast
  have dec: "parse_decimal [d1, d2] = Some d" "parse_decimal [h1, h2] = Some hh" "parse_decimal [i1, i2] = Some mm"
    "parse_decimal [s1, s2] = Some ss" "parse_decimal [a1, a2, b1, b2] = Some y"
    using decimal_pair bounds decimal_year [OF bounds(1)] tw by (metis append.simps)+
  have pos: "name_position weekday_names [w1, w2, w3] = Some w" "name_position month_names [m1, m2, m3] = Some (m - 1)"
    using name_position_nth [OF names_distinct(1), of w] name_position_nth [OF names_distinct(3), of "m - 1"] w bounds nm
    by (simp_all add: names_distinct)
  show ?thesis
    unfolding imf_text_def nm tw
    using dec pos imf_seconds_eq [OF bounds(1-3)] v bounds by (simp add: parse_imf_fixdate_def slice_def)
qed

lemma twenty_nine_characters:
  "length v = 29 \<Longrightarrow> \<exists>x. v = [x 0, x 1, x 2, x 3, x 4, x 5, x 6, x 7, x 8, x 9, x 10, x 11, x 12, x 13, x 14, x 15, x 16,
     x 17, x 18, x 19, x 20, x 21, x 22, x 23, x 24, x 25, x 26, x 27, x (28 :: nat)]"
proof (rule exI [of _ "nth v"])
  assume "length v = 29"
  then have "v = map (nth v) [0..<29]" by (metis map_nth)
  moreover have "[0..<29] = [0, 1, 2, 3, 4, 5, 6, 7, 8, 9, 10, 11, 12, 13, 14, 15, 16, 17, 18, 19, 20, 21, 22, 23, 24, 25, 26, 27, 28 :: nat]"
    by code_simp
  ultimately show "v = [v ! 0, v ! 1, v ! 2, v ! 3, v ! 4, v ! 5, v ! 6, v ! 7, v ! 8, v ! 9, v ! 10, v ! 11, v ! 12, v ! 13,
     v ! 14, v ! 15, v ! 16, v ! 17, v ! 18, v ! 19, v ! 20, v ! 21, v ! 22, v ! 23, v ! 24, v ! 25, v ! 26, v ! 27, v ! 28]"
    by (simp only: list.map)
qed

lemma parsed_imf_text:
  assumes "parse_imf_fixdate v = Some s"
  shows "\<exists>w y m d hh mm ss. valid_moment w y m d hh mm ss \<and> v = imf_text w y m d hh mm ss
    \<and> s = civil_days (y, m, d) * 86400 + int (hh * 3600 + mm * 60 + ss)"
proof -
  have len: "length v = 29" using assms by (auto simp: parse_imf_fixdate_def split: if_splits)
  obtain x where v: "v = [x 0, x 1, x 2, x 3, x 4, x 5, x 6, x 7, x 8, x 9, x 10, x 11, x 12, x 13, x 14, x 15, x 16,
     x 17, x 18, x 19, x 20, x 21, x 22, x 23, x 24, x 25, x 26, x 27, x (28 :: nat)]"
    using twenty_nine_characters [OF len] by blast
  have seps: "x 3 = CHR '',''" "x 4 = CHR '' ''" "x 7 = CHR '' ''" "x 11 = CHR '' ''" "x 16 = CHR '' ''"
    "x 19 = CHR '':''" "x 22 = CHR '':''" "x 25 = CHR '' ''" "x 26 = CHR ''G''" "x 27 = CHR ''M''" "x 28 = CHR ''T''"
    using assms unfolding v by (simp_all add: parse_imf_fixdate_def split: if_splits)
  obtain w d m y hh mm ss where parts:
    "name_position weekday_names [x 0, x 1, x 2] = Some w" "parse_decimal [x 5, x 6] = Some d"
    "name_position month_names [x 8, x 9, x 10] = Some m" "parse_decimal [x 12, x 13, x 14, x 15] = Some y"
    "parse_decimal [x 17, x 18] = Some hh" "parse_decimal [x 20, x 21] = Some mm" "parse_decimal [x 23, x 24] = Some ss"
    "imf_seconds w y (m + 1) d hh mm ss = Some s"
    using assms unfolding v
    by (simp add: parse_imf_fixdate_def slice_def seps bind_eq_Some_conv split: if_splits) blast
  have bounds: "y < 10000" "1 \<le> m + 1" "m + 1 \<le> 12"
    using decimal_year_text [OF parts(4)] name_position_Some [OF parts(3)] by (simp_all add: names_distinct)
  have "valid_moment w y (m + 1) d hh mm ss" "s = civil_days (y, m + 1, d) * 86400 + int (hh * 3600 + mm * 60 + ss)"
    using parts(8) imf_seconds_eq [OF bounds] by (simp_all split: if_splits)
  moreover have "v = imf_text w y (m + 1) d hh mm ss"
    using name_position_Some [OF parts(1)] name_position_Some [OF parts(3)] decimal_pair_text [OF parts(2)]
      decimal_year_text [OF parts(4)] decimal_pair_text [OF parts(5)] decimal_pair_text [OF parts(6)]
      decimal_pair_text [OF parts(7)]
    unfolding v imf_text_def by (simp add: seps)
  ultimately show ?thesis by blast
qed

subsection \<open>Decoded responses\<close>

lemma hex_digit_lower:
  assumes "n < 16"
  shows "is_ascii_hexdigit (hex_digit n)" "\<not> is_ascii_uppercase (hex_digit n)"
proof -
  have "(of_char (hex_digit n) :: nat) = (if n < 10 then 48 + n else 87 + n)"
    using assms by (simp add: hex_digit_def of_char_of take_bit_nat_eq_self_iff)
  then show "is_ascii_hexdigit (hex_digit n)" "\<not> is_ascii_uppercase (hex_digit n)"
    using assms by (auto simp: is_ascii_hexdigit_def is_ascii_digit_def is_ascii_uppercase_def)
qed

lemma sha256_hex_valid:
  assumes "length (H b) = 32"
  shows "open_hash_try_from (sha256_hex H b) = Some (sha256_hex H b)"
proof -
  have byte: "list_all is_ascii_hexdigit (hex_byte w) \<and> \<not> list_ex is_ascii_uppercase (hex_byte w)" for w
  proof -
    have "unat w < 256" using unsigned_less [of w, where ?'a = nat] by simp
    then have "unat w div 16 < 16" "unat w mod 16 < 16" by auto
    then show ?thesis by (simp add: hex_byte_def hex_digit_lower)
  qed
  have "length (concat (map hex_byte ws)) = 2 * length ws" for ws
    by (induction ws) (simp_all add: hex_byte_def)
  moreover have "list_all is_ascii_hexdigit (concat (map hex_byte ws)) \<and> \<not> list_ex is_ascii_uppercase (concat (map hex_byte ws))" for ws
    by (induction ws) (use byte in auto)
  ultimately show ?thesis
    using assms by (simp add: open_hash_try_from_def sha256_hex_def SHA256_HEX_BYTES_def)
qed

definition index_text :: "string \<Rightarrow> bool" where
  "index_text t \<longleftrightarrow> length t = 5 \<and> (\<forall>b \<in> set t. is_ascii_digit b)"

lemma section_index_try_from_iff:
  "section_index_try_from t = Inr i \<longleftrightarrow> index_text t \<and> i = SectionIndex t"
  using validate_section_index_iff [of t]
  by (auto simp: section_index_try_from_def validated_def index_text_def split: sum.splits)

lemma collect_indexes_texts:
  "list_all index_text ts \<Longrightarrow> collect_indexes p u (map JsonString ts) = Inr (fold bs_insert (map SectionIndex ts) u)"
proof (induction ts arbitrary: p u)
  case (Cons t ts)
  then have "section_index_try_from t = Inr (SectionIndex t)"
    by (simp add: section_index_try_from_iff)
  then show ?case using Cons by simp
qed simp

lemma collect_indexes_only_texts:
  "collect_indexes p u vs = Inr u' \<Longrightarrow> \<exists>ts. vs = map JsonString ts \<and> list_all index_text ts"
proof (induction vs arbitrary: p u)
  case (Cons v vs)
  from Cons.prems obtain t i where t: "v = JsonString t" "section_index_try_from t = Inr i"
    and rest: "collect_indexes (p + 1) (bs_insert i u) vs = Inr u'"
    by (auto split: json_value.splits sum.splits)
  obtain ts where "vs = map JsonString ts" "list_all index_text ts"
    using Cons.IH [OF rest] by blast
  then show ?case
    using t by (intro exI [of _ "t # ts"]) (simp add: section_index_try_from_iff)
qed simp

lemma bs_of_list_keys: "set (bm_keys (bs_of_list xs)) = set xs" "bm_len (bs_of_list xs) = card (set xs)"
proof -
  have "set (bm_keys (fold bs_insert xs u)) = set xs \<union> set (bm_keys u)" for u :: "'a::linorder bset"
    by (induction xs arbitrary: u) (auto simp: bs_insert_def)
  from this [of bm_empty] show keys: "set (bm_keys (bs_of_list xs)) = set xs"
    by (simp add: bs_of_list_def set_bm_keys bm_get_empty)
  show "bm_len (bs_of_list xs) = card (set xs)"
    using distinct_card [OF bm_keys_distinct [of "bs_of_list xs"]] keys by simp
qed

lemma card_index_texts: "bm_len (bs_of_list (map SectionIndex ts)) = card (set ts)"
proof -
  have "card (SectionIndex ` set ts) = card (set ts)"
    by (rule card_image) (auto intro: inj_onI)
  then show ?thesis by (simp add: bs_of_list_keys)
qed

lemma decode_texts:
  assumes "hl_json_from_slice L body = Some (JsonArray (map JsonString ts))" "list_all index_text ts"
  shows "decode_open_array L body
    = Inr (length ts, length ts - card (set ts), bm_keys (bs_of_list (map SectionIndex ts)))"
  using assms collect_indexes_texts [OF assms(2), of 0 bm_empty]
  by (simp add: decode_open_array_def card_index_texts bs_of_list_def [symmetric])

lemma decode_only_texts:
  assumes "decode_open_array L body = Inr x"
  shows "\<exists>ts. hl_json_from_slice L body = Some (JsonArray (map JsonString ts)) \<and> list_all index_text ts"
proof -
  obtain vs u where "hl_json_from_slice L body = Some (JsonArray vs)" "collect_indexes 0 bm_empty vs = Inr u"
    using assms by (auto simp: decode_open_array_def split: option.splits json_value.splits sum.splits)
  then show ?thesis
    using collect_indexes_only_texts by blast
qed

lemma read_body_chunks:
  assumes "limit < 2 ^ 64" "length start + length (concat cs) \<le> limit"
  shows "read_body limit start (map Inr cs) = Inr (start @ concat cs)"
  using assms(2)
proof (induction cs arbitrary: start)
  case (Cons c cs)
  then show ?case using assms(1) by (simp add: Let_def)
qed simp

lemma read_body_only_chunks:
  assumes "read_body limit start chunks = Inr body" "length start \<le> limit"
  shows "\<exists>cs. chunks = map Inr cs \<and> body = start @ concat cs \<and> length body \<le> limit"
  using assms
proof (induction limit start chunks rule: read_body.induct)
  case (3 limit start chunk rest)
  then have "\<not> 2 ^ 64 \<le> length start + length chunk" "\<not> limit < length start + length chunk"
    "read_body limit (start @ chunk) rest = Inr body"
    by (auto simp: Let_def split: if_splits)
  moreover from this obtain cs where "rest = map Inr cs" "body = (start @ chunk) @ concat cs" "length body \<le> limit"
    using 3(1) by auto
  ultimately show ?case
    by (intro exI [of _ "chunk # cs"]) simp
qed simp_all

text \<open>A response the client accepts: success status, JSON content type, an announced length within
  the limit, a body of at most the limit that arrives whole, and an array of section indexes.\<close>

definition acceptable :: "'u http_lib \<Rightarrow> nat \<Rightarrow> 'u http_response \<Rightarrow> string list \<Rightarrow> string list \<Rightarrow> bool" where
  "acceptable L limit r cs ts \<longleftrightarrow> hl_is_success L (hr_status r) \<and> json_content_type (hr_headers r) \<noteq> None
     \<and> (\<forall>len. Option.bind (header_text (hr_headers r) ''content-length'') parse_u64 = Some len \<longrightarrow> unat len \<le> limit)
     \<and> hr_chunks r = map Inr cs \<and> length (concat cs) \<le> limit
     \<and> hl_json_from_slice L (concat cs) = Some (JsonArray (map JsonString ts)) \<and> list_all index_text ts"

definition canonical_response :: "term_campus_key \<Rightarrow> string list \<Rightarrow> string list \<Rightarrow> open_sections_response \<Rightarrow> bool" where
  "canonical_response target cs ts resp \<longleftrightarrow> or_target resp = target
     \<and> sorted_wrt (<) (or_open_indexes resp) \<and> set (or_open_indexes resp) = SectionIndex ` set ts
     \<and> (or_classification resp = PayloadEmpty \<longleftrightarrow> ts = [])
     \<and> om_raw_value_count (or_metadata resp) = length ts
     \<and> om_unique_value_count (or_metadata resp) = card (set ts)
     \<and> om_duplicate_value_count (or_metadata resp) = length ts - card (set ts)
     \<and> om_decoded_bytes (or_metadata resp) = length (concat cs)"

lemma decode_response_cases:
  assumes H: "\<And>b. length (hl_digest L b) = 32" and limit: "limit < 2 ^ 64"
  shows "acceptable L limit r cs ts \<Longrightarrow> \<exists>resp. decode_response L limit target r = Some (Inr resp)
      \<and> canonical_response target cs ts resp"
    "decode_response L limit target r = Some (Inr resp) \<Longrightarrow> \<exists>cs ts. acceptable L limit r cs ts"
    "decode_response L limit target r \<noteq> None"
proof -
  have hash: "canonical_open_set_sha256 (hl_digest L) is \<noteq> None" for "is"
    using sha256_hex_valid [OF H] by (simp add: canonical_open_set_sha256_def)
  then show "decode_response L limit target r \<noteq> None"
    by (auto simp: decode_response_def Let_def split: option.splits sum.splits)
  {
    assume acc: "acceptable L limit r cs ts"
    have body: "read_body limit [] (hr_chunks r) = Inr (concat cs)"
      using acc read_body_chunks [OF limit, of "[]" cs] by (simp add: acceptable_def)
    have arr: "decode_open_array L (concat cs)
        = Inr (length ts, length ts - card (set ts), bm_keys (bs_of_list (map SectionIndex ts)))"
      using acc decode_texts by (auto simp: acceptable_def)
    obtain h where h: "canonical_open_set_sha256 (hl_digest L) (bm_keys (bs_of_list (map SectionIndex ts))) = Some h"
      using hash by blast
    have empty: "bm_keys (bs_of_list (map SectionIndex ts)) = [] \<longleftrightarrow> ts = []"
      using bs_of_list_keys(1) [of "map SectionIndex ts"] by (metis map_is_Nil_conv set_empty)
    obtain ct where ct: "json_content_type (hr_headers r) = Some ct"
      using acc by (auto simp: acceptable_def)
    have len: "\<not> (case Option.bind (header_text (hr_headers r) ''content-length'') parse_u64 of
        None \<Rightarrow> False | Some len \<Rightarrow> unat len > limit)"
      using acc by (auto simp: acceptable_def not_less split: option.splits)
    show "\<exists>resp. decode_response L limit target r = Some (Inr resp) \<and> canonical_response target cs ts resp"
      using acc len unfolding decode_response_def Let_def ct body
      by (simp add: acceptable_def arr h canonical_response_def bm_keys_sorted bs_of_list_keys(1) card_index_texts empty)
  }
  {
    assume dec: "decode_response L limit target r = Some (Inr resp)"
    have ok: "hl_is_success L (hr_status r)" "json_content_type (hr_headers r) \<noteq> None"
      "\<not> (case Option.bind (header_text (hr_headers r) ''content-length'') parse_u64 of
        None \<Rightarrow> False | Some len \<Rightarrow> unat len > limit)"
      using dec by (auto simp: decode_response_def Let_def split: if_splits option.splits)
    obtain body x where body: "read_body limit [] (hr_chunks r) = Inr body" "decode_open_array L body = Inr x"
      using dec ok unfolding decode_response_def Let_def by (auto split: option.splits sum.splits)
    obtain cs ts where "hr_chunks r = map Inr cs" "body = concat cs" "length body \<le> limit"
      "hl_json_from_slice L body = Some (JsonArray (map JsonString ts))" "list_all index_text ts"
      using read_body_only_chunks [OF body(1)] decode_only_texts [OF body(2)] by auto
    then show "\<exists>cs ts. acceptable L limit r cs ts"
      using ok by (auto simp: acceptable_def not_less split: option.splits)
  }
qed

subsection \<open>Guarantees\<close>

text \<open>C35. The calendar arithmetic counts days: the first of January 1970 is day 0, and from any date of the
  years from 1 on the next date of the calendar, across months and leap years, is one day later.\<close>
theorem civil_days_count:
  "civil_days (1970, 1, 1) = 0
   \<and> (\<forall>y m d. 1 \<le> y \<and> 1 \<le> m \<and> m \<le> 12 \<and> 1 \<le> d \<and> d \<le> days_in_month y m
        \<longrightarrow> civil_days (next_date y m d) = civil_days (y, m, d) + 1)"
  using next_date_counts by (simp add: civil_days_def days_from_civil_def trunc_div_def)

theorem civil_days_count_witness:
  "civil_days (next_date 2024 2 29) = civil_days (2024, 2, 29) + 1 \<and> next_date 2024 2 29 = (2024, 3, 1)"
proof
  have "29 \<le> days_in_month 2024 2" by (simp add: days_in_month_def)
  then show "civil_days (next_date 2024 2 29) = civil_days (2024, 2, 29) + 1"
    using civil_days_count by auto
  show "next_date 2024 2 29 = (2024, 3, 1)"
    by (simp add: next_date_def days_in_month_def)
qed

text \<open>C34. A \<open>Retry-After\<close> date is accepted exactly when it is the IMF-fixdate form of a moment of the years 1601
  to 9999 with its true weekday, and it denotes that moment in seconds since the Unix epoch.\<close>
theorem imf_date_roundtrip:
  "parse_imf_fixdate v = Some s \<longleftrightarrow>
     (\<exists>w y m d hh mm ss. valid_moment w y m d hh mm ss \<and> v = imf_text w y m d hh mm ss
        \<and> s = civil_days (y, m, d) * 86400 + int (hh * 3600 + mm * 60 + ss))"
proof
  assume "\<exists>w y m d hh mm ss. valid_moment w y m d hh mm ss \<and> v = imf_text w y m d hh mm ss
        \<and> s = civil_days (y, m, d) * 86400 + int (hh * 3600 + mm * 60 + ss)"
  then show "parse_imf_fixdate v = Some s"
    by (elim exE conjE) (simp only: imf_text_parses)
qed (rule parsed_imf_text)

text \<open>C33. Decoding never panics when the digest has the 32 bytes of SHA-256.  It accepts exactly the responses with
  a success status, a JSON content type, a body within the limit that arrives whole, and an array of
  five-digit indexes; the response it returns holds those indexes sorted, without duplicates, with the
  counts of what was sent.\<close>
theorem decode_exact:
  assumes "\<And>b. length (hl_digest L b) = 32" "limit < 2 ^ 64"
  shows "decode_response L limit target r \<noteq> None
    \<and> (\<forall>cs ts. acceptable L limit r cs ts \<longrightarrow>
         (\<exists>resp. decode_response L limit target r = Some (Inr resp) \<and> canonical_response target cs ts resp))
    \<and> (\<forall>resp. decode_response L limit target r = Some (Inr resp) \<longrightarrow> (\<exists>cs ts. acceptable L limit r cs ts))"
  using decode_response_cases [OF assms] by blast

definition sample_batch :: term_campus_key where
  "sample_batch = TermCampusKey (TermId ''92026'') (CampusCode ''NB'')"

definition sample_lib :: "string http_lib" where
  "sample_lib = \<lparr>hl_is_success = (\<lambda>s. s = 200), hl_is_server_error = (\<lambda>s. s = 500), hl_is_redirection = (\<lambda>s. s = 302),
     hl_is_client_error = (\<lambda>s. s = 404), hl_scheme = (\<lambda>u. ''https''), hl_host_str = Some,
     hl_port_or_known_default = (\<lambda>u. Some 443), hl_join = (\<lambda>u v. Some v),
     hl_json_from_slice = (\<lambda>b. if b = ''[]'' then Some (JsonArray []) else None), hl_digest = (\<lambda>b. replicate 32 0)\<rparr>"

definition sample_response :: "string http_response" where
  "sample_response = \<lparr>hr_status = 200, hr_url = ''u'',
     hr_headers = [(''content-type'', Some ''application/json; charset=utf-8'')], hr_chunks = [Inr ''['', Inr '']'']\<rparr>"

lemma sample_acceptable: "acceptable sample_lib 100 sample_response [''['', '']''] []"
  by (simp add: acceptable_def sample_lib_def sample_response_def json_content_type_def header_text_def
      header_get_all_def media_type_def trim_ascii_def is_ascii_space_def eq_ignore_ascii_case_def)

theorem decode_exact_witness:
  "\<exists>resp. decode_response sample_lib 100 sample_batch sample_response = Some (Inr resp)
     \<and> or_classification resp = PayloadEmpty"
proof -
  have H: "length (hl_digest sample_lib b) = 32" for b by (simp add: sample_lib_def)
  obtain resp where "decode_response sample_lib 100 sample_batch sample_response = Some (Inr resp)"
    "canonical_response sample_batch [''['', '']''] [] resp"
    using decode_exact [of sample_lib 100 sample_batch sample_response, OF H] sample_acceptable by (simp del: concat.simps) blast
  then show ?thesis
    by (auto simp: canonical_response_def)
qed

end
