(* ===== verification/Open_Tables.thy ===== *)
theory Open_Tables
  imports Open_Client
begin

text \<open>
  The open half of the operational database
  (\<open>crates/bcsp-operational-storage/src/open.rs\<close>, tables of \<open>migration_bundle.rs\<close>): the
  commands and results of its operations, the tables, and the checks on values that enter them.

  \<^item> An \<open>INTEGER\<close> column is an \<open>int\<close> in the signed 64-bit range; conversions to and from \<open>u64\<close> fail as
    in the code.
  \<^item> A \<open>TEXT\<close> column holding an identifier or an enumeration is the value whose text the code
    writes there; target identifiers stay texts.
  \<^item> The \<open>time\<close>, \<open>uuid\<close>, \<open>jiff\<close> and \<open>sha2\<close> functions the code calls are the fields of \<open>open_lib\<close>.
  \<^item> An error keeps the field it names and not its fixed explanatory text.
\<close>

subsection \<open>Libraries and errors\<close>

record open_lib =
  ol_digest :: digest
  ol_trace_text :: "trace_id \<Rightarrow> string"
  ol_parse_trace :: "string \<Rightarrow> trace_id option"
  ol_parse_rfc3339 :: "string \<Rightarrow> offset_date_time option"
  ol_format_rfc3339 :: "offset_date_time \<Rightarrow> string option"
  ol_calendar_date :: "nat \<Rightarrow> nat \<Rightarrow> nat \<Rightarrow> bool"
  ol_new_york_day :: "offset_date_time \<Rightarrow> string option"
  ol_checked_add :: date_time_add

datatype storage_error =
    StSqlite | StIdentity identity_error | StCatalogTargetNotPublished
  | StCatalogContentVersionMismatch (mismatch_requested: u64) (mismatch_current: u64)
  | StInvalidCommand (command_field: string) | StObservationNotStaged trace_id
  | StOpenAttemptNotFound trace_id | StOpenAttemptNotStarted trace_id | StOpenTargetInFlight trace_id
  | StOpenAttemptSuperseded trace_id | StInvalidStoredProjection string string | StStoredIntegerOutOfRange

text \<open>The \<open>?\<close> operator on a \<open>Result\<close>, and its use on a condition.\<close>

definition and_then :: "'e + 'a \<Rightarrow> ('a \<Rightarrow> 'e + 'b) \<Rightarrow> 'e + 'b" where
  "and_then r f = (case r of Inl e \<Rightarrow> Inl e | Inr x \<Rightarrow> f x)"

definition ensure :: "bool \<Rightarrow> 'e \<Rightarrow> 'e + unit" where
  "ensure b e = (if b then Inr () else Inl e)"

definition map_err :: "('d \<Rightarrow> 'e) \<Rightarrow> 'd + 'a \<Rightarrow> 'e + 'a" where
  "map_err g r = (case r of Inl e \<Rightarrow> Inl (g e) | Inr x \<Rightarrow> Inr x)"

definition ok_or :: "'e \<Rightarrow> 'a option \<Rightarrow> 'e + 'a" where
  "ok_or e v = (case v of None \<Rightarrow> Inl e | Some x \<Rightarrow> Inr x)"

text \<open>\<open>Option<Result>::transpose\<close>, and collecting an iterator of results.\<close>

definition transpose_opt :: "('a \<Rightarrow> 'e + 'b) \<Rightarrow> 'a option \<Rightarrow> 'e + 'b option" where
  "transpose_opt f v = (case v of None \<Rightarrow> Inr None | Some x \<Rightarrow> (case f x of Inl e \<Rightarrow> Inl e | Inr y \<Rightarrow> Inr (Some y)))"

fun try_map :: "('a \<Rightarrow> 'e + 'b) \<Rightarrow> 'a list \<Rightarrow> 'e + 'b list" where
  "try_map f [] = Inr []"
| "try_map f (x # xs) =
     (case f x of Inl e \<Rightarrow> Inl e | Inr y \<Rightarrow> (case try_map f xs of Inl e \<Rightarrow> Inl e | Inr ys \<Rightarrow> Inr (y # ys)))"

fun try_fold :: "('a \<Rightarrow> 's \<Rightarrow> 'e + 's) \<Rightarrow> 'a list \<Rightarrow> 's \<Rightarrow> 'e + 's" where
  "try_fold f [] s = Inr s"
| "try_fold f (x # xs) s = (case f x s of Inl e \<Rightarrow> Inl e | Inr t \<Rightarrow> try_fold f xs t)"

subsection \<open>Enumerations\<close>

datatype open_attempt_classification =
    AcStarted | AcValidApplied | AcValidEmptyNoRows | AcFailed | AcUnsafeEmpty
  | AcUnsafeZeroIntersection | AcSuspectPartialSnapshot | AcStaleCatalogRace | AcInterrupted

fun attempt_classification_as_str :: "open_attempt_classification \<Rightarrow> string" where
  "attempt_classification_as_str AcStarted = ''STARTED''"
| "attempt_classification_as_str AcValidApplied = ''VALID_APPLIED''"
| "attempt_classification_as_str AcValidEmptyNoRows = ''VALID_EMPTY_NO_ROWS''"
| "attempt_classification_as_str AcFailed = ''FAILED''"
| "attempt_classification_as_str AcUnsafeEmpty = ''UNSAFE_EMPTY''"
| "attempt_classification_as_str AcUnsafeZeroIntersection = ''UNSAFE_ZERO_INTERSECTION''"
| "attempt_classification_as_str AcSuspectPartialSnapshot = ''SUSPECT_PARTIAL_SNAPSHOT''"
| "attempt_classification_as_str AcStaleCatalogRace = ''STALE_CATALOG_RACE''"
| "attempt_classification_as_str AcInterrupted = ''INTERRUPTED''"

definition invalid_stored :: "string \<Rightarrow> string \<Rightarrow> storage_error" where
  "invalid_stored table fld = StInvalidStoredProjection table fld"

definition attempt_classification_parse :: "string \<Rightarrow> storage_error + open_attempt_classification" where
  "attempt_classification_parse v =
     (if v = ''STARTED'' then Inr AcStarted
      else if v = ''VALID_APPLIED'' then Inr AcValidApplied
      else if v = ''VALID_EMPTY_NO_ROWS'' then Inr AcValidEmptyNoRows
      else if v = ''FAILED'' then Inr AcFailed
      else if v = ''UNSAFE_EMPTY'' then Inr AcUnsafeEmpty
      else if v = ''UNSAFE_ZERO_INTERSECTION'' then Inr AcUnsafeZeroIntersection
      else if v = ''SUSPECT_PARTIAL_SNAPSHOT'' then Inr AcSuspectPartialSnapshot
      else if v = ''STALE_CATALOG_RACE'' then Inr AcStaleCatalogRace
      else if v = ''INTERRUPTED'' then Inr AcInterrupted
      else Inl (invalid_stored ''open_pull_attempts'' ''classification''))"

definition is_success :: "open_attempt_classification \<Rightarrow> bool" where
  "is_success c \<longleftrightarrow> c = AcValidApplied \<or> c = AcValidEmptyNoRows"

datatype open_request_lane = RlGeneral | RlActiveWatch | RlFirstLoad | RlManualRefresh | RlCatalogRaceRecheck

datatype open_cache_status = NotApplicable | CacheHit | CacheMiss | CacheRevalidated | CacheBypass

datatype open_section_state = SectionOpen | SectionClosed

fun section_state_as_str :: "open_section_state \<Rightarrow> string" where
  "section_state_as_str SectionOpen = ''OPEN''"
| "section_state_as_str SectionClosed = ''CLOSED''"

subsection \<open>Commands and results\<close>

record begin_open_pull_attempt_command =
  bc_attempt_id :: trace_id
  bc_run_id :: trace_id
  bc_target :: term_campus_key
  bc_captured_catalog_content_version :: u64
  bc_rutgers_day :: string
  bc_started_at :: string
  bc_lane :: open_request_lane
  bc_requested_interval_seconds :: "u64 option"
  bc_effective_interval_seconds :: "u64 option"
  bc_schedule_lag_ms :: "u64 option"

record open_http_audit_metadata =
  ha_http_status :: "u16 option"
  ha_cache_status :: "open_cache_status option"
  ha_decoded_bytes :: "u64 option"
  ha_decoded_body_sha256 :: "string option"
  ha_content_type :: "string option"
  ha_etag :: "string option"
  ha_cache_control :: "string option"
  ha_date :: "string option"
  ha_age_seconds :: "u64 option"
  ha_last_modified :: "string option"
  ha_retry_after :: "string option"
  ha_retry_after_seconds :: "u64 option"

record finish_open_pull_success_command =
  sc_attempt_id :: trace_id
  sc_completed_at :: string
  sc_open_sections :: "section_key list"
  sc_source_value_count :: u64
  sc_watched_sections :: "section_key list"
  sc_http :: open_http_audit_metadata
  sc_gate_hold :: bool
  sc_gate_catalog_set_identity :: "string option"

record finish_open_pull_failure_command =
  fc_attempt_id :: trace_id
  fc_completed_at :: string
  fc_http :: open_http_audit_metadata
  fc_error_code :: string
  fc_diagnostic_token :: "string option"

record open_attempt_counters =
  oac_attempted :: u64
  oac_succeeded :: u64
  oac_failed :: u64
  oac_empty :: u64

record open_section_event =
  se_event_id :: u64
  se_observation_id :: trace_id
  se_refresh_observation_id :: trace_id
  se_attempt_id :: trace_id
  se_section :: section_key
  se_state :: open_section_state
  se_catalog_content_version :: u64
  se_observation_sequence :: u64
  se_observed_at :: string

record open_observation_commit =
  oo_rutgers_day :: string
  oo_effective_interval_seconds :: u64
  oo_run_counts :: open_attempt_counters
  oo_target_day_counts :: open_attempt_counters
  oo_service_day_counts :: open_attempt_counters
  oo_section_events :: "open_section_event list"

record open_commit_outcome =
  co_attempt_id :: trace_id
  co_attempt_sequence :: u64
  co_classification :: open_attempt_classification
  co_refresh_observation_id :: "trace_id option"
  co_observation_sequence :: "u64 option"
  co_catalog_content_version :: u64
  co_source_value_count :: u64
  co_catalog_section_count :: u64
  co_intersection_count :: u64
  co_orphan_count :: u64
  co_duplicate_count :: u64
  co_changed_section_count :: u64
  co_body_changed :: bool
  co_state_changed :: bool
  co_retained_lkg_attempt_id :: "trace_id option"
  co_observation_commit :: "open_observation_commit option"

record open_gate_attempt_summary =
  gs_classification :: open_attempt_classification
  gs_canonical_set_sha256 :: "string option"
  gs_completed_at :: "string option"
  gs_catalog_set_identity :: "string option"

record open_catalog_snapshot =
  cat_target :: term_campus_key
  cat_content_version :: u64
  cat_sections :: "section_key list"

record catalog_candidate_open_snapshot =
  cand_observation_id :: trace_id
  cand_base_content_version :: u64
  cand_catalog :: open_catalog_snapshot

record open_retention_report =
  rr_attempts_removed :: u64
  rr_batch_observations_removed :: u64
  rr_section_events_removed :: u64

subsection \<open>Tables\<close>

record catalog_target_row =
  ct_term_id :: string
  ct_campus_code :: string
  ct_current_content_version :: int
  ct_section_count :: int

record open_batch_state_row =
  ob_last_attempt_sequence :: int
  ob_last_observation_sequence :: int
  ob_current_catalog_content_version :: int
  ob_lkg_attempt_id :: "trace_id option"
  ob_lkg_observation_sequence :: "int option"
  ob_lkg_observed_at :: "string option"
  ob_lkg_canonical_set_sha256 :: "string option"
  ob_lkg_state_sha256 :: "string option"
  ob_last_attempt_id :: "trace_id option"
  ob_last_attempt_at :: "string option"
  ob_last_success_at :: "string option"
  ob_last_failure_attempt_sequence :: "int option"
  ob_last_failure_at :: "string option"
  ob_last_failure_error_code :: "string option"
  ob_last_failure_http_status :: "int option"
  ob_last_body_change_at :: "string option"
  ob_last_state_change_at :: "string option"
  ob_requested_interval_seconds :: "int option"
  ob_effective_interval_seconds :: "int option"
  ob_last_schedule_lag_ms :: "int option"

text \<open>The twelve columns that hold an \<open>OpenHttpAuditMetadata\<close>, and the five that count a response.\<close>

record http_columns =
  hc_http_status :: "int option"
  hc_cache_status :: "open_cache_status option"
  hc_decoded_bytes :: "int option"
  hc_decoded_body_sha256 :: "string option"
  hc_content_type :: "string option"
  hc_etag :: "string option"
  hc_cache_control :: "string option"
  hc_response_date :: "string option"
  hc_age_seconds :: "int option"
  hc_last_modified :: "string option"
  hc_retry_after :: "string option"
  hc_retry_after_seconds :: "int option"

record count_columns =
  cc_source_value_count :: int
  cc_catalog_section_count :: int
  cc_intersection_count :: int
  cc_orphan_count :: int
  cc_duplicate_count :: int

record open_pull_attempt_row =
  at_target_id :: string
  at_run_id :: trace_id
  at_attempt_sequence :: int
  at_rutgers_day :: string
  at_captured_catalog_content_version :: int
  at_started_at :: string
  at_completed_at :: "string option"
  at_classification :: open_attempt_classification
  at_lane :: open_request_lane
  at_http :: http_columns
  at_canonical_set_sha256 :: "string option"
  at_state_sha256 :: "string option"
  at_counts :: count_columns
  at_requested_interval_seconds :: "int option"
  at_effective_interval_seconds :: "int option"
  at_schedule_lag_ms :: "int option"
  at_lkg_age_ms :: "int option"
  at_error_code :: "string option"
  at_diagnostic_token :: "string option"
  at_candidate_catalog_observation_id :: "trace_id option"
  at_candidate_base_content_version :: "int option"
  at_gate_catalog_set_identity :: "string option"

record open_batch_observation_row =
  bo_observation_id :: trace_id
  bo_target_id :: string
  bo_observation_sequence :: int
  bo_catalog_content_version :: int
  bo_observed_at :: string
  bo_classification :: open_attempt_classification
  bo_http :: http_columns
  bo_canonical_set_sha256 :: string
  bo_state_sha256 :: string
  bo_counts :: count_columns
  bo_changed_section_count :: int
  bo_body_changed :: bool
  bo_state_changed :: bool

record open_section_current_row =
  oc_state :: open_section_state
  oc_catalog_content_version :: int
  oc_attempt_id :: trace_id
  oc_observation_sequence :: int
  oc_observed_at :: string

record open_section_event_row =
  ev_observation_id :: trace_id
  ev_refresh_observation_id :: trace_id
  ev_attempt_id :: trace_id
  ev_target_id :: string
  ev_section_index :: string
  ev_state :: open_section_state
  ev_catalog_content_version :: int
  ev_observation_sequence :: int
  ev_observed_at :: string

record counter_row =
  cn_attempted :: int
  cn_succeeded :: int
  cn_failed :: int
  cn_empty :: int

text \<open>
  A table is a map from its primary key to the rest of the row.  \<open>open_attempt_catalog_sections\<close> and the
  catalog sections are grouped by the first column of their key, an absent group being an empty one.
  Of the catalog refresh observations only the target and whether the status is \<open>STAGED\<close> are kept.
  \<open>db_event_sequence\<close> is the \<open>AUTOINCREMENT\<close> counter of \<open>open_section_events\<close>.
\<close>

record open_db =
  db_catalog_targets :: "(string, catalog_target_row) bmap"
  db_catalog_sections :: "(string, (string, int) bmap) bmap"
  db_refresh_observations :: "(trace_id, string \<times> bool) bmap"
  db_staging_sections :: "(trace_id, string bset) bmap"
  db_batch_state :: "(string, open_batch_state_row) bmap"
  db_attempts :: "(trace_id, open_pull_attempt_row) bmap"
  db_attempt_sections :: "(trace_id, string bset) bmap"
  db_observations :: "(trace_id, open_batch_observation_row) bmap"
  db_section_current :: "(string, (string, open_section_current_row) bmap) bmap"
  db_section_events :: "(int, open_section_event_row) bmap"
  db_event_sequence :: int
  db_daily_counters :: "(string \<times> string, counter_row) bmap"
  db_run_counters :: "(trace_id \<times> string, counter_row) bmap"

subsection \<open>Stored integers\<close>

definition u64_to_i64 :: "u64 \<Rightarrow> storage_error + int" where
  "u64_to_i64 v = (if uint v \<le> I64_MAX then Inr (uint v) else Inl StStoredIntegerOutOfRange)"

definition stored_u64 :: "int \<Rightarrow> storage_error + u64" where
  "stored_u64 v = (if 0 \<le> v then Inr (word_of_int v) else Inl StStoredIntegerOutOfRange)"

definition stored_u16 :: "int \<Rightarrow> storage_error + u16" where
  "stored_u16 v = (if 0 \<le> v \<and> v < 65536 then Inr (word_of_int v) else Inl StStoredIntegerOutOfRange)"

definition positive_u64_to_i64 :: "string \<Rightarrow> u64 \<Rightarrow> storage_error + int" where
  "positive_u64_to_i64 fld v = (if v = 0 then Inl (StInvalidCommand fld) else u64_to_i64 v)"

definition validate_optional_positive :: "string \<Rightarrow> u64 option \<Rightarrow> storage_error + unit" where
  "validate_optional_positive fld v = ensure (v \<noteq> Some 0) (StInvalidCommand fld)"

text \<open>SQL \<open>n + d\<close> on an integer column: a sum outside the 64-bit range is no integer and is refused.\<close>

definition sql_add :: "int \<Rightarrow> int \<Rightarrow> storage_error + int" where
  "sql_add n d = (if n + d \<le> I64_MAX then Inr (n + d) else Inl StSqlite)"

subsection \<open>Validation\<close>

definition validate_timestamp :: "open_lib \<Rightarrow> string \<Rightarrow> string \<Rightarrow> storage_error + offset_date_time" where
  "validate_timestamp L fld v = ok_or (StInvalidCommand fld) (ol_parse_rfc3339 L v)"

definition validate_timestamp_order :: "open_lib \<Rightarrow> string \<Rightarrow> string \<Rightarrow> storage_error + unit" where
  "validate_timestamp_order L started_at completed_at =
     and_then (validate_timestamp L ''started_at'' started_at) (\<lambda>started.
     and_then (validate_timestamp L ''completed_at'' completed_at) (\<lambda>completed.
       ensure (started \<le> completed) (StInvalidCommand ''completed_at'')))"

text \<open>\<open>time::Duration::whole_milliseconds\<close> truncates towards zero.\<close>

definition whole_milliseconds :: "int \<Rightarrow> int" where
  "whole_milliseconds d = (if 0 \<le> d then d div 1000000 else - ((- d) div 1000000))"

definition elapsed_milliseconds :: "open_lib \<Rightarrow> string \<Rightarrow> string \<Rightarrow> storage_error + u64" where
  "elapsed_milliseconds L earlier later =
     and_then (validate_timestamp L ''lkg_observed_at'' earlier) (\<lambda>earlier.
     and_then (validate_timestamp L ''started_at'' later) (\<lambda>later.
       let elapsed = max 0 (whole_milliseconds (later - earlier)) in
       if elapsed < 2 ^ 64 then Inr (word_of_int elapsed) else Inl StStoredIntegerOutOfRange))"

definition validate_rutgers_day :: "open_lib \<Rightarrow> string \<Rightarrow> storage_error + unit" where
  "validate_rutgers_day L v =
     (if length v \<noteq> 10 \<or> v ! 4 \<noteq> CHR ''-'' \<or> v ! 7 \<noteq> CHR ''-''
         \<or> list_ex (\<lambda>(i, c). i \<noteq> 4 \<and> i \<noteq> 7 \<and> \<not> is_ascii_digit c) (zip [0..<length v] v)
      then Inl (StInvalidCommand ''rutgers_day'')
      else ensure (ol_calendar_date L (parse_digits 0 (slice 0 4 v)) (parse_digits 0 (slice 5 7 v))
                     (parse_digits 0 (slice 8 10 v)))
             (StInvalidCommand ''rutgers_day''))"

definition validate_safe_code :: "string \<Rightarrow> string \<Rightarrow> storage_error + unit" where
  "validate_safe_code fld v =
     ensure (v \<noteq> [] \<and> length v \<le> 64
         \<and> list_all (\<lambda>b. is_ascii_uppercase b \<or> is_ascii_digit b \<or> b = CHR ''_'') v)
       (StInvalidCommand fld)"

definition validate_optional_safe_token :: "string \<Rightarrow> string option \<Rightarrow> storage_error + unit" where
  "validate_optional_safe_token fld v =
     (case v of None \<Rightarrow> Inr ()
      | Some v \<Rightarrow> ensure (v \<noteq> [] \<and> length v \<le> 64
           \<and> list_all (\<lambda>b. is_ascii_alphanumeric b \<or> b \<in> set ''._:-'') v) (StInvalidCommand fld))"

definition validate_optional_http_header :: "string \<times> string option \<Rightarrow> storage_error + unit" where
  "validate_optional_http_header h =
     (case h of (fld, None) \<Rightarrow> Inr ()
      | (fld, Some v) \<Rightarrow> ensure (v \<noteq> [] \<and> length v \<le> 4096
           \<and> list_all (\<lambda>b. of_char b \<noteq> (13 :: nat) \<and> of_char b \<noteq> (10 :: nat)) v) (StInvalidCommand fld))"

definition required :: "string \<Rightarrow> 'a option \<Rightarrow> storage_error + 'a" where
  "required fld v = ok_or (StInvalidCommand fld) v"

definition validate_decoded_sha :: "open_http_audit_metadata \<Rightarrow> storage_error + unit" where
  "validate_decoded_sha m =
     (case ha_decoded_body_sha256 m of None \<Rightarrow> Inr ()
      | Some v \<Rightarrow> ensure (length v = 64 \<and> list_all is_lower_hex v \<and> ha_decoded_bytes m \<noteq> None)
           (StInvalidCommand ''decoded_body_sha256''))"

definition validate_open_http_audit :: "open_http_audit_metadata \<Rightarrow> bool \<Rightarrow> storage_error + unit" where
  "validate_open_http_audit m success_required =
     and_then (ensure (case ha_http_status m of None \<Rightarrow> True | Some s \<Rightarrow> 100 \<le> s \<and> s \<le> 599)
         (StInvalidCommand ''http_status'')) (\<lambda>_.
     and_then (try_map (\<lambda>(fld, v). ensure (case v of None \<Rightarrow> True | Some v \<Rightarrow> uint v \<le> I64_MAX) (StInvalidCommand fld))
         [(''decoded_bytes'', ha_decoded_bytes m), (''age_seconds'', ha_age_seconds m),
          (''retry_after_seconds'', ha_retry_after_seconds m)]) (\<lambda>_.
     and_then (validate_decoded_sha m) (\<lambda>_.
     and_then (try_map validate_optional_http_header
         [(''content_type'', ha_content_type m), (''etag'', ha_etag m), (''cache_control'', ha_cache_control m),
          (''date'', ha_date m), (''last_modified'', ha_last_modified m), (''retry_after'', ha_retry_after m)]) (\<lambda>_.
     if success_required then
       and_then (required ''http_status'' (ha_http_status m)) (\<lambda>status.
       and_then (ensure (200 \<le> status \<and> status \<le> 299) (StInvalidCommand ''http_status'')) (\<lambda>_.
       and_then (required ''decoded_bytes'' (ha_decoded_bytes m)) (\<lambda>_.
       and_then (required ''decoded_body_sha256'' (ha_decoded_body_sha256 m)) (\<lambda>_.
       and_then (required ''content_type'' (ha_content_type m)) (\<lambda>_. Inr ())))))
     else Inr ()))))"

definition http_to_columns :: "open_http_audit_metadata \<Rightarrow> storage_error + http_columns" where
  "http_to_columns m =
     and_then (transpose_opt u64_to_i64 (ha_decoded_bytes m)) (\<lambda>decoded_bytes.
     and_then (transpose_opt u64_to_i64 (ha_age_seconds m)) (\<lambda>age_seconds.
     and_then (transpose_opt u64_to_i64 (ha_retry_after_seconds m)) (\<lambda>retry_after_seconds.
       Inr \<lparr>hc_http_status = map_option uint (ha_http_status m), hc_cache_status = ha_cache_status m,
         hc_decoded_bytes = decoded_bytes, hc_decoded_body_sha256 = ha_decoded_body_sha256 m,
         hc_content_type = ha_content_type m, hc_etag = ha_etag m, hc_cache_control = ha_cache_control m,
         hc_response_date = ha_date m, hc_age_seconds = age_seconds, hc_last_modified = ha_last_modified m,
         hc_retry_after = ha_retry_after m, hc_retry_after_seconds = retry_after_seconds\<rparr>)))"

definition http_from_columns :: "http_columns \<Rightarrow> storage_error + open_http_audit_metadata" where
  "http_from_columns r =
     and_then (transpose_opt stored_u16 (hc_http_status r)) (\<lambda>http_status.
     and_then (transpose_opt stored_u64 (hc_decoded_bytes r)) (\<lambda>decoded_bytes.
     and_then (transpose_opt stored_u64 (hc_age_seconds r)) (\<lambda>age_seconds.
     and_then (transpose_opt stored_u64 (hc_retry_after_seconds r)) (\<lambda>retry_after_seconds.
       Inr \<lparr>ha_http_status = http_status, ha_cache_status = hc_cache_status r,
         ha_decoded_bytes = decoded_bytes, ha_decoded_body_sha256 = hc_decoded_body_sha256 r,
         ha_content_type = hc_content_type r, ha_etag = hc_etag r, ha_cache_control = hc_cache_control r,
         ha_date = hc_response_date r, ha_age_seconds = age_seconds, ha_last_modified = hc_last_modified r,
         ha_retry_after = hc_retry_after r, ha_retry_after_seconds = retry_after_seconds\<rparr>))))"

subsection \<open>Results\<close>

lemma and_then_simps [simp]:
  "and_then (Inl e) f = Inl e"
  "and_then (Inr x) f = f x"
  by (simp_all add: and_then_def)

lemma and_then_Inr [simp]: "and_then r f = Inr y \<longleftrightarrow> (\<exists>x. r = Inr x \<and> f x = Inr y)"
  by (cases r) simp_all

lemma ensure_Inr [simp]: "ensure b e = Inr u \<longleftrightarrow> b"
  by (simp add: ensure_def)

lemma ok_or_Inr [simp]: "ok_or e v = Inr x \<longleftrightarrow> v = Some x"
  by (simp add: ok_or_def split: option.split)

lemma map_err_Inr [simp]: "map_err g r = Inr x \<longleftrightarrow> r = Inr x"
  by (simp add: map_err_def split: sum.split)

lemma required_Inr [simp]: "required fld v = Inr x \<longleftrightarrow> v = Some x"
  by (simp add: required_def)

lemma transpose_opt_Inr: "transpose_opt f v = Inr w \<longleftrightarrow> rel_option (\<lambda>x y. f x = Inr y) v w"
  by (cases v; cases w) (auto simp: transpose_opt_def split: sum.splits)

lemma try_map_Inr: "try_map f xs = Inr ys \<longleftrightarrow> list_all2 (\<lambda>x y. f x = Inr y) xs ys"
proof (induction xs arbitrary: ys)
  case (Cons x xs)
  show ?case
    by (cases "f x"; cases "try_map f xs") (auto simp: list_all2_Cons1 simp flip: Cons.IH)
qed auto

lemma stored_u64_to_i64: "u64_to_i64 v = Inr n \<Longrightarrow> stored_u64 n = Inr v"
  by (auto simp: u64_to_i64_def stored_u64_def split: if_splits)

lemma u64_to_i64_Inr: "u64_to_i64 v = Inr n \<longleftrightarrow> n = uint v \<and> uint v \<le> I64_MAX"
  by (auto simp: u64_to_i64_def)

lemma classification_text: "attempt_classification_parse (attempt_classification_as_str c) = Inr c"
  by (cases c) (simp_all add: attempt_classification_parse_def)

end
