(* ===== verification/Open_Storage.thy ===== *)
theory Open_Storage
  imports Open_Tables
begin

text \<open>
  The open operations of the operational database
  (\<open>crates/bcsp-operational-storage/src/open.rs\<close>).  Each statement of a transaction is the table
  update its SQL text states, foreign keys, unique indexes and cascades included; a transaction that
  ends in an error leaves the database as it was, so an operation returns the error or its result with
  the new database.  What the surrounding system can do to a statement (a lock, a full disk) is not
  modelled, and the publication of a staged catalog is not either.
\<close>

subsection \<open>Identifiers and digests\<close>

definition open_target_id :: "term_campus_key \<Rightarrow> string" where
  "open_target_id target = term_str (tc_term target) @ ''/'' @ campus_str (tc_campus target)"

definition open_set_sha256_v1 :: "open_lib \<Rightarrow> string bset \<Rightarrow> string" where
  "open_set_sha256_v1 L indices =
     sha256_hex (ol_digest L) (''bcsp-open-set-v1'' @ [newline] @ concat (map (\<lambda>i. i @ [newline]) (bm_keys indices)))"

definition open_state_sha256_v1 :: "open_lib \<Rightarrow> term_campus_key \<Rightarrow> (string, open_section_state) bmap \<Rightarrow> string" where
  "open_state_sha256_v1 L target states =
     sha256_hex (ol_digest L) (''bcsp-open-state-v1'' @ [newline] @ term_str (tc_term target) @ [newline]
       @ campus_str (tc_campus target) @ [newline]
       @ concat (map (\<lambda>(i, s). i @ [tab] @ section_state_as_str s @ [newline]) (bm_entries states)))"

unbundle bit_operations_syntax

definition uuid_bytes :: "u8 list \<Rightarrow> u8 list" where
  "uuid_bytes digest =
     (let bytes = take 16 digest in
      (bytes[6 := (bytes ! 6 AND 15) OR 64])[8 := (bytes ! 8 AND 63) OR 128])"

definition uuid_text :: "u8 list \<Rightarrow> string" where
  "uuid_text b =
     (let hex = \<lambda>i n. concat (map hex_byte (take n (drop i b)))
      in hex 0 4 @ ''-'' @ hex 4 2 @ ''-'' @ hex 6 2 @ ''-'' @ hex 8 2 @ ''-'' @ hex 10 6)"

definition derived_observation_id :: "open_lib \<Rightarrow> string \<Rightarrow> trace_id \<Rightarrow> string option \<Rightarrow> storage_error + trace_id" where
  "derived_observation_id L domain attempt_id discriminator =
     ok_or (invalid_stored ''open_section_events'' ''observation_id'')
       (ol_parse_trace L (uuid_text (uuid_bytes (ol_digest L
          (domain @ [newline] @ ol_trace_text L attempt_id @ [newline]
             @ (case discriminator of None \<Rightarrow> [] | Some d \<Rightarrow> d @ [newline]))))))"

definition derive_open_refresh_observation_id :: "open_lib \<Rightarrow> trace_id \<Rightarrow> storage_error + trace_id" where
  "derive_open_refresh_observation_id L attempt_id =
     derived_observation_id L ''bcsp-open-refresh-observation-v1'' attempt_id None"

definition derive_open_section_observation_id :: "open_lib \<Rightarrow> trace_id \<Rightarrow> section_key \<Rightarrow> storage_error + trace_id" where
  "derive_open_section_observation_id L attempt_id sec =
     derived_observation_id L ''bcsp-open-section-observation-v1'' attempt_id (Some (index_str (sk_index sec)))"

subsection \<open>Responses\<close>

record canonical_open_response =
  cr_canonical_indices :: "string bset"
  cr_source_value_count :: u64
  cr_duplicate_count :: u64
  cr_canonical_set_sha256 :: string

definition canonicalize_open_response ::
  "open_lib \<Rightarrow> term_campus_key \<Rightarrow> section_key list \<Rightarrow> u64 \<Rightarrow> storage_error + canonical_open_response" where
  "canonicalize_open_response L target open_sections source_value_count =
     and_then (ensure (list_all (\<lambda>s. section_key_target s = target) open_sections) (StInvalidCommand ''open_sections'')) (\<lambda>_.
     let canonical_indices = bs_of_list (map (\<lambda>s. index_str (sk_index s)) open_sections) in
     and_then (ok_or StStoredIntegerOutOfRange (u64_try_from (bm_len canonical_indices))) (\<lambda>canonical_count.
     and_then (ok_or (StInvalidCommand ''source_value_count'') (checked_sub source_value_count canonical_count)) (\<lambda>duplicate_count.
       Inr \<lparr>cr_canonical_indices = canonical_indices, cr_source_value_count = source_value_count,
         cr_duplicate_count = duplicate_count,
         cr_canonical_set_sha256 = open_set_sha256_v1 L canonical_indices\<rparr>)))"

definition classify_open_response ::
  "string bset \<Rightarrow> string bset \<Rightarrow> u64 \<Rightarrow> bool \<Rightarrow> open_attempt_classification" where
  "classify_open_response canonical_indices catalog_indices intersection_count gate_hold =
     (if bm_is_empty canonical_indices
      then (if bm_is_empty catalog_indices then AcValidEmptyNoRows
            else if gate_hold then AcSuspectPartialSnapshot else AcValidApplied)
      else if \<not> bm_is_empty catalog_indices \<and> intersection_count = 0 then AcUnsafeZeroIntersection
      else if gate_hold then AcSuspectPartialSnapshot else AcValidApplied)"

definition canonicalize_watched_sections ::
  "term_campus_key \<Rightarrow> section_key list \<Rightarrow> string bset \<Rightarrow> storage_error + string bset" where
  "canonicalize_watched_sections target watched_sections catalog_indices =
     and_then (ensure (list_all (\<lambda>s. section_key_target s = target
           \<and> bm_contains catalog_indices (index_str (sk_index s))) watched_sections)
         (StInvalidCommand ''watched_sections''))
       (\<lambda>_. Inr (bs_of_list (map (\<lambda>s. index_str (sk_index s)) watched_sections)))"

text \<open>\<open>collect::<BTreeMap>()\<close> of the states the response gives the catalog sections.\<close>

definition intended_states :: "string bset \<Rightarrow> string bset \<Rightarrow> (string, open_section_state) bmap" where
  "intended_states catalog_indices canonical_indices =
     fold (\<lambda>i. bm_insert i (if bm_contains canonical_indices i then SectionOpen else SectionClosed))
       (bm_keys catalog_indices) bm_empty"

definition changed_state_count ::
  "(string, open_section_state) bmap \<Rightarrow> (string, open_section_state) bmap \<Rightarrow> u64" where
  "changed_state_count previous intended =
     of_nat (length (filter (\<lambda>(i, s). bm_get previous i \<noteq> Some s) (bm_entries intended))
       + length (filter (\<lambda>i. \<not> bm_contains intended i) (bm_keys previous)))"

subsection \<open>Reads within a transaction\<close>

record started_open_attempt =
  sa_target :: term_campus_key
  sa_run_id :: trace_id
  sa_attempt_sequence :: u64
  sa_rutgers_day :: string
  sa_captured_catalog_content_version :: u64
  sa_started_at :: string
  sa_effective_interval_seconds :: "u64 option"
  sa_candidate_catalog_observation_id :: "trace_id option"
  sa_candidate_base_content_version :: "u64 option"

definition load_started_open_attempt :: "open_db \<Rightarrow> trace_id \<Rightarrow> storage_error + started_open_attempt" where
  "load_started_open_attempt db attempt_id =
     (case bm_get (db_attempts db) attempt_id of
        None \<Rightarrow> Inl (StOpenAttemptNotFound attempt_id)
      | Some row \<Rightarrow>
          (case bm_get (db_catalog_targets db) (at_target_id row) of
             None \<Rightarrow> Inl (StOpenAttemptNotFound attempt_id)
           | Some t \<Rightarrow>
               and_then (ensure (at_classification row = AcStarted) (StOpenAttemptNotStarted attempt_id)) (\<lambda>_.
               and_then (map_err StIdentity (term_campus_key_try_new (ct_term_id t) (ct_campus_code t))) (\<lambda>target.
               and_then (stored_u64 (at_attempt_sequence row)) (\<lambda>attempt_sequence.
               and_then (stored_u64 (at_captured_catalog_content_version row)) (\<lambda>captured.
               and_then (transpose_opt stored_u64 (at_effective_interval_seconds row)) (\<lambda>effective.
               and_then (transpose_opt stored_u64 (at_candidate_base_content_version row)) (\<lambda>base.
                 Inr \<lparr>sa_target = target, sa_run_id = at_run_id row, sa_attempt_sequence = attempt_sequence,
                   sa_rutgers_day = at_rutgers_day row, sa_captured_catalog_content_version = captured,
                   sa_started_at = at_started_at row, sa_effective_interval_seconds = effective,
                   sa_candidate_catalog_observation_id = at_candidate_catalog_observation_id row,
                   sa_candidate_base_content_version = base\<rparr>))))))))"

definition ensure_started_open_attempt_is_current ::
  "open_db \<Rightarrow> started_open_attempt \<Rightarrow> trace_id \<Rightarrow> storage_error + unit" where
  "ensure_started_open_attempt_is_current db attempt attempt_id =
     and_then (ok_or StSqlite (bm_get (db_batch_state db) (open_target_id (sa_target attempt)))) (\<lambda>state.
     and_then (stored_u64 (ob_last_attempt_sequence state)) (\<lambda>last_attempt_sequence.
       ensure (last_attempt_sequence = sa_attempt_sequence attempt \<and> ob_last_attempt_id state = Some attempt_id)
         (StOpenAttemptSuperseded attempt_id)))"

definition catalog_version_of :: "open_db \<Rightarrow> string \<Rightarrow> storage_error + u64 option" where
  "catalog_version_of db target_id =
     transpose_opt (\<lambda>t. stored_u64 (ct_current_content_version t)) (bm_get (db_catalog_targets db) target_id)"

definition load_current_catalog_version :: "open_db \<Rightarrow> string \<Rightarrow> storage_error + u64" where
  "load_current_catalog_version db target_id =
     and_then (catalog_version_of db target_id) (\<lambda>version.
       case version of
         Some v \<Rightarrow> if v > 0 then Inr v else Inl StCatalogTargetNotPublished
       | None \<Rightarrow> Inl StCatalogTargetNotPublished)"

definition load_attempt_catalog_indices :: "open_db \<Rightarrow> trace_id \<Rightarrow> string bset" where
  "load_attempt_catalog_indices db attempt_id =
     (case bm_get (db_attempt_sections db) attempt_id of None \<Rightarrow> bm_empty | Some indices \<Rightarrow> indices)"

definition section_current_rows :: "open_db \<Rightarrow> string \<Rightarrow> (string, open_section_current_row) bmap" where
  "section_current_rows db target_id =
     (case bm_get (db_section_current db) target_id of None \<Rightarrow> bm_empty | Some rows \<Rightarrow> rows)"

definition load_current_state_map :: "open_db \<Rightarrow> string \<Rightarrow> (string, open_section_state) bmap" where
  "load_current_state_map db target_id = bm_map oc_state (section_current_rows db target_id)"

definition load_lkg_attempt_id :: "open_db \<Rightarrow> string \<Rightarrow> trace_id option" where
  "load_lkg_attempt_id db target_id =
     (case bm_get (db_batch_state db) target_id of None \<Rightarrow> None | Some state \<Rightarrow> ob_lkg_attempt_id state)"

definition load_lkg_hashes :: "open_db \<Rightarrow> string \<Rightarrow> storage_error + string option \<times> string option" where
  "load_lkg_hashes db target_id =
     (case bm_get (db_batch_state db) target_id of
        None \<Rightarrow> Inl (invalid_stored ''open_batch_state'' ''target_id'')
      | Some state \<Rightarrow> Inr (ob_lkg_canonical_set_sha256 state, ob_lkg_state_sha256 state))"

subsection \<open>Counters\<close>

definition bump_attempted :: "counter_row option \<Rightarrow> storage_error + counter_row" where
  "bump_attempted row =
     (case row of
        None \<Rightarrow> Inr \<lparr>cn_attempted = 1, cn_succeeded = 0, cn_failed = 0, cn_empty = 0\<rparr>
      | Some c \<Rightarrow> and_then (sql_add (cn_attempted c) 1) (\<lambda>n. Inr (c\<lparr>cn_attempted := n\<rparr>)))"

definition increment_attempted_counters ::
  "open_db \<Rightarrow> string \<Rightarrow> trace_id \<Rightarrow> string \<Rightarrow> storage_error + open_db" where
  "increment_attempted_counters db target_id run_id rutgers_day =
     and_then (bump_attempted (bm_get (db_daily_counters db) (target_id, rutgers_day))) (\<lambda>daily.
     and_then (bump_attempted (bm_get (db_run_counters db) (run_id, target_id))) (\<lambda>run.
       Inr (db\<lparr>db_daily_counters := bm_insert (target_id, rutgers_day) daily (db_daily_counters db),
               db_run_counters := bm_insert (run_id, target_id) run (db_run_counters db)\<rparr>)))"

definition bump_final :: "bool \<Rightarrow> bool \<Rightarrow> counter_row \<Rightarrow> storage_error + counter_row" where
  "bump_final ok no_values c =
     and_then (sql_add (cn_succeeded c) (of_bool ok)) (\<lambda>s.
     and_then (sql_add (cn_failed c) (of_bool (\<not> ok))) (\<lambda>f.
     and_then (sql_add (cn_empty c) (of_bool no_values)) (\<lambda>e.
       Inr (c\<lparr>cn_succeeded := s, cn_failed := f, cn_empty := e\<rparr>))))"

text \<open>An \<open>UPDATE\<close> of an absent row changes no row; both counts of changed rows are checked at the end.\<close>

definition increment_final_counters ::
  "open_db \<Rightarrow> string \<Rightarrow> trace_id \<Rightarrow> string \<Rightarrow> bool \<Rightarrow> bool \<Rightarrow> storage_error + open_db" where
  "increment_final_counters db target_id run_id rutgers_day ok no_values =
     and_then (transpose_opt (bump_final ok no_values) (bm_get (db_daily_counters db) (target_id, rutgers_day))) (\<lambda>daily.
     and_then (transpose_opt (bump_final ok no_values) (bm_get (db_run_counters db) (run_id, target_id))) (\<lambda>run.
       case (daily, run) of
         (Some daily, Some run) \<Rightarrow>
           Inr (db\<lparr>db_daily_counters := bm_insert (target_id, rutgers_day) daily (db_daily_counters db),
                   db_run_counters := bm_insert (run_id, target_id) run (db_run_counters db)\<rparr>)
       | _ \<Rightarrow> Inl (invalid_stored ''open_pull_attempts'' ''counters'')))"

definition counters_of_row :: "counter_row \<Rightarrow> storage_error + open_attempt_counters" where
  "counters_of_row c =
     and_then (stored_u64 (cn_attempted c)) (\<lambda>attempted.
     and_then (stored_u64 (cn_succeeded c)) (\<lambda>succeeded.
     and_then (stored_u64 (cn_failed c)) (\<lambda>failed.
     and_then (stored_u64 (cn_empty c)) (\<lambda>empty.
       Inr \<lparr>oac_attempted = attempted, oac_succeeded = succeeded, oac_failed = failed, oac_empty = empty\<rparr>))))"

definition load_open_counters :: "counter_row option \<Rightarrow> storage_error + open_attempt_counters" where
  "load_open_counters row =
     (case row of
        None \<Rightarrow> Inr \<lparr>oac_attempted = 0, oac_succeeded = 0, oac_failed = 0, oac_empty = 0\<rparr>
      | Some c \<Rightarrow> counters_of_row c)"

text \<open>SQL \<open>sum\<close> fails when the total leaves the 64-bit range.\<close>

definition sql_sum :: "int list \<Rightarrow> storage_error + int" where
  "sql_sum ns = (if sum_list ns \<le> I64_MAX then Inr (sum_list ns) else Inl StSqlite)"

definition load_open_service_day_counters :: "open_db \<Rightarrow> string \<Rightarrow> storage_error + open_attempt_counters" where
  "load_open_service_day_counters db rutgers_day =
     (let rows = map snd (filter (\<lambda>((_, day), _). day = rutgers_day) (bm_entries (db_daily_counters db))) in
     and_then (sql_sum (map cn_attempted rows)) (\<lambda>attempted.
     and_then (sql_sum (map cn_succeeded rows)) (\<lambda>succeeded.
     and_then (sql_sum (map cn_failed rows)) (\<lambda>failed.
     and_then (sql_sum (map cn_empty rows)) (\<lambda>empty.
       counters_of_row \<lparr>cn_attempted = attempted, cn_succeeded = succeeded, cn_failed = failed, cn_empty = empty\<rparr>)))))"

definition load_committed_open_counters ::
  "open_db \<Rightarrow> string \<Rightarrow> trace_id \<Rightarrow> string
     \<Rightarrow> storage_error + open_attempt_counters \<times> open_attempt_counters \<times> open_attempt_counters" where
  "load_committed_open_counters db target_id run_id rutgers_day =
     and_then (load_open_counters (bm_get (db_run_counters db) (run_id, target_id))) (\<lambda>run_counts.
     and_then (load_open_counters (bm_get (db_daily_counters db) (target_id, rutgers_day))) (\<lambda>target_day_counts.
     and_then (load_open_service_day_counters db rutgers_day) (\<lambda>service_day_counts.
       Inr (run_counts, target_day_counts, service_day_counts))))"

subsection \<open>Retention\<close>

definition OPEN_DIAGNOSTIC_RETENTION_PER_TARGET :: u64 where "OPEN_DIAGNOSTIC_RETENTION_PER_TARGET = 256"
definition OPEN_DIAGNOSTIC_PRUNE_ATTEMPTS_PER_COMMIT :: u64 where "OPEN_DIAGNOSTIC_PRUNE_ATTEMPTS_PER_COMMIT = 8"

definition attempts_by_sequence :: "open_db \<Rightarrow> string \<Rightarrow> (trace_id \<times> open_pull_attempt_row) list" where
  "attempts_by_sequence db target_id =
     sort_key (\<lambda>(_, row). at_attempt_sequence row)
       (filter (\<lambda>(_, row). at_target_id row = target_id) (bm_entries (db_attempts db)))"

definition prune_candidates :: "open_db \<Rightarrow> string \<Rightarrow> nat \<Rightarrow> nat \<Rightarrow> trace_id list" where
  "prune_candidates db target_id retain_recent prune_limit =
     (let attempts = attempts_by_sequence db target_id;
          recent = map fst (take retain_recent (rev attempts))
      in take prune_limit (map fst (filter (\<lambda>(i, row). at_classification row \<noteq> AcStarted
           \<and> load_lkg_attempt_id db target_id \<noteq> Some i \<and> i \<notin> set recent) attempts)))"

text \<open>Deleting attempts cascades to their catalog copies and observations, and from those to the current
  states and events that refer to them.\<close>

definition delete_attempts :: "open_db \<Rightarrow> trace_id list \<Rightarrow> open_db" where
  "delete_attempts db ids = db\<lparr>
     db_attempts := bm_retain (\<lambda>i _. i \<notin> set ids) (db_attempts db),
     db_attempt_sections := bm_retain (\<lambda>i _. i \<notin> set ids) (db_attempt_sections db),
     db_observations := bm_retain (\<lambda>i _. i \<notin> set ids) (db_observations db),
     db_section_current := bm_map (bm_retain (\<lambda>_ row. oc_attempt_id row \<notin> set ids)) (db_section_current db),
     db_section_events := bm_retain (\<lambda>_ row. ev_attempt_id row \<notin> set ids) (db_section_events db)\<rparr>"

definition prune_open_diagnostics_transaction ::
  "open_db \<Rightarrow> string \<Rightarrow> u64 \<Rightarrow> u64 \<Rightarrow> storage_error + open_retention_report \<times> open_db" where
  "prune_open_diagnostics_transaction db target_id retain_recent prune_limit =
     and_then (positive_u64_to_i64 ''retain_recent'' retain_recent) (\<lambda>retain_recent.
     and_then (positive_u64_to_i64 ''prune_limit'' prune_limit) (\<lambda>prune_limit.
       let ids = prune_candidates db target_id (nat retain_recent) (nat prune_limit) in
       Inr (\<lparr>rr_attempts_removed = of_nat (length ids),
         rr_batch_observations_removed = of_nat (length (filter (\<lambda>i. i \<in> set ids) (bm_keys (db_observations db)))),
         rr_section_events_removed =
           of_nat (length (filter (\<lambda>row. ev_attempt_id row \<in> set ids) (bm_values (db_section_events db))))\<rparr>,
         delete_attempts db ids)))"

definition prune_open_diagnostics ::
  "open_db \<Rightarrow> term_campus_key \<Rightarrow> u64 \<Rightarrow> storage_error + open_retention_report \<times> open_db" where
  "prune_open_diagnostics db target retain_recent =
     (if retain_recent < OPEN_DIAGNOSTIC_RETENTION_PER_TARGET then Inl (StInvalidCommand ''retain_recent'')
      else prune_open_diagnostics_transaction db (open_target_id target) retain_recent
             OPEN_DIAGNOSTIC_PRUNE_ATTEMPTS_PER_COMMIT)"

definition commit_prune :: "open_db \<Rightarrow> string \<Rightarrow> storage_error + open_db" where
  "commit_prune db target_id =
     and_then (prune_open_diagnostics_transaction db target_id OPEN_DIAGNOSTIC_RETENTION_PER_TARGET
         OPEN_DIAGNOSTIC_PRUNE_ATTEMPTS_PER_COMMIT) (\<lambda>(_, db). Inr db)"

subsection \<open>Beginning an attempt\<close>

definition validate_begin ::
  "open_lib \<Rightarrow> begin_open_pull_attempt_command \<Rightarrow> storage_error + int \<times> int option \<times> int option \<times> int option" where
  "validate_begin L c =
     and_then (validate_timestamp L ''started_at'' (bc_started_at c)) (\<lambda>_.
     and_then (validate_rutgers_day L (bc_rutgers_day c)) (\<lambda>_.
     and_then (validate_optional_positive ''requested_interval_seconds'' (bc_requested_interval_seconds c)) (\<lambda>_.
     and_then (validate_optional_positive ''effective_interval_seconds'' (bc_effective_interval_seconds c)) (\<lambda>_.
     and_then (positive_u64_to_i64 ''captured_catalog_content_version'' (bc_captured_catalog_content_version c)) (\<lambda>captured_version.
     and_then (transpose_opt u64_to_i64 (bc_requested_interval_seconds c)) (\<lambda>requested_interval.
     and_then (transpose_opt u64_to_i64 (bc_effective_interval_seconds c)) (\<lambda>effective_interval.
     and_then (transpose_opt u64_to_i64 (bc_schedule_lag_ms c)) (\<lambda>schedule_lag.
       Inr (captured_version, requested_interval, effective_interval, schedule_lag)))))))))"

definition begin_catalog_version ::
  "open_db \<Rightarrow> string \<Rightarrow> catalog_candidate_open_snapshot option \<Rightarrow> storage_error + u64" where
  "begin_catalog_version db target_id candidate =
     and_then (catalog_version_of db target_id) (\<lambda>version.
       let serving_version = (case version of None \<Rightarrow> 0 | Some v \<Rightarrow> v) in
       case candidate of
         Some c \<Rightarrow>
           (case bm_get (db_refresh_observations db) (cand_observation_id c) of
              Some (staged_target_id, True) \<Rightarrow>
                if staged_target_id \<noteq> target_id \<or> serving_version \<noteq> cand_base_content_version c
                then Inl (StCatalogContentVersionMismatch (cand_base_content_version c) serving_version)
                else Inr (cat_content_version (cand_catalog c))
            | _ \<Rightarrow> Inl (StObservationNotStaged (cand_observation_id c)))
       | None \<Rightarrow> if serving_version > 0 then Inr serving_version else Inl StCatalogTargetNotPublished)"

definition existing_attempt_matches ::
  "open_pull_attempt_row \<Rightarrow> begin_open_pull_attempt_command \<Rightarrow> int \<times> int option \<times> int option \<times> int option
     \<Rightarrow> catalog_candidate_open_snapshot option \<Rightarrow> storage_error + bool" where
  "existing_attempt_matches row c values candidate =
     (case values of (captured_version, requested_interval, effective_interval, schedule_lag) \<Rightarrow>
        if at_target_id row = open_target_id (bc_target c) \<and> at_run_id row = bc_run_id c
           \<and> at_rutgers_day row = bc_rutgers_day c \<and> at_captured_catalog_content_version row = captured_version
           \<and> at_started_at row = bc_started_at c \<and> at_lane row = bc_lane c
           \<and> at_requested_interval_seconds row = requested_interval
           \<and> at_effective_interval_seconds row = effective_interval \<and> at_schedule_lag_ms row = schedule_lag
           \<and> at_candidate_catalog_observation_id row = map_option cand_observation_id candidate
        then and_then (transpose_opt (\<lambda>c. u64_to_i64 (cand_base_content_version c)) candidate)
               (\<lambda>base. Inr (at_candidate_base_content_version row = base))
        else Inr False)"

definition active_attempt_id :: "open_db \<Rightarrow> string \<Rightarrow> trace_id option" where
  "active_attempt_id db target_id =
     map_option fst (find (\<lambda>(_, row). at_target_id row = target_id \<and> at_classification row = AcStarted)
       (bm_entries (db_attempts db)))"

definition fresh_batch_state :: open_batch_state_row where
  "fresh_batch_state = \<lparr>ob_last_attempt_sequence = 0, ob_last_observation_sequence = 0,
     ob_current_catalog_content_version = 0, ob_lkg_attempt_id = None, ob_lkg_observation_sequence = None,
     ob_lkg_observed_at = None, ob_lkg_canonical_set_sha256 = None, ob_lkg_state_sha256 = None,
     ob_last_attempt_id = None, ob_last_attempt_at = None, ob_last_success_at = None,
     ob_last_failure_attempt_sequence = None, ob_last_failure_at = None, ob_last_failure_error_code = None,
     ob_last_failure_http_status = None, ob_last_body_change_at = None, ob_last_state_change_at = None,
     ob_requested_interval_seconds = None, ob_effective_interval_seconds = None, ob_last_schedule_lag_ms = None\<rparr>"

definition no_http :: http_columns where
  "no_http = \<lparr>hc_http_status = None, hc_cache_status = None, hc_decoded_bytes = None,
     hc_decoded_body_sha256 = None, hc_content_type = None, hc_etag = None, hc_cache_control = None,
     hc_response_date = None, hc_age_seconds = None, hc_last_modified = None, hc_retry_after = None,
     hc_retry_after_seconds = None\<rparr>"

definition no_counts :: count_columns where
  "no_counts = \<lparr>cc_source_value_count = 0, cc_catalog_section_count = 0, cc_intersection_count = 0,
     cc_orphan_count = 0, cc_duplicate_count = 0\<rparr>"

definition batch_state_for :: "open_db \<Rightarrow> string \<Rightarrow> open_batch_state_row" where
  "batch_state_for db target_id =
     (case bm_get (db_batch_state db) target_id of None \<Rightarrow> fresh_batch_state | Some state \<Rightarrow> state)"

definition begin_batch_state ::
  "open_batch_state_row \<Rightarrow> begin_open_pull_attempt_command \<Rightarrow> int option \<times> int option \<times> int option
     \<Rightarrow> storage_error + int \<times> open_batch_state_row" where
  "begin_batch_state state c values =
     (case values of (requested_interval, effective_interval, schedule_lag) \<Rightarrow>
        and_then (sql_add (ob_last_attempt_sequence state) 1) (\<lambda>attempt_sequence.
          Inr (attempt_sequence, state\<lparr>ob_last_attempt_sequence := attempt_sequence,
            ob_last_attempt_id := Some (bc_attempt_id c), ob_last_attempt_at := Some (bc_started_at c),
            ob_requested_interval_seconds := requested_interval,
            ob_effective_interval_seconds := effective_interval, ob_last_schedule_lag_ms := schedule_lag\<rparr>)))"

definition sequence_is_free :: "open_db \<Rightarrow> string \<Rightarrow> int \<Rightarrow> bool" where
  "sequence_is_free db target_id n \<longleftrightarrow>
     \<not> list_ex (\<lambda>row. at_target_id row = target_id \<and> at_attempt_sequence row = n) (bm_values (db_attempts db))"

definition captured_sections ::
  "open_db \<Rightarrow> string \<Rightarrow> int \<Rightarrow> catalog_candidate_open_snapshot option \<Rightarrow> string bset" where
  "captured_sections db target_id captured_version candidate =
     (case candidate of
        Some c \<Rightarrow> (case bm_get (db_staging_sections db) (cand_observation_id c) of None \<Rightarrow> bm_empty | Some s \<Rightarrow> s)
      | None \<Rightarrow>
          (case bm_get (db_catalog_sections db) target_id of
             None \<Rightarrow> bm_empty
           | Some rows \<Rightarrow> bm_map (\<lambda>_. ()) (bm_retain (\<lambda>_ v. v = captured_version) rows)))"

definition insert_attempt ::
  "open_lib \<Rightarrow> open_db \<Rightarrow> begin_open_pull_attempt_command \<Rightarrow> int \<times> int option \<times> int option \<times> int option
     \<Rightarrow> catalog_candidate_open_snapshot option \<Rightarrow> storage_error + int \<times> open_db" where
  "insert_attempt L db c values candidate =
     (case values of (captured_version, requested_interval, effective_interval, schedule_lag) \<Rightarrow>
     let target_id = open_target_id (bc_target c); state = batch_state_for db target_id in
     and_then (ensure (bm_contains (db_catalog_targets db) target_id) StSqlite) (\<lambda>_.
     and_then (transpose_opt (\<lambda>at. elapsed_milliseconds L at (bc_started_at c)) (ob_lkg_observed_at state)) (\<lambda>age.
     and_then (transpose_opt u64_to_i64 age) (\<lambda>lkg_age_ms.
     and_then (begin_batch_state state c (requested_interval, effective_interval, schedule_lag)) (\<lambda>(attempt_sequence, state).
     and_then (transpose_opt (\<lambda>c. u64_to_i64 (cand_base_content_version c)) candidate) (\<lambda>base.
     and_then (ensure (sequence_is_free db target_id attempt_sequence) StSqlite) (\<lambda>_.
     and_then (increment_attempted_counters db target_id (bc_run_id c) (bc_rutgers_day c)) (\<lambda>db.
       Inr (attempt_sequence, db\<lparr>
         db_batch_state := bm_insert target_id state (db_batch_state db),
         db_attempts := bm_insert (bc_attempt_id c) \<lparr>at_target_id = target_id, at_run_id = bc_run_id c,
           at_attempt_sequence = attempt_sequence, at_rutgers_day = bc_rutgers_day c,
           at_captured_catalog_content_version = captured_version, at_started_at = bc_started_at c,
           at_completed_at = None, at_classification = AcStarted, at_lane = bc_lane c, at_http = no_http,
           at_canonical_set_sha256 = None, at_state_sha256 = None, at_counts = no_counts,
           at_requested_interval_seconds = requested_interval, at_effective_interval_seconds = effective_interval,
           at_schedule_lag_ms = schedule_lag, at_lkg_age_ms = lkg_age_ms, at_error_code = None,
           at_diagnostic_token = None,
           at_candidate_catalog_observation_id = map_option cand_observation_id candidate,
           at_candidate_base_content_version = base, at_gate_catalog_set_identity = None\<rparr> (db_attempts db),
         db_attempt_sections := bm_insert (bc_attempt_id c)
           (captured_sections db target_id captured_version candidate) (db_attempt_sections db)\<rparr>)))))))))"

definition begin_open_pull_attempt_with_catalog ::
  "open_lib \<Rightarrow> open_db \<Rightarrow> begin_open_pull_attempt_command \<Rightarrow> catalog_candidate_open_snapshot option
     \<Rightarrow> storage_error + u64 \<times> open_db" where
  "begin_open_pull_attempt_with_catalog L db c candidate =
     (let target_id = open_target_id (bc_target c) in
     and_then (validate_begin L c) (\<lambda>values.
     and_then (begin_catalog_version db target_id candidate) (\<lambda>current_version.
       case bm_get (db_attempts db) (bc_attempt_id c) of
         Some existing \<Rightarrow>
           and_then (existing_attempt_matches existing c values candidate) (\<lambda>matches.
             if matches
             then and_then (stored_u64 (at_attempt_sequence existing)) (\<lambda>n. Inr (n, db))
             else Inl (StInvalidCommand ''attempt_id''))
       | None \<Rightarrow>
           (case active_attempt_id db target_id of
              Some active \<Rightarrow> Inl (StOpenTargetInFlight active)
            | None \<Rightarrow>
                and_then (ensure (current_version = bc_captured_catalog_content_version c)
                    (StCatalogContentVersionMismatch (bc_captured_catalog_content_version c) current_version)) (\<lambda>_.
                and_then (insert_attempt L db c values candidate) (\<lambda>(n, db).
                and_then (stored_u64 n) (\<lambda>n. Inr (n, db))))))))"

definition begin_open_pull_attempt ::
  "open_lib \<Rightarrow> open_db \<Rightarrow> begin_open_pull_attempt_command \<Rightarrow> storage_error + u64 \<times> open_db" where
  "begin_open_pull_attempt L db c = begin_open_pull_attempt_with_catalog L db c None"

definition begin_candidate_open_pull_attempt ::
  "open_lib \<Rightarrow> open_db \<Rightarrow> catalog_candidate_open_snapshot \<Rightarrow> begin_open_pull_attempt_command
     \<Rightarrow> storage_error + u64 \<times> open_db" where
  "begin_candidate_open_pull_attempt L db candidate c =
     (if bc_target c \<noteq> cat_target (cand_catalog candidate)
         \<or> bc_captured_catalog_content_version c \<noteq> cat_content_version (cand_catalog candidate)
      then Inl (StInvalidCommand ''candidate_catalog'')
      else begin_open_pull_attempt_with_catalog L db c (Some candidate))"

subsection \<open>Finishing an attempt without applying it\<close>

definition count_values :: "u64 \<Rightarrow> u64 \<Rightarrow> u64 \<Rightarrow> u64 \<Rightarrow> u64 \<Rightarrow> storage_error + count_columns" where
  "count_values source_value_count catalog_section_count intersection_count orphan_count duplicate_count =
     and_then (u64_to_i64 source_value_count) (\<lambda>source_value_count.
     and_then (u64_to_i64 catalog_section_count) (\<lambda>catalog_section_count.
     and_then (u64_to_i64 intersection_count) (\<lambda>intersection_count.
     and_then (u64_to_i64 orphan_count) (\<lambda>orphan_count.
     and_then (u64_to_i64 duplicate_count) (\<lambda>duplicate_count.
       Inr \<lparr>cc_source_value_count = source_value_count, cc_catalog_section_count = catalog_section_count,
         cc_intersection_count = intersection_count, cc_orphan_count = orphan_count,
         cc_duplicate_count = duplicate_count\<rparr>)))))"

text \<open>The column constraint on \<open>gate_catalog_set_identity\<close>, which no validation of the code anticipates.\<close>

definition check_gate_identity :: "string option \<Rightarrow> storage_error + unit" where
  "check_gate_identity v = ensure (case v of None \<Rightarrow> True | Some v \<Rightarrow> length v = 64) StSqlite"

definition update_started_attempt ::
  "open_db \<Rightarrow> trace_id \<Rightarrow> (open_pull_attempt_row \<Rightarrow> open_pull_attempt_row) \<Rightarrow> storage_error + open_db" where
  "update_started_attempt db attempt_id f =
     (case bm_get (db_attempts db) attempt_id of
        Some row \<Rightarrow> if at_classification row = AcStarted
                   then Inr (db\<lparr>db_attempts := bm_insert attempt_id (f row) (db_attempts db)\<rparr>)
                   else Inl (StOpenAttemptNotStarted attempt_id)
      | None \<Rightarrow> Inl (StOpenAttemptNotStarted attempt_id))"

definition update_current_batch_state ::
  "open_db \<Rightarrow> started_open_attempt \<Rightarrow> trace_id \<Rightarrow> (int \<Rightarrow> open_batch_state_row \<Rightarrow> open_batch_state_row)
     \<Rightarrow> storage_error + open_db" where
  "update_current_batch_state db attempt attempt_id f =
     (let target_id = open_target_id (sa_target attempt) in
     and_then (u64_to_i64 (sa_attempt_sequence attempt)) (\<lambda>n.
       case bm_get (db_batch_state db) target_id of
         Some state \<Rightarrow>
           if ob_last_attempt_sequence state = n \<and> ob_last_attempt_id state = Some attempt_id
           then Inr (db\<lparr>db_batch_state := bm_insert target_id (f n state) (db_batch_state db)\<rparr>)
           else Inl (StOpenAttemptSuperseded attempt_id)
       | None \<Rightarrow> Inl (StOpenAttemptSuperseded attempt_id)))"

definition finalize_non_applied_attempt ::
  "open_db \<Rightarrow> started_open_attempt \<Rightarrow> trace_id \<Rightarrow> string \<Rightarrow> open_attempt_classification
     \<Rightarrow> open_http_audit_metadata \<Rightarrow> canonical_open_response option \<Rightarrow> u64 \<Rightarrow> u64 \<Rightarrow> u64 \<Rightarrow> string
     \<Rightarrow> string option \<Rightarrow> string option \<Rightarrow> storage_error + open_db" where
  "finalize_non_applied_attempt db attempt attempt_id completed_at classification http response
       catalog_section_count intersection_count orphan_count error_code state_sha256 gate_identity =
     and_then (validate_safe_code ''error_code'' error_code) (\<lambda>_.
     and_then (validate_open_http_audit http False) (\<lambda>_.
     and_then (http_to_columns http) (\<lambda>http.
     and_then (count_values (case response of None \<Rightarrow> 0 | Some r \<Rightarrow> cr_source_value_count r)
         catalog_section_count intersection_count orphan_count
         (case response of None \<Rightarrow> 0 | Some r \<Rightarrow> cr_duplicate_count r)) (\<lambda>counts.
     and_then (check_gate_identity gate_identity) (\<lambda>_.
     and_then (update_started_attempt db attempt_id (\<lambda>row. row\<lparr>at_completed_at := Some completed_at,
         at_classification := classification, at_http := http,
         at_canonical_set_sha256 := map_option cr_canonical_set_sha256 response,
         at_state_sha256 := state_sha256, at_counts := counts, at_error_code := Some error_code,
         at_gate_catalog_set_identity := gate_identity, at_diagnostic_token := None\<rparr>)) (\<lambda>db.
     and_then (update_current_batch_state db attempt attempt_id (\<lambda>n state.
         state\<lparr>ob_last_failure_attempt_sequence := Some n, ob_last_failure_at := Some completed_at,
           ob_last_failure_error_code := Some error_code,
           ob_last_failure_http_status := hc_http_status http\<rparr>)) (\<lambda>db.
       increment_final_counters db (open_target_id (sa_target attempt)) (sa_run_id attempt) (sa_rutgers_day attempt)
         False (case response of None \<Rightarrow> False | Some r \<Rightarrow> bm_is_empty (cr_canonical_indices r)))))))))"

definition finish_open_pull_failure ::
  "open_lib \<Rightarrow> open_db \<Rightarrow> finish_open_pull_failure_command \<Rightarrow> storage_error + open_commit_outcome \<times> open_db" where
  "finish_open_pull_failure L db c =
     and_then (validate_timestamp L ''completed_at'' (fc_completed_at c)) (\<lambda>_.
     and_then (validate_safe_code ''error_code'' (fc_error_code c)) (\<lambda>_.
     and_then (validate_optional_safe_token ''diagnostic_token'' (fc_diagnostic_token c)) (\<lambda>_.
     and_then (validate_open_http_audit (fc_http c) False) (\<lambda>_.
     and_then (load_started_open_attempt db (fc_attempt_id c)) (\<lambda>attempt.
     and_then (ensure_started_open_attempt_is_current db attempt (fc_attempt_id c)) (\<lambda>_.
     and_then (validate_timestamp_order L (sa_started_at attempt) (fc_completed_at c)) (\<lambda>_.
     let target_id = open_target_id (sa_target attempt);
         retained_lkg_attempt_id = load_lkg_attempt_id db target_id;
         catalog_section_count = of_nat (bm_len (load_attempt_catalog_indices db (fc_attempt_id c))) in
     and_then (finalize_non_applied_attempt db attempt (fc_attempt_id c) (fc_completed_at c) AcFailed (fc_http c)
         None catalog_section_count 0 0 (fc_error_code c) None None) (\<lambda>db.
     let db = db\<lparr>db_attempts := (case bm_get (db_attempts db) (fc_attempt_id c) of
           None \<Rightarrow> db_attempts db
         | Some row \<Rightarrow> bm_insert (fc_attempt_id c) (row\<lparr>at_diagnostic_token := fc_diagnostic_token c\<rparr>) (db_attempts db))\<rparr> in
     and_then (commit_prune db target_id) (\<lambda>db.
       Inr (\<lparr>co_attempt_id = fc_attempt_id c, co_attempt_sequence = sa_attempt_sequence attempt,
         co_classification = AcFailed, co_refresh_observation_id = None, co_observation_sequence = None,
         co_catalog_content_version = sa_captured_catalog_content_version attempt, co_source_value_count = 0,
         co_catalog_section_count = catalog_section_count, co_intersection_count = 0, co_orphan_count = 0,
         co_duplicate_count = 0, co_changed_section_count = 0, co_body_changed = False, co_state_changed = False,
         co_retained_lkg_attempt_id = retained_lkg_attempt_id, co_observation_commit = None\<rparr>, db))))))))))"

subsection \<open>Finishing an attempt with a response\<close>

record response_facts =
  rf_attempt :: started_open_attempt
  rf_response :: canonical_open_response
  rf_retained_lkg_attempt_id :: "trace_id option"
  rf_lkg_canonical_set_sha256 :: "string option"
  rf_lkg_state_sha256 :: "string option"
  rf_current_catalog_content_version :: u64
  rf_catalog_indices :: "string bset"

definition rf_target_id :: "response_facts \<Rightarrow> string" where
  "rf_target_id f = open_target_id (sa_target (rf_attempt f))"

definition rf_intersection_count :: "response_facts \<Rightarrow> u64" where
  "rf_intersection_count f = of_nat (length (filter (bm_contains (rf_catalog_indices f))
     (bm_keys (cr_canonical_indices (rf_response f)))))"

definition rf_orphan_count :: "response_facts \<Rightarrow> u64" where
  "rf_orphan_count f = of_nat (length (filter (\<lambda>i. \<not> bm_contains (rf_catalog_indices f) i)
     (bm_keys (cr_canonical_indices (rf_response f)))))"

definition rf_catalog_section_count :: "response_facts \<Rightarrow> u64" where
  "rf_catalog_section_count f = of_nat (bm_len (rf_catalog_indices f))"

definition rf_body_changed :: "response_facts \<Rightarrow> bool" where
  "rf_body_changed f \<longleftrightarrow> rf_lkg_canonical_set_sha256 f \<noteq> Some (cr_canonical_set_sha256 (rf_response f))"

definition rf_intended_states :: "response_facts \<Rightarrow> (string, open_section_state) bmap" where
  "rf_intended_states f = intended_states (rf_catalog_indices f) (cr_canonical_indices (rf_response f))"

definition rf_state_sha256 :: "open_lib \<Rightarrow> response_facts \<Rightarrow> string" where
  "rf_state_sha256 L f = open_state_sha256_v1 L (sa_target (rf_attempt f)) (rf_intended_states f)"

definition load_response_facts ::
  "open_lib \<Rightarrow> open_db \<Rightarrow> finish_open_pull_success_command \<Rightarrow> storage_error + response_facts" where
  "load_response_facts L db c =
     and_then (validate_timestamp L ''completed_at'' (sc_completed_at c)) (\<lambda>_.
     and_then (validate_open_http_audit (sc_http c) True) (\<lambda>_.
     and_then (load_started_open_attempt db (sc_attempt_id c)) (\<lambda>attempt.
     and_then (ensure_started_open_attempt_is_current db attempt (sc_attempt_id c)) (\<lambda>_.
     and_then (validate_timestamp_order L (sa_started_at attempt) (sc_completed_at c)) (\<lambda>_.
     let target_id = open_target_id (sa_target attempt) in
     and_then (canonicalize_open_response L (sa_target attempt) (sc_open_sections c) (sc_source_value_count c)) (\<lambda>response.
     let retained_lkg_attempt_id = load_lkg_attempt_id db target_id in
     and_then (load_lkg_hashes db target_id) (\<lambda>(lkg_set, lkg_state).
     and_then (load_current_catalog_version db target_id) (\<lambda>current_version.
       Inr \<lparr>rf_attempt = attempt, rf_response = response, rf_retained_lkg_attempt_id = retained_lkg_attempt_id,
         rf_lkg_canonical_set_sha256 = lkg_set, rf_lkg_state_sha256 = lkg_state,
         rf_current_catalog_content_version = current_version,
         rf_catalog_indices = load_attempt_catalog_indices db (sc_attempt_id c)\<rparr>))))))))"

definition non_applied_outcome ::
  "finish_open_pull_success_command \<Rightarrow> response_facts \<Rightarrow> open_attempt_classification \<Rightarrow> bool \<Rightarrow> open_commit_outcome" where
  "non_applied_outcome c f classification state_changed =
     \<lparr>co_attempt_id = sc_attempt_id c, co_attempt_sequence = sa_attempt_sequence (rf_attempt f),
      co_classification = classification, co_refresh_observation_id = None, co_observation_sequence = None,
      co_catalog_content_version = sa_captured_catalog_content_version (rf_attempt f),
      co_source_value_count = cr_source_value_count (rf_response f),
      co_catalog_section_count = rf_catalog_section_count f, co_intersection_count = rf_intersection_count f,
      co_orphan_count = rf_orphan_count f, co_duplicate_count = cr_duplicate_count (rf_response f),
      co_changed_section_count = 0, co_body_changed = rf_body_changed f, co_state_changed = state_changed,
      co_retained_lkg_attempt_id = rf_retained_lkg_attempt_id f, co_observation_commit = None\<rparr>"

definition finish_catalog_race ::
  "open_db \<Rightarrow> finish_open_pull_success_command \<Rightarrow> response_facts \<Rightarrow> storage_error + open_commit_outcome \<times> open_db" where
  "finish_catalog_race db c f =
     and_then (finalize_non_applied_attempt db (rf_attempt f) (sc_attempt_id c) (sc_completed_at c)
         AcStaleCatalogRace (sc_http c) (Some (rf_response f)) (rf_catalog_section_count f)
         (rf_intersection_count f) (rf_orphan_count f) ''CATALOG_CONTENT_VERSION_CHANGED'' None None) (\<lambda>db.
     and_then (commit_prune db (rf_target_id f)) (\<lambda>db.
       Inr (non_applied_outcome c f AcStaleCatalogRace False, db)))"

text \<open>The \<open>unreachable!\<close> arm of the error codes is the empty text; no caller reaches it.\<close>

definition unsafe_error_code :: "open_attempt_classification \<Rightarrow> string" where
  "unsafe_error_code classification =
     (case classification of
        AcUnsafeEmpty \<Rightarrow> ''UNSAFE_EMPTY_WITH_CATALOG_ROWS''
      | AcUnsafeZeroIntersection \<Rightarrow> ''UNSAFE_ZERO_INTERSECTION''
      | AcSuspectPartialSnapshot \<Rightarrow> ''SUSPECT_PARTIAL_SNAPSHOT''
      | _ \<Rightarrow> [])"

definition finish_unsafe ::
  "open_lib \<Rightarrow> open_db \<Rightarrow> finish_open_pull_success_command \<Rightarrow> response_facts \<Rightarrow> open_attempt_classification
     \<Rightarrow> storage_error + open_commit_outcome \<times> open_db" where
  "finish_unsafe L db c f classification =
     and_then (finalize_non_applied_attempt db (rf_attempt f) (sc_attempt_id c) (sc_completed_at c)
         classification (sc_http c) (Some (rf_response f)) (rf_catalog_section_count f)
         (rf_intersection_count f) (rf_orphan_count f) (unsafe_error_code classification)
         (Some (rf_state_sha256 L f)) (sc_gate_catalog_set_identity c)) (\<lambda>db.
     and_then (commit_prune db (rf_target_id f)) (\<lambda>db.
       Inr (non_applied_outcome c f classification (rf_lkg_state_sha256 f \<noteq> Some (rf_state_sha256 L f)), db)))"

definition observation_is_free :: "open_db \<Rightarrow> trace_id \<Rightarrow> trace_id \<Rightarrow> string \<Rightarrow> int \<Rightarrow> bool" where
  "observation_is_free db attempt_id observation_id target_id n \<longleftrightarrow>
     \<not> bm_contains (db_observations db) attempt_id
     \<and> \<not> list_ex (\<lambda>row. bo_observation_id row = observation_id
           \<or> bo_target_id row = target_id \<and> bo_observation_sequence row = n) (bm_values (db_observations db))"

definition insert_observation ::
  "open_lib \<Rightarrow> open_db \<Rightarrow> finish_open_pull_success_command \<Rightarrow> response_facts \<Rightarrow> open_attempt_classification
     \<Rightarrow> trace_id \<Rightarrow> int \<Rightarrow> int \<Rightarrow> u64 \<Rightarrow> storage_error + open_db" where
  "insert_observation L db c f classification observation_id observation_sequence captured_version changed =
     and_then (http_to_columns (sc_http c)) (\<lambda>http.
     and_then (count_values (cr_source_value_count (rf_response f)) (rf_catalog_section_count f)
         (rf_intersection_count f) (rf_orphan_count f) (cr_duplicate_count (rf_response f))) (\<lambda>counts.
     and_then (u64_to_i64 changed) (\<lambda>changed.
     and_then (ensure (observation_is_free db (sc_attempt_id c) observation_id (rf_target_id f) observation_sequence)
         StSqlite) (\<lambda>_.
       Inr (db\<lparr>db_observations := bm_insert (sc_attempt_id c) \<lparr>bo_observation_id = observation_id,
         bo_target_id = rf_target_id f, bo_observation_sequence = observation_sequence,
         bo_catalog_content_version = captured_version, bo_observed_at = sc_completed_at c,
         bo_classification = classification, bo_http = http,
         bo_canonical_set_sha256 = cr_canonical_set_sha256 (rf_response f), bo_state_sha256 = rf_state_sha256 L f,
         bo_counts = counts, bo_changed_section_count = changed, bo_body_changed = rf_body_changed f,
         bo_state_changed = (rf_lkg_state_sha256 f \<noteq> Some (rf_state_sha256 L f))\<rparr> (db_observations db)\<rparr>)))))"

definition replace_section_current ::
  "open_db \<Rightarrow> finish_open_pull_success_command \<Rightarrow> response_facts \<Rightarrow> int \<Rightarrow> int \<Rightarrow> open_db" where
  "replace_section_current db c f observation_sequence captured_version =
     db\<lparr>db_section_current := bm_insert (rf_target_id f)
       (bm_map (\<lambda>s. \<lparr>oc_state = s, oc_catalog_content_version = captured_version, oc_attempt_id = sc_attempt_id c,
          oc_observation_sequence = observation_sequence, oc_observed_at = sc_completed_at c\<rparr>) (rf_intended_states f))
       (db_section_current db)\<rparr>"

definition event_is_free :: "open_db \<Rightarrow> trace_id \<Rightarrow> trace_id \<Rightarrow> string \<Rightarrow> bool" where
  "event_is_free db observation_id attempt_id index \<longleftrightarrow>
     \<not> list_ex (\<lambda>row. ev_observation_id row = observation_id
           \<or> ev_attempt_id row = attempt_id \<and> ev_section_index row = index) (bm_values (db_section_events db))"

definition insert_section_event ::
  "open_lib \<Rightarrow> finish_open_pull_success_command \<Rightarrow> response_facts \<Rightarrow> trace_id \<Rightarrow> int \<Rightarrow> int \<Rightarrow> u64 \<Rightarrow> string
     \<Rightarrow> open_db \<times> open_section_event list \<Rightarrow> storage_error + open_db \<times> open_section_event list" where
  "insert_section_event L c f refresh_observation_id observation_sequence captured_version sequence_u64 index acc =
     (case acc of (db, events) \<Rightarrow>
     and_then (ok_or (invalid_stored ''open_batch_observations'' ''watched_sections'')
         (bm_get (rf_intended_states f) index)) (\<lambda>state.
     and_then (map_err StIdentity (section_key_try_new (term_str (tc_term (sa_target (rf_attempt f))))
         (campus_str (tc_campus (sa_target (rf_attempt f)))) index)) (\<lambda>sec.
     and_then (derive_open_section_observation_id L (sc_attempt_id c) sec) (\<lambda>observation_id.
     and_then (sql_add (db_event_sequence db) 1) (\<lambda>event_id.
     and_then (ensure (event_is_free db observation_id (sc_attempt_id c) index) StSqlite) (\<lambda>_.
     and_then (stored_u64 event_id) (\<lambda>event_id_u64.
       Inr (db\<lparr>db_event_sequence := event_id,
              db_section_events := bm_insert event_id \<lparr>ev_observation_id = observation_id,
                ev_refresh_observation_id = refresh_observation_id, ev_attempt_id = sc_attempt_id c,
                ev_target_id = rf_target_id f, ev_section_index = index, ev_state = state,
                ev_catalog_content_version = captured_version, ev_observation_sequence = observation_sequence,
                ev_observed_at = sc_completed_at c\<rparr> (db_section_events db)\<rparr>,
            events @ [\<lparr>se_event_id = event_id_u64, se_observation_id = observation_id,
              se_refresh_observation_id = refresh_observation_id, se_attempt_id = sc_attempt_id c, se_section = sec,
              se_state = state,
              se_catalog_content_version = sa_captured_catalog_content_version (rf_attempt f),
              se_observation_sequence = sequence_u64, se_observed_at = sc_completed_at c\<rparr>]))))))))"

definition complete_attempt ::
  "open_lib \<Rightarrow> open_db \<Rightarrow> finish_open_pull_success_command \<Rightarrow> response_facts \<Rightarrow> open_attempt_classification
     \<Rightarrow> storage_error + open_db" where
  "complete_attempt L db c f classification =
     and_then (http_to_columns (sc_http c)) (\<lambda>http.
     and_then (count_values (cr_source_value_count (rf_response f)) (rf_catalog_section_count f)
         (rf_intersection_count f) (rf_orphan_count f) (cr_duplicate_count (rf_response f))) (\<lambda>counts.
     and_then (check_gate_identity (sc_gate_catalog_set_identity c)) (\<lambda>_.
       update_started_attempt db (sc_attempt_id c) (\<lambda>row. row\<lparr>at_completed_at := Some (sc_completed_at c),
         at_classification := classification, at_http := http,
         at_canonical_set_sha256 := Some (cr_canonical_set_sha256 (rf_response f)),
         at_state_sha256 := Some (rf_state_sha256 L f), at_counts := counts,
         at_gate_catalog_set_identity := sc_gate_catalog_set_identity c,
         at_error_code := None, at_diagnostic_token := None\<rparr>))))"

definition applied_batch_state ::
  "open_lib \<Rightarrow> finish_open_pull_success_command \<Rightarrow> response_facts \<Rightarrow> int \<Rightarrow> int \<Rightarrow> open_batch_state_row
     \<Rightarrow> open_batch_state_row" where
  "applied_batch_state L c f observation_sequence captured_version state =
     state\<lparr>ob_last_observation_sequence := observation_sequence,
       ob_current_catalog_content_version := captured_version,
       ob_lkg_attempt_id := Some (sc_attempt_id c), ob_lkg_observation_sequence := Some observation_sequence,
       ob_lkg_observed_at := Some (sc_completed_at c),
       ob_last_body_change_at :=
         (if ob_lkg_canonical_set_sha256 state \<noteq> Some (cr_canonical_set_sha256 (rf_response f))
          then Some (sc_completed_at c) else ob_last_body_change_at state),
       ob_last_state_change_at :=
         (if ob_lkg_state_sha256 state \<noteq> Some (rf_state_sha256 L f)
          then Some (sc_completed_at c) else ob_last_state_change_at state),
       ob_lkg_canonical_set_sha256 := Some (cr_canonical_set_sha256 (rf_response f)),
       ob_lkg_state_sha256 := Some (rf_state_sha256 L f), ob_last_success_at := Some (sc_completed_at c)\<rparr>"

definition finish_applied ::
  "open_lib \<Rightarrow> open_db \<Rightarrow> finish_open_pull_success_command \<Rightarrow> response_facts \<Rightarrow> open_attempt_classification
     \<Rightarrow> storage_error + open_commit_outcome \<times> open_db" where
  "finish_applied L db c f classification =
     (let attempt = rf_attempt f; target_id = rf_target_id f; response = rf_response f in
     and_then (ok_or (invalid_stored ''open_pull_attempts'' ''effective_interval_seconds'')
         (sa_effective_interval_seconds attempt)) (\<lambda>effective_interval_seconds.
     and_then (canonicalize_watched_sections (sa_target attempt) (sc_watched_sections c) (rf_catalog_indices f)) (\<lambda>watched.
     let changed = changed_state_count (load_current_state_map db target_id) (rf_intended_states f) in
     and_then (ok_or StSqlite (bm_get (db_batch_state db) target_id)) (\<lambda>state.
     and_then (sql_add (ob_last_observation_sequence state) 1) (\<lambda>observation_sequence.
     and_then (stored_u64 observation_sequence) (\<lambda>sequence_u64.
     and_then (u64_to_i64 (sa_captured_catalog_content_version attempt)) (\<lambda>captured_version.
     and_then (derive_open_refresh_observation_id L (sc_attempt_id c)) (\<lambda>refresh_observation_id.
     and_then (insert_observation L db c f classification refresh_observation_id observation_sequence
         captured_version changed) (\<lambda>db.
     let db = replace_section_current db c f observation_sequence captured_version in
     and_then (try_fold (insert_section_event L c f refresh_observation_id observation_sequence captured_version
         sequence_u64) (bm_keys watched) (db, [])) (\<lambda>(db, section_events).
     and_then (complete_attempt L db c f classification) (\<lambda>db.
     and_then (update_current_batch_state db attempt (sc_attempt_id c)
         (\<lambda>_. applied_batch_state L c f observation_sequence captured_version)) (\<lambda>db.
     and_then (increment_final_counters db target_id (sa_run_id attempt) (sa_rutgers_day attempt) True
         (bm_is_empty (cr_canonical_indices response))) (\<lambda>db.
     and_then (load_committed_open_counters db target_id (sa_run_id attempt) (sa_rutgers_day attempt))
         (\<lambda>(run_counts, target_day_counts, service_day_counts).
     and_then (commit_prune db target_id) (\<lambda>db.
       Inr (\<lparr>co_attempt_id = sc_attempt_id c, co_attempt_sequence = sa_attempt_sequence attempt,
         co_classification = classification, co_refresh_observation_id = Some refresh_observation_id,
         co_observation_sequence = Some sequence_u64,
         co_catalog_content_version = sa_captured_catalog_content_version attempt,
         co_source_value_count = cr_source_value_count response,
         co_catalog_section_count = rf_catalog_section_count f, co_intersection_count = rf_intersection_count f,
         co_orphan_count = rf_orphan_count f, co_duplicate_count = cr_duplicate_count response,
         co_changed_section_count = changed, co_body_changed = rf_body_changed f,
         co_state_changed = (rf_lkg_state_sha256 f \<noteq> Some (rf_state_sha256 L f)),
         co_retained_lkg_attempt_id = Some (sc_attempt_id c),
         co_observation_commit = Some \<lparr>oo_rutgers_day = sa_rutgers_day attempt,
           oo_effective_interval_seconds = effective_interval_seconds, oo_run_counts = run_counts,
           oo_target_day_counts = target_day_counts, oo_service_day_counts = service_day_counts,
           oo_section_events = section_events\<rparr>\<rparr>, db))))))))))))))))"

definition finish_open_pull_success_transaction ::
  "open_lib \<Rightarrow> open_db \<Rightarrow> finish_open_pull_success_command \<Rightarrow> bool \<Rightarrow> storage_error + open_commit_outcome \<times> open_db" where
  "finish_open_pull_success_transaction L db c accept_candidate_base_version =
     and_then (load_response_facts L db c) (\<lambda>f.
       let candidate_base_matches = (accept_candidate_base_version
             \<and> sa_candidate_base_content_version (rf_attempt f) = Some (rf_current_catalog_content_version f));
           classification = classify_open_response (cr_canonical_indices (rf_response f)) (rf_catalog_indices f)
             (rf_intersection_count f) (sc_gate_hold c)
       in if rf_current_catalog_content_version f \<noteq> sa_captured_catalog_content_version (rf_attempt f)
             \<and> \<not> candidate_base_matches
          then finish_catalog_race db c f
          else if \<not> is_success classification then finish_unsafe L db c f classification
          else finish_applied L db c f classification)"

definition finish_open_pull_success ::
  "open_lib \<Rightarrow> open_db \<Rightarrow> finish_open_pull_success_command \<Rightarrow> storage_error + open_commit_outcome \<times> open_db" where
  "finish_open_pull_success L db c = finish_open_pull_success_transaction L db c False"

subsection \<open>Recovery after a restart\<close>

definition interrupt_attempt ::
  "string \<Rightarrow> trace_id \<times> open_pull_attempt_row \<Rightarrow> open_db \<Rightarrow> storage_error + open_db" where
  "interrupt_attempt completed_at pending db =
     (case pending of (attempt_id, row) \<Rightarrow>
     increment_final_counters (db\<lparr>
       db_attempts := (case bm_get (db_attempts db) attempt_id of
           Some r \<Rightarrow> if at_classification r = AcStarted
             then bm_insert attempt_id (r\<lparr>at_completed_at := Some completed_at, at_classification := AcInterrupted,
                    at_error_code := Some ''PROCESS_RESTARTED''\<rparr>) (db_attempts db)
             else db_attempts db
         | None \<Rightarrow> db_attempts db),
       db_batch_state := (case bm_get (db_batch_state db) (at_target_id row) of
           Some state \<Rightarrow> bm_insert (at_target_id row) (state\<lparr>
               ob_last_failure_attempt_sequence := Some (at_attempt_sequence row),
               ob_last_failure_at := Some completed_at,
               ob_last_failure_error_code := Some ''PROCESS_RESTARTED'',
               ob_last_failure_http_status := None\<rparr>) (db_batch_state db)
         | None \<Rightarrow> db_batch_state db)\<rparr>)
       (at_target_id row) (at_run_id row) (at_rutgers_day row) False False)"

definition pending_attempts :: "open_db \<Rightarrow> (trace_id \<times> open_pull_attempt_row) list" where
  "pending_attempts db =
     sort_key (\<lambda>(_, row). (at_target_id row, at_attempt_sequence row))
       (filter (\<lambda>(_, row). at_classification row = AcStarted) (bm_entries (db_attempts db)))"

definition recover_interrupted_open_attempts ::
  "open_lib \<Rightarrow> offset_date_time \<Rightarrow> open_db \<Rightarrow> storage_error + open_db" where
  "recover_interrupted_open_attempts L now db =
     (if pending_attempts db = [] then Inr db
      else and_then (ok_or (StInvalidCommand ''completed_at'') (ol_format_rfc3339 L now)) (\<lambda>completed_at.
        try_fold (interrupt_attempt completed_at) (pending_attempts db) db))"

end
