(* ===== verification/Open_Reads.thy ===== *)
theory Open_Reads
  imports Open_Storage
begin

text \<open>
  The reads of the open tables (\<open>crates/bcsp-operational-storage/src/open.rs\<close>): the records the
  status projection and the pull service load, each with the conversions that can refuse a stored row.
\<close>

record open_attempt_record =
  ar_attempt_id :: trace_id
  ar_run_id :: trace_id
  ar_target :: term_campus_key
  ar_attempt_sequence :: u64
  ar_rutgers_day :: string
  ar_captured_catalog_content_version :: u64
  ar_started_at :: string
  ar_completed_at :: "string option"
  ar_classification :: open_attempt_classification
  ar_lane :: open_request_lane
  ar_http :: open_http_audit_metadata
  ar_canonical_set_sha256 :: "string option"
  ar_state_sha256 :: "string option"
  ar_source_value_count :: u64
  ar_catalog_section_count :: u64
  ar_intersection_count :: u64
  ar_orphan_count :: u64
  ar_duplicate_count :: u64
  ar_requested_interval_seconds :: "u64 option"
  ar_effective_interval_seconds :: "u64 option"
  ar_schedule_lag_ms :: "u64 option"
  ar_lkg_age_ms :: "u64 option"
  ar_error_code :: "string option"
  ar_diagnostic_token :: "string option"

record open_batch_state =
  os_target :: term_campus_key
  os_last_attempt_sequence :: u64
  os_last_observation_sequence :: u64
  os_current_catalog_content_version :: u64
  os_lkg_attempt_id :: "trace_id option"
  os_lkg_observation_sequence :: "u64 option"
  os_lkg_observed_at :: "string option"
  os_lkg_canonical_set_sha256 :: "string option"
  os_lkg_state_sha256 :: "string option"
  os_last_attempt_id :: "trace_id option"
  os_last_attempt_at :: "string option"
  os_last_success_at :: "string option"
  os_last_failure_attempt_sequence :: "u64 option"
  os_last_failure_at :: "string option"
  os_last_failure_error_code :: "string option"
  os_last_failure_http_status :: "u16 option"
  os_last_body_change_at :: "string option"
  os_last_state_change_at :: "string option"
  os_requested_interval_seconds :: "u64 option"
  os_effective_interval_seconds :: "u64 option"
  os_last_schedule_lag_ms :: "u64 option"

record open_batch_observation =
  oob_attempt_id :: trace_id
  oob_observation_id :: trace_id
  oob_target :: term_campus_key
  oob_observation_sequence :: u64
  oob_catalog_content_version :: u64
  oob_observed_at :: string
  oob_classification :: open_attempt_classification
  oob_http :: open_http_audit_metadata
  oob_canonical_set_sha256 :: string
  oob_state_sha256 :: string
  oob_source_value_count :: u64
  oob_catalog_section_count :: u64
  oob_intersection_count :: u64
  oob_orphan_count :: u64
  oob_duplicate_count :: u64
  oob_changed_section_count :: u64
  oob_body_changed :: bool
  oob_state_changed :: bool

record open_section_current =
  osc_section :: section_key
  osc_state :: open_section_state
  osc_catalog_content_version :: u64
  osc_attempt_id :: trace_id
  osc_observation_sequence :: u64
  osc_observed_at :: string

subsection \<open>Records of attempts and observations\<close>

definition counts_from_columns :: "count_columns \<Rightarrow> storage_error + u64 \<times> u64 \<times> u64 \<times> u64 \<times> u64" where
  "counts_from_columns r =
     and_then (stored_u64 (cc_source_value_count r)) (\<lambda>source_values.
     and_then (stored_u64 (cc_catalog_section_count r)) (\<lambda>sections.
     and_then (stored_u64 (cc_intersection_count r)) (\<lambda>intersection.
     and_then (stored_u64 (cc_orphan_count r)) (\<lambda>orphans.
     and_then (stored_u64 (cc_duplicate_count r)) (\<lambda>duplicates.
       Inr (source_values, sections, intersection, orphans, duplicates))))))"

definition attempt_of_row ::
  "trace_id \<Rightarrow> open_pull_attempt_row \<Rightarrow> catalog_target_row \<Rightarrow> storage_error + open_attempt_record" where
  "attempt_of_row attempt_id row t =
     and_then (map_err StIdentity (term_campus_key_try_new (ct_term_id t) (ct_campus_code t))) (\<lambda>target.
     and_then (stored_u64 (at_attempt_sequence row)) (\<lambda>attempt_sequence.
     and_then (stored_u64 (at_captured_catalog_content_version row)) (\<lambda>captured.
     and_then (http_from_columns (at_http row)) (\<lambda>http.
     and_then (counts_from_columns (at_counts row)) (\<lambda>(source_values, sections, intersection, orphans, duplicates).
     and_then (transpose_opt stored_u64 (at_requested_interval_seconds row)) (\<lambda>requested.
     and_then (transpose_opt stored_u64 (at_effective_interval_seconds row)) (\<lambda>effective.
     and_then (transpose_opt stored_u64 (at_schedule_lag_ms row)) (\<lambda>lag.
     and_then (transpose_opt stored_u64 (at_lkg_age_ms row)) (\<lambda>age.
       Inr \<lparr>ar_attempt_id = attempt_id, ar_run_id = at_run_id row, ar_target = target,
         ar_attempt_sequence = attempt_sequence, ar_rutgers_day = at_rutgers_day row,
         ar_captured_catalog_content_version = captured, ar_started_at = at_started_at row,
         ar_completed_at = at_completed_at row, ar_classification = at_classification row, ar_lane = at_lane row,
         ar_http = http, ar_canonical_set_sha256 = at_canonical_set_sha256 row,
         ar_state_sha256 = at_state_sha256 row, ar_source_value_count = source_values,
         ar_catalog_section_count = sections, ar_intersection_count = intersection, ar_orphan_count = orphans,
         ar_duplicate_count = duplicates, ar_requested_interval_seconds = requested,
         ar_effective_interval_seconds = effective, ar_schedule_lag_ms = lag, ar_lkg_age_ms = age,
         ar_error_code = at_error_code row, ar_diagnostic_token = at_diagnostic_token row\<rparr>)))))))))"

definition open_attempt :: "open_db \<Rightarrow> trace_id \<Rightarrow> storage_error + open_attempt_record option" where
  "open_attempt db attempt_id =
     (case bm_get (db_attempts db) attempt_id of
        None \<Rightarrow> Inr None
      | Some row \<Rightarrow> transpose_opt (attempt_of_row attempt_id row) (bm_get (db_catalog_targets db) (at_target_id row)))"

definition failure_snapshot_is_valid :: "u64 option \<Rightarrow> string option \<Rightarrow> string option \<Rightarrow> u16 option \<Rightarrow> bool" where
  "failure_snapshot_is_valid n at code status \<longleftrightarrow>
     (case (n, at, code) of
        (None, None, None) \<Rightarrow> status = None
      | (Some _, Some _, Some _) \<Rightarrow> True
      | _ \<Rightarrow> False)"

definition batch_state_of_row ::
  "open_batch_state_row \<Rightarrow> catalog_target_row \<Rightarrow> storage_error + open_batch_state" where
  "batch_state_of_row row t =
     and_then (transpose_opt stored_u64 (ob_last_failure_attempt_sequence row)) (\<lambda>failure_sequence.
     and_then (transpose_opt stored_u16 (ob_last_failure_http_status row)) (\<lambda>failure_status.
     and_then (ensure (failure_snapshot_is_valid failure_sequence (ob_last_failure_at row)
           (ob_last_failure_error_code row) failure_status)
         (invalid_stored ''open_batch_state'' ''last_failure_snapshot'')) (\<lambda>_.
     and_then (map_err StIdentity (term_campus_key_try_new (ct_term_id t) (ct_campus_code t))) (\<lambda>target.
     and_then (stored_u64 (ob_last_attempt_sequence row)) (\<lambda>attempt_sequence.
     and_then (stored_u64 (ob_last_observation_sequence row)) (\<lambda>observation_sequence.
     and_then (stored_u64 (ob_current_catalog_content_version row)) (\<lambda>version.
     and_then (transpose_opt stored_u64 (ob_lkg_observation_sequence row)) (\<lambda>lkg_sequence.
     and_then (transpose_opt stored_u64 (ob_requested_interval_seconds row)) (\<lambda>requested.
     and_then (transpose_opt stored_u64 (ob_effective_interval_seconds row)) (\<lambda>effective.
     and_then (transpose_opt stored_u64 (ob_last_schedule_lag_ms row)) (\<lambda>lag.
       Inr \<lparr>os_target = target, os_last_attempt_sequence = attempt_sequence,
         os_last_observation_sequence = observation_sequence, os_current_catalog_content_version = version,
         os_lkg_attempt_id = ob_lkg_attempt_id row, os_lkg_observation_sequence = lkg_sequence,
         os_lkg_observed_at = ob_lkg_observed_at row,
         os_lkg_canonical_set_sha256 = ob_lkg_canonical_set_sha256 row,
         os_lkg_state_sha256 = ob_lkg_state_sha256 row, os_last_attempt_id = ob_last_attempt_id row,
         os_last_attempt_at = ob_last_attempt_at row, os_last_success_at = ob_last_success_at row,
         os_last_failure_attempt_sequence = failure_sequence, os_last_failure_at = ob_last_failure_at row,
         os_last_failure_error_code = ob_last_failure_error_code row,
         os_last_failure_http_status = failure_status, os_last_body_change_at = ob_last_body_change_at row,
         os_last_state_change_at = ob_last_state_change_at row, os_requested_interval_seconds = requested,
         os_effective_interval_seconds = effective, os_last_schedule_lag_ms = lag\<rparr>)))))))))))"

definition read_open_batch_state :: "open_db \<Rightarrow> term_campus_key \<Rightarrow> storage_error + open_batch_state option" where
  "read_open_batch_state db target =
     (case bm_get (db_batch_state db) (open_target_id target) of
        None \<Rightarrow> Inr None
      | Some row \<Rightarrow> transpose_opt (batch_state_of_row row) (bm_get (db_catalog_targets db) (open_target_id target)))"

definition observation_of_row ::
  "trace_id \<Rightarrow> open_batch_observation_row \<Rightarrow> catalog_target_row \<Rightarrow> storage_error + open_batch_observation" where
  "observation_of_row attempt_id row t =
     and_then (ensure (is_success (bo_classification row))
         (invalid_stored ''open_batch_observations'' ''classification'')) (\<lambda>_.
     and_then (map_err StIdentity (term_campus_key_try_new (ct_term_id t) (ct_campus_code t))) (\<lambda>target.
     and_then (stored_u64 (bo_observation_sequence row)) (\<lambda>observation_sequence.
     and_then (stored_u64 (bo_catalog_content_version row)) (\<lambda>version.
     and_then (http_from_columns (bo_http row)) (\<lambda>http.
     and_then (counts_from_columns (bo_counts row)) (\<lambda>(source_values, sections, intersection, orphans, duplicates).
     and_then (stored_u64 (bo_changed_section_count row)) (\<lambda>changed.
       Inr \<lparr>oob_attempt_id = attempt_id, oob_observation_id = bo_observation_id row, oob_target = target,
         oob_observation_sequence = observation_sequence, oob_catalog_content_version = version,
         oob_observed_at = bo_observed_at row, oob_classification = bo_classification row, oob_http = http,
         oob_canonical_set_sha256 = bo_canonical_set_sha256 row, oob_state_sha256 = bo_state_sha256 row,
         oob_source_value_count = source_values, oob_catalog_section_count = sections,
         oob_intersection_count = intersection, oob_orphan_count = orphans, oob_duplicate_count = duplicates,
         oob_changed_section_count = changed, oob_body_changed = bo_body_changed row,
         oob_state_changed = bo_state_changed row\<rparr>)))))))"

definition read_open_batch_observation :: "open_db \<Rightarrow> trace_id \<Rightarrow> storage_error + open_batch_observation option" where
  "read_open_batch_observation db attempt_id =
     (case bm_get (db_observations db) attempt_id of
        None \<Rightarrow> Inr None
      | Some row \<Rightarrow> transpose_opt (observation_of_row attempt_id row) (bm_get (db_catalog_targets db) (bo_target_id row)))"

subsection \<open>Sections, catalog and counters\<close>

definition section_key_of :: "term_campus_key \<Rightarrow> string \<Rightarrow> storage_error + section_key" where
  "section_key_of target index =
     map_err StIdentity (section_key_try_new (term_str (tc_term target)) (campus_str (tc_campus target)) index)"

definition read_open_section_current :: "open_db \<Rightarrow> term_campus_key \<Rightarrow> storage_error + open_section_current list" where
  "read_open_section_current db target =
     try_map (\<lambda>(index, row).
       and_then (section_key_of target index) (\<lambda>sec.
       and_then (stored_u64 (oc_catalog_content_version row)) (\<lambda>version.
       and_then (stored_u64 (oc_observation_sequence row)) (\<lambda>observation_sequence.
         Inr \<lparr>osc_section = sec, osc_state = oc_state row, osc_catalog_content_version = version,
           osc_attempt_id = oc_attempt_id row, osc_observation_sequence = observation_sequence,
           osc_observed_at = oc_observed_at row\<rparr>))))
       (bm_entries (section_current_rows db (open_target_id target)))"

definition serving_indices :: "open_db \<Rightarrow> string \<Rightarrow> int \<Rightarrow> string list" where
  "serving_indices db target_id version =
     (case bm_get (db_catalog_sections db) target_id of
        None \<Rightarrow> []
      | Some rows \<Rightarrow> bm_keys (bm_retain (\<lambda>_ v. v = version) rows))"

definition serving_open_catalog_snapshot ::
  "open_db \<Rightarrow> term_campus_key \<Rightarrow> storage_error + open_catalog_snapshot option" where
  "serving_open_catalog_snapshot db target =
     (let target_id = open_target_id target in
     and_then (transpose_opt (\<lambda>t. and_then (stored_u64 (ct_current_content_version t)) (\<lambda>version.
           and_then (stored_u64 (ct_section_count t)) (\<lambda>n. Inr (version, n))))
         (bm_get (db_catalog_targets db) target_id)) (\<lambda>published.
       case published of
         None \<Rightarrow> Inr None
       | Some (content_version, expected_section_count) \<Rightarrow>
           if content_version = 0 then Inr None
           else
             and_then (u64_to_i64 content_version) (\<lambda>version.
             and_then (try_map (section_key_of target) (serving_indices db target_id version)) (\<lambda>sections.
             and_then (ok_or StStoredIntegerOutOfRange (u64_try_from (length sections))) (\<lambda>n.
             and_then (ensure (n = expected_section_count) (invalid_stored ''catalog_targets'' ''section_count'')) (\<lambda>_.
               Inr (Some \<lparr>cat_target = target, cat_content_version = content_version, cat_sections = sections\<rparr>)))))))"

definition open_day_counters :: "open_lib \<Rightarrow> open_db \<Rightarrow> term_campus_key \<Rightarrow> string \<Rightarrow> storage_error + open_attempt_counters" where
  "open_day_counters L db target day =
     and_then (validate_rutgers_day L day) (\<lambda>_.
       load_open_counters (bm_get (db_daily_counters db) (open_target_id target, day)))"

definition open_service_day_counters :: "open_lib \<Rightarrow> open_db \<Rightarrow> string \<Rightarrow> storage_error + open_attempt_counters" where
  "open_service_day_counters L db day =
     and_then (validate_rutgers_day L day) (\<lambda>_. load_open_service_day_counters db day)"

definition open_run_counters :: "open_db \<Rightarrow> term_campus_key \<Rightarrow> trace_id \<Rightarrow> storage_error + open_attempt_counters" where
  "open_run_counters db target run_id = load_open_counters (bm_get (db_run_counters db) (run_id, open_target_id target))"

definition read_open_section_events :: "open_db \<Rightarrow> u64 \<Rightarrow> u32 \<Rightarrow> storage_error + open_section_event list" where
  "read_open_section_events db after_event_id limit =
     (if limit = 0 \<or> limit > 1000 then Inl (StInvalidCommand ''limit'')
      else and_then (u64_to_i64 after_event_id) (\<lambda>after.
        try_map (\<lambda>(event_id, row, t).
          and_then (stored_u64 event_id) (\<lambda>event_id.
          and_then (map_err StIdentity (section_key_try_new (ct_term_id t) (ct_campus_code t) (ev_section_index row))) (\<lambda>sec.
          and_then (stored_u64 (ev_catalog_content_version row)) (\<lambda>version.
          and_then (stored_u64 (ev_observation_sequence row)) (\<lambda>observation_sequence.
            Inr \<lparr>se_event_id = event_id, se_observation_id = ev_observation_id row,
              se_refresh_observation_id = ev_refresh_observation_id row, se_attempt_id = ev_attempt_id row,
              se_section = sec, se_state = ev_state row, se_catalog_content_version = version,
              se_observation_sequence = observation_sequence, se_observed_at = ev_observed_at row\<rparr>)))))
          (take (unat limit) (List.map_filter (\<lambda>(event_id, row).
             if event_id > after
             then map_option (\<lambda>t. (event_id, row, t)) (bm_get (db_catalog_targets db) (ev_target_id row))
             else None) (bm_entries (db_section_events db))))))"

subsection \<open>Reads of the integrity gate\<close>

definition serving_lkg_open_index_set :: "open_db \<Rightarrow> term_campus_key \<Rightarrow> string bset option" where
  "serving_lkg_open_index_set db target =
     (let rows = section_current_rows db (open_target_id target) in
      if bm_is_empty rows then None
      else Some (bm_map (\<lambda>_. ()) (bm_retain (\<lambda>_ row. oc_state row = SectionOpen) rows)))"

definition recent_open_gate_attempt_summaries ::
  "open_db \<Rightarrow> term_campus_key \<Rightarrow> u32 \<Rightarrow> open_gate_attempt_summary list" where
  "recent_open_gate_attempt_summaries db target limit =
     map (\<lambda>(_, row). \<lparr>gs_classification = at_classification row,
         gs_canonical_set_sha256 = at_canonical_set_sha256 row, gs_completed_at = at_completed_at row,
         gs_catalog_set_identity = at_gate_catalog_set_identity row\<rparr>)
       (take (unat limit) (filter (\<lambda>(_, row). at_classification row \<noteq> AcStarted
           \<and> (at_candidate_catalog_observation_id row = None \<or> is_success (at_classification row)))
         (rev (attempts_by_sequence db (open_target_id target)))))"

record complete_target_snapshot_state =
  cts_target :: term_campus_key
  cts_catalog_content_version :: u64
  cts_open_catalog_content_version :: u64
  cts_open_lkg_attempt_id :: "trace_id option"
  cts_ready :: bool

definition read_complete_target_snapshot_state ::
  "open_db \<Rightarrow> term_campus_key \<Rightarrow> storage_error + complete_target_snapshot_state" where
  "read_complete_target_snapshot_state db target =
     (let target_id = open_target_id target in
     and_then (catalog_version_of db target_id) (\<lambda>catalog_version.
     let catalog_version = (case catalog_version of None \<Rightarrow> 0 | Some v \<Rightarrow> v) in
     and_then (case bm_get (db_batch_state db) target_id of
         None \<Rightarrow> Inr (0, None)
       | Some row \<Rightarrow> and_then (stored_u64 (ob_current_catalog_content_version row)) (\<lambda>v. Inr (v, ob_lkg_attempt_id row)))
       (\<lambda>(open_version, lkg_attempt_id).
       Inr \<lparr>cts_target = target, cts_catalog_content_version = catalog_version,
         cts_open_catalog_content_version = open_version, cts_open_lkg_attempt_id = lkg_attempt_id,
         cts_ready = (catalog_version > 0 \<and> lkg_attempt_id \<noteq> None \<and> open_version = catalog_version)\<rparr>)))"

end
