(* ===== verification/Open_Service.thy ===== *)
theory Open_Service
  imports Open_Reads Open_Scheduler
begin

text \<open>
  One pull of the open feed (\<open>crates/bcsp-open/src/service.rs\<close>): record the attempt, fetch, decide with
  the integrity gate, commit, advance the gate and report what the watchers must see.

  The trait \<open>OpenPullPersistence\<close> is the record \<open>open_persistence\<close> of functions on a state \<open>'s\<close>; an
  implementation may let other tasks use the storage before an operation runs, so no two calls need
  see the same rows.  The target's gate set, shared behind a lock, is the second half of the state.
  What other tasks do to both while the response is awaited is the argument \<open>during\<close>; the two
  readings of the clock, the fetched result and the sampled watches are arguments too.  A panic is
  \<open>None\<close>.  Log lines are not modelled.
\<close>

subsection \<open>Data\<close>

datatype open_counter_audience = AudienceLocal trace_id | AudiencePublic

datatype open_gate_route = RouteServing | RouteCandidate

record open_pull_command =
  pc_attempt_id :: trace_id
  pc_run_id :: trace_id
  pc_source_request :: open_sections_request
  pc_refresh_intervals :: open_refresh_intervals
  pc_active_watch_count :: u64
  pc_freshness_interval_seconds :: u32
  pc_lane :: origin_scheduler_lane
  pc_scheduler_lag :: duration
  pc_current_failure_streak :: u32
  pc_counter_audience :: open_counter_audience
  pc_gate :: "open_gate_route option"

datatype open_pull_failure =
    PullUpstream open_sections_failure
  | PullResponseTargetMismatch open_response_metadata
  | PullResponseMetadataMismatch open_response_metadata
  | PullCatalogUnavailableAfterFetch open_response_metadata

datatype open_pull_terminal =
    TerminalValid open_sections_response
  | TerminalUnsafe open_sections_response
  | TerminalCatalogRace open_sections_response
  | TerminalFailed open_pull_failure

record open_pull_execution =
  ex_outcome :: open_commit_outcome
  ex_scheduler_completion :: completion_schedule
  ex_terminal :: open_pull_terminal
  ex_reconcile :: "open_reconcile_plan option"
  ex_observations :: "open_observation list"

datatype shared_open_service_error =
    SvTargetNotPublished term_campus_key | SvStorage storage_error | SvTimestampFormat | SvRutgersDay
  | SvResponseCountOverflow | SvInvalidCatalogVersion | SvReconcile reconcile_input_error
  | SvReconcileDivergence | SvUnexpectedClassification | SvCatalogSchedulerLane
  | SvCounterAudienceRunMismatch | SvObservationSequence | SvObservationTarget | SvObservationCommit
  | SvFreshUntilOverflow | SvZeroFreshnessInterval

record 's open_persistence =
  ps_serving_open_catalog_snapshot :: "'s \<Rightarrow> term_campus_key \<Rightarrow> (storage_error + open_catalog_snapshot option) \<times> 's"
  ps_begin_open_pull_attempt :: "'s \<Rightarrow> begin_open_pull_attempt_command \<Rightarrow> (storage_error + u64) \<times> 's"
  ps_finish_open_pull_success :: "'s \<Rightarrow> finish_open_pull_success_command \<Rightarrow> (storage_error + open_commit_outcome) \<times> 's"
  ps_finish_open_pull_failure :: "'s \<Rightarrow> finish_open_pull_failure_command \<Rightarrow> (storage_error + open_commit_outcome) \<times> 's"
  ps_lkg_open_index_set :: "'s \<Rightarrow> term_campus_key \<Rightarrow> (storage_error + section_index bset option) \<times> 's"
  ps_recent_open_gate_attempt_summaries ::
    "'s \<Rightarrow> term_campus_key \<Rightarrow> u32 \<Rightarrow> (storage_error + open_gate_attempt_summary list) \<times> 's"

text \<open>\<open>impl OpenPullPersistence for OperationalStorage\<close>: a failed transaction leaves the database as it was.\<close>

definition on_db :: "open_db \<Rightarrow> storage_error + 'a \<times> open_db \<Rightarrow> (storage_error + 'a) \<times> open_db" where
  "on_db db r = (case r of Inl e \<Rightarrow> (Inl e, db) | Inr (x, db') \<Rightarrow> (Inr x, db'))"

definition lkg_open_index_set :: "open_db \<Rightarrow> term_campus_key \<Rightarrow> storage_error + section_index bset option" where
  "lkg_open_index_set db target =
     transpose_opt (\<lambda>raw. and_then (try_map (\<lambda>v. map_err StIdentity (section_index_try_from v)) (bm_keys raw))
         (\<lambda>indexes. Inr (bs_of_list indexes)))
       (serving_lkg_open_index_set db target)"

definition operational_persistence :: "open_lib \<Rightarrow> open_db open_persistence" where
  "operational_persistence L = \<lparr>
     ps_serving_open_catalog_snapshot = (\<lambda>db target. (serving_open_catalog_snapshot db target, db)),
     ps_begin_open_pull_attempt = (\<lambda>db c. on_db db (begin_open_pull_attempt L db c)),
     ps_finish_open_pull_success = (\<lambda>db c. on_db db (finish_open_pull_success L db c)),
     ps_finish_open_pull_failure = (\<lambda>db c. on_db db (finish_open_pull_failure L db c)),
     ps_lkg_open_index_set = (\<lambda>db target. (lkg_open_index_set db target, db)),
     ps_recent_open_gate_attempt_summaries =
       (\<lambda>db target limit. (Inr (recent_open_gate_attempt_summaries db target limit), db))\<rparr>"

subsection \<open>Computations of the service\<close>

type_synonym ('s, 'a) service =
  "'s \<times> target_gate_set \<Rightarrow> ((shared_open_service_error + 'a) \<times> 's \<times> target_gate_set) option"

definition svc_ok :: "'a \<Rightarrow> ('s, 'a) service" where
  "svc_ok x = (\<lambda>\<sigma>. Some (Inr x, \<sigma>))"

definition svc_lift :: "shared_open_service_error + 'a \<Rightarrow> ('s, 'a) service" where
  "svc_lift r = (\<lambda>\<sigma>. Some (r, \<sigma>))"

definition svc_expect :: "'a option \<Rightarrow> ('s, 'a) service" where
  "svc_expect v = (\<lambda>\<sigma>. map_option (\<lambda>x. (Inr x, \<sigma>)) v)"

definition svc_bind :: "('s, 'a) service \<Rightarrow> ('a \<Rightarrow> ('s, 'b) service) \<Rightarrow> ('s, 'b) service" where
  "svc_bind m f = (\<lambda>\<sigma>. case m \<sigma> of
     None \<Rightarrow> None | Some (Inl e, \<sigma>') \<Rightarrow> Some (Inl e, \<sigma>') | Some (Inr x, \<sigma>') \<Rightarrow> f x \<sigma>')"

definition svc_call :: "('s \<Rightarrow> (storage_error + 'a) \<times> 's) \<Rightarrow> ('s, 'a) service" where
  "svc_call op = (\<lambda>(s, gates). case op s of (r, s') \<Rightarrow> Some (map_err SvStorage r, s', gates))"

definition svc_gates :: "(target_gate_set \<Rightarrow> 'a \<times> target_gate_set) \<Rightarrow> ('s, 'a) service" where
  "svc_gates f = (\<lambda>(s, gates). case f gates of (x, gates') \<Rightarrow> Some (Inr x, s, gates'))"

subsection \<open>Conversions\<close>

definition content_version_try_from :: "u64 \<Rightarrow> shared_open_service_error + u64" where
  "content_version_try_from v = (if v = 0 then Inl SvInvalidCatalogVersion else Inr v)"

definition format_timestamp :: "open_lib \<Rightarrow> offset_date_time \<Rightarrow> shared_open_service_error + string" where
  "format_timestamp L t = ok_or SvTimestampFormat (ol_format_rfc3339 L t)"

definition rutgers_day_at :: "open_lib \<Rightarrow> offset_date_time \<Rightarrow> shared_open_service_error + string" where
  "rutgers_day_at L t = ok_or SvRutgersDay (ol_new_york_day L t)"

definition duration_millis :: "duration \<Rightarrow> u64" where
  "duration_millis d = u64_from_len (duration_as_millis d)"

definition validate_counter_audience :: "open_pull_command \<Rightarrow> shared_open_service_error + unit" where
  "validate_counter_audience c =
     (case pc_counter_audience c of
        AudienceLocal run_id \<Rightarrow> ensure (run_id = pc_run_id c) SvCounterAudienceRunMismatch
      | AudiencePublic \<Rightarrow> Inr ())"

fun storage_lane :: "origin_scheduler_lane \<Rightarrow> shared_open_service_error + open_request_lane" where
  "storage_lane SchedCatalog = Inl SvCatalogSchedulerLane"
| "storage_lane OpenGeneral = Inr RlGeneral"
| "storage_lane OpenActiveWatch = Inr RlActiveWatch"
| "storage_lane OpenFirstLoad = Inr RlFirstLoad"
| "storage_lane OpenManualRefresh = Inr RlManualRefresh"
| "storage_lane OpenCatalogRaceRecheck = Inr RlCatalogRaceRecheck"

text \<open>\<open>None\<close> is the \<open>expect\<close> of the hash; the comparisons before it are decided first.\<close>

definition response_metadata_is_consistent :: "open_lib \<Rightarrow> open_sections_response \<Rightarrow> bool option" where
  "response_metadata_is_consistent L r =
     (let unique_count = length (or_open_indexes r); m = or_metadata r in
      if or_classification r = (if unique_count = 0 then PayloadEmpty else PayloadNonempty)
         \<and> om_unique_value_count m = unique_count \<and> om_raw_value_count m \<ge> unique_count
         \<and> om_duplicate_value_count m = om_raw_value_count m - unique_count
      then map_option (\<lambda>h. h = om_canonical_set_sha256 m) (canonical_open_set_sha256 (ol_digest L) (or_open_indexes r))
      else Some False)"

text \<open>\<open>unix_timestamp\<close> rounds down; the difference saturates at the 64-bit range before it is cut at zero.\<close>

definition retry_after_delay :: "retry_after_header \<Rightarrow> offset_date_time \<Rightarrow> duration option" where
  "retry_after_delay header completed_at =
     (case header of
        RetryAfterValid (DelaySeconds seconds) \<Rightarrow> Some (duration_from_secs (unat seconds))
      | RetryAfterValid (HttpDateUnixSeconds unix_seconds) \<Rightarrow>
          let remaining = max (- I64_MAX - 1) (min I64_MAX (unix_seconds - completed_at div 1000000000))
          in Some (duration_from_secs (nat remaining))
      | _ \<Rightarrow> None)"

definition lkg_reference_within :: "catalog_open_batch \<Rightarrow> section_index bset \<Rightarrow> u64" where
  "lkg_reference_within catalog lkg = of_nat (length (filter (contains_index catalog) (bm_keys lkg)))"

definition gate_restart_summaries :: "open_lib \<Rightarrow> open_gate_attempt_summary list \<Rightarrow> restart_attempt_summary list" where
  "gate_restart_summaries L rows = map (\<lambda>row.
     let completed_at = Option.bind (gs_completed_at row) (ol_parse_rfc3339 L);
         identity = Option.bind (gs_catalog_set_identity row) identity_from_sha256_hex
     in case (gs_classification row, gs_canonical_set_sha256 row, completed_at) of
          (AcSuspectPartialSnapshot, Some hash, Some at) \<Rightarrow>
            \<lparr>ra_is_suspect_partial = True, ra_canonical_set_sha256 = hash, ra_completed_at = at,
             ra_catalog_set_identity = identity\<rparr>
        | (_, hash, at) \<Rightarrow>
            \<lparr>ra_is_suspect_partial = False,
             ra_canonical_set_sha256 = (case hash of None \<Rightarrow> [] | Some h \<Rightarrow> h),
             ra_completed_at = (case at of None \<Rightarrow> 0 | Some t \<Rightarrow> t),
             ra_catalog_set_identity = identity\<rparr>) rows"

subsection \<open>Failures\<close>

fun redirect_code :: "redirect_scope \<Rightarrow> string" where
  "redirect_code OffOrigin = ''OPEN_OFF_ORIGIN_REDIRECT''"
| "redirect_code SameOrigin = ''OPEN_SAME_ORIGIN_REDIRECT''"
| "redirect_code InvalidLocation = ''OPEN_INVALID_REDIRECT''"

fun upstream_storage_fields ::
  "open_sections_error \<Rightarrow> offset_date_time \<Rightarrow> u16 option \<times> u64 option \<times> string \<times> open_failure_kind" where
  "upstream_storage_fields ErrTimeout at = (None, None, ''OPEN_TIMEOUT'', FailTransient)"
| "upstream_storage_fields ErrNetwork at = (None, None, ''OPEN_NETWORK'', FailTransient)"
| "upstream_storage_fields ErrRequestConstruction at = (None, None, ''OPEN_REQUEST_CONSTRUCTION'', FailFatalProtocol)"
| "upstream_storage_fields ErrResponseUrlMismatch at = (None, None, ''OPEN_RESPONSE_URL_MISMATCH'', FailFatalProtocol)"
| "upstream_storage_fields (ErrTransientHttp status) at = (Some status, None, ''OPEN_TRANSIENT_HTTP'', FailTransient)"
| "upstream_storage_fields (ErrRateLimited header) at =
     (let retry_after = retry_after_delay header at in
      (Some 429, map_option (\<lambda>d. of_nat (d div nanos_per_second)) retry_after, ''OPEN_RATE_LIMITED'',
       FailRateLimited retry_after))"
| "upstream_storage_fields ErrForbidden at = (Some 403, None, ''OPEN_FORBIDDEN'', FailFatalProtocol)"
| "upstream_storage_fields (ErrRedirect status scope) at = (Some status, None, redirect_code scope, FailFatalProtocol)"
| "upstream_storage_fields (ErrFatalClientHttp status) at = (Some status, None, ''OPEN_FATAL_CLIENT_HTTP'', FailFatalProtocol)"
| "upstream_storage_fields (ErrUnsupportedHttp status) at = (Some status, None, ''OPEN_UNSUPPORTED_HTTP'', FailFatalProtocol)"
| "upstream_storage_fields ErrInvalidContentType at = (None, None, ''OPEN_INVALID_CONTENT_TYPE'', FailFatalProtocol)"
| "upstream_storage_fields ErrResponseTooLarge at = (None, None, ''OPEN_RESPONSE_TOO_LARGE'', FailFatalProtocol)"
| "upstream_storage_fields ErrContentDecoding at = (None, None, ''OPEN_CONTENT_DECODING'', FailFatalProtocol)"
| "upstream_storage_fields ErrInvalidJson at = (None, None, ''OPEN_INVALID_JSON'', FailFatalProtocol)"
| "upstream_storage_fields ErrRootNotArray at = (None, None, ''OPEN_ROOT_NOT_ARRAY'', FailFatalProtocol)"
| "upstream_storage_fields (ErrNonStringValue _) at = (None, None, ''OPEN_NON_STRING_VALUE'', FailFatalProtocol)"
| "upstream_storage_fields (ErrInvalidSectionIndex _) at = (None, None, ''OPEN_INVALID_SECTION_INDEX'', FailFatalProtocol)"

fun failure_storage_fields ::
  "open_pull_failure \<Rightarrow> offset_date_time \<Rightarrow> u16 option \<times> u64 option \<times> string \<times> open_failure_kind" where
  "failure_storage_fields (PullResponseTargetMismatch _) at =
     (None, None, ''OPEN_RESPONSE_TARGET_MISMATCH'', FailFatalProtocol)"
| "failure_storage_fields (PullResponseMetadataMismatch _) at =
     (None, None, ''OPEN_RESPONSE_METADATA_MISMATCH'', FailFatalProtocol)"
| "failure_storage_fields (PullCatalogUnavailableAfterFetch _) at =
     (None, None, ''OPEN_CATALOG_UNAVAILABLE_AFTER_FETCH'', FailTransient)"
| "failure_storage_fields (PullUpstream failure) at = upstream_storage_fields (of_kind failure) at"

definition no_audit :: "u16 option \<Rightarrow> u64 option \<Rightarrow> open_http_audit_metadata" where
  "no_audit http_status retry_after_seconds =
     \<lparr>ha_http_status = http_status, ha_cache_status = Some NotApplicable, ha_decoded_bytes = None,
      ha_decoded_body_sha256 = None, ha_content_type = None, ha_etag = None, ha_cache_control = None,
      ha_date = None, ha_age_seconds = None, ha_last_modified = None, ha_retry_after = None,
      ha_retry_after_seconds = retry_after_seconds\<rparr>"

definition response_audit ::
  "open_response_metadata \<Rightarrow> u64 option \<Rightarrow> shared_open_service_error + open_http_audit_metadata" where
  "response_audit m retry_after_seconds =
     and_then (ok_or SvResponseCountOverflow (u64_try_from (om_decoded_bytes m))) (\<lambda>decoded_bytes.
       Inr \<lparr>ha_http_status = Some (om_http_status m), ha_cache_status = Some NotApplicable,
         ha_decoded_bytes = Some decoded_bytes, ha_decoded_body_sha256 = Some (om_decoded_body_sha256 m),
         ha_content_type = Some (om_content_type m), ha_etag = om_etag m, ha_cache_control = om_cache_control m,
         ha_date = om_date m, ha_age_seconds = om_age_seconds m, ha_last_modified = om_last_modified m,
         ha_retry_after = None, ha_retry_after_seconds = retry_after_seconds\<rparr>)"

fun failure_http_audit ::
  "open_pull_failure \<Rightarrow> u16 option \<Rightarrow> u64 option \<Rightarrow> shared_open_service_error + open_http_audit_metadata" where
  "failure_http_audit (PullUpstream failure) fallback retry_after_seconds =
     (case of_response_metadata failure of
        None \<Rightarrow> Inr (no_audit fallback retry_after_seconds)
      | Some m \<Rightarrow>
          and_then (transpose_opt (\<lambda>n. ok_or SvResponseCountOverflow (u64_try_from n)) (fm_decoded_bytes m)) (\<lambda>decoded_bytes.
            Inr \<lparr>ha_http_status = Some (fm_http_status m), ha_cache_status = Some NotApplicable,
              ha_decoded_bytes = decoded_bytes, ha_decoded_body_sha256 = fm_decoded_body_sha256 m,
              ha_content_type = fm_content_type m, ha_etag = fm_etag m, ha_cache_control = fm_cache_control m,
              ha_date = fm_date m, ha_age_seconds = fm_age_seconds m, ha_last_modified = fm_last_modified m,
              ha_retry_after = fm_retry_after_raw m, ha_retry_after_seconds = retry_after_seconds\<rparr>))"
| "failure_http_audit (PullResponseTargetMismatch m) fallback retry_after_seconds = response_audit m retry_after_seconds"
| "failure_http_audit (PullResponseMetadataMismatch m) fallback retry_after_seconds = response_audit m retry_after_seconds"
| "failure_http_audit (PullCatalogUnavailableAfterFetch m) fallback retry_after_seconds = response_audit m retry_after_seconds"

fun diagnostic_code :: "open_pull_failure \<Rightarrow> string" where
  "diagnostic_code (PullResponseTargetMismatch _) = ''OPEN_RESPONSE_TARGET_MISMATCH''"
| "diagnostic_code (PullResponseMetadataMismatch _) = ''OPEN_RESPONSE_METADATA_MISMATCH''"
| "diagnostic_code (PullCatalogUnavailableAfterFetch _) = ''OPEN_CATALOG_UNAVAILABLE_AFTER_FETCH''"
| "diagnostic_code (PullUpstream failure) =
     (case of_kind failure of
        ErrTimeout \<Rightarrow> ''OPEN_TIMEOUT''
      | ErrNetwork \<Rightarrow> ''OPEN_NETWORK''
      | ErrRequestConstruction \<Rightarrow> ''OPEN_REQUEST_CONSTRUCTION''
      | ErrResponseUrlMismatch \<Rightarrow> ''OPEN_RESPONSE_URL_MISMATCH''
      | ErrTransientHttp _ \<Rightarrow> ''OPEN_TRANSIENT_HTTP''
      | ErrRateLimited _ \<Rightarrow> ''OPEN_RATE_LIMITED''
      | ErrForbidden \<Rightarrow> ''OPEN_FORBIDDEN''
      | ErrRedirect _ scope \<Rightarrow> redirect_code scope
      | ErrFatalClientHttp _ \<Rightarrow> ''OPEN_FATAL_CLIENT_HTTP''
      | ErrUnsupportedHttp _ \<Rightarrow> ''OPEN_UNSUPPORTED_HTTP''
      | ErrInvalidContentType \<Rightarrow> ''OPEN_INVALID_CONTENT_TYPE''
      | ErrResponseTooLarge \<Rightarrow> ''OPEN_RESPONSE_TOO_LARGE''
      | ErrContentDecoding \<Rightarrow> ''OPEN_CONTENT_DECODING''
      | ErrInvalidJson \<Rightarrow> ''OPEN_INVALID_JSON''
      | ErrRootNotArray \<Rightarrow> ''OPEN_ROOT_NOT_ARRAY''
      | ErrNonStringValue _ \<Rightarrow> ''OPEN_NON_STRING_VALUE''
      | ErrInvalidSectionIndex _ \<Rightarrow> ''OPEN_INVALID_SECTION_INDEX'')"

subsection \<open>Cross-check and observations\<close>

fun expected_classification :: "open_reconcile_classification \<Rightarrow> open_attempt_classification" where
  "expected_classification ValidApplied = AcValidApplied"
| "expected_classification ValidEmptyNoRows = AcValidEmptyNoRows"
| "expected_classification UnsafeEmpty = AcUnsafeEmpty"
| "expected_classification UnsafeZeroIntersection = AcUnsafeZeroIntersection"
| "expected_classification SuspectPartialSnapshot = AcSuspectPartialSnapshot"
| "expected_classification StaleCatalogRace = AcStaleCatalogRace"

definition outcome_matches_reconcile :: "open_commit_outcome \<Rightarrow> open_reconcile_plan \<Rightarrow> bool" where
  "outcome_matches_reconcile outcome plan =
     (if co_classification outcome = AcStaleCatalogRace then co_observation_sequence outcome = None
      else co_classification outcome = expected_classification (plan_classification plan)
        \<and> co_catalog_content_version outcome = plan_current_version plan
        \<and> co_source_value_count outcome = plan_raw_value_count plan
        \<and> co_catalog_section_count outcome = plan_catalog_section_count plan
        \<and> co_intersection_count outcome = plan_observed_intersection_count plan
        \<and> co_orphan_count outcome = plan_orphan_count plan
        \<and> co_duplicate_count outcome = plan_duplicate_count plan)"

definition pull_counts :: "open_attempt_counters \<Rightarrow> open_pull_counts" where
  "pull_counts v = \<lparr>attempted = oac_attempted v, succeeded = oac_succeeded v, failed = oac_failed v,
     empty_count = oac_empty v\<rparr>"

definition committed_counter_snapshot ::
  "open_observation_commit \<Rightarrow> open_counter_audience \<Rightarrow> shared_open_service_error + open_counter_snapshot" where
  "committed_counter_snapshot commit audience =
     and_then (ok_or SvRutgersDay (rutgers_day_try_from (oo_rutgers_day commit))) (\<lambda>day.
       Inr (case audience of
          AudienceLocal _ \<Rightarrow> \<lparr>run_counts = Some (pull_counts (oo_run_counts commit)),
             today_counts = pull_counts (oo_target_day_counts commit), rutgers_day_str = day_str day\<rparr>
        | AudiencePublic \<Rightarrow> \<lparr>run_counts = None,
             today_counts = pull_counts (oo_service_day_counts commit), rutgers_day_str = day_str day\<rparr>))"

definition validate_committed_section_event ::
  "open_section_event \<Rightarrow> trace_id \<Rightarrow> trace_id \<Rightarrow> u64 \<Rightarrow> u64 \<Rightarrow> shared_open_service_error + unit" where
  "validate_committed_section_event event attempt_id refresh_observation_id observation_sequence version =
     ensure (se_event_id event \<noteq> 0 \<and> se_attempt_id event = attempt_id
         \<and> se_refresh_observation_id event = refresh_observation_id
         \<and> se_observation_sequence event = observation_sequence
         \<and> se_catalog_content_version event = version) SvObservationCommit"

text \<open>The checked steps \<open>2 * interval + 15\<close> in \<open>u64\<close> followed by the conversion to \<open>i64\<close>.\<close>

definition freshness_seconds :: "u64 \<Rightarrow> int option" where
  "freshness_seconds interval =
     (if 2 * uint interval < 2 ^ 64 \<and> 2 * uint interval + 15 < 2 ^ 64 \<and> 2 * uint interval + 15 \<le> I64_MAX
      then Some (2 * uint interval + 15) else None)"

record observation_header =
  oh_attempt_id :: trace_id
  oh_refresh_observation_id :: trace_id
  oh_observation_sequence :: u64
  oh_version :: u64
  oh_pull_sequence :: open_sequence
  oh_batch :: term_campus_key
  oh_freshness_seconds :: int
  oh_scheduler_lag :: u64
  oh_counters :: open_counter_snapshot

definition observe_event ::
  "open_lib \<Rightarrow> observation_header \<Rightarrow> open_section_event \<Rightarrow> trace_id bset \<times> section_key bset \<times> open_observation list
     \<Rightarrow> shared_open_service_error + trace_id bset \<times> section_key bset \<times> open_observation list" where
  "observe_event L h event acc =
     (case acc of (ids, keys, observations) \<Rightarrow>
     and_then (validate_committed_section_event event (oh_attempt_id h) (oh_refresh_observation_id h)
         (oh_observation_sequence h) (oh_version h)) (\<lambda>_.
     and_then (ensure (\<not> bm_contains ids (se_observation_id event)) SvObservationCommit) (\<lambda>_.
     and_then (ensure (\<not> bm_contains keys (se_section event)) SvObservationCommit) (\<lambda>_.
     and_then (ok_or SvTimestampFormat (ol_parse_rfc3339 L (se_observed_at event))) (\<lambda>observed_at.
     and_then (ok_or SvFreshUntilOverflow (ol_checked_add L observed_at (oh_freshness_seconds h * 1000000000))) (\<lambda>fresh_until.
     and_then (ok_or SvObservationTarget (open_observation_try_new (se_observation_id event)
         (se_refresh_observation_id event) (oh_batch h) (se_section event) (oh_pull_sequence h) (oh_version h)
         (case se_state event of SectionOpen \<Rightarrow> StateOpen | SectionClosed \<Rightarrow> StateClosed)
         observed_at fresh_until (oh_scheduler_lag h) (oh_counters h))) (\<lambda>observation.
       Inr (bs_insert (se_observation_id event) ids, bs_insert (se_section event) keys,
         observations @ [observation]))))))))"

definition build_committed_observations ::
  "open_lib \<Rightarrow> open_pull_command \<Rightarrow> open_commit_outcome \<Rightarrow> section_key bset
     \<Rightarrow> shared_open_service_error + open_observation list" where
  "build_committed_observations L c outcome expected_watched_sections =
     and_then (ok_or SvObservationCommit (co_observation_commit outcome)) (\<lambda>commit.
     and_then (ok_or SvObservationCommit (co_refresh_observation_id outcome)) (\<lambda>refresh_observation_id.
     and_then (ok_or SvObservationCommit (co_observation_sequence outcome)) (\<lambda>observation_sequence.
     and_then (ok_or SvObservationSequence (open_sequence_try_from (co_attempt_sequence outcome))) (\<lambda>pull_sequence.
     and_then (content_version_try_from (co_catalog_content_version outcome)) (\<lambda>version.
     and_then (committed_counter_snapshot commit (pc_counter_audience c)) (\<lambda>counters.
     and_then (ensure (oo_effective_interval_seconds commit \<noteq> 0) SvObservationCommit) (\<lambda>_.
     and_then (ok_or SvFreshUntilOverflow (freshness_seconds (oo_effective_interval_seconds commit))) (\<lambda>seconds.
     and_then (try_fold (observe_event L \<lparr>oh_attempt_id = pc_attempt_id c,
           oh_refresh_observation_id = refresh_observation_id, oh_observation_sequence = observation_sequence,
           oh_version = version, oh_pull_sequence = pull_sequence, oh_batch = osr_target (pc_source_request c),
           oh_freshness_seconds = seconds, oh_scheduler_lag = duration_millis (pc_scheduler_lag c),
           oh_counters = counters\<rparr>) (oo_section_events commit) (bm_empty, bm_empty, [])) (\<lambda>(_, keys, observations).
     and_then (ensure (keys = expected_watched_sections) SvObservationCommit) (\<lambda>_.
       Inr observations))))))))))"

subsection \<open>The pull\<close>

definition finish_failure ::
  "open_lib \<Rightarrow> 's open_persistence \<Rightarrow> open_pull_command \<Rightarrow> open_pull_failure \<Rightarrow> offset_date_time \<Rightarrow> string
     \<Rightarrow> ('s, open_pull_execution) service" where
  "finish_failure L p c failure completed_at completed_at_text =
     (case failure_storage_fields failure completed_at of
        (http_status, retry_after_seconds, error_code, failure_kind) \<Rightarrow>
     svc_bind (svc_lift (failure_http_audit failure http_status retry_after_seconds)) (\<lambda>http.
     svc_bind (svc_call (\<lambda>s. ps_finish_open_pull_failure p s
         \<lparr>fc_attempt_id = pc_attempt_id c, fc_completed_at = completed_at_text, fc_http = http,
          fc_error_code = error_code, fc_diagnostic_token = None\<rparr>)) (\<lambda>outcome.
     svc_bind (svc_lift (ensure (co_classification outcome = AcFailed) SvUnexpectedClassification)) (\<lambda>_.
     svc_bind (svc_lift (ensure (co_observation_commit outcome = None) SvObservationCommit)) (\<lambda>_.
       svc_ok \<lparr>ex_outcome = outcome,
         ex_scheduler_completion = CompletionRetry (retry_directive (ol_digest L) (osr_target (pc_source_request c))
           (effective (pc_refresh_intervals c) (pc_active_watch_count c > 0)) (pc_current_failure_streak c) failure_kind),
         ex_terminal = TerminalFailed failure, ex_reconcile = None, ex_observations = []\<rparr>)))))"

definition lkg_reference ::
  "'s open_persistence \<Rightarrow> term_campus_key \<Rightarrow> catalog_open_batch \<Rightarrow> ('s, u64 option) service" where
  "lkg_reference p target catalog =
     svc_bind (svc_call (\<lambda>s. ps_lkg_open_index_set p s target))
       (\<lambda>lkg. svc_ok (map_option (lkg_reference_within catalog) lkg))"

definition install_if_absent ::
  "open_lib \<Rightarrow> 's open_persistence \<Rightarrow> term_campus_key \<Rightarrow> catalog_open_batch \<Rightarrow> catalog_set_identity
     \<Rightarrow> offset_date_time \<Rightarrow> ('s, unit) service" where
  "install_if_absent L p target catalog identity completed_at =
     svc_bind (svc_gates (\<lambda>gates. (serving_installed gates, gates))) (\<lambda>installed.
       if installed then svc_ok ()
       else
         svc_bind (lkg_reference p target catalog) (\<lambda>reference.
         svc_bind (svc_call (\<lambda>s. ps_recent_open_gate_attempt_summaries p s target 32)) (\<lambda>rows.
         svc_bind (svc_expect (rebuild_after_restart identity reference (gate_restart_summaries L rows) completed_at)) (\<lambda>runtime.
           svc_gates (\<lambda>gates. ((), install_serving gates runtime))))))"

definition reset_if_changed ::
  "'s open_persistence \<Rightarrow> term_campus_key \<Rightarrow> catalog_open_batch \<Rightarrow> catalog_set_identity \<Rightarrow> gate_runtime
     \<Rightarrow> ('s, unit) service" where
  "reset_if_changed p target catalog identity serving =
     (if state_catalog_identity (gr_state serving) \<in> {None, Some identity} then svc_ok ()
      else svc_bind (lkg_reference p target catalog) (\<lambda>transferred.
        svc_gates (\<lambda>gates. ((), install_serving gates (reset_for_catalog_identity serving identity transferred)))))"

definition runtime_for_route ::
  "open_lib \<Rightarrow> 's open_persistence \<Rightarrow> open_gate_route \<Rightarrow> term_campus_key \<Rightarrow> catalog_open_batch
     \<Rightarrow> catalog_set_identity \<Rightarrow> offset_date_time \<Rightarrow> ('s, gate_runtime) service" where
  "runtime_for_route L p route target catalog identity completed_at =
     (case route of
        RouteServing \<Rightarrow>
          svc_bind (install_if_absent L p target catalog identity completed_at) (\<lambda>_.
          svc_bind (svc_gates serving_mut) (\<lambda>serving.
          svc_bind (reset_if_changed p target catalog identity serving) (\<lambda>_.
            svc_gates serving_mut)))
      | RouteCandidate \<Rightarrow>
          svc_bind (lkg_reference p target catalog) (\<lambda>seed.
            svc_gates (\<lambda>gates. candidate_mut gates identity seed)))"

definition observed_within :: "catalog_open_batch \<Rightarrow> open_set_evidence \<Rightarrow> section_index bset" where
  "observed_within catalog open_set =
     bs_of_list (filter (contains_index catalog) (bm_keys (ose_indexes open_set)))"

definition is_hard_reject :: "u64 \<Rightarrow> catalog_open_batch \<Rightarrow> open_set_evidence \<Rightarrow> bool" where
  "is_hard_reject captured catalog open_set \<longleftrightarrow>
     captured \<noteq> cob_content_version catalog
     \<or> bm_len (ose_indexes open_set) > 0 \<and> section_count catalog > 0
       \<and> bm_is_empty (observed_within catalog open_set)"

definition gate_decide ::
  "open_lib \<Rightarrow> 's open_persistence \<Rightarrow> open_pull_command \<Rightarrow> u64 \<Rightarrow> catalog_open_batch \<Rightarrow> open_set_evidence
     \<Rightarrow> offset_date_time \<Rightarrow> ('s, (catalog_set_identity \<times> open_gate_route \<times> gate_decision) option) service" where
  "gate_decide L p c captured catalog open_set completed_at =
     (case pc_gate c of
        None \<Rightarrow> svc_ok None
      | Some route \<Rightarrow>
          if is_hard_reject captured catalog open_set then svc_ok None
          else
            let identity = catalog_section_set_identity_v1 (ol_digest L) (section_indexes catalog) in
            svc_bind (runtime_for_route L p route (osr_target (pc_source_request c)) catalog identity completed_at) (\<lambda>runtime.
            svc_bind (svc_expect (evaluate (ol_digest L) runtime
                \<lparr>gs_catalog_identity = identity, gs_observed = observed_within catalog open_set,
                 gs_observed_at = completed_at\<rparr>)) (\<lambda>decision.
              svc_ok (Some (identity, route, decision)))))"

definition gate_advance ::
  "(catalog_set_identity \<times> open_gate_route \<times> gate_decision) option \<Rightarrow> open_commit_outcome \<Rightarrow> ('s, unit) service" where
  "gate_advance pending outcome =
     (case pending of
        None \<Rightarrow> svc_ok ()
      | Some (identity, route, decision) \<Rightarrow>
          if co_classification outcome = AcStaleCatalogRace then svc_ok ()
          else
            (case route of
               RouteServing \<Rightarrow>
                 svc_bind (svc_gates serving_mut) (\<lambda>serving.
                 svc_bind (svc_expect (advance serving decision)) (\<lambda>serving.
                   svc_gates (\<lambda>gates. ((), install_serving gates serving))))
             | RouteCandidate \<Rightarrow>
                 svc_bind (svc_gates (\<lambda>gates. candidate_mut gates identity None)) (\<lambda>runtime.
                 svc_bind (svc_expect (advance runtime decision)) (\<lambda>runtime.
                 svc_bind (svc_gates (\<lambda>gates. ((), put_candidate gates identity runtime))) (\<lambda>_.
                   if is_success (co_classification outcome)
                   then svc_gates (\<lambda>gates. ((), promote_candidate gates identity))
                   else svc_ok ())))))"

definition success_command ::
  "open_pull_command \<Rightarrow> open_sections_response \<Rightarrow> string \<Rightarrow> u64 \<Rightarrow> u64 \<Rightarrow> section_key list
     \<Rightarrow> (catalog_set_identity \<times> open_gate_route \<times> gate_decision) option \<Rightarrow> finish_open_pull_success_command" where
  "success_command c response completed_at_text source_value_count decoded_bytes watched pending =
     (let target = osr_target (pc_source_request c); m = or_metadata response in
      \<lparr>sc_attempt_id = pc_attempt_id c, sc_completed_at = completed_at_text,
       sc_open_sections = map (SectionKey (tc_term target) (tc_campus target)) (or_open_indexes response),
       sc_source_value_count = source_value_count, sc_watched_sections = watched,
       sc_http = \<lparr>ha_http_status = Some (om_http_status m), ha_cache_status = Some NotApplicable,
         ha_decoded_bytes = Some decoded_bytes, ha_decoded_body_sha256 = Some (om_decoded_body_sha256 m),
         ha_content_type = Some (om_content_type m), ha_etag = om_etag m, ha_cache_control = om_cache_control m,
         ha_date = om_date m, ha_age_seconds = om_age_seconds m, ha_last_modified = om_last_modified m,
         ha_retry_after = None, ha_retry_after_seconds = None\<rparr>,
       sc_gate_hold = (case pending of None \<Rightarrow> False | Some (_, _, decision) \<Rightarrow> gd_disposition decision = Hold),
       sc_gate_catalog_set_identity = map_option (\<lambda>(identity, _, _). identity_str identity) pending\<rparr>)"

definition conclude ::
  "open_lib \<Rightarrow> open_pull_command \<Rightarrow> open_sections_response \<Rightarrow> open_commit_outcome
     \<Rightarrow> shared_open_service_error + completion_schedule \<times> open_pull_terminal" where
  "conclude L c response outcome =
     (let retry = \<lambda>kind. CompletionRetry (retry_directive (ol_digest L) (osr_target (pc_source_request c))
            (effective (pc_refresh_intervals c) (pc_active_watch_count c > 0)) (pc_current_failure_streak c) kind)
      in case co_classification outcome of
           AcValidApplied \<Rightarrow> Inr (CompletionSuccess, TerminalValid response)
         | AcValidEmptyNoRows \<Rightarrow> Inr (CompletionSuccess, TerminalValid response)
         | AcUnsafeEmpty \<Rightarrow> Inr (retry FailUnsafeEmpty, TerminalUnsafe response)
         | AcUnsafeZeroIntersection \<Rightarrow> Inr (retry FailUnsafeZeroIntersection, TerminalUnsafe response)
         | AcSuspectPartialSnapshot \<Rightarrow> Inr (retry FailSuspectPartial, TerminalUnsafe response)
         | AcStaleCatalogRace \<Rightarrow> Inr (CompletionCatalogRace, TerminalCatalogRace response)
         | _ \<Rightarrow> Inl SvUnexpectedClassification)"

definition commit_response ::
  "open_lib \<Rightarrow> 's open_persistence \<Rightarrow> open_pull_command \<Rightarrow> u64 \<Rightarrow> open_sections_response \<Rightarrow> string
     \<Rightarrow> (term_campus_key \<Rightarrow> section_key list) \<Rightarrow> u64 \<Rightarrow> u64 \<Rightarrow> catalog_open_batch \<Rightarrow> open_set_evidence
     \<Rightarrow> (catalog_set_identity \<times> open_gate_route \<times> gate_decision) option \<Rightarrow> ('s, open_pull_execution) service" where
  "commit_response L p c captured response completed_at_text current_watched_sections source_value_count
       decoded_bytes catalog open_set pending =
     (let watched = current_watched_sections (osr_target (pc_source_request c));
          command = success_command c response completed_at_text source_value_count decoded_bytes watched pending in
     svc_bind (svc_lift (map_err SvReconcile (reconcile_open_set (ol_digest L) captured catalog open_set
         (sc_gate_hold command)))) (\<lambda>plan.
     svc_bind (svc_call (\<lambda>s. ps_finish_open_pull_success p s command)) (\<lambda>outcome.
     svc_bind (svc_lift (ensure (outcome_matches_reconcile outcome plan) SvReconcileDivergence)) (\<lambda>_.
     svc_bind (gate_advance pending outcome) (\<lambda>_.
     svc_bind (svc_lift (if is_success (co_classification outcome)
         then build_committed_observations L c outcome (bs_of_list watched)
         else and_then (ensure (co_observation_commit outcome = None) SvObservationCommit) (\<lambda>_. Inr []))) (\<lambda>observations.
     svc_bind (svc_lift (conclude L c response outcome)) (\<lambda>(completion, terminal).
       svc_ok \<lparr>ex_outcome = outcome, ex_scheduler_completion = completion, ex_terminal = terminal,
         ex_reconcile = Some plan, ex_observations = observations\<rparr>)))))))"

definition finish_success ::
  "open_lib \<Rightarrow> 's open_persistence \<Rightarrow> open_pull_command \<Rightarrow> u64 \<Rightarrow> open_sections_response \<Rightarrow> offset_date_time \<Rightarrow> string
     \<Rightarrow> (term_campus_key \<Rightarrow> section_key list) \<Rightarrow> ('s, open_pull_execution) service" where
  "finish_success L p c captured response completed_at completed_at_text current_watched_sections =
     (let target = osr_target (pc_source_request c) in
     svc_bind (svc_lift (ok_or SvResponseCountOverflow (u64_try_from (om_raw_value_count (or_metadata response))))) (\<lambda>source_value_count.
     svc_bind (svc_lift (ok_or SvResponseCountOverflow (u64_try_from (om_decoded_bytes (or_metadata response))))) (\<lambda>decoded_bytes.
     svc_bind (svc_call (\<lambda>s. ps_serving_open_catalog_snapshot p s target)) (\<lambda>current.
       case current of
         None \<Rightarrow> finish_failure L p c (PullCatalogUnavailableAfterFetch (or_metadata response)) completed_at completed_at_text
       | Some current_catalog \<Rightarrow>
           svc_bind (svc_lift (content_version_try_from (cat_content_version current_catalog))) (\<lambda>version.
           svc_bind (svc_lift (map_err SvReconcile
               (catalog_open_batch_try_new (cat_target current_catalog) version (cat_sections current_catalog)))) (\<lambda>catalog.
           svc_bind (svc_lift (map_err SvReconcile
               (open_set_evidence_try_new (ol_digest L) target (or_open_indexes response) source_value_count))) (\<lambda>open_set.
           svc_bind (svc_lift (content_version_try_from captured)) (\<lambda>captured.
           svc_bind (gate_decide L p c captured catalog open_set completed_at) (\<lambda>pending.
             commit_response L p c captured response completed_at_text current_watched_sections source_value_count
               decoded_bytes catalog open_set pending)))))))))"

definition begin_command ::
  "open_pull_command \<Rightarrow> u64 \<Rightarrow> string \<Rightarrow> string \<Rightarrow> open_request_lane \<Rightarrow> begin_open_pull_attempt_command" where
  "begin_command c captured day started_at_text lane =
     \<lparr>bc_attempt_id = pc_attempt_id c, bc_run_id = pc_run_id c, bc_target = osr_target (pc_source_request c),
      bc_captured_catalog_content_version = captured, bc_rutgers_day = day, bc_started_at = started_at_text,
      bc_lane = lane,
      bc_requested_interval_seconds = Some (ucast (goi_seconds (ori_general (pc_refresh_intervals c)))),
      bc_effective_interval_seconds = Some (ucast (pc_freshness_interval_seconds c)),
      bc_schedule_lag_ms = Some (duration_millis (pc_scheduler_lag c))\<rparr>"

definition finish_fetched ::
  "open_lib \<Rightarrow> 's open_persistence \<Rightarrow> open_pull_command \<Rightarrow> u64 \<Rightarrow> (open_sections_failure + open_sections_response)
     \<Rightarrow> offset_date_time \<Rightarrow> string \<Rightarrow> (term_campus_key \<Rightarrow> section_key list) \<Rightarrow> ('s, open_pull_execution) service" where
  "finish_fetched L p c captured fetched completed_at completed_at_text current_watched_sections =
     (case fetched of
        Inl error \<Rightarrow> finish_failure L p c (PullUpstream error) completed_at completed_at_text
      | Inr response \<Rightarrow>
          if or_target response \<noteq> osr_target (pc_source_request c)
          then finish_failure L p c (PullResponseTargetMismatch (or_metadata response)) completed_at completed_at_text
          else svc_bind (svc_expect (response_metadata_is_consistent L response)) (\<lambda>consistent.
            if consistent
            then finish_success L p c captured response completed_at completed_at_text current_watched_sections
            else finish_failure L p c (PullResponseMetadataMismatch (or_metadata response)) completed_at completed_at_text))"

definition execute_with ::
  "open_lib \<Rightarrow> 's open_persistence \<Rightarrow> ('s \<times> target_gate_set \<Rightarrow> 's \<times> target_gate_set) \<Rightarrow> open_pull_command
     \<Rightarrow> offset_date_time \<Rightarrow> offset_date_time
     \<Rightarrow> (open_sections_request \<Rightarrow> open_sections_failure + open_sections_response)
     \<Rightarrow> (term_campus_key \<Rightarrow> section_key list) \<Rightarrow> ('s, open_pull_execution) service" where
  "execute_with L p during c started_at completed_at fetch_open current_watched_sections =
     (let target = osr_target (pc_source_request c) in
     svc_bind (svc_lift (validate_counter_audience c)) (\<lambda>_.
     svc_bind (svc_lift (ensure (pc_freshness_interval_seconds c \<noteq> 0) SvZeroFreshnessInterval)) (\<lambda>_.
     svc_bind (svc_call (\<lambda>s. ps_serving_open_catalog_snapshot p s target)) (\<lambda>captured_catalog.
     svc_bind (svc_lift (ok_or (SvTargetNotPublished target) captured_catalog)) (\<lambda>captured_catalog.
     let captured = cat_content_version captured_catalog in
     svc_bind (svc_lift (format_timestamp L started_at)) (\<lambda>started_at_text.
     svc_bind (svc_lift (rutgers_day_at L started_at)) (\<lambda>day.
     svc_bind (svc_lift (storage_lane (pc_lane c))) (\<lambda>lane.
     svc_bind (svc_call (\<lambda>s. ps_begin_open_pull_attempt p s (begin_command c captured day started_at_text lane))) (\<lambda>_.
     svc_bind (\<lambda>\<sigma>. Some (Inr (fetch_open (pc_source_request c)), during \<sigma>)) (\<lambda>fetched.
     svc_bind (svc_lift (format_timestamp L completed_at)) (\<lambda>completed_at_text.
       finish_fetched L p c captured fetched completed_at completed_at_text current_watched_sections)))))))))))"

end
