(* ===== verification/Open_Projection.thy ===== *)
theory Open_Projection
  imports Open_Service
begin

text \<open>
  The public status of a target (\<open>crates/bcsp-open/src/projection.rs\<close>): the refresh status, one status
  per catalog section, and the committed observations a starting watch may be given.

  The trait \<open>OpenStatusReadStore\<close> is the record \<open>status_store\<close> of its reads.  Every error of the code
  that carries a fixed explanation keeps its variant, and the field or row it names.
\<close>

subsection \<open>Data\<close>

record open_projection_runtime =
  pr_now :: offset_date_time
  pr_audience :: open_counter_audience
  pr_scheduler :: open_scheduler_status_v1
  pr_circuit :: open_circuit_status_v1

record projected_open_status_v1 =
  ps_refresh :: open_refresh_status_v1
  ps_sections :: "open_section_status_v1 list"

record status_store =
  rd_serving_open_catalog_snapshot :: "term_campus_key \<Rightarrow> storage_error + open_catalog_snapshot option"
  rd_open_batch_state :: "term_campus_key \<Rightarrow> storage_error + open_batch_state option"
  rd_open_attempt :: "trace_id \<Rightarrow> storage_error + open_attempt_record option"
  rd_open_batch_observation :: "trace_id \<Rightarrow> storage_error + open_batch_observation option"
  rd_open_section_current :: "term_campus_key \<Rightarrow> storage_error + open_section_current list"
  rd_open_day_counters :: "term_campus_key \<Rightarrow> string \<Rightarrow> storage_error + open_attempt_counters"
  rd_open_service_day_counters :: "string \<Rightarrow> storage_error + open_attempt_counters"
  rd_open_run_counters :: "term_campus_key \<Rightarrow> trace_id \<Rightarrow> storage_error + open_attempt_counters"

definition operational_store :: "open_lib \<Rightarrow> open_db \<Rightarrow> status_store" where
  "operational_store L db = \<lparr>
     rd_serving_open_catalog_snapshot = serving_open_catalog_snapshot db, rd_open_batch_state = read_open_batch_state db,
     rd_open_attempt = open_attempt db, rd_open_batch_observation = read_open_batch_observation db,
     rd_open_section_current = read_open_section_current db, rd_open_day_counters = open_day_counters L db,
     rd_open_service_day_counters = open_service_day_counters L db, rd_open_run_counters = open_run_counters db\<rparr>"

datatype open_projection_error =
    PeStorage storage_error | PeTargetNotPublished | PeSectionNotPublished | PeMissingRelatedRow string
  | PeInvalidTimestamp string | PeInvalidValue string | PeInconsistentState
  | PeFreshness open_freshness_error | PeRutgersDay | PeUnknownFailureCode

record lkg_projection =
  lk_attempt_id :: trace_id
  lk_point :: open_observation_point_v1
  lk_freshness_point :: last_valid_open_point

subsection \<open>Values\<close>

definition read_store :: "storage_error + 'a \<Rightarrow> open_projection_error + 'a" where
  "read_store r = map_err PeStorage r"

definition parse_timestamp :: "open_lib \<Rightarrow> string \<Rightarrow> string \<Rightarrow> open_projection_error + offset_date_time" where
  "parse_timestamp L v fld = ok_or (PeInvalidTimestamp fld) (ol_parse_rfc3339 L v)"

definition parse_optional_timestamp ::
  "open_lib \<Rightarrow> string option \<Rightarrow> string \<Rightarrow> open_projection_error + offset_date_time option" where
  "parse_optional_timestamp L v fld = transpose_opt (\<lambda>v. parse_timestamp L v fld) v"

definition sequence_of :: "u64 \<Rightarrow> open_projection_error + open_sequence" where
  "sequence_of v = ok_or (PeInvalidValue ''open_sequence'') (open_sequence_try_from v)"

definition content_version_of :: "u64 \<Rightarrow> open_projection_error + u64" where
  "content_version_of v = (if v = 0 then Inl (PeInvalidValue ''catalog_content_version'') else Inr v)"

fun map_classification :: "open_attempt_classification \<Rightarrow> open_refresh_classification" where
  "map_classification AcStarted = RefreshInFlight"
| "map_classification AcValidApplied = RefreshValidApplied"
| "map_classification AcValidEmptyNoRows = RefreshValidEmptyNoRows"
| "map_classification AcFailed = RefreshFailed"
| "map_classification AcInterrupted = RefreshFailed"
| "map_classification AcUnsafeEmpty = RefreshUnsafeEmpty"
| "map_classification AcUnsafeZeroIntersection = RefreshUnsafeZeroIntersection"
| "map_classification AcSuspectPartialSnapshot = RefreshSuspectPartialSnapshot"
| "map_classification AcStaleCatalogRace = RefreshStaleCatalogRace"

definition http_failure_class :: "u16 option \<Rightarrow> open_failure_class option" where
  "http_failure_class status =
     (case status of
        None \<Rightarrow> None
      | Some s \<Rightarrow> if s = 408 then Some ClassHttp408 else if s = 429 then Some ClassHttp429
          else if 500 \<le> s \<and> s \<le> 599 then Some ClassHttp5xx
          else if 400 \<le> s \<and> s \<le> 499 then Some ClassOtherHttp4xx else None)"

definition failure_codes :: "(string \<times> open_failure_class) list" where
  "failure_codes =
     [(''OPEN_TIMEOUT'', ClassTimeout), (''UPSTREAM_TIMEOUT'', ClassTimeout), (''OPEN_NETWORK'', ClassNetwork),
      (''OPEN_RATE_LIMITED'', ClassHttp429), (''OPEN_FORBIDDEN'', ClassForbidden),
      (''OPEN_RESPONSE_TOO_LARGE'', ClassOversize), (''OPEN_CONTENT_DECODING'', ClassSchemaViolation),
      (''OPEN_INVALID_CONTENT_TYPE'', ClassNonJson), (''OPEN_INVALID_JSON'', ClassNonJson),
      (''OPEN_ROOT_NOT_ARRAY'', ClassSchemaViolation), (''OPEN_NON_STRING_VALUE'', ClassSchemaViolation),
      (''OPEN_RESPONSE_METADATA_MISMATCH'', ClassSchemaViolation), (''OPEN_INVALID_REDIRECT'', ClassSchemaViolation),
      (''OPEN_INVALID_SECTION_INDEX'', ClassInvalidValue), (''OPEN_RESPONSE_TARGET_MISMATCH'', ClassInvalidValue),
      (''OPEN_REQUEST_CONSTRUCTION'', ClassPersist), (''OPEN_CATALOG_UNAVAILABLE_AFTER_FETCH'', ClassPersist),
      (''PROCESS_RESTARTED'', ClassPersist), (''UNSAFE_EMPTY_WITH_CATALOG_ROWS'', ClassUnsafeEmpty),
      (''UNSAFE_ZERO_INTERSECTION'', ClassUnsafeZeroIntersection),
      (''SUSPECT_PARTIAL_SNAPSHOT'', ClassSuspectPartialSnapshot),
      (''OPEN_RESPONSE_URL_MISMATCH'', ClassOffOriginRedirect), (''OPEN_OFF_ORIGIN_REDIRECT'', ClassOffOriginRedirect),
      (''OPEN_SAME_ORIGIN_REDIRECT'', ClassOtherHttp4xx), (''OPEN_FATAL_CLIENT_HTTP'', ClassOtherHttp4xx)]"

definition map_failure_code :: "string \<Rightarrow> u16 option \<Rightarrow> open_projection_error + open_failure_class" where
  "map_failure_code code http_status =
     (case map_of failure_codes code of
        Some cls \<Rightarrow> Inr cls
      | None \<Rightarrow>
          if code = ''OPEN_TRANSIENT_HTTP'' then ok_or PeUnknownFailureCode (http_failure_class http_status)
          else if code = ''OPEN_UNSUPPORTED_HTTP''
          then Inr (case http_failure_class http_status of Some cls \<Rightarrow> cls | None \<Rightarrow> ClassSchemaViolation)
          else Inl PeUnknownFailureCode)"

definition project_failure_class :: "open_attempt_record \<Rightarrow> open_projection_error + open_failure_class option" where
  "project_failure_class attempt =
     (if ar_classification attempt = AcInterrupted then Inr (Some ClassPersist)
      else if ar_classification attempt \<noteq> AcFailed then Inr None
      else and_then (ok_or PeUnknownFailureCode (ar_error_code attempt)) (\<lambda>code.
        and_then (map_failure_code code (ha_http_status (ar_http attempt))) (\<lambda>cls. Inr (Some cls))))"

definition to_pull_counts :: "open_attempt_counters \<Rightarrow> open_pull_counts" where
  "to_pull_counts v = \<lparr>attempted = oac_attempted v, succeeded = oac_succeeded v, failed = oac_failed v,
     empty_count = oac_empty v\<rparr>"

definition project_counters ::
  "open_lib \<Rightarrow> status_store \<Rightarrow> term_campus_key \<Rightarrow> open_projection_runtime
     \<Rightarrow> open_projection_error + open_counter_snapshot" where
  "project_counters L store target runtime =
     and_then (map_err (\<lambda>_. PeRutgersDay) (rutgers_day_at L (pr_now runtime))) (\<lambda>day_text.
     and_then (ok_or PeRutgersDay (rutgers_day_try_from day_text)) (\<lambda>day.
       case pr_audience runtime of
         AudienceLocal run_id \<Rightarrow>
           and_then (read_store (rd_open_run_counters store target run_id)) (\<lambda>run.
           and_then (read_store (rd_open_day_counters store target day_text)) (\<lambda>today.
             Inr \<lparr>run_counts = Some (to_pull_counts run), today_counts = to_pull_counts today,
               rutgers_day_str = day_str day\<rparr>))
       | AudiencePublic \<Rightarrow>
           and_then (read_store (rd_open_service_day_counters store day_text)) (\<lambda>today.
             Inr \<lparr>run_counts = None, today_counts = to_pull_counts today, rutgers_day_str = day_str day\<rparr>)))"

definition validate_runtime :: "open_projection_runtime \<Rightarrow> open_projection_error + unit" where
  "validate_runtime runtime =
     ensure (ss_requested_general_interval_seconds (pr_scheduler runtime) \<noteq> 0
         \<and> ss_requested_effective_interval_seconds (pr_scheduler runtime) \<noteq> 0)
       (PeInvalidValue ''scheduler_interval_seconds'')"

subsection \<open>Attempts, failures and the last known good\<close>

definition load_attempt ::
  "status_store \<Rightarrow> term_campus_key \<Rightarrow> trace_id \<Rightarrow> open_projection_error + open_attempt_record" where
  "load_attempt store target attempt_id =
     and_then (read_store (rd_open_attempt store attempt_id)) (\<lambda>attempt.
     and_then (ok_or (PeMissingRelatedRow ''Open attempt'') attempt) (\<lambda>attempt.
     and_then (ensure (ar_target attempt = target \<and> ar_attempt_id attempt = attempt_id) PeInconsistentState) (\<lambda>_.
       Inr attempt)))"

definition project_attempt_point ::
  "open_lib \<Rightarrow> open_attempt_record \<Rightarrow> open_projection_error + open_attempt_point_v1" where
  "project_attempt_point L attempt =
     and_then (parse_optional_timestamp L (ar_completed_at attempt) ''completed_at'') (\<lambda>completed_at.
     and_then (ensure (ar_classification attempt = AcStarted \<longleftrightarrow> completed_at = None) PeInconsistentState) (\<lambda>_.
     and_then (sequence_of (ar_attempt_sequence attempt)) (\<lambda>attempt_sequence.
     and_then (parse_timestamp L (ar_started_at attempt) ''started_at'') (\<lambda>started_at.
     and_then (project_failure_class attempt) (\<lambda>failure_class.
       Inr \<lparr>ap_attempt_sequence = attempt_sequence, ap_started_at = started_at, ap_completed_at = completed_at,
         ap_classification = map_classification (ar_classification attempt), ap_failure_class = failure_class\<rparr>)))))"

definition project_latest_freshness_point ::
  "open_lib \<Rightarrow> open_attempt_record \<Rightarrow> open_projection_error + latest_open_attempt_point option" where
  "project_latest_freshness_point L attempt =
     (case ar_completed_at attempt of
        None \<Rightarrow> Inr None
      | Some completed_at \<Rightarrow>
          and_then (sequence_of (ar_attempt_sequence attempt)) (\<lambda>attempt_sequence.
          and_then (parse_timestamp L completed_at ''latest_completed_at'') (\<lambda>completed_at.
            Inr (Some \<lparr>la_attempt_sequence = attempt_sequence, la_completed_at = completed_at,
              la_classification = map_classification (ar_classification attempt)\<rparr>))))"

definition project_latest_failure ::
  "open_lib \<Rightarrow> open_batch_state option \<Rightarrow> open_projection_error + open_failure_point_v1 option" where
  "project_latest_failure L batch =
     (case batch of
        None \<Rightarrow> Inr None
      | Some b \<Rightarrow>
          (case (os_last_failure_attempt_sequence b, os_last_failure_at b, os_last_failure_error_code b,
                 os_last_failure_http_status b) of
             (None, None, None, None) \<Rightarrow> Inr None
           | (Some n, Some failed_at, Some error_code, http_status) \<Rightarrow>
               and_then (sequence_of n) (\<lambda>n.
               and_then (parse_timestamp L failed_at ''last_failure_at'') (\<lambda>failed_at.
               and_then (map_failure_code error_code http_status) (\<lambda>cls.
                 Inr (Some \<lparr>fp_attempt_sequence = n, fp_failed_at = failed_at, fp_failure_class = cls\<rparr>))))
           | _ \<Rightarrow> Inl PeInconsistentState))"

definition u32_positive :: "u64 \<Rightarrow> u32 option" where
  "u32_positive v = (if uint v < 2 ^ 32 \<and> v \<noteq> 0 then Some (ucast v) else None)"

definition project_lkg ::
  "open_lib \<Rightarrow> status_store \<Rightarrow> term_campus_key \<Rightarrow> open_batch_state option \<Rightarrow> trace_id
     \<Rightarrow> open_projection_error + lkg_projection" where
  "project_lkg L store target batch attempt_id =
     and_then (load_attempt store target attempt_id) (\<lambda>attempt.
     and_then (ensure (is_success (ar_classification attempt)) PeInconsistentState) (\<lambda>_.
     and_then (ok_or PeInconsistentState (ar_completed_at attempt)) (\<lambda>completed_at.
     and_then (parse_timestamp L completed_at ''lkg_completed_at'') (\<lambda>completed_at.
     and_then (ok_or (PeInvalidValue ''lkg_effective_interval_seconds'')
         (Option.bind (ar_effective_interval_seconds attempt) u32_positive)) (\<lambda>interval.
     and_then (read_store (rd_open_batch_observation store attempt_id)) (\<lambda>observation.
     and_then (ok_or (PeMissingRelatedRow ''LKG batch observation'') observation) (\<lambda>observation.
     and_then (ensure (oob_target observation = target \<and> oob_attempt_id observation = attempt_id
         \<and> is_success (oob_classification observation)) PeInconsistentState) (\<lambda>_.
     and_then (ensure (case batch of None \<Rightarrow> True
         | Some b \<Rightarrow> os_lkg_observation_sequence b = Some (oob_observation_sequence observation)
             \<and> os_current_catalog_content_version b = oob_catalog_content_version observation) PeInconsistentState) (\<lambda>_.
     and_then (parse_timestamp L (oob_observed_at observation) ''lkg_observed_at'') (\<lambda>observed_at.
     and_then (sequence_of (oob_observation_sequence observation)) (\<lambda>observation_sequence.
     and_then (content_version_of (oob_catalog_content_version observation)) (\<lambda>version.
     and_then (ok_or (PeInvalidValue ''lkg_canonical_set_sha256'')
         (open_hash_try_from (oob_canonical_set_sha256 observation))) (\<lambda>set_hash.
     and_then (ok_or (PeInvalidValue ''lkg_state_sha256'')
         (open_hash_try_from (oob_state_sha256 observation))) (\<lambda>state_hash.
     and_then (sequence_of (ar_attempt_sequence attempt)) (\<lambda>attempt_sequence.
       Inr \<lparr>lk_attempt_id = attempt_id,
         lk_point = \<lparr>op_observation_id = oob_observation_id observation, op_observation_sequence = observation_sequence,
           op_catalog_content_version = version, op_observed_at = observed_at, op_canonical_set_hash = set_hash,
           op_state_hash = state_hash\<rparr>,
         lk_freshness_point = \<lparr>lv_attempt_sequence = attempt_sequence, lv_observed_at = observed_at,
           lv_completed_at = completed_at, lv_requested_effective_interval_seconds = interval\<rparr>\<rparr>)))))))))))))))"

definition validate_absent_lkg_state ::
  "open_batch_state option \<Rightarrow> lkg_projection option \<Rightarrow> open_projection_error + unit" where
  "validate_absent_lkg_state batch lkg =
     (case batch of
        None \<Rightarrow> Inr ()
      | Some b \<Rightarrow> ensure (lkg \<noteq> None \<or> os_lkg_observation_sequence b = None \<and> os_lkg_observed_at b = None
            \<and> os_lkg_canonical_set_sha256 b = None \<and> os_lkg_state_sha256 b = None) PeInconsistentState)"

subsection \<open>Sections\<close>

definition section_unknown_freshness :: "bool \<Rightarrow> open_freshness_v1" where
  "section_unknown_freshness target_has_lkg =
     \<lparr>fr_state = FreshnessUnknown, fr_observed_at = None, fr_fresh_until = None,
      fr_last_known_good_age_seconds = None,
      fr_uncertainty = Some (if target_has_lkg then CatalogVersionUnavailable else NeverObserved)\<rparr>"

definition collect_current ::
  "term_campus_key \<Rightarrow> open_section_current \<Rightarrow> (section_key, open_section_current) bmap
     \<Rightarrow> open_projection_error + (section_key, open_section_current) bmap" where
  "collect_current target v current =
     and_then (ensure (section_key_target (osc_section v) = target \<and> \<not> bm_contains current (osc_section v))
         PeInconsistentState) (\<lambda>_. Inr (bm_insert (osc_section v) v current))"

record section_context =
  sx_version :: u64
  sx_lkg :: "lkg_projection option"
  sx_freshness :: open_freshness_v1
  sx_counters :: open_counter_snapshot
  sx_lag :: u64

definition known_section ::
  "open_lib \<Rightarrow> section_context \<Rightarrow> section_key \<Rightarrow> open_section_current \<Rightarrow> open_projection_error + open_section_status_v1" where
  "known_section L x key v =
     and_then (ok_or PeInconsistentState (sx_lkg x)) (\<lambda>lkg.
     and_then (ensure (osc_attempt_id v = lk_attempt_id lkg) PeInconsistentState) (\<lambda>_.
     and_then (ensure (osc_observation_sequence v = seq_get (op_observation_sequence (lk_point lkg))) PeInconsistentState) (\<lambda>_.
     and_then (ensure (osc_catalog_content_version v = op_catalog_content_version (lk_point lkg)) PeInconsistentState) (\<lambda>_.
     and_then (parse_timestamp L (osc_observed_at v) ''section_observed_at'') (\<lambda>observed_at.
     and_then (ensure (observed_at = op_observed_at (lk_point lkg)) PeInconsistentState) (\<lambda>_.
     and_then (content_version_of (osc_catalog_content_version v)) (\<lambda>version.
       Inr \<lparr>st_section_key = key,
         st_state = (case osc_state v of SectionOpen \<Rightarrow> StateOpen | SectionClosed \<Rightarrow> StateClosed),
         st_last_observation_id = Some (op_observation_id (lk_point lkg)),
         st_catalog_content_version = Some version, st_freshness = sx_freshness x,
         st_scheduler_lag_milliseconds = sx_lag x, st_counter_snapshot = sx_counters x\<rparr>)))))))"

definition unknown_section :: "section_context \<Rightarrow> section_key \<Rightarrow> open_section_status_v1" where
  "unknown_section x key =
     \<lparr>st_section_key = key, st_state = StateUnknown, st_last_observation_id = None,
      st_catalog_content_version = Some (sx_version x),
      st_freshness = section_unknown_freshness (sx_lkg x \<noteq> None), st_scheduler_lag_milliseconds = sx_lag x,
      st_counter_snapshot = sx_counters x\<rparr>"

definition project_section ::
  "open_lib \<Rightarrow> section_context \<Rightarrow> term_campus_key \<Rightarrow> section_key
     \<Rightarrow> (section_key, open_section_current) bmap \<times> section_key bset \<times> open_section_status_v1 list
     \<Rightarrow> open_projection_error + (section_key, open_section_current) bmap \<times> section_key bset \<times> open_section_status_v1 list" where
  "project_section L x target key acc =
     (case acc of (current, seen, statuses) \<Rightarrow>
     and_then (ensure (section_key_target key = target \<and> \<not> bm_contains seen key) PeInconsistentState) (\<lambda>_.
     and_then (case bm_get current key of Some v \<Rightarrow> known_section L x key v | None \<Rightarrow> Inr (unknown_section x key)) (\<lambda>status.
       Inr (bm_remove key current, bs_insert key seen, statuses @ [status]))))"

definition project_sections ::
  "open_lib \<Rightarrow> status_store \<Rightarrow> open_catalog_snapshot \<Rightarrow> section_context
     \<Rightarrow> open_projection_error + open_section_status_v1 list" where
  "project_sections L store catalog x =
     and_then (read_store (rd_open_section_current store (cat_target catalog))) (\<lambda>rows.
     and_then (try_fold (collect_current (cat_target catalog)) rows bm_empty) (\<lambda>current.
     and_then (try_fold (project_section L x (cat_target catalog)) (cat_sections catalog) (current, bm_empty, []))
       (\<lambda>(_, _, statuses). Inr statuses)))"

subsection \<open>Status of a target\<close>

definition project_latest_attempt ::
  "status_store \<Rightarrow> term_campus_key \<Rightarrow> open_batch_state option \<Rightarrow> open_projection_error + open_attempt_record option" where
  "project_latest_attempt store target batch =
     and_then (transpose_opt (load_attempt store target) (Option.bind batch os_last_attempt_id)) (\<lambda>latest.
     and_then (ensure (case (batch, latest) of
         (Some b, Some l) \<Rightarrow> os_last_attempt_sequence b = ar_attempt_sequence l | _ \<Rightarrow> True) PeInconsistentState) (\<lambda>_.
       Inr latest))"

definition project_open_status ::
  "open_lib \<Rightarrow> status_store \<Rightarrow> term_campus_key \<Rightarrow> open_projection_runtime
     \<Rightarrow> open_projection_error + projected_open_status_v1" where
  "project_open_status L store target runtime =
     and_then (validate_runtime runtime) (\<lambda>_.
     and_then (read_store (rd_serving_open_catalog_snapshot store target)) (\<lambda>catalog.
     and_then (ok_or PeTargetNotPublished catalog) (\<lambda>catalog.
     and_then (ensure (cat_target catalog = target) PeInconsistentState) (\<lambda>_.
     and_then (content_version_of (cat_content_version catalog)) (\<lambda>version.
     and_then (project_counters L store target runtime) (\<lambda>counters.
     and_then (read_store (rd_open_batch_state store target)) (\<lambda>batch.
     and_then (ensure (case batch of None \<Rightarrow> True | Some b \<Rightarrow> os_target b = target) PeInconsistentState) (\<lambda>_.
     and_then (project_latest_attempt store target batch) (\<lambda>latest.
     and_then (transpose_opt (project_attempt_point L) latest) (\<lambda>latest_point.
     and_then (transpose_opt (project_latest_freshness_point L) latest) (\<lambda>latest_freshness.
     and_then (project_latest_failure L batch) (\<lambda>latest_failure.
     and_then (transpose_opt (project_lkg L store target batch) (Option.bind batch os_lkg_attempt_id)) (\<lambda>lkg.
     and_then (validate_absent_lkg_state batch lkg) (\<lambda>_.
     and_then (map_err PeFreshness (project_open_freshness (ol_checked_add L) (pr_now runtime)
         (map_option lk_freshness_point lkg) (Option.bind latest_freshness id) None)) (\<lambda>freshness.
     and_then (parse_optional_timestamp L (Option.bind batch os_last_body_change_at) ''last_body_change_at'') (\<lambda>body_change.
     and_then (parse_optional_timestamp L (Option.bind batch os_last_state_change_at) ''last_state_change_at'') (\<lambda>state_change.
     and_then (project_sections L store catalog \<lparr>sx_version = version, sx_lkg = lkg, sx_freshness = freshness,
         sx_counters = counters, sx_lag = ss_scheduler_lag_milliseconds (pr_scheduler runtime)\<rparr>) (\<lambda>sections.
       Inr \<lparr>ps_refresh = \<lparr>rs_batch = target, rs_catalog_content_version = Some version,
           rs_latest_attempt = latest_point, rs_latest_failure = latest_failure,
           rs_last_valid_observation = map_option lk_point lkg, rs_last_body_change_at = body_change,
           rs_last_state_change_at = state_change, rs_freshness = freshness, rs_scheduler = pr_scheduler runtime,
           rs_circuit = pr_circuit runtime, rs_counter_snapshot = counters\<rparr>,
         ps_sections = sections\<rparr>))))))))))))))))))"

subsection \<open>Observations for a starting watch\<close>

definition status_is_certain :: "open_section_status_v1 \<Rightarrow> bool" where
  "status_is_certain s \<longleftrightarrow> st_state s \<noteq> StateUnknown \<and> fr_state (st_freshness s) = FreshnessFresh"

definition withhold :: "(section_key \<times> open_section_status_v1) list \<Rightarrow> (section_key, open_observation option) bmap
    \<Rightarrow> (section_key, open_observation option) bmap" where
  "withhold pairs observations = fold (\<lambda>(key, _). bm_insert key None) pairs observations"

record observation_source =
  src_attempt_id :: trace_id
  src_attempt_sequence :: u64
  src_refresh_id :: trace_id
  src_version :: u64
  src_observed_at :: offset_date_time
  src_lag :: u64

definition committed_source ::
  "open_lib \<Rightarrow> status_store \<Rightarrow> term_campus_key \<Rightarrow> open_observation_point_v1 \<Rightarrow> u64
     \<Rightarrow> open_projection_error + observation_source" where
  "committed_source L store target last_valid version =
     and_then (read_store (rd_open_batch_state store target)) (\<lambda>batch.
     and_then (ok_or PeInconsistentState batch) (\<lambda>batch.
     and_then (ok_or PeInconsistentState (os_lkg_attempt_id batch)) (\<lambda>attempt_id.
     and_then (load_attempt store target attempt_id) (\<lambda>attempt.
     and_then (read_store (rd_open_batch_observation store attempt_id)) (\<lambda>observation.
     and_then (ok_or (PeMissingRelatedRow ''LKG batch observation'') observation) (\<lambda>observation.
     and_then (read_store (derive_open_refresh_observation_id L attempt_id)) (\<lambda>refresh_id.
     and_then (ensure (oob_observation_id observation = refresh_id \<and> op_observation_id last_valid = refresh_id
         \<and> oob_catalog_content_version observation = version
         \<and> oob_observation_sequence observation = seq_get (op_observation_sequence last_valid)) PeInconsistentState) (\<lambda>_.
     and_then (ok_or (PeInvalidValue ''lkg_schedule_lag_ms'') (ar_schedule_lag_ms attempt)) (\<lambda>lag.
       Inr \<lparr>src_attempt_id = attempt_id, src_attempt_sequence = ar_attempt_sequence attempt,
         src_refresh_id = refresh_id, src_version = version, src_observed_at = op_observed_at last_valid,
         src_lag = lag\<rparr>)))))))))"

definition observe_section ::
  "open_lib \<Rightarrow> term_campus_key \<Rightarrow> observation_source \<Rightarrow> section_key \<times> open_section_status_v1
     \<Rightarrow> (section_key, open_observation option) bmap
     \<Rightarrow> open_projection_error + (section_key, open_observation option) bmap" where
  "observe_section L target src pair observations =
     (case pair of (key, s) \<Rightarrow>
     and_then (ok_or PeInconsistentState (fr_observed_at (st_freshness s))) (\<lambda>observed_at.
     and_then (ok_or PeInconsistentState (fr_fresh_until (st_freshness s))) (\<lambda>fresh_until.
     and_then (ensure (observed_at = src_observed_at src) PeInconsistentState) (\<lambda>_.
     and_then (read_store (derive_open_section_observation_id L (src_attempt_id src) key)) (\<lambda>observation_id.
     and_then (sequence_of (src_attempt_sequence src)) (\<lambda>attempt_sequence.
     and_then (ok_or PeInconsistentState (open_observation_try_new observation_id (src_refresh_id src) target key
         attempt_sequence (src_version src) (st_state s) observed_at fresh_until (src_lag src)
         (st_counter_snapshot s))) (\<lambda>observation.
       Inr (bm_insert key (Some observation) observations))))))))"

definition observe_candidates ::
  "open_lib \<Rightarrow> status_store \<Rightarrow> term_campus_key \<Rightarrow> open_refresh_status_v1 \<Rightarrow> (section_key \<times> open_section_status_v1) list
     \<Rightarrow> (section_key, open_observation option) bmap
     \<Rightarrow> open_projection_error + (section_key, open_observation option) bmap" where
  "observe_candidates L store target refresh candidates observations =
     (if candidates = [] then Inr observations
      else
        and_then (ok_or PeInconsistentState (rs_catalog_content_version refresh)) (\<lambda>version.
        and_then (ensure (list_all (\<lambda>(_, s). st_catalog_content_version s \<noteq> None) candidates) PeInconsistentState) (\<lambda>_.
        and_then (ok_or PeInconsistentState (rs_last_valid_observation refresh)) (\<lambda>last_valid.
          if op_catalog_content_version last_valid \<noteq> version then Inr (withhold candidates observations)
          else
            let current = filter (\<lambda>(_, s). st_catalog_content_version s = Some version) candidates;
                observations = withhold (filter (\<lambda>(_, s). st_catalog_content_version s \<noteq> Some version) candidates) observations
            in if current = [] then Inr observations
               else and_then (committed_source L store target last_valid version) (\<lambda>src.
                 try_fold (observe_section L target src) current observations)))))"

definition project_current_open_observations ::
  "open_lib \<Rightarrow> status_store \<Rightarrow> term_campus_key \<Rightarrow> section_key list \<Rightarrow> open_projection_runtime
     \<Rightarrow> open_projection_error + (section_key, open_observation option) bmap" where
  "project_current_open_observations L store target sections runtime =
     (if list_ex (\<lambda>s. section_key_target s \<noteq> target) sections then Inl PeInconsistentState
      else if sections = [] then Inr bm_empty
      else and_then (project_open_status L store target runtime) (\<lambda>projected.
        let statuses = fold (\<lambda>s. bm_insert (st_section_key s) s) (ps_sections projected) bm_empty;
            published = List.map_filter (\<lambda>key. map_option (Pair key) (bm_get statuses key)) sections
        in observe_candidates L store target (ps_refresh projected)
             (filter (\<lambda>(_, s). status_is_certain s) published)
             (withhold (filter (\<lambda>(_, s). \<not> status_is_certain s) published) bm_empty)))"

definition project_current_open_observation ::
  "open_lib \<Rightarrow> status_store \<Rightarrow> section_key \<Rightarrow> open_projection_runtime \<Rightarrow> open_projection_error + open_observation option" where
  "project_current_open_observation L store sec runtime =
     and_then (project_current_open_observations L store (section_key_target sec) [sec] runtime) (\<lambda>observations.
       ok_or PeSectionNotPublished (bm_get observations sec))"

end
