(* ===== verification/Storage_Invariant.thy ===== *)
theory Storage_Invariant
  imports Open_Storage
begin

text \<open>
  The invariant of the open tables: the ledger of attempts and counters, the pointers to the latest
  attempt and to the last known good observation, and that every transaction of
  \<open>Open_Storage\<close> keeps them.
\<close>

subsection \<open>Target identifiers\<close>

definition target_valid :: "term_campus_key \<Rightarrow> bool" where
  "target_valid target \<longleftrightarrow> validate_term (term_str (tc_term target)) = Inr ()
     \<and> validate_campus (campus_str (tc_campus target)) = Inr ()"

lemma term_campus_key_try_new_iff:
  "term_campus_key_try_new a b = Inr target \<longleftrightarrow>
     target_valid target \<and> a = term_str (tc_term target) \<and> b = campus_str (tc_campus target)"
  unfolding term_campus_key_try_new_def term_id_try_from_def campus_code_try_from_def target_valid_def
  by (cases target; cases "tc_term target"; cases "tc_campus target")
    (auto simp: validated_def split: sum.splits)

lemma open_target_id_inject:
  assumes "target_valid t" "target_valid u" "open_target_id t = open_target_id u"
  shows "t = u"
proof -
  have slash: "CHR ''/'' \<notin> set (term_str (tc_term t))" "CHR ''/'' \<notin> set (term_str (tc_term u))"
    using assms validators_exclude_slash by (auto simp: target_valid_def)
  have "split_on (CHR ''/'') (open_target_id t) = split_on (CHR ''/'') (open_target_id u)"
    using assms(3) by simp
  then have "term_str (tc_term t) = term_str (tc_term u)"
    using slash by (simp add: open_target_id_def split_on_append)
  moreover with assms(3) have "campus_str (tc_campus t) = campus_str (tc_campus u)"
    by (simp add: open_target_id_def)
  ultimately show ?thesis
    by (simp add: term_campus_key.expand term_id.expand campus_code.expand)
qed

subsection \<open>The invariant\<close>

definition started_row :: "open_pull_attempt_row \<Rightarrow> bool" where
  "started_row r \<longleftrightarrow> at_classification r = AcStarted"

definition wf_catalog :: "open_db \<Rightarrow> bool" where
  "wf_catalog db \<longleftrightarrow> (\<forall>k t. bm_get (db_catalog_targets db) k = Some t \<longrightarrow>
     (\<exists>target. term_campus_key_try_new (ct_term_id t) (ct_campus_code t) = Inr target \<and> open_target_id target = k))"

text \<open>Every attempt belongs to a batch row that has counted it; a started attempt is the latest one of
  its target, and the latest attempt of a target is never missing.\<close>

definition wf_attempt :: "open_db \<Rightarrow> trace_id \<Rightarrow> open_pull_attempt_row \<Rightarrow> bool" where
  "wf_attempt db i r \<longleftrightarrow> 0 < at_attempt_sequence r \<and> (started_row r \<longleftrightarrow> at_completed_at r = None)
     \<and> (\<exists>s. bm_get (db_batch_state db) (at_target_id r) = Some s
          \<and> at_attempt_sequence r \<le> ob_last_attempt_sequence s
          \<and> (ob_last_attempt_id s = Some i \<longleftrightarrow> at_attempt_sequence r = ob_last_attempt_sequence s)
          \<and> (started_row r \<longrightarrow> ob_last_attempt_id s = Some i))"

definition wf_attempts :: "open_db \<Rightarrow> bool" where
  "wf_attempts db \<longleftrightarrow> (\<forall>i r. bm_get (db_attempts db) i = Some r \<longrightarrow> wf_attempt db i r)
     \<and> (\<forall>i j r q. bm_get (db_attempts db) i = Some r \<longrightarrow> bm_get (db_attempts db) j = Some q
          \<longrightarrow> at_target_id r = at_target_id q \<longrightarrow> at_attempt_sequence r = at_attempt_sequence q \<longrightarrow> i = j)
     \<and> (\<forall>t s. bm_get (db_batch_state db) t = Some s \<longrightarrow> 0 \<le> ob_last_attempt_sequence s
          \<and> (\<forall>i. ob_last_attempt_id s = Some i \<longrightarrow>
               (\<exists>r. bm_get (db_attempts db) i = Some r \<and> at_target_id r = t
                  \<and> at_attempt_sequence r = ob_last_attempt_sequence s)))"

definition wf_failure :: "open_db \<Rightarrow> bool" where
  "wf_failure db \<longleftrightarrow> (\<forall>t s. bm_get (db_batch_state db) t = Some s \<longrightarrow>
     ob_last_failure_attempt_sequence s = None \<and> ob_last_failure_at s = None
       \<and> ob_last_failure_error_code s = None \<and> ob_last_failure_http_status s = None
     \<or> (\<exists>n. ob_last_failure_attempt_sequence s = Some n \<and> 0 < n) \<and> ob_last_failure_at s \<noteq> None
       \<and> ob_last_failure_error_code s \<noteq> None)"

text \<open>The last known good attempt succeeded, is still stored with its observation, and owns every
  current section state of the target.\<close>

definition lkg_ok :: "open_db \<Rightarrow> string \<Rightarrow> open_batch_state_row \<Rightarrow> bool" where
  "lkg_ok db t s \<longleftrightarrow>
     (case ob_lkg_attempt_id s of
        None \<Rightarrow> ob_lkg_observation_sequence s = None \<and> ob_lkg_observed_at s = None
          \<and> ob_lkg_canonical_set_sha256 s = None \<and> ob_lkg_state_sha256 s = None \<and> section_current_rows db t = bm_empty
      | Some i \<Rightarrow> \<exists>r ob. bm_get (db_attempts db) i = Some r \<and> at_target_id r = t \<and> is_success (at_classification r)
          \<and> bm_get (db_observations db) i = Some ob \<and> bo_target_id ob = t \<and> is_success (bo_classification ob)
          \<and> ob_lkg_observation_sequence s = Some (bo_observation_sequence ob)
          \<and> ob_current_catalog_content_version s = bo_catalog_content_version ob
          \<and> (\<forall>k row. bm_get (section_current_rows db t) k = Some row \<longrightarrow> oc_attempt_id row = i
               \<and> oc_observation_sequence row = bo_observation_sequence ob
               \<and> oc_catalog_content_version row = bo_catalog_content_version ob
               \<and> oc_observed_at row = bo_observed_at ob))"

definition wf_lkg :: "open_db \<Rightarrow> bool" where
  "wf_lkg db \<longleftrightarrow> (\<forall>t. case bm_get (db_batch_state db) t of
     None \<Rightarrow> section_current_rows db t = bm_empty | Some s \<Rightarrow> lkg_ok db t s)"

lemma wf_lkgD:
  assumes "wf_lkg db"
  shows "bm_get (db_batch_state db) t = Some s \<Longrightarrow> lkg_ok db t s"
    "bm_get (db_batch_state db) t = None \<Longrightarrow> section_current_rows db t = bm_empty"
  using assms unfolding wf_lkg_def by (auto dest!: spec [of _ t])

lemma wf_lkgI:
  assumes "\<And>t s. bm_get (db_batch_state db) t = Some s \<Longrightarrow> lkg_ok db t s"
    "\<And>t. bm_get (db_batch_state db) t = None \<Longrightarrow> section_current_rows db t = bm_empty"
  shows "wf_lkg db"
  using assms unfolding wf_lkg_def by (auto split: option.split)

text \<open>Counters: every attempt is counted once when it starts and once when it ends.\<close>

definition started_on :: "open_db \<Rightarrow> string \<Rightarrow> string \<Rightarrow> bool" where
  "started_on db t d \<longleftrightarrow> (\<exists>i r. bm_get (db_attempts db) i = Some r \<and> started_row r \<and> at_target_id r = t \<and> at_rutgers_day r = d)"

definition started_in :: "open_db \<Rightarrow> trace_id \<Rightarrow> string \<Rightarrow> bool" where
  "started_in db run t \<longleftrightarrow> (\<exists>i r. bm_get (db_attempts db) i = Some r \<and> started_row r \<and> at_target_id r = t \<and> at_run_id r = run)"

definition balanced :: "bool \<Rightarrow> counter_row option \<Rightarrow> bool" where
  "balanced started c \<longleftrightarrow>
     (case c of
        None \<Rightarrow> \<not> started
      | Some c \<Rightarrow> cn_attempted c = cn_succeeded c + cn_failed c + of_bool started \<and> cn_attempted c \<le> I64_MAX
          \<and> 0 \<le> cn_succeeded c \<and> 0 \<le> cn_failed c \<and> 0 \<le> cn_empty c \<and> cn_empty c \<le> cn_succeeded c + cn_failed c)"

definition wf_counters :: "open_db \<Rightarrow> bool" where
  "wf_counters db \<longleftrightarrow>
     (\<forall>t d. balanced (started_on db t d) (bm_get (db_daily_counters db) (t, d)))
     \<and> (\<forall>run t. balanced (started_in db run t) (bm_get (db_run_counters db) (run, t)))"

definition wf_db :: "open_db \<Rightarrow> bool" where
  "wf_db db \<longleftrightarrow> wf_catalog db \<and> wf_attempts db \<and> wf_failure db \<and> wf_lkg db \<and> wf_counters db"

subsection \<open>Counters\<close>

lemma bump_attempted_balanced:
  assumes "bump_attempted c = Inr c'" "balanced False c"
  shows "balanced True (Some c')"
  using assms by (cases c) (auto simp: bump_attempted_def balanced_def sql_add_def I64_MAX_def split: if_splits)

lemma bump_final_balanced:
  assumes "bump_final ok no_values c = Inr c'" "balanced True (Some c)"
  shows "balanced False (Some c')"
  using assms by (cases ok; cases no_values) (auto simp: bump_final_def balanced_def sql_add_def split: if_splits)

lemma started_unique:
  assumes "wf_attempts db" "bm_get (db_attempts db) i = Some r" "started_row r"
    "bm_get (db_attempts db) j = Some q" "started_row q" "at_target_id q = at_target_id r"
  shows "j = i"
proof -
  have "wf_attempt db i r" "wf_attempt db j q"
    using assms by (auto simp: wf_attempts_def)
  then show ?thesis
    using assms by (auto simp: wf_attempt_def)
qed

definition final_counters :: "open_db \<Rightarrow> string \<Rightarrow> trace_id \<Rightarrow> string \<Rightarrow> counter_row \<Rightarrow> counter_row \<Rightarrow> open_db" where
  "final_counters db t run day daily run_row =
     db\<lparr>db_daily_counters := bm_insert (t, day) daily (db_daily_counters db),
        db_run_counters := bm_insert (run, t) run_row (db_run_counters db)\<rparr>"

lemma increment_final_Inr:
  "increment_final_counters db t run day ok no_values = Inr db' \<longleftrightarrow>
     (\<exists>c d c' d'. bm_get (db_daily_counters db) (t, day) = Some c \<and> bump_final ok no_values c = Inr c'
        \<and> bm_get (db_run_counters db) (run, t) = Some d \<and> bump_final ok no_values d = Inr d'
        \<and> db' = final_counters db t run day c' d')"
  unfolding increment_final_counters_def final_counters_def
  by (cases "bm_get (db_daily_counters db) (t, day)"; cases "bm_get (db_run_counters db) (run, t)")
    (auto simp: transpose_opt_def split: sum.splits)

text \<open>A started attempt that ends: its row leaves \<open>STARTED\<close> and both counters move.\<close>

lemma counters_finish:
  assumes wf: "wf_attempts db" "wf_counters db"
    and row: "bm_get (db_attempts db) i = Some r" "started_row r" "\<not> started_row r'"
    and counters: "bm_get (db_daily_counters db) (at_target_id r, at_rutgers_day r) = Some c" "bump_final ok no_values c = Inr c'"
      "bm_get (db_run_counters db) (at_run_id r, at_target_id r) = Some d" "bump_final ok no_values d = Inr d'"
    and db': "db_attempts db' = bm_insert i r' (db_attempts db)"
      "db_daily_counters db' = bm_insert (at_target_id r, at_rutgers_day r) c' (db_daily_counters db)"
      "db_run_counters db' = bm_insert (at_run_id r, at_target_id r) d' (db_run_counters db)"
  shows "wf_counters db'"
proof -
  have others: "j = i" if "bm_get (db_attempts db) j = Some q" "started_row q" "at_target_id q = at_target_id r" for j q
    using started_unique [OF wf(1) row(1,2) that] .
  have same: "bm_get (db_attempts db') j = Some q \<and> started_row q
      \<longleftrightarrow> (bm_get (db_attempts db) j = Some q \<and> started_row q) \<and> j \<noteq> i" for j q
    using row by (auto simp: db')
  have gone: "(\<exists>j q. (bm_get (db_attempts db') j = Some q \<and> started_row q) \<and> at_target_id q = t \<and> P q)
      \<longleftrightarrow> (\<exists>j q. (bm_get (db_attempts db) j = Some q \<and> started_row q) \<and> at_target_id q = t \<and> P q)
        \<and> \<not> (t = at_target_id r \<and> P r)" for t P
    unfolding same using row(1,2) others by (metis option.inject)
  have on: "started_on db' t day \<longleftrightarrow> started_on db t day \<and> (t, day) \<noteq> (at_target_id r, at_rutgers_day r)" for t day
    using gone [of t "\<lambda>q. at_rutgers_day q = day"] unfolding started_on_def by auto
  have within: "started_in db' run t \<longleftrightarrow> started_in db run t \<and> (run, t) \<noteq> (at_run_id r, at_target_id r)" for run t
    using gone [of t "\<lambda>q. at_run_id q = run"] unfolding started_in_def by auto
  have "started_on db (at_target_id r) (at_rutgers_day r)" "started_in db (at_run_id r) (at_target_id r)"
    using row unfolding started_on_def started_in_def by blast+
  then have "balanced True (Some c)" "balanced True (Some d)"
    using wf(2) counters unfolding wf_counters_def by metis+
  then have "balanced False (Some c')" "balanced False (Some d')"
    using counters bump_final_balanced by blast+
  with wf(2) show ?thesis
    unfolding wf_counters_def on within by (auto simp: db')
qed

subsection \<open>An attempt that ends\<close>

text \<open>The row \<open>r\<close> of attempt \<open>i\<close> becomes \<open>r'\<close>, the state \<open>s\<close> of its target becomes \<open>s'\<close>.\<close>

definition ends :: "open_db \<Rightarrow> trace_id \<Rightarrow> open_pull_attempt_row \<Rightarrow> open_pull_attempt_row \<Rightarrow> open_batch_state_row
    \<Rightarrow> open_batch_state_row \<Rightarrow> open_db \<Rightarrow> bool" where
  "ends db i r r' s s' db' \<longleftrightarrow>
     bm_get (db_attempts db) i = Some r \<and> started_row r \<and> \<not> started_row r' \<and> at_completed_at r' \<noteq> None
     \<and> at_target_id r' = at_target_id r \<and> at_attempt_sequence r' = at_attempt_sequence r
     \<and> bm_get (db_batch_state db) (at_target_id r) = Some s
     \<and> ob_last_attempt_sequence s' = ob_last_attempt_sequence s \<and> ob_last_attempt_id s' = ob_last_attempt_id s
     \<and> db_attempts db' = bm_insert i r' (db_attempts db)
     \<and> db_batch_state db' = bm_insert (at_target_id r) s' (db_batch_state db)"

lemma attempts_finish:
  assumes wf: "wf_attempts db" and e: "ends db i r r' s s' db'"
  shows "wf_attempts db'"
proof -
  have r: "wf_attempt db i r" and row: "bm_get (db_attempts db) i = Some r"
    using wf e by (auto simp: wf_attempts_def ends_def)
  have "wf_attempt db' i r'"
    using r e by (auto simp: wf_attempt_def ends_def)
  moreover have "wf_attempt db' j q" if "bm_get (db_attempts db) j = Some q" for j q
  proof -
    have "wf_attempt db j q"
      using wf that by (auto simp: wf_attempts_def)
    then show ?thesis
      using e by (auto simp: wf_attempt_def ends_def)
  qed
  ultimately have all: "\<forall>j q. bm_get (db_attempts db') j = Some q \<longrightarrow> wf_attempt db' j q"
    using e by (auto simp: ends_def split: if_splits)
  have backwards: "bm_get (db_attempts db') j = Some q \<Longrightarrow>
      \<exists>q'. bm_get (db_attempts db) j = Some q' \<and> at_target_id q' = at_target_id q \<and> at_attempt_sequence q' = at_attempt_sequence q"
    for j q
    using e row by (auto simp: ends_def split: if_splits)
  have inj: "\<forall>j k q p. bm_get (db_attempts db') j = Some q \<longrightarrow> bm_get (db_attempts db') k = Some p
      \<longrightarrow> at_target_id q = at_target_id p \<longrightarrow> at_attempt_sequence q = at_attempt_sequence p \<longrightarrow> j = k"
    using backwards wf unfolding wf_attempts_def by metis
  have onwards: "bm_get (db_attempts db) j = Some q \<Longrightarrow>
      \<exists>q'. bm_get (db_attempts db') j = Some q' \<and> at_target_id q' = at_target_id q \<and> at_attempt_sequence q' = at_attempt_sequence q"
    for j q
    using e row by (auto simp: ends_def)
  have latest: "0 \<le> ob_last_attempt_sequence v \<and> (\<forall>j. ob_last_attempt_id v = Some j \<longrightarrow>
      (\<exists>q. bm_get (db_attempts db') j = Some q \<and> at_target_id q = t \<and> at_attempt_sequence q = ob_last_attempt_sequence v))"
    if v: "bm_get (db_batch_state db') t = Some v" for t v
  proof -
    obtain w where w: "bm_get (db_batch_state db) t = Some w" "ob_last_attempt_sequence w = ob_last_attempt_sequence v"
      "ob_last_attempt_id w = ob_last_attempt_id v"
      using v e by (auto simp: ends_def split: if_splits)
    have "0 \<le> ob_last_attempt_sequence w \<and> (\<forall>j. ob_last_attempt_id w = Some j \<longrightarrow>
        (\<exists>q. bm_get (db_attempts db) j = Some q \<and> at_target_id q = t \<and> at_attempt_sequence q = ob_last_attempt_sequence w))"
      using wf w(1) unfolding wf_attempts_def by blast
    with w(2,3) onwards show ?thesis
      by metis
  qed
  show ?thesis
    unfolding wf_attempts_def using all inj latest by blast
qed

lemma lkg_not_started:
  assumes "lkg_ok db t s" "ob_lkg_attempt_id s = Some j" "bm_get (db_attempts db) i = Some r" "started_row r"
  shows "j \<noteq> i"
  using assms by (auto simp: lkg_ok_def started_row_def is_success_def)

text \<open>A started attempt is no last known good, so ending another way than by applying keeps them.\<close>

lemma lkg_keep:
  assumes wf: "wf_lkg db" and e: "ends db i r r' s s' db'"
    and same: "ob_lkg_attempt_id s' = ob_lkg_attempt_id s" "ob_lkg_observation_sequence s' = ob_lkg_observation_sequence s"
      "ob_lkg_observed_at s' = ob_lkg_observed_at s" "ob_lkg_canonical_set_sha256 s' = ob_lkg_canonical_set_sha256 s"
      "ob_lkg_state_sha256 s' = ob_lkg_state_sha256 s"
      "ob_current_catalog_content_version s' = ob_current_catalog_content_version s"
      "db_observations db' = db_observations db" "db_section_current db' = db_section_current db"
  shows "wf_lkg db'"
proof -
  have rows: "section_current_rows db' t = section_current_rows db t" for t
    by (simp add: section_current_rows_def same)
  have move: "lkg_ok db' t v'" if v: "lkg_ok db t v" and v': "ob_lkg_attempt_id v' = ob_lkg_attempt_id v"
      "ob_lkg_observation_sequence v' = ob_lkg_observation_sequence v" "ob_lkg_observed_at v' = ob_lkg_observed_at v"
      "ob_lkg_canonical_set_sha256 v' = ob_lkg_canonical_set_sha256 v" "ob_lkg_state_sha256 v' = ob_lkg_state_sha256 v"
      "ob_current_catalog_content_version v' = ob_current_catalog_content_version v" for t v v'
  proof (cases "ob_lkg_attempt_id v")
    case None
    then show ?thesis
      using v v' by (simp add: lkg_ok_def rows)
  next
    case (Some j)
    have "j \<noteq> i"
      using lkg_not_started [OF v Some] e by (auto simp: ends_def)
    then show ?thesis
      using v v' e Some by (simp add: lkg_ok_def rows same ends_def)
  qed
  show ?thesis
  proof (rule wf_lkgI)
    show "lkg_ok db' t v'" if "bm_get (db_batch_state db') t = Some v'" for t v'
      using that e wf_lkgD(1) [OF wf] move [OF _ same(1-6)] move [of t v' v']
      by (auto simp: ends_def split: if_splits)
    show "section_current_rows db' t = bm_empty" if "bm_get (db_batch_state db') t = None" for t
      using that e wf_lkgD(2) [OF wf] by (auto simp: ends_def rows split: if_splits)
  qed
qed

lemma lkg_apply:
  assumes wf: "wf_lkg db" and e: "ends db i r r' s s' db'" and success: "is_success (at_classification r')"
    and obs: "db_observations db' = bm_insert i ob (db_observations db)" "bo_target_id ob = at_target_id r"
      "is_success (bo_classification ob)"
    and current: "db_section_current db' = bm_insert (at_target_id r) rows (db_section_current db)"
      "\<And>k row. bm_get rows k = Some row \<Longrightarrow> oc_attempt_id row = i
         \<and> oc_observation_sequence row = bo_observation_sequence ob
         \<and> oc_catalog_content_version row = bo_catalog_content_version ob \<and> oc_observed_at row = bo_observed_at ob"
    and s': "ob_lkg_attempt_id s' = Some i" "ob_lkg_observation_sequence s' = Some (bo_observation_sequence ob)"
      "ob_current_catalog_content_version s' = bo_catalog_content_version ob"
  shows "wf_lkg db'"
proof -
  have rows: "section_current_rows db' t = (if t = at_target_id r then rows else section_current_rows db t)" for t
    by (simp add: section_current_rows_def current)
  have "lkg_ok db' (at_target_id r) s'"
    using e success obs current(2) s' by (simp add: lkg_ok_def rows ends_def)
  moreover have "lkg_ok db' t v" if v: "lkg_ok db t v" and t: "t \<noteq> at_target_id r" for t v
  proof (cases "ob_lkg_attempt_id v")
    case None
    then show ?thesis
      using v t by (simp add: lkg_ok_def rows)
  next
    case (Some j)
    have "j \<noteq> i"
      using lkg_not_started [OF v Some] e by (auto simp: ends_def)
    then show ?thesis
      using v e Some t by (simp add: lkg_ok_def rows obs ends_def)
  qed
  ultimately show ?thesis
    using e wf_lkgD [OF wf] by (intro wf_lkgI) (auto simp: ends_def rows split: if_splits)
qed

lemma load_started_row:
  assumes "wf_catalog db" "load_started_open_attempt db i = Inr a"
  obtains r where "bm_get (db_attempts db) i = Some r" "started_row r" "at_target_id r = open_target_id (sa_target a)"
    "target_valid (sa_target a)" "sa_run_id a = at_run_id r" "sa_rutgers_day a = at_rutgers_day r"
    "stored_u64 (at_attempt_sequence r) = Inr (sa_attempt_sequence a)"
    "stored_u64 (at_captured_catalog_content_version r) = Inr (sa_captured_catalog_content_version a)"
proof -
  obtain r t where r: "bm_get (db_attempts db) i = Some r" "bm_get (db_catalog_targets db) (at_target_id r) = Some t"
    using assms(2) by (auto simp: load_started_open_attempt_def split: option.splits)
  obtain target where target: "term_campus_key_try_new (ct_term_id t) (ct_campus_code t) = Inr target"
      "open_target_id target = at_target_id r"
    using assms(1) r(2) by (auto simp: wf_catalog_def)
  have "target_valid target"
    using target(1) by (simp add: term_campus_key_try_new_iff)
  moreover have "sa_target a = target \<and> started_row r \<and> sa_run_id a = at_run_id r \<and> sa_rutgers_day a = at_rutgers_day r
      \<and> stored_u64 (at_attempt_sequence r) = Inr (sa_attempt_sequence a)
      \<and> stored_u64 (at_captured_catalog_content_version r) = Inr (sa_captured_catalog_content_version a)"
    using assms(2) r target(1) by (auto simp: load_started_open_attempt_def started_row_def)
  ultimately show thesis
    using that r(1) target(2) by simp
qed

lemma failure_finish:
  assumes "wf_failure db" "ends db i r r' s s' db'"
    and "(ob_last_failure_attempt_sequence s', ob_last_failure_at s', ob_last_failure_error_code s', ob_last_failure_http_status s')
       = (ob_last_failure_attempt_sequence s, ob_last_failure_at s, ob_last_failure_error_code s, ob_last_failure_http_status s)
     \<or> ob_last_failure_attempt_sequence s' = Some n \<and> 0 < n \<and> ob_last_failure_at s' \<noteq> None \<and> ob_last_failure_error_code s' \<noteq> None"
  shows "wf_failure db'"
proof -
  have s: "bm_get (db_batch_state db) (at_target_id r) = Some s"
      "db_batch_state db' = bm_insert (at_target_id r) s' (db_batch_state db)"
    using assms(2) by (simp_all add: ends_def)
  note row = assms(1) [unfolded wf_failure_def, rule_format, OF s(1)]
  show ?thesis
    unfolding wf_failure_def
  proof (intro allI impI)
    fix t u
    assume u: "bm_get (db_batch_state db') t = Some u"
    show "ob_last_failure_attempt_sequence u = None \<and> ob_last_failure_at u = None
        \<and> ob_last_failure_error_code u = None \<and> ob_last_failure_http_status u = None
      \<or> (\<exists>n. ob_last_failure_attempt_sequence u = Some n \<and> 0 < n) \<and> ob_last_failure_at u \<noteq> None
        \<and> ob_last_failure_error_code u \<noteq> None"
    proof (cases "t = at_target_id r")
      case True
      then have "u = s'"
        using u s(2) by simp
      then show ?thesis
        using row assms(3) by auto
    next
      case False
      then have "bm_get (db_batch_state db) t = Some u"
        using u s(2) by simp
      then show ?thesis
        using assms(1) unfolding wf_failure_def by blast
    qed
  qed
qed

lemma ended_wf:
  assumes wf: "wf_db db" and e: "ends db i r r' s s' db'" and catalog: "db_catalog_targets db' = db_catalog_targets db"
    and counters: "bm_get (db_daily_counters db) (at_target_id r, at_rutgers_day r) = Some c" "bump_final ok no_values c = Inr c'"
      "bm_get (db_run_counters db) (at_run_id r, at_target_id r) = Some d" "bump_final ok no_values d = Inr d'"
      "db_daily_counters db' = bm_insert (at_target_id r, at_rutgers_day r) c' (db_daily_counters db)"
      "db_run_counters db' = bm_insert (at_run_id r, at_target_id r) d' (db_run_counters db)"
    and failure: "wf_failure db'" and lkg: "wf_lkg db'"
  shows "wf_db db'"
proof -
  have "wf_attempts db'"
    using attempts_finish e wf by (auto simp: wf_db_def)
  moreover have "wf_counters db'"
    using wf e by (intro counters_finish [OF _ _ _ _ _ counters(1-4) _ counters(5,6), where i = i and r' = r'])
      (auto simp: wf_db_def ends_def)
  ultimately show ?thesis
    using wf failure lkg by (simp add: wf_db_def wf_catalog_def catalog)
qed

subsection \<open>Failures, races and unsafe responses\<close>

lemma finalize_wf:
  assumes wf: "wf_db db" and load: "load_started_open_attempt db i = Inr a"
    and fin: "finalize_non_applied_attempt db a i completed_at cls http response n1 n2 n3 code sha gate = Inr db'"
    and cls: "cls \<noteq> AcStarted"
  shows "wf_db db'"
proof -
  obtain r where r: "bm_get (db_attempts db) i = Some r" "started_row r" "at_target_id r = open_target_id (sa_target a)"
      "sa_run_id a = at_run_id r" "sa_rutgers_day a = at_rutgers_day r"
      "stored_u64 (at_attempt_sequence r) = Inr (sa_attempt_sequence a)"
    using load_started_row [OF _ load] wf by (metis wf_db_def)
  obtain http' counts s c d c' d' ok ne where s: "bm_get (db_batch_state db) (at_target_id r) = Some s"
    and seq: "u64_to_i64 (sa_attempt_sequence a) = Inr (ob_last_attempt_sequence s)" "ob_last_attempt_id s = Some i"
    and counters: "bm_get (db_daily_counters db) (at_target_id r, at_rutgers_day r) = Some c" "bump_final ok ne c = Inr c'"
      "bm_get (db_run_counters db) (at_run_id r, at_target_id r) = Some d" "bump_final ok ne d = Inr d'"
    and db': "db' = final_counters (db\<lparr>
        db_attempts := bm_insert i (r\<lparr>at_completed_at := Some completed_at, at_classification := cls, at_http := http',
          at_canonical_set_sha256 := map_option cr_canonical_set_sha256 response, at_state_sha256 := sha,
          at_counts := counts, at_error_code := Some code, at_gate_catalog_set_identity := gate,
          at_diagnostic_token := None\<rparr>) (db_attempts db),
        db_batch_state := bm_insert (at_target_id r) (s\<lparr>ob_last_failure_attempt_sequence := Some (ob_last_attempt_sequence s),
          ob_last_failure_at := Some completed_at, ob_last_failure_error_code := Some code,
          ob_last_failure_http_status := hc_http_status http'\<rparr>) (db_batch_state db)\<rparr>)
        (at_target_id r) (at_run_id r) (at_rutgers_day r) c' d'"
    using fin r(1,2) unfolding finalize_non_applied_attempt_def update_started_attempt_def update_current_batch_state_def
    by (auto simp: increment_final_Inr Let_def r(3-5) split: option.splits if_splits)
  define r' where "r' = r\<lparr>at_completed_at := Some completed_at, at_classification := cls, at_http := http',
          at_canonical_set_sha256 := map_option cr_canonical_set_sha256 response, at_state_sha256 := sha,
          at_counts := counts, at_error_code := Some code, at_gate_catalog_set_identity := gate,
          at_diagnostic_token := None\<rparr>"
  define s' where "s' = s\<lparr>ob_last_failure_attempt_sequence := Some (ob_last_attempt_sequence s),
          ob_last_failure_at := Some completed_at, ob_last_failure_error_code := Some code,
          ob_last_failure_http_status := hc_http_status http'\<rparr>"
  have e: "ends db i r r' s s' db'"
    using r s cls by (simp add: ends_def db' final_counters_def started_row_def r'_def s'_def)
  have "wf_attempt db i r"
    using wf r(1) by (auto simp: wf_db_def wf_attempts_def)
  then have "0 < ob_last_attempt_sequence s"
    using s by (auto simp: wf_attempt_def)
  then have failure: "wf_failure db'"
    using wf by (intro failure_finish [OF _ e, where n = "ob_last_attempt_sequence s"]) (simp_all add: wf_db_def s'_def)
  have lkg: "wf_lkg db'"
    using wf by (intro lkg_keep [OF _ e]) (simp_all add: wf_db_def s'_def db' final_counters_def)
  show ?thesis
    by (rule ended_wf [OF wf e _ counters _ _ failure lkg]) (simp_all add: db' final_counters_def)
qed

lemma latest_row:
  assumes "wf_attempts db" "bm_get (db_batch_state db) t = Some s" "ob_last_attempt_id s = Some i"
    "bm_get (db_attempts db) i = Some r"
  shows "at_target_id r = t" "at_attempt_sequence r = ob_last_attempt_sequence s"
  using assms unfolding wf_attempts_def by fastforce+

lemma bm_retain_empty [simp]: "bm_retain P bm_empty = bm_empty"
  by (rule bm.map_ext) simp

lemma lkg_move:
  assumes "lkg_ok db t s"
    and "\<And>i r. ob_lkg_attempt_id s = Some i \<Longrightarrow> bm_get (db_attempts db) i = Some r \<Longrightarrow>
      \<exists>r'. bm_get (db_attempts db') i = Some r' \<and> at_target_id r' = at_target_id r \<and> at_classification r' = at_classification r"
    and "\<And>i. ob_lkg_attempt_id s = Some i \<Longrightarrow> bm_get (db_observations db') i = bm_get (db_observations db) i"
    and rows: "\<And>k row. bm_get (section_current_rows db' t) k = Some row \<Longrightarrow> bm_get (section_current_rows db t) k = Some row"
  shows "lkg_ok db' t s"
proof (cases "ob_lkg_attempt_id s")
  case None
  then have "section_current_rows db t = bm_empty"
    using assms(1) by (simp add: lkg_ok_def)
  then have "bm_get (section_current_rows db' t) k = None" for k
    using rows [of k] by (cases "bm_get (section_current_rows db' t) k") auto
  then have "section_current_rows db' t = bm_empty"
    by (intro bm.map_ext) simp
  then show ?thesis
    using assms(1) None by (simp add: lkg_ok_def)
next
  case (Some i)
  obtain r ob where r: "bm_get (db_attempts db) i = Some r" "at_target_id r = t" "is_success (at_classification r)"
    and ob: "bm_get (db_observations db) i = Some ob" "bo_target_id ob = t" "is_success (bo_classification ob)"
      "ob_lkg_observation_sequence s = Some (bo_observation_sequence ob)"
      "ob_current_catalog_content_version s = bo_catalog_content_version ob"
    and current: "\<And>k row. bm_get (section_current_rows db t) k = Some row \<Longrightarrow> oc_attempt_id row = i
       \<and> oc_observation_sequence row = bo_observation_sequence ob
       \<and> oc_catalog_content_version row = bo_catalog_content_version ob \<and> oc_observed_at row = bo_observed_at ob"
    using assms(1) Some by (auto simp: lkg_ok_def)
  obtain r' where r': "bm_get (db_attempts db') i = Some r'" "at_target_id r' = t" "is_success (at_classification r')"
    using assms(2) [OF Some r(1)] r(2,3) by auto
  show ?thesis
    unfolding lkg_ok_def using Some r' ob assms(3) [OF Some] current [OF rows] by simp
qed

lemma wf_lkg_move:
  assumes wf: "wf_lkg db" and batch: "db_batch_state db' = db_batch_state db"
    and "\<And>t s i r. bm_get (db_batch_state db) t = Some s \<Longrightarrow> ob_lkg_attempt_id s = Some i
      \<Longrightarrow> bm_get (db_attempts db) i = Some r \<Longrightarrow>
      \<exists>r'. bm_get (db_attempts db') i = Some r' \<and> at_target_id r' = at_target_id r \<and> at_classification r' = at_classification r"
    and "\<And>t s i. bm_get (db_batch_state db) t = Some s \<Longrightarrow> ob_lkg_attempt_id s = Some i
      \<Longrightarrow> bm_get (db_observations db') i = bm_get (db_observations db) i"
    and rows: "\<And>t k row. bm_get (section_current_rows db' t) k = Some row \<Longrightarrow> bm_get (section_current_rows db t) k = Some row"
  shows "wf_lkg db'"
proof (rule wf_lkgI)
  show "lkg_ok db' t s" if "bm_get (db_batch_state db') t = Some s" for t s
  proof -
    have t: "bm_get (db_batch_state db) t = Some s"
      using that by (simp add: batch)
    show ?thesis
      by (rule lkg_move [OF wf_lkgD(1) [OF wf t] assms(3) [OF t] assms(4) [OF t] rows])
  qed
  show "section_current_rows db' t = bm_empty" if "bm_get (db_batch_state db') t = None" for t
  proof (rule bm.map_ext)
    fix k
    have "section_current_rows db t = bm_empty"
      using that wf_lkgD(2) [OF wf] by (simp add: batch)
    then show "bm_get (section_current_rows db' t) k = bm_get bm_empty k"
      using rows [of t k] by (cases "bm_get (section_current_rows db' t) k") auto
  qed
qed

text \<open>The diagnostic token of a row is no part of the invariant.\<close>

lemma token_wf:
  assumes wf: "wf_db db" and row: "bm_get (db_attempts db) i = Some r"
  shows "wf_db (db\<lparr>db_attempts := bm_insert i (r\<lparr>at_diagnostic_token := d\<rparr>) (db_attempts db)\<rparr>)"
proof -
  define db' where "db' = db\<lparr>db_attempts := bm_insert i (r\<lparr>at_diagnostic_token := d\<rparr>) (db_attempts db)\<rparr>"
  have get: "\<exists>q'. bm_get (db_attempts db) j = Some q' \<and> at_target_id q' = at_target_id q \<and> at_run_id q' = at_run_id q
      \<and> at_attempt_sequence q' = at_attempt_sequence q \<and> at_rutgers_day q' = at_rutgers_day q
      \<and> at_classification q' = at_classification q \<and> (wf_attempt db j q' \<longrightarrow> wf_attempt db' j q)"
    if "bm_get (db_attempts db') j = Some q" for j q
    using that row by (cases "j = i") (auto simp: wf_attempt_def started_row_def db'_def)
  have put: "\<exists>q'. bm_get (db_attempts db') j = Some q' \<and> at_target_id q' = at_target_id q \<and> at_run_id q' = at_run_id q
      \<and> at_attempt_sequence q' = at_attempt_sequence q \<and> at_rutgers_day q' = at_rutgers_day q
      \<and> at_classification q' = at_classification q"
    if "bm_get (db_attempts db) j = Some q" for j q
    using that row by (cases "j = i") (auto simp: db'_def)
  have batch: "db_batch_state db' = db_batch_state db"
    by (simp add: db'_def)
  have attempts: "wf_attempts db"
    using wf by (simp add: wf_db_def)
  have "\<forall>j q. bm_get (db_attempts db') j = Some q \<longrightarrow> wf_attempt db' j q"
    using attempts get unfolding wf_attempts_def by meson
  moreover have "\<forall>j k q p. bm_get (db_attempts db') j = Some q \<longrightarrow> bm_get (db_attempts db') k = Some p
      \<longrightarrow> at_target_id q = at_target_id p \<longrightarrow> at_attempt_sequence q = at_attempt_sequence p \<longrightarrow> j = k"
    using attempts get unfolding wf_attempts_def by metis
  moreover have "\<forall>t s. bm_get (db_batch_state db') t = Some s \<longrightarrow> 0 \<le> ob_last_attempt_sequence s
      \<and> (\<forall>j. ob_last_attempt_id s = Some j \<longrightarrow> (\<exists>q. bm_get (db_attempts db') j = Some q
           \<and> at_target_id q = t \<and> at_attempt_sequence q = ob_last_attempt_sequence s))"
    using attempts put unfolding wf_attempts_def batch by metis
  ultimately have "wf_attempts db'"
    unfolding wf_attempts_def by blast
  moreover have "wf_lkg db'"
  proof (rule wf_lkg_move [of db])
    show "\<exists>r'. bm_get (db_attempts db') j = Some r' \<and> at_target_id r' = at_target_id q
        \<and> at_classification r' = at_classification q" if "bm_get (db_attempts db) j = Some q" for j q
      using put [OF that] by blast
  qed (use wf in \<open>simp_all add: wf_db_def section_current_rows_def db'_def\<close>)
  moreover have counters: "wf_counters db'"
  proof -
    have "started_on db' t day \<Longrightarrow> started_on db t day" for t day
      unfolding started_on_def started_row_def by (elim exE conjE, drule get, metis)
    moreover have "started_in db' run t \<Longrightarrow> started_in db run t" for t run
      unfolding started_in_def started_row_def by (elim exE conjE, drule get, metis)
    moreover have "started_on db t day \<Longrightarrow> started_on db' t day" for t day
      unfolding started_on_def started_row_def by (elim exE conjE, drule put, metis)
    moreover have "started_in db run t \<Longrightarrow> started_in db' run t" for t run
      unfolding started_in_def started_row_def by (elim exE conjE, drule put, metis)
    ultimately have "started_on db' t day = started_on db t day" "started_in db' run t = started_in db run t" for t day run
      by blast+
    then show ?thesis
      using wf by (simp add: wf_db_def wf_counters_def) (simp add: db'_def)
  qed
  ultimately have "wf_db db'"
    using wf by (simp add: wf_db_def wf_catalog_def wf_failure_def db'_def)
  then show ?thesis
    by (simp add: db'_def)
qed

subsection \<open>Pruning\<close>

lemma delete_wf:
  assumes wf: "wf_db db"
    and ids: "\<And>i. i \<in> set ids \<Longrightarrow> \<exists>r. bm_get (db_attempts db) i = Some r \<and> \<not> started_row r"
      "\<And>i t s. i \<in> set ids \<Longrightarrow> bm_get (db_batch_state db) t = Some s
         \<Longrightarrow> ob_lkg_attempt_id s \<noteq> Some i \<and> ob_last_attempt_id s \<noteq> Some i"
  shows "wf_db (delete_attempts db ids)"
proof -
  let ?db = "delete_attempts db ids"
  have get: "bm_get (db_attempts ?db) i = (if i \<in> set ids then None else bm_get (db_attempts db) i)" for i
    by (simp add: delete_attempts_def split: option.split)
  have batch: "db_batch_state ?db = db_batch_state db"
    by (simp add: delete_attempts_def)
  have rows: "section_current_rows ?db t = bm_retain (\<lambda>_ row. oc_attempt_id row \<notin> set ids) (section_current_rows db t)" for t
    by (simp add: delete_attempts_def section_current_rows_def split: option.split)
  have same: "wf_attempt ?db i r = wf_attempt db i r" for i r
    by (simp add: wf_attempt_def batch)
  have attempts: "wf_attempts db"
    using wf by (simp add: wf_db_def)
  have "wf_attempts ?db"
    unfolding wf_attempts_def same batch get
    using attempts [unfolded wf_attempts_def] ids(2) by simp
  moreover have "wf_lkg ?db"
  proof (rule wf_lkg_move [of db, OF _ batch])
    fix t s i
    assume s: "bm_get (db_batch_state db) t = Some s" "ob_lkg_attempt_id s = Some i"
    then have i: "i \<notin> set ids"
      using ids(2) by blast
    then show "bm_get (db_observations ?db) i = bm_get (db_observations db) i"
      by (simp add: delete_attempts_def split: option.split)
    show "\<exists>r'. bm_get (db_attempts ?db) i = Some r' \<and> at_target_id r' = at_target_id r
        \<and> at_classification r' = at_classification r" if "bm_get (db_attempts db) i = Some r" for r
      using i that by (simp add: get)
  next
    show "bm_get (section_current_rows db t) k = Some row" if "bm_get (section_current_rows ?db t) k = Some row" for t k row
      using that by (simp add: rows split: option.splits if_splits)
  qed (use wf in \<open>simp add: wf_db_def\<close>)
  moreover have started: "bm_get (db_attempts ?db) i = Some r \<and> started_row r \<and> P
      \<longleftrightarrow> bm_get (db_attempts db) i = Some r \<and> started_row r \<and> P" for i r P
    using ids(1) [of i] by (auto simp: get)
  then have "started_on ?db = started_on db" "started_in ?db = started_in db"
    by (simp_all add: started_on_def started_in_def fun_eq_iff started)
  then have "wf_counters ?db"
    using wf by (simp add: wf_db_def wf_counters_def delete_attempts_def)
  ultimately show ?thesis
    using wf by (simp add: wf_db_def wf_catalog_def wf_failure_def batch) (simp add: delete_attempts_def)
qed

end
