(* ===== verification/Storage_Steps.thy ===== *)
theory Storage_Steps
  imports Storage_Invariant
begin

text \<open>
  Every transaction of the open store (\<open>crates/bcsp-operational-storage/src/open.rs\<close>) keeps the invariant of
  \<open>Storage_Invariant\<close>: beginning an attempt, finishing it on every branch, pruning, and the recovery after
  a restart.  \<open>db_reachable\<close> collects the states these transactions lead to.
\<close>

subsection \<open>Pruning keeps the invariant\<close>

lemma last_of_sorted:
  assumes "sorted (map f xs)" "x \<in> set xs" "\<And>y. y \<in> set xs \<Longrightarrow> f y \<le> f x" "\<And>y. y \<in> set xs \<Longrightarrow> f y = f x \<Longrightarrow> y = x"
  shows "xs \<noteq> [] \<and> last xs = x"
proof
  show "xs \<noteq> []"
    using assms(2) by auto
  then have xs: "xs = butlast xs @ [last xs]" "last xs \<in> set xs"
    by simp_all
  have "sorted (map f (butlast xs @ [last xs]))"
    using assms(1) xs(1) by simp
  then have "x = last xs \<or> f x \<le> f (last xs)"
    using assms(2) by (subst (asm) (2) xs(1)) (auto simp: sorted_append)
  then show "last xs = x"
    using assms(3,4) [OF xs(2)] by force
qed

lemma set_attempts_by_sequence:
  "(i, r) \<in> set (attempts_by_sequence db t) \<longleftrightarrow> bm_get (db_attempts db) i = Some r \<and> at_target_id r = t"
  by (auto simp: attempts_by_sequence_def bm_get_iff)

lemma latest_is_recent:
  assumes wf: "wf_attempts db" and s: "bm_get (db_batch_state db) t = Some s" "ob_last_attempt_id s = Some i"
    and n: "0 < n"
  shows "i \<in> fst ` set (take n (rev (attempts_by_sequence db t)))"
proof -
  let ?xs = "attempts_by_sequence db t"
  obtain r where r: "bm_get (db_attempts db) i = Some r" "at_target_id r = t"
      "at_attempt_sequence r = ob_last_attempt_sequence s"
    using wf s unfolding wf_attempts_def by blast
  have bound: "at_attempt_sequence q \<le> ob_last_attempt_sequence s
      \<and> (at_attempt_sequence q = ob_last_attempt_sequence s \<longrightarrow> j = i)"
    if "(j, q) \<in> set ?xs" for j q
  proof -
    have "wf_attempt db j q" "at_target_id q = t"
      using wf that by (auto simp: set_attempts_by_sequence wf_attempts_def)
    then show ?thesis
      using s by (auto simp: wf_attempt_def)
  qed
  have "?xs \<noteq> [] \<and> last ?xs = (i, r)"
  proof (rule last_of_sorted [where f = "\<lambda>(_, row). at_attempt_sequence row"])
    show "(case y of (_, row) \<Rightarrow> at_attempt_sequence row) \<le> (case (i, r) of (_, row) \<Rightarrow> at_attempt_sequence row)"
      if "y \<in> set ?xs" for y
      by (cases y) (use that bound r(3) in auto)
    show "y = (i, r)" if "y \<in> set ?xs"
        "(case y of (_, row) \<Rightarrow> at_attempt_sequence row) = (case (i, r) of (_, row) \<Rightarrow> at_attempt_sequence row)" for y
      by (cases y) (use that bound r in \<open>auto simp: set_attempts_by_sequence\<close>)
    show "sorted (map (\<lambda>(_, row). at_attempt_sequence row) ?xs)"
      by (simp add: attempts_by_sequence_def)
    show "(i, r) \<in> set ?xs"
      using r by (simp add: set_attempts_by_sequence)
  qed
  then obtain ys where "rev ?xs = (i, r) # ys"
    by (metis hd_rev list.exhaust_sel rev_is_Nil_conv)
  then show ?thesis
    using n by (cases n) auto
qed

lemma prune_candidate:
  assumes wf: "wf_db db" and n: "0 < n" and i: "i \<in> set (prune_candidates db t n k)"
  shows "\<exists>r. bm_get (db_attempts db) i = Some r \<and> at_target_id r = t \<and> \<not> started_row r"
    and "bm_get (db_batch_state db) t' = Some s \<Longrightarrow> ob_lkg_attempt_id s \<noteq> Some i \<and> ob_last_attempt_id s \<noteq> Some i"
proof -
  obtain r where r: "bm_get (db_attempts db) i = Some r" "at_target_id r = t" "\<not> started_row r"
    and lkg: "load_lkg_attempt_id db t \<noteq> Some i"
    and old: "i \<notin> fst ` set (take n (rev (attempts_by_sequence db t)))"
    using i by (auto simp: prune_candidates_def Let_def set_attempts_by_sequence started_row_def dest!: in_set_takeD)
  then show "\<exists>r. bm_get (db_attempts db) i = Some r \<and> at_target_id r = t \<and> \<not> started_row r"
    by blast
  assume s: "bm_get (db_batch_state db) t' = Some s"
  have "ob_last_attempt_id s \<noteq> Some i"
    using latest_is_recent [of db t s i n] latest_row [of db t' s i r] wf old n s r by (auto simp: wf_db_def)
  moreover have "lkg_ok db t' s"
    using wf s wf_lkgD by (auto simp: wf_db_def)
  then have "ob_lkg_attempt_id s \<noteq> Some i"
    using lkg r s by (auto simp: lkg_ok_def load_lkg_attempt_id_def)
  ultimately show "ob_lkg_attempt_id s \<noteq> Some i \<and> ob_last_attempt_id s \<noteq> Some i"
    by blast
qed

lemma prune_transaction_Inr:
  assumes "prune_open_diagnostics_transaction db t n k = Inr (report, db')"
  shows "0 < unat n" "0 < unat k" "db' = delete_attempts db (prune_candidates db t (unat n) (unat k))"
    "rr_attempts_removed report = of_nat (length (prune_candidates db t (unat n) (unat k)))"
  using assms by (auto simp: prune_open_diagnostics_transaction_def positive_u64_to_i64_def Let_def
      u64_to_i64_Inr unat_gt_0 split: if_splits)

lemma prune_transaction_wf:
  assumes "wf_db db" "prune_open_diagnostics_transaction db t n k = Inr (report, db')"
  shows "wf_db db'"
proof -
  note p = prune_transaction_Inr [OF assms(2)]
  show ?thesis
    unfolding p(3) by (rule delete_wf [OF assms(1)]) (use prune_candidate [OF assms(1) p(1)] in blast)+
qed

lemma commit_prune_wf:
  assumes "wf_db db" "commit_prune db t = Inr db'"
  shows "wf_db db'"
  using assms prune_transaction_wf by (auto simp: commit_prune_def)

subsection \<open>Finishing an attempt keeps the invariant\<close>

lemma finish_failure_wf:
  assumes wf: "wf_db db" and fin: "finish_open_pull_failure L db c = Inr (out, db')"
  shows "wf_db db'"
proof -
  obtain a db1 where load: "load_started_open_attempt db (fc_attempt_id c) = Inr a"
    and fin1: "finalize_non_applied_attempt db a (fc_attempt_id c) (fc_completed_at c) AcFailed (fc_http c)
         None (of_nat (bm_len (load_attempt_catalog_indices db (fc_attempt_id c)))) 0 0 (fc_error_code c) None None = Inr db1"
    and prune: "commit_prune (db1\<lparr>db_attempts := (case bm_get (db_attempts db1) (fc_attempt_id c) of
           None \<Rightarrow> db_attempts db1
         | Some row \<Rightarrow> bm_insert (fc_attempt_id c) (row\<lparr>at_diagnostic_token := fc_diagnostic_token c\<rparr>) (db_attempts db1))\<rparr>)
        (open_target_id (sa_target a)) = Inr db'"
    using fin by (auto simp: finish_open_pull_failure_def Let_def)
  have "wf_db db1"
    using finalize_wf [OF wf load fin1] by simp
  then have "wf_db (db1\<lparr>db_attempts := (case bm_get (db_attempts db1) (fc_attempt_id c) of
           None \<Rightarrow> db_attempts db1
         | Some row \<Rightarrow> bm_insert (fc_attempt_id c) (row\<lparr>at_diagnostic_token := fc_diagnostic_token c\<rparr>) (db_attempts db1))\<rparr>)"
    by (cases "bm_get (db_attempts db1) (fc_attempt_id c)") (simp_all add: token_wf)
  then show ?thesis
    using commit_prune_wf prune by blast
qed

lemma load_response_facts_started:
  assumes "load_response_facts L db c = Inr f"
  shows "load_started_open_attempt db (sc_attempt_id c) = Inr (rf_attempt f)"
    "rf_catalog_indices f = load_attempt_catalog_indices db (sc_attempt_id c)"
    "rf_retained_lkg_attempt_id f = load_lkg_attempt_id db (rf_target_id f)"
    "canonicalize_open_response L (sa_target (rf_attempt f)) (sc_open_sections c) (sc_source_value_count c) = Inr (rf_response f)"
    "load_lkg_hashes db (rf_target_id f) = Inr (rf_lkg_canonical_set_sha256 f, rf_lkg_state_sha256 f)"
  using assms by (auto simp: load_response_facts_def Let_def rf_target_id_def)

lemma finish_catalog_race_wf:
  assumes "wf_db db" "load_started_open_attempt db (sc_attempt_id c) = Inr (rf_attempt f)"
    "finish_catalog_race db c f = Inr (out, db')"
  shows "wf_db db'"
  using assms(3) by (auto simp: finish_catalog_race_def dest!: finalize_wf [OF assms(1,2)] dest: commit_prune_wf)

lemma finish_unsafe_wf:
  assumes "wf_db db" "load_started_open_attempt db (sc_attempt_id c) = Inr (rf_attempt f)"
    "finish_unsafe L db c f cls = Inr (out, db')" "cls \<noteq> AcStarted"
  shows "wf_db db'"
  using assms(3,4) by (auto simp: finish_unsafe_def dest!: finalize_wf [OF assms(1,2)] dest: commit_prune_wf)

lemma insert_section_events_frame:
  assumes "try_fold (insert_section_event L c f o_id n v u) ks (db, events) = Inr (db', events')"
  shows "\<exists>m rows. db' = db\<lparr>db_event_sequence := m, db_section_events := rows\<rparr>"
  using assms
proof (induction ks arbitrary: db events)
  case Nil
  then show ?case
    by (intro exI [of _ "db_event_sequence db"] exI [of _ "db_section_events db"]) simp
next
  case (Cons k ks)
  obtain db1 events1 where one: "insert_section_event L c f o_id n v u k (db, events) = Inr (db1, events1)"
    and rest: "try_fold (insert_section_event L c f o_id n v u) ks (db1, events1) = Inr (db', events')"
    using Cons.prems by (auto split: sum.splits)
  obtain m rows where "db1 = db\<lparr>db_event_sequence := m, db_section_events := rows\<rparr>"
    using one by (auto simp: insert_section_event_def)
  moreover obtain m' rows' where "db' = db1\<lparr>db_event_sequence := m', db_section_events := rows'\<rparr>"
    using Cons.IH [OF rest] by blast
  ultimately show ?case
    by (intro exI [of _ m'] exI [of _ rows']) simp
qed

lemma finish_applied_Inr:
  assumes "finish_applied L db c f cls = Inr (out, db')"
  obtains watched s n u v o_id db1 db2 events db3 db4 db5 run day service
  where "canonicalize_watched_sections (sa_target (rf_attempt f)) (sc_watched_sections c) (rf_catalog_indices f) = Inr watched"
    "bm_get (db_batch_state db) (rf_target_id f) = Some s"
    "sql_add (ob_last_observation_sequence s) 1 = Inr n" "stored_u64 n = Inr u"
    "u64_to_i64 (sa_captured_catalog_content_version (rf_attempt f)) = Inr v"
    "derive_open_refresh_observation_id L (sc_attempt_id c) = Inr o_id"
    "insert_observation L db c f cls o_id n v
       (changed_state_count (load_current_state_map db (rf_target_id f)) (rf_intended_states f)) = Inr db1"
    "try_fold (insert_section_event L c f o_id n v u) (bm_keys watched) (replace_section_current db1 c f n v, []) = Inr (db2, events)"
    "complete_attempt L db2 c f cls = Inr db3"
    "update_current_batch_state db3 (rf_attempt f) (sc_attempt_id c) (\<lambda>_. applied_batch_state L c f n v) = Inr db4"
    "increment_final_counters db4 (rf_target_id f) (sa_run_id (rf_attempt f)) (sa_rutgers_day (rf_attempt f)) True
       (bm_is_empty (cr_canonical_indices (rf_response f))) = Inr db5"
    "load_committed_open_counters db5 (rf_target_id f) (sa_run_id (rf_attempt f)) (sa_rutgers_day (rf_attempt f)) = Inr (run, day, service)"
    "commit_prune db5 (rf_target_id f) = Inr db'"
    "co_classification out = cls" "co_attempt_id out = sc_attempt_id c" "co_refresh_observation_id out = Some o_id"
    "co_observation_sequence out = Some u"
    "map_option oo_section_events (co_observation_commit out) = Some events"
    "co_source_value_count out = cr_source_value_count (rf_response f)"
    "co_catalog_section_count out = rf_catalog_section_count f" "co_intersection_count out = rf_intersection_count f"
    "co_orphan_count out = rf_orphan_count f" "co_duplicate_count out = cr_duplicate_count (rf_response f)"
  using assms by (clarsimp simp: finish_applied_def Let_def)

lemma complete_attempt_Inr:
  assumes "complete_attempt L db c f cls = Inr db'" "bm_get (db_attempts db) (sc_attempt_id c) = Some r"
  obtains r' where "db' = db\<lparr>db_attempts := bm_insert (sc_attempt_id c) r' (db_attempts db)\<rparr>" "at_classification r' = cls"
    "at_completed_at r' \<noteq> None" "at_target_id r' = at_target_id r" "at_attempt_sequence r' = at_attempt_sequence r"
  using assms by (auto simp: complete_attempt_def update_started_attempt_def split: if_splits)

lemma finish_applied_wf:
  assumes wf: "wf_db db" and load: "load_started_open_attempt db (sc_attempt_id c) = Inr (rf_attempt f)"
    and fin: "finish_applied L db c f cls = Inr (out, db')" and cls: "is_success cls"
  shows "wf_db db'"
proof -
  let ?i = "sc_attempt_id c"
  obtain r where r: "bm_get (db_attempts db) ?i = Some r" "started_row r" "at_target_id r = rf_target_id f"
      "sa_run_id (rf_attempt f) = at_run_id r" "sa_rutgers_day (rf_attempt f) = at_rutgers_day r"
    using load_started_row [OF _ load] wf by (metis rf_target_id_def wf_db_def)
  from fin obtain watched :: "string bset" and s n u v o_id db1 db2 events db3 db4 db5
    where s: "bm_get (db_batch_state db) (rf_target_id f) = Some s"
    and ins: "insert_observation L db c f cls o_id n v
       (changed_state_count (load_current_state_map db (rf_target_id f)) (rf_intended_states f)) = Inr db1"
    and fold: "try_fold (insert_section_event L c f o_id n v u) (bm_keys watched)
        (replace_section_current db1 c f n v, []) = Inr (db2, events)"
    and db3: "complete_attempt L db2 c f cls = Inr db3"
    and db4: "update_current_batch_state db3 (rf_attempt f) ?i (\<lambda>_. applied_batch_state L c f n v) = Inr db4"
    and db5: "increment_final_counters db4 (rf_target_id f) (sa_run_id (rf_attempt f)) (sa_rutgers_day (rf_attempt f)) True
        (bm_is_empty (cr_canonical_indices (rf_response f))) = Inr db5"
    and prune: "commit_prune db5 (rf_target_id f) = Inr db'"
    by (rule finish_applied_Inr) blast
  let ?ne = "bm_is_empty (cr_canonical_indices (rf_response f))"
  obtain ob where ob: "db1 = db\<lparr>db_observations := bm_insert ?i ob (db_observations db)\<rparr>"
      "bo_target_id ob = rf_target_id f" "bo_classification ob = cls" "bo_observation_sequence ob = n"
      "bo_catalog_content_version ob = v" "bo_observed_at ob = sc_completed_at c"
    using ins by (auto simp: insert_observation_def)
  obtain m rows where db2: "db2 = replace_section_current db1 c f n v\<lparr>db_event_sequence := m, db_section_events := rows\<rparr>"
    using insert_section_events_frame [OF fold] by blast
  obtain r' where r': "db3 = db2\<lparr>db_attempts := bm_insert ?i r' (db_attempts db)\<rparr>" "at_classification r' = cls"
      "at_completed_at r' \<noteq> None" "at_target_id r' = at_target_id r" "at_attempt_sequence r' = at_attempt_sequence r"
    using complete_attempt_Inr [OF db3, of r] r(1) by (auto simp: db2 replace_section_current_def ob(1))
  define s' where "s' = applied_batch_state L c f n v s"
  have db4': "db4 = db3\<lparr>db_batch_state := bm_insert (rf_target_id f) s' (db_batch_state db)\<rparr>"
    using db4 s by (auto simp: update_current_batch_state_def Let_def r'(1) db2 replace_section_current_def ob(1)
        s'_def rf_target_id_def split: if_splits)
  obtain c1 c2 d1 d2 where counters: "bm_get (db_daily_counters db) (at_target_id r, at_rutgers_day r) = Some c1"
      "bump_final True ?ne c1 = Inr c2" "bm_get (db_run_counters db) (at_run_id r, at_target_id r) = Some d1"
      "bump_final True ?ne d1 = Inr d2"
    and db5': "db5 = final_counters db4 (at_target_id r) (at_run_id r) (at_rutgers_day r) c2 d2"
    using db5 by (auto simp: increment_final_Inr r(3-5) db4' r'(1) db2 replace_section_current_def ob(1))
  have frame: "db_catalog_targets db5 = db_catalog_targets db"
      "db_observations db5 = bm_insert ?i ob (db_observations db)"
      "db_section_current db5 = db_section_current db2"
      "db_daily_counters db5 = bm_insert (at_target_id r, at_rutgers_day r) c2 (db_daily_counters db)"
      "db_run_counters db5 = bm_insert (at_run_id r, at_target_id r) d2 (db_run_counters db)"
    by (simp_all add: db5' final_counters_def db4' r'(1) db2 replace_section_current_def ob(1))
  have e: "ends db ?i r r' s s' db5"
    using r s r' cls by (auto simp: ends_def db5' final_counters_def db4' db2 replace_section_current_def ob(1)
        started_row_def s'_def applied_batch_state_def is_success_def)
  have failure: "wf_failure db5"
    using wf by (intro failure_finish [OF _ e]) (simp_all add: wf_db_def s'_def applied_batch_state_def)
  have lkg: "wf_lkg db5"
  proof (rule lkg_apply [OF _ e _ frame(2)])
    show "db_section_current db5 = bm_insert (at_target_id r)
        (bm_map (\<lambda>s. \<lparr>oc_state = s, oc_catalog_content_version = v, oc_attempt_id = ?i, oc_observation_sequence = n,
           oc_observed_at = sc_completed_at c\<rparr>) (rf_intended_states f)) (db_section_current db)"
      by (simp add: frame(3) db2 replace_section_current_def ob(1) r(3))
  qed (use wf cls r(3) r'(2) ob in \<open>auto simp: wf_db_def s'_def applied_batch_state_def\<close>)
  have "wf_db db5"
    by (rule ended_wf [OF wf e frame(1) counters frame(4,5) failure lkg])
  then show ?thesis
    using commit_prune_wf prune by blast
qed

lemma classify_not_started: "classify_open_response set_indices catalog n hold \<noteq> AcStarted"
  by (auto simp: classify_open_response_def Let_def split: option.splits if_splits)

lemma finish_success_wf:
  assumes wf: "wf_db db" and fin: "finish_open_pull_success_transaction L db c accept = Inr (out, db')"
  shows "wf_db db'"
proof -
  obtain f where f: "load_response_facts L db c = Inr f"
    using fin by (auto simp: finish_open_pull_success_transaction_def)
  note load = load_response_facts_started(1) [OF f]
  show ?thesis
    using fin f finish_catalog_race_wf [OF wf load] finish_unsafe_wf [OF wf load] finish_applied_wf [OF wf load]
    by (auto simp: finish_open_pull_success_transaction_def Let_def classify_not_started split: if_splits)
qed

subsection \<open>Beginning an attempt keeps the invariant\<close>

lemma active_attempt_None:
  assumes "active_attempt_id db t = None" "bm_get (db_attempts db) i = Some r" "at_target_id r = t"
  shows "\<not> started_row r"
  using assms by (auto simp: active_attempt_id_def find_None_iff started_row_def bm_get_iff)

definition begins :: "open_db \<Rightarrow> trace_id \<Rightarrow> open_pull_attempt_row \<Rightarrow> open_batch_state_row \<Rightarrow> open_db \<Rightarrow> bool" where
  "begins db i r s db' \<longleftrightarrow> (let old = batch_state_for db (at_target_id r) in
     bm_get (db_attempts db) i = None \<and> started_row r \<and> at_completed_at r = None
     \<and> at_attempt_sequence r = ob_last_attempt_sequence old + 1
     \<and> db_attempts db' = bm_insert i r (db_attempts db)
     \<and> db_batch_state db' = bm_insert (at_target_id r) s (db_batch_state db)
     \<and> ob_last_attempt_sequence s = at_attempt_sequence r \<and> ob_last_attempt_id s = Some i
     \<and> ob_last_failure_attempt_sequence s = ob_last_failure_attempt_sequence old
     \<and> ob_last_failure_at s = ob_last_failure_at old \<and> ob_last_failure_error_code s = ob_last_failure_error_code old
     \<and> ob_last_failure_http_status s = ob_last_failure_http_status old
     \<and> ob_lkg_attempt_id s = ob_lkg_attempt_id old \<and> ob_lkg_observation_sequence s = ob_lkg_observation_sequence old
     \<and> ob_lkg_observed_at s = ob_lkg_observed_at old \<and> ob_lkg_canonical_set_sha256 s = ob_lkg_canonical_set_sha256 old
     \<and> ob_lkg_state_sha256 s = ob_lkg_state_sha256 old
     \<and> ob_current_catalog_content_version s = ob_current_catalog_content_version old
     \<and> db_observations db' = db_observations db \<and> db_section_current db' = db_section_current db
     \<and> db_catalog_targets db' = db_catalog_targets db)"

lemma attempts_begin:
  assumes wf: "wf_attempts db" and b: "begins db i r s db'"
    and idle: "\<And>j q. bm_get (db_attempts db) j = Some q \<Longrightarrow> at_target_id q = at_target_id r \<Longrightarrow> \<not> started_row q"
  shows "wf_attempts db'"
proof -
  let ?n = "ob_last_attempt_sequence (batch_state_for db (at_target_id r))"
  have b': "bm_get (db_attempts db) i = None" "started_row r" "at_completed_at r = None" "at_attempt_sequence r = ?n + 1"
      "db_attempts db' = bm_insert i r (db_attempts db)" "db_batch_state db' = bm_insert (at_target_id r) s (db_batch_state db)"
      "ob_last_attempt_sequence s = ?n + 1" "ob_last_attempt_id s = Some i"
    using b by (simp_all add: begins_def Let_def)
  have n: "0 \<le> ?n"
  proof (cases "bm_get (db_batch_state db) (at_target_id r)")
    case None
    then show ?thesis
      by (simp add: batch_state_for_def fresh_batch_state_def)
  next
    case (Some old)
    then show ?thesis
      using wf unfolding wf_attempts_def batch_state_for_def by simp
  qed
  have old: "wf_attempt db j q" if "bm_get (db_attempts db) j = Some q" for j q
    using wf that by (simp add: wf_attempts_def)
  have below: "at_attempt_sequence q \<le> ?n" if "bm_get (db_attempts db) j = Some q" "at_target_id q = at_target_id r" for j q
    using old [OF that(1)] that(2) by (auto simp: wf_attempt_def batch_state_for_def)
  have "wf_attempt db' i r"
    using b' n by (simp add: wf_attempt_def)
  moreover have "wf_attempt db' j q" if q: "bm_get (db_attempts db) j = Some q" for j q
  proof (cases "at_target_id q = at_target_id r")
    case True
    have "j \<noteq> i"
      using q b'(1) by auto
    then show ?thesis
      using True below [OF q] idle [OF q] old [OF q] b' by (auto simp: wf_attempt_def)
  next
    case False
    then show ?thesis
      using old [OF q] b' by (auto simp: wf_attempt_def)
  qed
  ultimately have all: "\<forall>j q. bm_get (db_attempts db') j = Some q \<longrightarrow> wf_attempt db' j q"
    using b' by (auto split: if_splits)
  have inj: "j = k" if "bm_get (db_attempts db') j = Some q" "bm_get (db_attempts db') k = Some p"
      "at_target_id q = at_target_id p" "at_attempt_sequence q = at_attempt_sequence p" for j k q p
  proof -
    have apart: "at_attempt_sequence q \<noteq> at_attempt_sequence r"
      if "bm_get (db_attempts db) j = Some q" "at_target_id q = at_target_id r" for j q
      using below [OF that] b'(4) by simp
    show ?thesis
      using that apart wf unfolding wf_attempts_def by (cases "j = i"; cases "k = i") (auto simp: b'(5))
  qed
  have latest: "0 \<le> ob_last_attempt_sequence v \<and> (\<forall>j. ob_last_attempt_id v = Some j \<longrightarrow>
      (\<exists>q. bm_get (db_attempts db') j = Some q \<and> at_target_id q = t \<and> at_attempt_sequence q = ob_last_attempt_sequence v))"
    if "bm_get (db_batch_state db') t = Some v" for t v
  proof (cases "t = at_target_id r")
    case True
    then show ?thesis
      using that b' n by auto
  next
    case False
    then have "bm_get (db_batch_state db) t = Some v"
      using that by (simp add: b'(6))
    then have "0 \<le> ob_last_attempt_sequence v \<and> (\<forall>j. ob_last_attempt_id v = Some j \<longrightarrow>
      (\<exists>q. bm_get (db_attempts db) j = Some q \<and> at_target_id q = t \<and> at_attempt_sequence q = ob_last_attempt_sequence v))"
      using wf unfolding wf_attempts_def by blast
    then show ?thesis
      using b'(1) by (auto simp: b'(5))
  qed
  show ?thesis
    unfolding wf_attempts_def using all inj latest by blast
qed

lemma lkg_begin:
  assumes wf: "wf_lkg db" and b: "begins db i r s db'"
  shows "wf_lkg db'"
proof -
  let ?old = "batch_state_for db (at_target_id r)"
  have b': "bm_get (db_attempts db) i = None" "db_attempts db' = bm_insert i r (db_attempts db)"
      "db_batch_state db' = bm_insert (at_target_id r) s (db_batch_state db)"
      "db_observations db' = db_observations db" "db_section_current db' = db_section_current db"
    and s: "ob_lkg_attempt_id s = ob_lkg_attempt_id ?old" "ob_lkg_observation_sequence s = ob_lkg_observation_sequence ?old"
      "ob_lkg_observed_at s = ob_lkg_observed_at ?old" "ob_lkg_canonical_set_sha256 s = ob_lkg_canonical_set_sha256 ?old"
      "ob_lkg_state_sha256 s = ob_lkg_state_sha256 ?old"
      "ob_current_catalog_content_version s = ob_current_catalog_content_version ?old"
    using b by (simp_all add: begins_def Let_def)
  have rows: "section_current_rows db' t = section_current_rows db t" for t
    by (simp add: section_current_rows_def b')
  have move: "lkg_ok db' t v" if "lkg_ok db t v" for t v
    by (rule lkg_move [OF that]) (use b' in \<open>auto simp: rows\<close>)
  have "lkg_ok db (at_target_id r) ?old"
    using wf_lkgD [OF wf, of "at_target_id r"]
    by (cases "bm_get (db_batch_state db) (at_target_id r)")
      (simp_all add: batch_state_for_def lkg_ok_def fresh_batch_state_def)
  from move [OF this] have "lkg_ok db' (at_target_id r) s"
    unfolding lkg_ok_def s .
  then show ?thesis
    using move wf_lkgD [OF wf] by (intro wf_lkgI) (auto simp: b' rows split: if_splits)
qed

lemma failure_begin:
  assumes wf: "wf_failure db" and b: "begins db i r s db'"
  shows "wf_failure db'"
proof -
  let ?old = "batch_state_for db (at_target_id r)"
  have fields: "db_batch_state db' = bm_insert (at_target_id r) s (db_batch_state db)"
      "ob_last_failure_attempt_sequence s = ob_last_failure_attempt_sequence ?old"
      "ob_last_failure_at s = ob_last_failure_at ?old" "ob_last_failure_error_code s = ob_last_failure_error_code ?old"
      "ob_last_failure_http_status s = ob_last_failure_http_status ?old"
    using b by (simp_all add: begins_def Let_def)
  show ?thesis
    unfolding wf_failure_def fields(1)
  proof (intro allI impI, goal_cases)
    case (1 t u)
    show ?case
    proof (cases "t = at_target_id r")
      case True
      then have u: "u = s"
        using 1 by simp
      show ?thesis
        unfolding u fields using wf [unfolded wf_failure_def, rule_format, of "at_target_id r" ?old]
        by (cases "bm_get (db_batch_state db) (at_target_id r)") (simp_all add: batch_state_for_def fresh_batch_state_def)
    next
      case False
      then have "bm_get (db_batch_state db) t = Some u"
        using 1 by simp
      then show ?thesis
        using wf unfolding wf_failure_def by blast
    qed
  qed
qed

lemma counters_begin:
  assumes wf: "wf_counters db" and b: "begins db i r s db'"
    and idle: "\<And>j q. bm_get (db_attempts db) j = Some q \<Longrightarrow> at_target_id q = at_target_id r \<Longrightarrow> \<not> started_row q"
    and counters: "bump_attempted (bm_get (db_daily_counters db) (at_target_id r, at_rutgers_day r)) = Inr c"
      "bump_attempted (bm_get (db_run_counters db) (at_run_id r, at_target_id r)) = Inr d"
      "db_daily_counters db' = bm_insert (at_target_id r, at_rutgers_day r) c (db_daily_counters db)"
      "db_run_counters db' = bm_insert (at_run_id r, at_target_id r) d (db_run_counters db)"
  shows "wf_counters db'"
proof -
  have b': "bm_get (db_attempts db) i = None" "started_row r" "db_attempts db' = bm_insert i r (db_attempts db)"
    using b by (simp_all add: begins_def Let_def)
  have get: "bm_get (db_attempts db') j = Some q \<longleftrightarrow> j = i \<and> q = r \<or> bm_get (db_attempts db) j = Some q" for j q
    using b' by auto
  have on: "started_on db' t day \<longleftrightarrow> started_on db t day \<or> (t, day) = (at_target_id r, at_rutgers_day r)" for t day
    unfolding started_on_def get using b'(2) by auto
  have within: "started_in db' run t \<longleftrightarrow> started_in db run t \<or> (run, t) = (at_run_id r, at_target_id r)" for run t
    unfolding started_in_def get using b'(2) by auto
  have off: "\<not> started_on db (at_target_id r) day" "\<not> started_in db run (at_target_id r)" for day run
    using idle by (auto simp: started_on_def started_in_def)
  have "balanced False (bm_get (db_daily_counters db) (at_target_id r, at_rutgers_day r))"
      "balanced False (bm_get (db_run_counters db) (at_run_id r, at_target_id r))"
    using wf off unfolding wf_counters_def by metis+
  then have "balanced True (Some c)" "balanced True (Some d)"
    using counters bump_attempted_balanced by blast+
  with wf show ?thesis
    unfolding wf_counters_def on within by (auto simp: counters)
qed

lemma begin_wf:
  assumes wf: "wf_db db" and b: "begin_open_pull_attempt_with_catalog L db c candidate = Inr (n, db')"
  shows "wf_db db'"
proof (cases "bm_get (db_attempts db) (bc_attempt_id c)")
  case (Some existing)
  then show ?thesis
    using wf b by (auto simp: begin_open_pull_attempt_with_catalog_def Let_def split: if_splits)
next
  case None
  let ?t = "open_target_id (bc_target c)"
  obtain vals m where active: "active_attempt_id db ?t = None" and ins: "insert_attempt L db c vals candidate = Inr (m, db')"
    using b None by (auto simp: begin_open_pull_attempt_with_catalog_def Let_def split: option.splits)
  define r s where "r = the (bm_get (db_attempts db') (bc_attempt_id c))" and "s = the (bm_get (db_batch_state db') ?t)"
  have r: "begins db (bc_attempt_id c) r s db'" "at_target_id r = ?t"
    and counters: "\<exists>daily run. bump_attempted (bm_get (db_daily_counters db) (at_target_id r, at_rutgers_day r)) = Inr daily
      \<and> bump_attempted (bm_get (db_run_counters db) (at_run_id r, at_target_id r)) = Inr run
      \<and> db_daily_counters db' = bm_insert (at_target_id r, at_rutgers_day r) daily (db_daily_counters db)
      \<and> db_run_counters db' = bm_insert (at_run_id r, at_target_id r) run (db_run_counters db)"
    unfolding r_def s_def using ins None
    by (auto simp: insert_attempt_def increment_attempted_counters_def begin_batch_state_def begins_def Let_def
        sql_add_def started_row_def split: prod.splits if_splits)
  have idle: "\<not> started_row q" if "bm_get (db_attempts db) j = Some q" "at_target_id q = at_target_id r" for j q
    using active_attempt_None [OF active that(1)] that(2) r(2) by simp
  have "wf_attempts db'" "wf_lkg db'" "wf_failure db'" "wf_counters db'"
    using wf attempts_begin [OF _ r(1) idle] lkg_begin [OF _ r(1)] failure_begin [OF _ r(1)]
      counters_begin [OF _ r(1) idle] counters by (auto simp: wf_db_def)
  then show ?thesis
    using wf r(1) by (simp add: wf_db_def wf_catalog_def begins_def Let_def)
qed

subsection \<open>Recovery keeps the invariant\<close>

lemma distinct_map_fst_sort_filter:
  assumes "distinct (map fst xs)"
  shows "distinct (map fst (sort_key f (filter P xs)))"
proof -
  have "distinct (filter P xs)" "inj_on fst (set (filter P xs))"
    using assms by (auto simp: distinct_map intro: inj_on_subset)
  then show ?thesis
    by (simp add: distinct_map)
qed

lemma interrupt_wf:
  assumes wf: "wf_db db" and row: "bm_get (db_attempts db) i = Some r" "started_row r"
    and int: "interrupt_attempt completed_at (i, r) db = Inr db'"
  shows "wf_db db'"
    and "db_attempts db' = bm_insert i (r\<lparr>at_completed_at := Some completed_at, at_classification := AcInterrupted,
      at_error_code := Some ''PROCESS_RESTARTED''\<rparr>) (db_attempts db)" (is "_ = bm_insert i ?r' _")
proof -
  have attempt: "wf_attempt db i r"
    using wf row by (simp add: wf_db_def wf_attempts_def)
  then obtain s where s: "bm_get (db_batch_state db) (at_target_id r) = Some s" and n: "0 < at_attempt_sequence r"
    by (auto simp: wf_attempt_def)
  define s' where "s' = s\<lparr>ob_last_failure_attempt_sequence := Some (at_attempt_sequence r),
       ob_last_failure_at := Some completed_at, ob_last_failure_error_code := Some ''PROCESS_RESTARTED'',
       ob_last_failure_http_status := None\<rparr>"
  obtain c d c' d' where counters: "bm_get (db_daily_counters db) (at_target_id r, at_rutgers_day r) = Some c"
      "bump_final False False c = Inr c'" "bm_get (db_run_counters db) (at_run_id r, at_target_id r) = Some d"
      "bump_final False False d = Inr d'"
    and db': "db' = final_counters (db\<lparr>db_attempts := bm_insert i ?r' (db_attempts db),
        db_batch_state := bm_insert (at_target_id r) s' (db_batch_state db)\<rparr>)
        (at_target_id r) (at_run_id r) (at_rutgers_day r) c' d'"
    using int row s by (auto simp: interrupt_attempt_def started_row_def increment_final_Inr s'_def)
  have e: "ends db i r ?r' s s' db'"
    using row s by (simp add: ends_def db' final_counters_def started_row_def s'_def)
  have failure: "wf_failure db'"
    using wf n by (intro failure_finish [OF _ e, where n = "at_attempt_sequence r"]) (simp_all add: wf_db_def s'_def)
  have lkg: "wf_lkg db'"
    using wf by (intro lkg_keep [OF _ e]) (simp_all add: wf_db_def s'_def db' final_counters_def)
  show "wf_db db'"
    by (rule ended_wf [OF wf e _ counters _ _ failure lkg]) (simp_all add: db' final_counters_def)
  show "db_attempts db' = bm_insert i ?r' (db_attempts db)"
    by (simp add: db' final_counters_def)
qed

lemma interrupt_all_wf:
  assumes "wf_db db" "try_fold (interrupt_attempt completed_at) pending db = Inr db'" "distinct (map fst pending)"
    "\<And>i r. (i, r) \<in> set pending \<Longrightarrow> bm_get (db_attempts db) i = Some r \<and> started_row r"
  shows "wf_db db' \<and> (\<forall>i r. bm_get (db_attempts db') i = Some r \<longrightarrow> started_row r \<longrightarrow>
      bm_get (db_attempts db) i = Some r \<and> i \<notin> fst ` set pending)"
  using assms
proof (induction pending arbitrary: db)
  case (Cons p pending)
  obtain i r where p: "p = (i, r)"
    by (cases p)
  obtain db1 where one: "interrupt_attempt completed_at (i, r) db = Inr db1"
    and rest: "try_fold (interrupt_attempt completed_at) pending db1 = Inr db'"
    using Cons.prems(2) p by (auto split: sum.splits)
  have row: "bm_get (db_attempts db) i = Some r" "started_row r"
    using Cons.prems(4) p by auto
  note step = interrupt_wf [OF Cons.prems(1) row one]
  have "bm_get (db_attempts db1) j = Some q \<and> started_row q" if "(j, q) \<in> set pending" for j q
  proof -
    have "j \<noteq> i"
      using that Cons.prems(3) p by force
    then show ?thesis
      using Cons.prems(4) [of j q] that by (simp add: step(2))
  qed
  from Cons.IH [OF step(1) rest _ this] Cons.prems(3)
  have "wf_db db' \<and> (\<forall>j q. bm_get (db_attempts db') j = Some q \<longrightarrow> started_row q \<longrightarrow>
      bm_get (db_attempts db1) j = Some q \<and> j \<notin> fst ` set pending)"
    by simp
  moreover have "bm_get (db_attempts db) j = Some q \<and> j \<noteq> i" if "bm_get (db_attempts db1) j = Some q" "started_row q" for j q
    using that by (auto simp: step(2) started_row_def split: if_splits)
  ultimately show ?case
    by (auto simp: p)
qed simp

lemma recover_wf:
  assumes wf: "wf_db db" and rec: "recover_interrupted_open_attempts L now db = Inr db'"
  shows "wf_db db'" "bm_get (db_attempts db') i = Some r \<Longrightarrow> \<not> started_row r"
proof -
  have pending: "(i, r) \<in> set (pending_attempts db) \<longleftrightarrow> bm_get (db_attempts db) i = Some r \<and> started_row r" for i r
    by (auto simp: pending_attempts_def bm_get_iff started_row_def)
  have distinct: "distinct (map fst (pending_attempts db))"
    unfolding pending_attempts_def using bm.keys_distinct [of "db_attempts db"]
    by (intro distinct_map_fst_sort_filter)
  have both: "wf_db db' \<and> (\<forall>i r. bm_get (db_attempts db') i = Some r \<longrightarrow> \<not> started_row r)"
  proof (cases "pending_attempts db = []")
    case True
    then show ?thesis
      using wf rec pending by (auto simp: recover_interrupted_open_attempts_def)
  next
    case False
    then obtain completed_at where "try_fold (interrupt_attempt completed_at) (pending_attempts db) db = Inr db'"
      using rec by (auto simp: recover_interrupted_open_attempts_def)
    from interrupt_all_wf [OF wf this distinct] pending show ?thesis
      by (metis image_eqI fst_conv)
  qed
  then show "wf_db db'" "bm_get (db_attempts db') i = Some r \<Longrightarrow> \<not> started_row r"
    by blast+
qed

end
