(* ===== verification/Open_Samples.thy ===== *)
theory Open_Samples
  imports Open_Storage
begin

text \<open>
  Concrete inputs for the witnesses of the storage, service and projection guarantees: one target with two
  sections, one attempt, and library functions that are simple but behave as the theorems require.
\<close>

lemma u64_try_from_int [code]:
  "u64_try_from n = (if int n < 18446744073709551616 then Some (of_nat n) else None)"
  by (simp add: u64_try_from_def)

definition sample_time :: "string \<Rightarrow> offset_date_time option" where
  "sample_time s = map_of [(''2026-01-20T12:00:00Z'', 0), (''2026-01-20T12:00:05Z'', 5000000000)] s"

definition sample_open_lib :: open_lib where
  "sample_open_lib = \<lparr>ol_digest = (\<lambda>_. replicate 32 0), ol_trace_text = (\<lambda>_. ''trace''),
     ol_parse_trace = (\<lambda>_. Some (TraceId 7)), ol_parse_rfc3339 = sample_time,
     ol_format_rfc3339 = (\<lambda>t. Some (if t = 0 then ''2026-01-20T12:00:00Z'' else ''2026-01-20T12:00:05Z'')),
     ol_calendar_date = (\<lambda>_ _ _. True), ol_new_york_day = (\<lambda>_. Some ''2026-01-20''),
     ol_checked_add = (\<lambda>t d. Some (t + d))\<rparr>"

definition sample_open_target :: term_campus_key where
  "sample_open_target = TermCampusKey (TermId ''12026'') (CampusCode ''NB'')"

definition sample_targets :: "(string, catalog_target_row) bmap" where
  "sample_targets = bm_insert ''12026/NB'' \<lparr>ct_term_id = ''12026'', ct_campus_code = ''NB'',
     ct_current_content_version = 1, ct_section_count = 2\<rparr> bm_empty"

definition sample_sections :: "(string, (string, int) bmap) bmap" where
  "sample_sections = bm_insert ''12026/NB'' (bm_insert ''00001'' 1 (bm_insert ''00002'' 1 bm_empty)) bm_empty"

definition sample_begin :: begin_open_pull_attempt_command where
  "sample_begin = \<lparr>bc_attempt_id = TraceId 1, bc_run_id = TraceId 9, bc_target = sample_open_target,
     bc_captured_catalog_content_version = 1, bc_rutgers_day = ''2026-01-20'', bc_started_at = ''2026-01-20T12:00:00Z'',
     bc_lane = RlGeneral, bc_requested_interval_seconds = Some 30, bc_effective_interval_seconds = Some 30,
     bc_schedule_lag_ms = Some 0\<rparr>"

definition sample_http :: open_http_audit_metadata where
  "sample_http = \<lparr>ha_http_status = Some 200, ha_cache_status = Some NotApplicable, ha_decoded_bytes = Some 9,
     ha_decoded_body_sha256 = Some (replicate 64 CHR ''0''), ha_content_type = Some ''application/json'', ha_etag = None,
     ha_cache_control = None, ha_date = None, ha_age_seconds = None, ha_last_modified = None, ha_retry_after = None,
     ha_retry_after_seconds = None\<rparr>"

definition sample_open_section :: section_key where
  "sample_open_section = SectionKey (TermId ''12026'') (CampusCode ''NB'') (SectionIndex ''00001'')"

definition sample_success :: finish_open_pull_success_command where
  "sample_success = \<lparr>sc_attempt_id = TraceId 1, sc_completed_at = ''2026-01-20T12:00:05Z'',
     sc_open_sections = [sample_open_section], sc_source_value_count = 1, sc_watched_sections = [sample_open_section],
     sc_http = sample_http, sc_gate_hold = False, sc_gate_catalog_set_identity = Some (replicate 64 CHR ''0'')\<rparr>"

definition result_or :: "'a \<Rightarrow> 'e + 'b \<times> 'a \<Rightarrow> 'a" where
  "result_or d r = (case r of Inl _ \<Rightarrow> d | Inr (_, x) \<Rightarrow> x)"

definition is_ok :: "'e + 'a \<Rightarrow> bool" where
  "is_ok r = (case r of Inl _ \<Rightarrow> False | Inr _ \<Rightarrow> True)"

lemma result_or_Inr: "is_ok r \<Longrightarrow> \<exists>n. r = Inr (n, result_or d r)"
  by (cases r) (auto simp: is_ok_def result_or_def)

definition empty_open_db :: open_db where
  "empty_open_db = \<lparr>db_catalog_targets = bm_empty, db_catalog_sections = bm_empty, db_refresh_observations = bm_empty,
     db_staging_sections = bm_empty, db_batch_state = bm_empty, db_attempts = bm_empty, db_attempt_sections = bm_empty,
     db_observations = bm_empty, db_section_current = bm_empty, db_section_events = bm_empty, db_event_sequence = 0,
     db_daily_counters = bm_empty, db_run_counters = bm_empty\<rparr>"

definition sample_idle_db :: open_db where
  "sample_idle_db = empty_open_db\<lparr>db_catalog_targets := sample_targets, db_catalog_sections := sample_sections,
     db_refresh_observations := bm_empty, db_staging_sections := bm_empty\<rparr>"

definition sample_started_db :: open_db where
  "sample_started_db = result_or sample_idle_db
     (begin_open_pull_attempt_with_catalog sample_open_lib sample_idle_db sample_begin None)"

definition sample_applied_db :: open_db where
  "sample_applied_db = result_or sample_idle_db
     (finish_open_pull_success_transaction sample_open_lib sample_started_db sample_success False)"

lemma sample_begins: "is_ok (begin_open_pull_attempt_with_catalog sample_open_lib sample_idle_db sample_begin None)"
  by code_simp

lemma sample_applies:
  "is_ok (finish_open_pull_success_transaction sample_open_lib sample_started_db sample_success False)"
  by code_simp

end
