(* ===== verification/Storage_Guarantees.thy ===== *)
theory Storage_Guarantees
  imports Storage_Steps Open_Samples
begin

text \<open>
  What the open store guarantees (\<open>crates/bcsp-operational-storage/src/open.rs\<close>): the ledger of attempts and
  counters is exact in every reachable state, recovery after a restart settles it, and pruning catches up with
  any backlog while it keeps what the contract names.
\<close>

subsection \<open>Reachable states\<close>

text \<open>A catalog refresh may replace the catalog tables; it keeps the targets and stores each under the
  identifier of its term and campus.\<close>

inductive db_reachable :: "open_lib \<Rightarrow> open_db \<Rightarrow> bool" for L where
  created: "db_reachable L empty_open_db"
| refreshed: "db_reachable L db \<Longrightarrow> wf_catalog (db\<lparr>db_catalog_targets := targets\<rparr>) \<Longrightarrow>
    db_reachable L (db\<lparr>db_catalog_targets := targets, db_catalog_sections := sections,
      db_refresh_observations := refreshes, db_staging_sections := staging\<rparr>)"
| began: "db_reachable L db \<Longrightarrow> begin_open_pull_attempt_with_catalog L db b candidate = Inr (n, db') \<Longrightarrow> db_reachable L db'"
| succeeded: "db_reachable L db \<Longrightarrow> finish_open_pull_success_transaction L db s accept = Inr (out, db') \<Longrightarrow> db_reachable L db'"
| failed: "db_reachable L db \<Longrightarrow> finish_open_pull_failure L db c = Inr (out, db') \<Longrightarrow> db_reachable L db'"
| pruned: "db_reachable L db \<Longrightarrow> prune_open_diagnostics db target n = Inr (report, db') \<Longrightarrow> db_reachable L db'"
| recovered: "db_reachable L db \<Longrightarrow> recover_interrupted_open_attempts L now db = Inr db' \<Longrightarrow> db_reachable L db'"

lemma refreshed_wf:
  assumes "wf_db db" "wf_catalog (db\<lparr>db_catalog_targets := targets\<rparr>)"
  shows "wf_db (db\<lparr>db_catalog_targets := targets, db_catalog_sections := sections,
      db_refresh_observations := refreshes, db_staging_sections := staging\<rparr>)"
    (is "wf_db ?db")
proof -
  have "wf_lkg ?db"
    by (rule wf_lkg_move [of db]) (use assms(1) in \<open>simp_all add: wf_db_def section_current_rows_def\<close>)
  moreover have "wf_attempt ?db = wf_attempt db" "started_on ?db = started_on db" "started_in ?db = started_in db"
    by (simp_all add: fun_eq_iff wf_attempt_def started_on_def started_in_def)
  then have "wf_attempts ?db" "wf_counters ?db"
    using assms(1) by (simp_all add: wf_db_def wf_attempts_def wf_counters_def)
  ultimately show ?thesis
    using assms by (simp add: wf_db_def wf_catalog_def wf_failure_def)
qed

lemma reachable_wf: "db_reachable L db \<Longrightarrow> wf_db db"
proof (induction rule: db_reachable.induct)
  case created
  show ?case
    by (simp add: wf_db_def wf_catalog_def wf_attempts_def wf_failure_def wf_lkg_def section_current_rows_def
        wf_counters_def started_on_def started_in_def balanced_def empty_open_db_def)
next
  case (refreshed db targets sections refreshes staging)
  show ?case
    using refreshed.IH refreshed.hyps(2) by (rule refreshed_wf)
next
  case (pruned db target n report db')
  then show ?case
    using prune_transaction_wf by (auto simp: prune_open_diagnostics_def split: if_splits)
qed (auto dest: begin_wf finish_success_wf finish_failure_wf recover_wf(1))

subsection \<open>Pruning\<close>

definition prunable :: "open_db \<Rightarrow> string \<Rightarrow> nat \<Rightarrow> trace_id list" where
  "prunable db t n = map fst (filter (\<lambda>(i, row). at_classification row \<noteq> AcStarted
     \<and> load_lkg_attempt_id db t \<noteq> Some i \<and> i \<notin> fst ` set (take n (rev (attempts_by_sequence db t)))) (attempts_by_sequence db t))"

lemma prune_candidates_prunable: "prune_candidates db t n k = take k (prunable db t n)"
  by (simp add: prune_candidates_def prunable_def Let_def)

lemma distinct_attempts: "distinct (map fst (attempts_by_sequence db t))"
  unfolding attempts_by_sequence_def by (rule distinct_map_fst_sort_filter) (rule bm.keys_distinct)

lemma distinct_prunable: "distinct (prunable db t n)"
  unfolding prunable_def using distinct_attempts by (rule distinct_map_filter)

lemma take_filter:
  assumes "\<And>y. y \<in> set (take n ys) \<Longrightarrow> P y"
  shows "take n (filter P ys) = take n ys"
proof -
  have "filter P ys = take n ys @ filter P (drop n ys)"
    using assms by (metis append_take_drop_id filter_True filter_append)
  then show ?thesis
    by (cases "n \<le> length ys") simp_all
qed

lemma attempts_delete:
  "attempts_by_sequence (delete_attempts db ids) t = filter (\<lambda>(i, _). i \<notin> set ids) (attempts_by_sequence db t)"
  by (simp add: attempts_by_sequence_def delete_attempts_def filter_sort conj_commute case_prod_unfold)

lemma prunable_delete:
  "prunable (delete_attempts db (take k (prunable db t n))) t n = drop k (prunable db t n)"
proof -
  let ?xs = "attempts_by_sequence db t" and ?ids = "take k (prunable db t n)"
  let ?old = "\<lambda>(i, row). at_classification row \<noteq> AcStarted
     \<and> load_lkg_attempt_id db t \<noteq> Some i \<and> i \<notin> fst ` set (take n (rev ?xs))"
  have recent: "take n (rev (filter (\<lambda>(i, _). i \<notin> set ?ids) ?xs)) = take n (rev ?xs)"
  proof -
    have "fst y \<notin> set (prunable db t n)" if "y \<in> set (take n (rev ?xs))" for y
      using that by (auto simp: prunable_def)
    then have "fst y \<notin> set ?ids" if "y \<in> set (take n (rev ?xs))" for y
      using that in_set_takeD by fast
    then show ?thesis
      by (subst rev_filter) (rule take_filter, simp add: case_prod_unfold)
  qed
  have lkg: "load_lkg_attempt_id (delete_attempts db ids) t = load_lkg_attempt_id db t" for ids
    by (simp add: load_lkg_attempt_id_def delete_attempts_def)
  have "prunable (delete_attempts db ?ids) t n = map fst (filter ?old (filter (\<lambda>(i, _). i \<notin> set ?ids) ?xs))"
    unfolding prunable_def [of "delete_attempts db ?ids"] attempts_delete recent lkg ..
  also have "\<dots> = filter (\<lambda>i. i \<notin> set ?ids) (prunable db t n)"
    by (simp add: prunable_def filter_map o_def case_prod_unfold conj_commute)
  also have "\<dots> = drop k (prunable db t n)"
  proof -
    have "set ?ids \<inter> set (drop k (prunable db t n)) = {}"
      using distinct_prunable by (rule set_take_disj_set_drop_if_distinct) simp
    then have "filter (\<lambda>i. i \<notin> set ?ids) (?ids @ drop k (prunable db t n)) = drop k (prunable db t n)"
      unfolding filter_append by (auto simp: filter_empty_conv intro!: filter_True)
    then show ?thesis
      by simp
  qed
  finally show ?thesis .
qed

lemma delete_delete: "delete_attempts (delete_attempts db xs) ys = delete_attempts db (xs @ ys)"
proof -
  have retain: "bm_retain P (bm_retain Q m) = bm_retain (\<lambda>k v. Q k v \<and> P k v) m" for P Q and m :: "('k::linorder, 'v) bmap"
    by (rule bm.map_ext) (auto split: option.splits)
  have maps: "bm_map f (bm_map g m) = bm_map (\<lambda>v. f (g v)) m" for f :: "'b \<Rightarrow> 'c" and g :: "'a \<Rightarrow> 'b" and m :: "('k::linorder, 'a) bmap"
    by (rule bm.map_ext) (simp add: option.map_comp o_def)
  show ?thesis
    by (simp add: delete_attempts_def retain maps)
qed

lemma length_prunable: "length (prunable db t n) \<le> length (attempts_by_sequence db t) - n"
proof -
  let ?xs = "attempts_by_sequence db t"
  let ?P = "\<lambda>(i, row). at_classification row \<noteq> AcStarted
     \<and> load_lkg_attempt_id db t \<noteq> Some i \<and> i \<notin> fst ` set (take n (rev ?xs))"
  have "length (prunable db t n) = length (filter ?P (take n (rev ?xs) @ drop n (rev ?xs)))"
    by (simp add: prunable_def flip: rev_filter)
  also have "filter ?P (take n (rev ?xs)) = []"
    by (force simp: filter_empty_conv)
  then have "length (filter ?P (take n (rev ?xs) @ drop n (rev ?xs))) = length (filter ?P (drop n (rev ?xs)))"
    unfolding filter_append by simp
  also have "\<dots> \<le> length (drop n (rev ?xs))"
    by (rule length_filter_le)
  finally show ?thesis
    by simp
qed

text \<open>\<open>prune_open_diagnostics\<close> called \<open>k\<close> times.\<close>

fun prune_times :: "open_db \<Rightarrow> term_campus_key \<Rightarrow> u64 \<Rightarrow> nat \<Rightarrow> storage_error + open_db" where
  "prune_times db target n 0 = Inr db"
| "prune_times db target n (Suc k) = and_then (prune_open_diagnostics db target n) (\<lambda>(_, db). prune_times db target n k)"

lemma prune_open_diagnostics_runs:
  assumes "256 \<le> n" "uint n \<le> I64_MAX"
  shows "\<exists>report. prune_open_diagnostics db target n
    = Inr (report, delete_attempts db (take 8 (prunable db (open_target_id target) (unat n))))"
proof -
  have "n \<noteq> 0" "\<not> n < 256"
    using assms(1) by auto
  then show ?thesis
    using assms(2)
    by (simp add: prune_open_diagnostics_def OPEN_DIAGNOSTIC_RETENTION_PER_TARGET_def OPEN_DIAGNOSTIC_PRUNE_ATTEMPTS_PER_COMMIT_def
        prune_open_diagnostics_transaction_def positive_u64_to_i64_def u64_to_i64_def Let_def prune_candidates_prunable I64_MAX_def)
qed

lemma retain_all: "bm_retain (\<lambda>_ _. True) m = m"
  by (rule bm.map_ext) (simp split: option.split)

lemma map_retain_all: "bm_map (bm_retain (\<lambda>_ _. True)) m = m"
proof (rule bm.map_ext)
  show "bm_get (bm_map (bm_retain (\<lambda>_ _. True)) m) k = bm_get m k" for k
    by (cases "bm_get m k") (simp_all add: retain_all)
qed

lemma prune_times_eq:
  assumes "256 \<le> n" "uint n \<le> I64_MAX"
  shows "prune_times db target n k = Inr (delete_attempts db (take (8 * k) (prunable db (open_target_id target) (unat n))))"
proof (induction k arbitrary: db)
  case 0
  have "delete_attempts db [] = db"
    by (simp add: delete_attempts_def retain_all map_retain_all)
  then show ?case
    by simp
next
  case (Suc k)
  let ?p = "prunable db (open_target_id target) (unat n)"
  obtain report where "prune_open_diagnostics db target n = Inr (report, delete_attempts db (take 8 ?p))"
    using prune_open_diagnostics_runs [OF assms] by blast
  then have "prune_times db target n (Suc k) = Inr (delete_attempts (delete_attempts db (take 8 ?p)) (take (8 * k) (drop 8 ?p)))"
    by (simp add: Suc.IH prunable_delete)
  also have "\<dots> = Inr (delete_attempts db (take (8 * Suc k) ?p))"
    unfolding delete_delete by (simp add: take_add [symmetric])
  finally show ?case .
qed

lemma in_prunable:
  "i \<in> set (prunable db t n) \<longleftrightarrow> (\<exists>r. bm_get (db_attempts db) i = Some r \<and> at_target_id r = t
     \<and> at_classification r \<noteq> AcStarted \<and> load_lkg_attempt_id db t \<noteq> Some i
     \<and> i \<notin> fst ` set (take n (rev (attempts_by_sequence db t))))"
  by (force simp: prunable_def set_attempts_by_sequence)

text \<open>C27. Pruning catches up.  Called \<open>k\<close> times for a target with at most \<open>retain_recent + 8 k\<close> attempts,
  \<open>prune_open_diagnostics\<close> never fails and leaves nothing to prune: exactly the attempts of other targets, the
  attempts still \<open>STARTED\<close>, the last known good one and the most recent \<open>retain_recent\<close> ones stay, with their
  rows unchanged.  The daily and run counters and the batch states are never touched.\<close>

theorem prune_catches_up:
  assumes "256 \<le> n" "uint n \<le> I64_MAX"
    and "length (attempts_by_sequence db (open_target_id target)) \<le> unat n + 8 * k"
  shows "\<exists>db'. prune_times db target n k = Inr db'
    \<and> prune_candidates db' (open_target_id target) (unat n) 8 = []
    \<and> (\<forall>i r. bm_get (db_attempts db') i = Some r \<longleftrightarrow> bm_get (db_attempts db) i = Some r
         \<and> (at_target_id r \<noteq> open_target_id target \<or> at_classification r = AcStarted
            \<or> load_lkg_attempt_id db (open_target_id target) = Some i
            \<or> i \<in> fst ` set (take (unat n) (rev (attempts_by_sequence db (open_target_id target))))))
    \<and> db_daily_counters db' = db_daily_counters db \<and> db_run_counters db' = db_run_counters db
    \<and> db_batch_state db' = db_batch_state db"
proof -
  let ?t = "open_target_id target" and ?p = "prunable db (open_target_id target) (unat n)"
  have "length ?p \<le> 8 * k"
    using length_prunable [of db ?t "unat n"] assms(3) by simp
  then have all: "take (8 * k) ?p = ?p"
    by simp
  have "prunable (delete_attempts db ?p) ?t (unat n) = []"
    using prunable_delete [of db "8 * k" ?t "unat n"] all \<open>length ?p \<le> 8 * k\<close> by simp
  moreover have "bm_get (db_attempts (delete_attempts db ?p)) i = Some r \<longleftrightarrow> bm_get (db_attempts db) i = Some r \<and> i \<notin> set ?p"
    for i r
    by (auto simp: delete_attempts_def split: option.splits if_splits)
  ultimately show ?thesis
    using prune_times_eq [OF assms(1,2), of db target k]
    by (auto simp: all prune_candidates_prunable in_prunable) (auto simp: delete_attempts_def)
qed

lemma sample_attempt: "map_option at_classification (bm_get (db_attempts sample_started_db) (TraceId 1)) = Some AcStarted"
  by code_simp

theorem prune_catches_up_witness:
  "\<exists>db'. prune_times sample_started_db sample_open_target 256 1 = Inr db'
     \<and> map_option at_classification (bm_get (db_attempts db') (TraceId 1)) = Some AcStarted"
proof -
  have "length (attempts_by_sequence sample_started_db (open_target_id sample_open_target)) \<le> unat (256 :: u64) + 8 * 1"
    by code_simp
  from prune_catches_up [OF _ _ this] show ?thesis
    using sample_attempt by (auto simp: I64_MAX_def)
qed

subsection \<open>The ledger\<close>

lemma sample_idle_reachable: "db_reachable sample_open_lib sample_idle_db"
  unfolding sample_idle_db_def
proof (rule refreshed [OF created])
  have "term_campus_key_try_new ''12026'' ''NB'' = Inr sample_open_target" "open_target_id sample_open_target = ''12026/NB''"
    by code_simp+
  then show "wf_catalog (empty_open_db\<lparr>db_catalog_targets := sample_targets\<rparr>)"
    by (auto simp: wf_catalog_def sample_targets_def empty_open_db_def split: if_splits)
qed

lemma sample_started_reachable: "db_reachable sample_open_lib sample_started_db"
  using result_or_Inr [OF sample_begins] began [OF sample_idle_reachable] unfolding sample_started_db_def by metis

lemma sample_applied_reachable: "db_reachable sample_open_lib sample_applied_db"
  using result_or_Inr [OF sample_applies] succeeded [OF sample_started_reachable] unfolding sample_applied_db_def by metis

text \<open>C25. The ledger of attempts is exact.  In every reachable state of the store a target has at most one
  attempt in flight, and it is its latest; every daily and run counter satisfies attempted = succeeded + failed,
  plus one exactly while an attempt it counts is in flight; and the last known good attempt of a target is
  stored, succeeded, and is the source of every current section state of the target.\<close>

theorem storage_ledger:
  assumes "db_reachable L db"
  shows "(\<forall>i j r q. bm_get (db_attempts db) i = Some r \<longrightarrow> at_classification r = AcStarted
        \<longrightarrow> bm_get (db_attempts db) j = Some q \<longrightarrow> at_target_id q = at_target_id r
        \<longrightarrow> at_attempt_sequence q \<le> at_attempt_sequence r \<and> (at_classification q = AcStarted \<longrightarrow> j = i))
    \<and> (\<forall>t day c. bm_get (db_daily_counters db) (t, day) = Some c \<longrightarrow>
        cn_attempted c = cn_succeeded c + cn_failed c
          + of_bool (\<exists>i r. bm_get (db_attempts db) i = Some r \<and> at_classification r = AcStarted
              \<and> at_target_id r = t \<and> at_rutgers_day r = day))
    \<and> (\<forall>run t c. bm_get (db_run_counters db) (run, t) = Some c \<longrightarrow>
        cn_attempted c = cn_succeeded c + cn_failed c
          + of_bool (\<exists>i r. bm_get (db_attempts db) i = Some r \<and> at_classification r = AcStarted
              \<and> at_target_id r = t \<and> at_run_id r = run))
    \<and> (\<forall>t s i. bm_get (db_batch_state db) t = Some s \<longrightarrow> ob_lkg_attempt_id s = Some i \<longrightarrow>
        (\<exists>r. bm_get (db_attempts db) i = Some r \<and> at_target_id r = t \<and> is_success (at_classification r))
        \<and> (\<forall>k row. bm_get (section_current_rows db t) k = Some row \<longrightarrow> oc_attempt_id row = i))"
proof -
  have wf: "wf_db db"
    using assms by (rule reachable_wf)
  have one: "at_attempt_sequence q \<le> at_attempt_sequence r \<and> (at_classification q = AcStarted \<longrightarrow> j = i)"
    if "bm_get (db_attempts db) i = Some r" "at_classification r = AcStarted" "bm_get (db_attempts db) j = Some q"
      "at_target_id q = at_target_id r" for i j r q
  proof -
    have "wf_attempt db i r" "wf_attempt db j q"
      using wf that by (auto simp: wf_db_def wf_attempts_def)
    then show ?thesis
      using that by (auto simp: wf_attempt_def started_row_def)
  qed
  have counters: "balanced (started_on db t day) (bm_get (db_daily_counters db) (t, day))"
      "balanced (started_in db run t) (bm_get (db_run_counters db) (run, t))" for t day run
    using wf by (auto simp: wf_db_def wf_counters_def)
  have lkg: "lkg_ok db t s" if "bm_get (db_batch_state db) t = Some s" for t s
    using wf that wf_lkgD(1) by (auto simp: wf_db_def)
  show ?thesis
  proof (intro conjI allI impI, goal_cases)
    case (3 t day c)
    then show ?case
      using counters(1) [of t day] by (simp add: balanced_def started_on_def started_row_def)
  next
    case (4 run t c)
    then show ?case
      using counters(2) [of run t] by (simp add: balanced_def started_in_def started_row_def)
  next
    case (5 t s i)
    then show ?case
      using lkg [of t s] by (auto simp: lkg_ok_def)
  next
    case (6 t s i k row)
    then show ?case
      using lkg [of t s] by (auto simp: lkg_ok_def)
  qed (use one in blast)+
qed

theorem storage_ledger_witness:
  "\<exists>c. bm_get (db_daily_counters sample_started_db) (''12026/NB'', ''2026-01-20'') = Some c
     \<and> cn_attempted c = cn_succeeded c + cn_failed c + 1"
proof -
  have "bm_get (db_daily_counters sample_started_db) (''12026/NB'', ''2026-01-20'') \<noteq> None"
    by code_simp
  then obtain c where c: "bm_get (db_daily_counters sample_started_db) (''12026/NB'', ''2026-01-20'') = Some c"
    by blast
  have "map_option (\<lambda>r. (at_classification r = AcStarted, at_target_id r, at_rutgers_day r))
      (bm_get (db_attempts sample_started_db) (TraceId 1)) = Some (True, ''12026/NB'', ''2026-01-20'')"
    by code_simp
  then show ?thesis
    using storage_ledger [OF sample_started_reachable] c by auto
qed

subsection \<open>Recovery\<close>

definition interrupted :: "string \<Rightarrow> open_pull_attempt_row \<Rightarrow> open_pull_attempt_row" where
  "interrupted completed_at r = r\<lparr>at_completed_at := Some completed_at, at_classification := AcInterrupted,
     at_error_code := Some ''PROCESS_RESTARTED''\<rparr>"

definition same_serving :: "open_db \<Rightarrow> open_db \<Rightarrow> bool" where
  "same_serving db db' \<longleftrightarrow> db_observations db' = db_observations db \<and> db_section_current db' = db_section_current db
     \<and> db_section_events db' = db_section_events db \<and> (\<forall>t. load_lkg_attempt_id db' t = load_lkg_attempt_id db t)"

lemma bump_final_runs:
  assumes "balanced True (Some c)"
  shows "\<exists>c'. bump_final False False c = Inr c'"
  using assms by (auto simp: balanced_def bump_final_def sql_add_def)

lemma interrupt_runs:
  assumes wf: "wf_db db" and row: "bm_get (db_attempts db) i = Some r" "started_row r"
  shows "\<exists>db'. interrupt_attempt completed_at (i, r) db = Inr db' \<and> same_serving db db'"
proof -
  have on: "started_on db (at_target_id r) (at_rutgers_day r)" "started_in db (at_run_id r) (at_target_id r)"
    using row unfolding started_on_def started_in_def by blast+
  have "balanced (started_on db (at_target_id r) (at_rutgers_day r)) (bm_get (db_daily_counters db) (at_target_id r, at_rutgers_day r))"
      "balanced (started_in db (at_run_id r) (at_target_id r)) (bm_get (db_run_counters db) (at_run_id r, at_target_id r))"
    using wf by (simp_all add: wf_db_def wf_counters_def)
  then obtain c d where counters: "bm_get (db_daily_counters db) (at_target_id r, at_rutgers_day r) = Some c" "balanced True (Some c)"
      "bm_get (db_run_counters db) (at_run_id r, at_target_id r) = Some d" "balanced True (Some d)"
    using on by (auto simp: balanced_def split: option.splits)
  moreover obtain c' d' where "bump_final False False c = Inr c'" "bump_final False False d = Inr d'"
    using bump_final_runs counters(2,4) by blast
  ultimately show ?thesis
    by (simp add: interrupt_attempt_def increment_final_Inr)
      (auto simp: final_counters_def same_serving_def load_lkg_attempt_id_def split: option.split)
qed

lemma interrupt_all_runs:
  assumes "wf_db db" "distinct (map fst pending)"
    "\<And>i r. (i, r) \<in> set pending \<Longrightarrow> bm_get (db_attempts db) i = Some r \<and> started_row r"
  shows "\<exists>db'. try_fold (interrupt_attempt completed_at) pending db = Inr db' \<and> same_serving db db'
     \<and> (\<forall>i. bm_get (db_attempts db') i = (if i \<in> fst ` set pending
          then map_option (interrupted completed_at) (bm_get (db_attempts db) i) else bm_get (db_attempts db) i))"
  using assms
proof (induction pending arbitrary: db)
  case Nil
  then show ?case
    by (simp add: same_serving_def)
next
  case (Cons p pending)
  obtain i r where p: "p = (i, r)"
    by (cases p)
  have row: "bm_get (db_attempts db) i = Some r" "started_row r"
    using Cons.prems(3) p by auto
  obtain db1 where one: "interrupt_attempt completed_at (i, r) db = Inr db1" and serving: "same_serving db db1"
    using interrupt_runs [OF Cons.prems(1) row] by blast
  note step = interrupt_wf [OF Cons.prems(1) row one]
  have i: "i \<notin> fst ` set pending"
    using Cons.prems(2) p by simp
  have "bm_get (db_attempts db1) j = Some q \<and> started_row q" if "(j, q) \<in> set pending" for j q
    using that Cons.prems(3) [of j q] i by (force simp: step(2))
  from Cons.IH [OF step(1) _ this] Cons.prems(2) obtain db' where
      rest: "try_fold (interrupt_attempt completed_at) pending db1 = Inr db'" "same_serving db1 db'"
        "\<And>j. bm_get (db_attempts db') j = (if j \<in> fst ` set pending
          then map_option (interrupted completed_at) (bm_get (db_attempts db1) j) else bm_get (db_attempts db1) j)"
    by auto
  have "try_fold (interrupt_attempt completed_at) (p # pending) db = Inr db'"
    using one rest(1) p by simp
  moreover have "same_serving db db'"
    using serving rest(2) by (simp add: same_serving_def)
  moreover have "bm_get (db_attempts db') j = (if j \<in> fst ` set (p # pending)
          then map_option (interrupted completed_at) (bm_get (db_attempts db) j) else bm_get (db_attempts db) j)" for j
    using i row(1) by (auto simp: rest(3) step(2) p interrupted_def)
  ultimately show ?case
    by blast
qed

lemma set_pending: "(i, r) \<in> set (pending_attempts db) \<longleftrightarrow> bm_get (db_attempts db) i = Some r \<and> at_classification r = AcStarted"
  by (auto simp: pending_attempts_def bm_get_iff)

lemma distinct_pending: "distinct (map fst (pending_attempts db))"
  unfolding pending_attempts_def by (rule distinct_map_fst_sort_filter) (rule bm.keys_distinct)

text \<open>C26. Recovery after a restart settles the ledger.  On every reachable store it succeeds when the clock can
  be printed: each attempt in flight becomes \<open>INTERRUPTED\<close> with the code \<open>PROCESS_RESTARTED\<close>, every other attempt
  is unchanged, all counters satisfy attempted = succeeded + failed, and the last known good attempts, the
  observations, the current section states and the section events stay as they were.\<close>

theorem recovery_settles:
  assumes "db_reachable L db" "ol_format_rfc3339 L now = Some completed_at"
  shows "\<exists>db'. recover_interrupted_open_attempts L now db = Inr db'
    \<and> (\<forall>i. bm_get (db_attempts db') i = (case bm_get (db_attempts db) i of None \<Rightarrow> None
         | Some r \<Rightarrow> Some (if at_classification r = AcStarted then interrupted completed_at r else r)))
    \<and> (\<forall>t day c. bm_get (db_daily_counters db') (t, day) = Some c \<longrightarrow> cn_attempted c = cn_succeeded c + cn_failed c)
    \<and> (\<forall>run t c. bm_get (db_run_counters db') (run, t) = Some c \<longrightarrow> cn_attempted c = cn_succeeded c + cn_failed c)
    \<and> same_serving db db'"
proof -
  have wf: "wf_db db"
    using assms(1) by (rule reachable_wf)
  obtain db' where fold: "try_fold (interrupt_attempt completed_at) (pending_attempts db) db = Inr db'" "same_serving db db'"
      "\<And>i. bm_get (db_attempts db') i = (if i \<in> fst ` set (pending_attempts db)
          then map_option (interrupted completed_at) (bm_get (db_attempts db) i) else bm_get (db_attempts db) i)"
    using interrupt_all_runs [OF wf distinct_pending [of db], of completed_at]
    by (auto simp: set_pending started_row_def)
  have run: "recover_interrupted_open_attempts L now db = Inr db'"
    using fold(1) assms(2) by (cases "pending_attempts db = []") (simp_all add: recover_interrupted_open_attempts_def)
  have wf': "wf_db db'" and idle: "\<And>i r. bm_get (db_attempts db') i = Some r \<Longrightarrow> \<not> started_row r"
    using recover_wf [OF wf run] by blast+
  have "\<not> started_on db' t day" "\<not> started_in db' run t" for t day run
    using idle by (auto simp: started_on_def started_in_def)
  then have settled: "balanced False (bm_get (db_daily_counters db') (t, day))" "balanced False (bm_get (db_run_counters db') (run, t))"
    for t day run
    using wf' by (simp_all add: wf_db_def wf_counters_def)
  have "cn_attempted c = cn_succeeded c + cn_failed c" if "bm_get (db_daily_counters db') (t, day) = Some c" for t day c
    using settled(1) [of t day] that by (simp add: balanced_def)
  moreover have "cn_attempted c = cn_succeeded c + cn_failed c" if "bm_get (db_run_counters db') (run, t) = Some c" for run t c
    using settled(2) [of run t] that by (simp add: balanced_def)
  moreover have "i \<in> fst ` set (pending_attempts db) \<longleftrightarrow> (\<exists>r. bm_get (db_attempts db) i = Some r \<and> at_classification r = AcStarted)" for i
    using set_pending [of i _ db] by (metis (no_types, lifting) eq_fst_iff image_iff)
  ultimately show ?thesis
    using run fold(2,3) by (auto split: option.splits)
qed

theorem recovery_settles_witness:
  "\<exists>db'. recover_interrupted_open_attempts sample_open_lib 5 sample_started_db = Inr db'
     \<and> map_option at_classification (bm_get (db_attempts db') (TraceId 1)) = Some AcInterrupted"
proof -
  have "ol_format_rfc3339 sample_open_lib 5 = Some ''2026-01-20T12:00:05Z''"
    by (simp add: sample_open_lib_def)
  from recovery_settles [OF sample_started_reachable this] show ?thesis
    using sample_attempt by (auto simp: interrupted_def)
qed

end
