(* ===== verification/Service_Guarantees.thy ===== *)
theory Service_Guarantees
  imports Open_Projection Storage_Guarantees Client_Guarantees
begin

text \<open>
  What one pull of the shared open service guarantees (\<open>crates/bcsp-open/src/service.rs\<close>), over any persistence:
  it never panics, keeps the gates of the target well-formed, and reports a success only for a plan that applies.
  The proofs are triples over the service computations; the rules follow their combinators.
\<close>

subsection \<open>Triples\<close>

text \<open>From a well-formed gate set with \<open>A\<close> the computation returns and leaves a well-formed gate set, and a
  result satisfies \<open>Q\<close>.\<close>

definition runs :: "(target_gate_set \<Rightarrow> bool) \<Rightarrow> ('s, 'a) service \<Rightarrow> ('a \<Rightarrow> target_gate_set \<Rightarrow> bool) \<Rightarrow> bool" where
  "runs A m Q \<longleftrightarrow> (\<forall>s gates. wf_gates gates \<longrightarrow> A gates \<longrightarrow>
     (\<exists>r s' gates'. m (s, gates) = Some (r, s', gates') \<and> wf_gates gates' \<and> (\<forall>x. r = Inr x \<longrightarrow> Q x gates')))"

lemma runs_bind:
  assumes "runs A m Q" "\<And>x. runs (Q x) (f x) R"
  shows "runs A (svc_bind m f) R"
  unfolding runs_def
proof (intro allI impI)
  fix s gates
  assume "wf_gates gates" "A gates"
  then obtain r s' gates' where m: "m (s, gates) = Some (r, s', gates')" "wf_gates gates'" "\<forall>x. r = Inr x \<longrightarrow> Q x gates'"
    using assms(1) unfolding runs_def by blast
  show "\<exists>r s' gates'. svc_bind m f (s, gates) = Some (r, s', gates') \<and> wf_gates gates' \<and> (\<forall>x. r = Inr x \<longrightarrow> R x gates')"
    using m assms(2) unfolding runs_def by (cases r) (auto simp: svc_bind_def)
qed

lemma runs_ok:
  assumes "\<And>g. wf_gates g \<Longrightarrow> A g \<Longrightarrow> Q x g"
  shows "runs A (svc_ok x) Q"
  using assms by (auto simp: runs_def svc_ok_def)

lemma runs_gates:
  assumes "\<And>g. wf_gates g \<Longrightarrow> A g \<Longrightarrow> wf_gates (snd (f g)) \<and> Q (fst (f g)) (snd (f g))"
  shows "runs A (svc_gates f) Q"
  using assms by (auto simp: runs_def svc_gates_def case_prod_unfold)

lemma runs_call_then:
  assumes "\<And>x. runs A (f x) R"
  shows "runs A (svc_bind (svc_call op) f) R"
proof (rule runs_bind [where Q = "\<lambda>_. A"])
  show "runs A (svc_call op) (\<lambda>_. A)"
    by (auto simp: runs_def svc_call_def split: prod.splits)
qed (rule assms)

lemma runs_lift_then:
  assumes "\<And>x. r = Inr x \<Longrightarrow> runs A (f x) R"
  shows "runs A (svc_bind (svc_lift r) f) R"
proof (cases r)
  case (Inl e)
  then show ?thesis
    by (auto simp: runs_def svc_lift_def svc_bind_def)
next
  case (Inr x)
  then show ?thesis
    using assms [OF Inr] by (simp add: runs_def svc_lift_def svc_bind_def)
qed

lemma runs_expect_then:
  assumes "\<And>g. wf_gates g \<Longrightarrow> A g \<Longrightarrow> v \<noteq> None" "\<And>x. v = Some x \<Longrightarrow> runs A (f x) R"
  shows "runs A (svc_bind (svc_expect v) f) R"
proof (cases v)
  case None
  then show ?thesis
    using assms(1) by (auto simp: runs_def)
next
  case (Some x)
  then show ?thesis
    using assms(2) [OF Some] by (simp add: runs_def svc_expect_def svc_bind_def)
qed

lemma runs_gates_then:
  assumes "\<And>g. wf_gates g \<Longrightarrow> A g \<Longrightarrow> wf_gates (snd (h g)) \<and> B (fst (h g)) (snd (h g))" "\<And>x. runs (B x) (f x) R"
  shows "runs A (svc_bind (svc_gates h) f) R"
  using assms by (intro runs_bind [OF runs_gates])

lemmas run_rules = runs_call_then runs_lift_then

lemma runs_weaken:
  assumes "runs A m Q" "\<And>g. wf_gates g \<Longrightarrow> A' g \<Longrightarrow> A g" "\<And>x g. Q x g \<Longrightarrow> Q' x g"
  shows "runs A' m Q'"
  using assms unfolding runs_def by meson

subsection \<open>The gate\<close>

lemma evaluate_epoch: "evaluate H r s = Some d \<Longrightarrow> gd_gate_epoch d = gr_epoch r"
  by (auto simp: evaluate_def Let_def)

lemma suspect_run_grows: "run \<noteq> [] \<Longrightarrow> suspect_run k h run attempts \<noteq> []"
  by (induction k h run attempts rule: suspect_run.induct) (simp_all add: Let_def)

lemma rebuild_total: "\<exists>r. rebuild_after_restart k lkg attempts now = Some r"
  by (auto simp: rebuild_after_restart_def Let_def suspect_run_grows split: list.splits option.splits)

definition served :: "open_gate_route \<Rightarrow> catalog_set_identity \<Rightarrow> target_gate_set \<Rightarrow> gate_runtime option" where
  "served route k gates = (case route of RouteServing \<Rightarrow> tg_serving gates | RouteCandidate \<Rightarrow> bm_get (tg_candidates gates) k)"

lemma runs_lkg_reference:
  assumes "\<And>x. runs A (f x) R"
  shows "runs A (svc_bind (lkg_reference p target catalog) f) R"
  by (rule runs_bind [where Q = "\<lambda>_. A"])
    (auto simp: lkg_reference_def assms intro!: run_rules runs_ok)

lemma runs_install_if_absent:
  "runs (\<lambda>_. True) (install_if_absent L p target catalog k now) (\<lambda>_ g. tg_serving g \<noteq> None)"
  unfolding install_if_absent_def
proof (rule runs_gates_then [where B = "\<lambda>installed g. installed \<longrightarrow> tg_serving g \<noteq> None"], goal_cases)
  case (2 installed)
  show ?case
    by (cases installed)
      (auto intro!: runs_ok runs_lkg_reference run_rules runs_expect_then runs_gates simp: rebuild_total install_serving_def)
qed (simp add: serving_installed_def)

lemma runs_runtime_for_route:
  "runs (\<lambda>_. True) (runtime_for_route L p route target catalog k now) (\<lambda>r g. served route k g = Some r \<and> keyed k r)"
proof (cases route)
  case RouteServing
  have "runs (\<lambda>g. tg_serving g = Some serving) (reset_if_changed p target catalog k serving)
      (\<lambda>_ g. \<exists>r. tg_serving g = Some r \<and> keyed k r)" for serving
    unfolding reset_if_changed_def keyed_def [symmetric]
    by (auto simp: install_serving_def intro!: runs_ok runs_lkg_reference runs_gates)
  then show ?thesis
    unfolding runtime_for_route_def RouteServing open_gate_route.case
    by (intro runs_bind [OF runs_install_if_absent] runs_gates_then [where B = "\<lambda>r g. tg_serving g = Some r"]
        runs_bind [where Q = "\<lambda>_ g. \<exists>r. tg_serving g = Some r \<and> keyed k r"] runs_gates)
      (auto simp: serving_mut_def served_def split: option.splits)
next
  case RouteCandidate
  have "wf_gates (snd (candidate_mut g k seed)) \<and> served RouteCandidate k (snd (candidate_mut g k seed)) = Some (fst (candidate_mut g k seed))
      \<and> keyed k (fst (candidate_mut g k seed))" if "wf_gates g" for g seed
    using candidate_mut_spec [OF surjective_pairing that] by (simp add: served_def)
  then show ?thesis
    unfolding runtime_for_route_def RouteCandidate open_gate_route.case
    by (intro runs_lkg_reference runs_gates) auto
qed

text \<open>The decision a pull carries across its commit was taken on the runtime that is still installed.\<close>

definition decided :: "digest \<Rightarrow> catalog_set_identity \<Rightarrow> gate_runtime \<Rightarrow> gate_decision \<Rightarrow> bool" where
  "decided H k r d \<longleftrightarrow> (\<exists>s. evaluate H r s = Some d \<and> gs_catalog_identity s = k)"

definition pending_on ::
  "digest \<Rightarrow> (catalog_set_identity \<times> open_gate_route \<times> gate_decision) option \<Rightarrow> target_gate_set \<Rightarrow> bool" where
  "pending_on H pending gates \<longleftrightarrow> (case pending of None \<Rightarrow> True
     | Some (k, route, d) \<Rightarrow> \<exists>r. served route k gates = Some r \<and> decided H k r d)"

lemma decided_advance:
  assumes "decided H k r d"
  obtains r' where "advance r d = Some r'" "keyed k r'"
proof -
  obtain s where s: "evaluate H r s = Some d" "gs_catalog_identity s = k"
    using assms by (auto simp: decided_def)
  then have "advance r d = Some \<lparr>gr_epoch = gr_epoch r + 1, gr_state = gd_next_state d\<rparr>"
    by (simp add: advance_def evaluate_epoch)
  with that advance_keyed [OF s(1) this] s(2) show thesis
    by blast
qed

lemma runs_gate_decide:
  "runs (\<lambda>_. True) (gate_decide L p c captured catalog open_set now) (pending_on (ol_digest L))"
proof (cases "pc_gate c")
  case None
  then show ?thesis
    by (auto simp: gate_decide_def pending_on_def intro!: runs_ok)
next
  case (Some route)
  have decidedI: "decided (ol_digest L) k r d" if "evaluate (ol_digest L) r \<lparr>gs_catalog_identity = k, gs_observed = o_set, gs_observed_at = at\<rparr> = Some d"
    for k r d o_set at
    using that unfolding decided_def by (metis gate_sample.select_convs(1))
  show ?thesis
    unfolding gate_decide_def Some Let_def option.case
    by (auto intro!: runs_ok runs_bind [OF runs_runtime_for_route] runs_expect_then
        simp: pending_on_def evaluate_keyed dest: decidedI)
qed

lemma runs_gate_advance: "runs (pending_on H pending) (gate_advance pending outcome) (\<lambda>_ _. True)"
proof (cases pending)
  case None
  then show ?thesis
    by (simp add: gate_advance_def runs_ok)
next
  case (Some p)
  obtain k route d where p: "p = (k, route, d)"
    by (cases p)
  let ?at = "\<lambda>r g. served route k g = Some r \<and> decided H k r d"
  have expect: "\<exists>r'. advance r d = Some r'" if "decided H k r d" for r
    using decided_advance [OF that] by auto
  show ?thesis
  proof (cases route)
    case RouteServing
    show ?thesis
      unfolding gate_advance_def Some p option.case prod.case RouteServing open_gate_route.case
      by (auto intro!: runs_ok runs_gates runs_gates_then [where B = ?at] runs_expect_then
          simp: expect pending_on_def served_def RouteServing serving_mut_def install_serving_def)
  next
    case RouteCandidate
    have mut: "wf_gates (snd (candidate_mut g k None)) \<and> ?at (fst (candidate_mut g k None)) (snd (candidate_mut g k None))"
      if "wf_gates g" "pending_on H pending g" for g
    proof -
      have "fst (candidate_mut g k None) = the (bm_get (tg_candidates g) k)"
        using that(2) by (auto simp: candidate_mut_def Let_def pending_on_def Some p served_def RouteCandidate)
      then show ?thesis
        using candidate_mut_spec [OF surjective_pairing that(1), of k None] that(2)
        by (auto simp: pending_on_def Some p served_def RouteCandidate)
    qed
    have put: "wf_gates (put_candidate g k r')" if "wf_gates g" "?at r g" "advance r d = Some r'" for g r r'
    proof -
      have "keyed k r'"
        using decided_advance [of H k r d] that(2,3) by auto
      moreover have "bm_len (bm_insert k r' (tg_candidates g)) = bm_len (tg_candidates g)"
        using that(2) by (auto simp: bm_len_insert served_def RouteCandidate)
      ultimately show ?thesis
        using that(1) by (auto simp: wf_gates_def put_candidate_def)
    qed
    have "runs (pending_on H pending) (svc_bind (svc_gates (\<lambda>gates. candidate_mut gates k None)) (\<lambda>runtime.
        svc_bind (svc_expect (advance runtime d)) (\<lambda>runtime.
        svc_bind (svc_gates (\<lambda>gates. ((), put_candidate gates k runtime))) (\<lambda>_.
          if is_success (co_classification outcome) then svc_gates (\<lambda>gates. ((), promote_candidate gates k)) else svc_ok ()))))
        (\<lambda>_ _. True)"
    proof (rule runs_gates_then [where B = ?at])
      show "runs (?at r) (svc_bind (svc_expect (advance r d)) (\<lambda>runtime.
          svc_bind (svc_gates (\<lambda>gates. ((), put_candidate gates k runtime))) (\<lambda>_.
            if is_success (co_classification outcome) then svc_gates (\<lambda>gates. ((), promote_candidate gates k)) else svc_ok ())))
          (\<lambda>_ _. True)" for r
      proof (rule runs_expect_then)
        show "runs (?at r) (svc_bind (svc_gates (\<lambda>gates. ((), put_candidate gates k r'))) (\<lambda>_.
            if is_success (co_classification outcome) then svc_gates (\<lambda>gates. ((), promote_candidate gates k)) else svc_ok ()))
            (\<lambda>_ _. True)" if "advance r d = Some r'" for r'
          by (rule runs_gates_then [where B = "\<lambda>_ _. True"])
            (auto simp: wf_gates_promote intro!: runs_gates runs_ok put [OF _ _ that])
      qed (use expect in auto)
    qed (rule mut)
    then show ?thesis
      unfolding gate_advance_def Some p option.case prod.case RouteCandidate open_gate_route.case
      by (cases "co_classification outcome = AcStaleCatalogRace") (simp_all only: if_True if_False simp_thms runs_ok)
  qed
qed

subsection \<open>Committed observations\<close>

lemma observe_events:
  assumes "try_fold (observe_event L h) events (ids, ks, obs) = Inr (ids', ks', obs')"
  shows "\<exists>new. obs' = obs @ new \<and> map obs_section_key new = map se_section events
     \<and> bs_set ks' = bs_set ks \<union> set (map se_section events) \<and> distinct (map se_section events)
     \<and> bs_set ks \<inter> set (map se_section events) = {}"
  using assms
proof (induction events arbitrary: ids ks obs)
  case Nil
  then show ?case
    by simp
next
  case (Cons e events)
  obtain ids1 ks1 obs1 where one: "observe_event L h e (ids, ks, obs) = Inr (ids1, ks1, obs1)"
    and rest: "try_fold (observe_event L h) events (ids1, ks1, obs1) = Inr (ids', ks', obs')"
    using Cons.prems by (auto split: sum.splits)
  obtain ob where ob: "obs1 = obs @ [ob]" "obs_section_key ob = se_section e" "bs_set ks1 = insert (se_section e) (bs_set ks)"
      "se_section e \<notin> bs_set ks"
    using one by (auto simp: observe_event_def open_observation_try_new_def bm_contains_bs split: if_splits)
  obtain new where "obs' = obs1 @ new" "map obs_section_key new = map se_section events"
      "bs_set ks' = bs_set ks1 \<union> set (map se_section events)" "distinct (map se_section events)"
      "bs_set ks1 \<inter> set (map se_section events) = {}"
    using Cons.IH [OF rest] by blast
  then show ?case
    using ob by (intro exI [of _ "ob # new"]) auto
qed

lemma build_committed_sections:
  assumes "build_committed_observations L c outcome expected = Inr observations"
  shows "distinct (map obs_section_key observations) \<and> set (map obs_section_key observations) = bs_set expected"
proof -
  obtain h events ids ks where "try_fold (observe_event L h) events (bm_empty, bm_empty, []) = Inr (ids, ks, observations)"
      "ks = expected"
    using assms by (auto simp: build_committed_observations_def)
  from observe_events [OF this(1)] this(2) show ?thesis
    by auto
qed

subsection \<open>The pull\<close>

text \<open>A success carries a plan that applies, agrees with the stored outcome, completes the schedule, and its
  observations are the watched sections, each once; anything else has no observations.\<close>

definition sound_execution :: "section_key list \<Rightarrow> open_pull_execution \<Rightarrow> bool" where
  "sound_execution watched ex \<longleftrightarrow>
     (if is_success (co_classification (ex_outcome ex))
      then (\<exists>plan. ex_reconcile ex = Some plan \<and> classification_is_valid (plan_classification plan)
             \<and> outcome_matches_reconcile (ex_outcome ex) plan)
         \<and> ex_scheduler_completion ex = CompletionSuccess
         \<and> distinct (map obs_section_key (ex_observations ex)) \<and> set (map obs_section_key (ex_observations ex)) = set watched
      else ex_observations ex = [] \<and> ex_scheduler_completion ex \<noteq> CompletionSuccess)"

lemma runs_finish_failure:
  "runs A (finish_failure L p c failure now text) (\<lambda>ex _. sound_execution watched ex)"
proof -
  obtain status retry code kind where "failure_storage_fields failure now = (status, retry, code, kind)"
    by (cases "failure_storage_fields failure now")
  then show ?thesis
    by (auto simp: finish_failure_def sound_execution_def is_success_def intro!: run_rules runs_ok)
qed

lemma success_plan_valid:
  assumes "is_success (co_classification outcome)" "outcome_matches_reconcile outcome plan"
  shows "classification_is_valid (plan_classification plan)"
proof -
  have "co_classification outcome = expected_classification (plan_classification plan)"
    using assms by (auto simp: outcome_matches_reconcile_def is_success_def split: if_splits)
  then show ?thesis
    using assms(1) by (cases "plan_classification plan") (simp_all add: is_success_def classification_is_valid_def)
qed

lemma conclude_completion:
  assumes "conclude L c response outcome = Inr (completion, terminal)"
  shows "completion = CompletionSuccess \<longleftrightarrow> is_success (co_classification outcome)"
  using assms by (cases "co_classification outcome") (auto simp: conclude_def Let_def is_success_def)

lemma runs_commit_response:
  "runs (pending_on H pending) (commit_response L p c captured response text watched n bytes catalog open_set pending)
     (\<lambda>ex _. sound_execution (watched (osr_target (pc_source_request c))) ex)"
  unfolding commit_response_def Let_def
proof (intro runs_lift_then runs_call_then runs_bind [OF runs_gate_advance], goal_cases)
  case (1 plan outcome _ _ observations concluded)
  obtain completion terminal where concluded: "concluded = (completion, terminal)"
    by (cases concluded)
  have "sound_execution (watched (osr_target (pc_source_request c))) \<lparr>ex_outcome = outcome, ex_scheduler_completion = completion,
      ex_terminal = terminal, ex_reconcile = Some plan, ex_observations = observations\<rparr>"
    using 1 conclude_completion [of L c response outcome completion terminal] success_plan_valid [of outcome plan]
      build_committed_sections [of L c outcome]
    by (auto simp: sound_execution_def concluded split: if_splits)
  then show ?case
    by (simp add: concluded runs_ok)
qed

lemma runs_finish_success:
  "runs (\<lambda>_. True) (finish_success L p c captured response now text watched)
     (\<lambda>ex _. sound_execution (watched (osr_target (pc_source_request c))) ex)"
  unfolding finish_success_def Let_def
proof (intro runs_lift_then runs_call_then, goal_cases)
  case (1 n bytes current)
  show ?case
    by (cases current)
      (auto intro!: runs_lift_then runs_finish_failure runs_bind [OF runs_gate_decide] runs_commit_response)
qed

lemma runs_finish_fetched:
  assumes "\<And>s. length (ol_digest L s) = 32"
  shows "runs (\<lambda>_. True) (finish_fetched L p c captured fetched now text watched)
     (\<lambda>ex _. sound_execution (watched (osr_target (pc_source_request c))) ex)"
proof (cases fetched)
  case (Inl e)
  then show ?thesis
    by (simp add: finish_fetched_def runs_finish_failure)
next
  case (Inr response)
  have "response_metadata_is_consistent L response \<noteq> None"
    using sha256_hex_valid [of "ol_digest L", OF assms]
    by (auto simp: response_metadata_is_consistent_def Let_def canonical_open_set_sha256_def)
  then show ?thesis
    by (auto simp: finish_fetched_def Inr intro!: runs_finish_failure runs_finish_success runs_expect_then)
qed

text \<open>C28. One pull of the shared service is safe, whatever the persistence and the network answer.  If SHA-256
  gives 32 bytes, and the other tasks that run while the request is in flight keep the gate set of the target
  well-formed, the pull never panics and leaves the gate set well-formed.  When it reports a stored success, its
  own reconcile plan applies and agrees with the stored outcome, the schedule is completed, and the published
  observations are exactly the watched sections, each once; any other result publishes nothing.\<close>

theorem pull_sound:
  assumes "\<And>b. length (ol_digest L b) = 32" "\<And>\<sigma>. wf_gates (snd \<sigma>) \<Longrightarrow> wf_gates (snd (during \<sigma>))" "wf_gates gates"
  shows "\<exists>r s' gates'. execute_with L p during c started_at completed_at fetch_open watched (s, gates) = Some (r, s', gates')
    \<and> wf_gates gates' \<and> (\<forall>ex. r = Inr ex \<longrightarrow> sound_execution (watched (osr_target (pc_source_request c))) ex)"
proof -
  have wait: "runs (\<lambda>_. True) (\<lambda>\<sigma>. Some (Inr (fetch_open (pc_source_request c)), during \<sigma>)) (\<lambda>_ _. True)"
    unfolding runs_def
  proof (intro allI impI)
    fix s gates
    assume "wf_gates gates"
    then show "\<exists>r s' gates'. Some (Inr (fetch_open (pc_source_request c)), during (s, gates)) = Some (r, s', gates')
        \<and> wf_gates gates' \<and> (\<forall>x. r = Inr x \<longrightarrow> True)"
      using assms(2) [of "(s, gates)"] by (cases "during (s, gates)") simp
  qed
  have "runs (\<lambda>_. True) (execute_with L p during c started_at completed_at fetch_open watched)
      (\<lambda>ex _. sound_execution (watched (osr_target (pc_source_request c))) ex)"
    unfolding execute_with_def Let_def
    by (intro runs_lift_then runs_call_then runs_bind [OF wait] runs_finish_fetched assms(1))
  then show ?thesis
    using assms(3) unfolding runs_def by blast
qed

definition sample_pull :: open_pull_command where
  "sample_pull = \<lparr>pc_attempt_id = TraceId 1, pc_run_id = TraceId 9,
     pc_source_request = \<lparr>osr_discovery_source_id = DiscoverySourceId ''rutgers'', osr_target = sample_open_target,
       osr_year = 2026, osr_term_code = 1\<rparr>,
     pc_refresh_intervals = intervals_local_default, pc_active_watch_count = 1, pc_freshness_interval_seconds = 30,
     pc_lane = OpenActiveWatch, pc_scheduler_lag = 0, pc_current_failure_streak = 0, pc_counter_audience = AudiencePublic,
     pc_gate = Some RouteServing\<rparr>"

theorem pull_sound_witness:
  "\<exists>r s' gates'. execute_with sample_open_lib (operational_persistence sample_open_lib) id sample_pull 0 5000000000
      (\<lambda>_. Inl (before_response ErrTimeout)) (\<lambda>_. [sample_open_section]) (sample_idle_db, target_gate_set_new) = Some (r, s', gates')
    \<and> wf_gates gates'"
proof -
  have "length (ol_digest sample_open_lib b) = 32" for b
    by (simp add: sample_open_lib_def)
  from pull_sound [OF this _ wf_gates_new, of id "operational_persistence sample_open_lib" sample_pull 0 5000000000
      "\<lambda>_. Inl (before_response ErrTimeout)" "\<lambda>_. [sample_open_section]" sample_idle_db] show ?thesis
    by auto
qed

subsection \<open>The store agrees with the plan\<close>

lemma u64_from_small: "n < 2 ^ 64 \<Longrightarrow> u64_from_len n = of_nat n"
  by (simp add: u64_from_len_def u64_try_from_def)

lemma count_contained: "length (filter (bm_contains m) (bm_keys n)) = card (set (bm_keys n) \<inter> set (bm_keys m))"
  using length_filter_inter [of m n] by simp

lemma count_missing:
  "length (filter (\<lambda>i. \<not> bm_contains m i) (bm_keys n)) = bm_len n - card (set (bm_keys n) \<inter> set (bm_keys m))"
  using sum_length_filter_compl [of "bm_contains m" "bm_keys n"] count_contained [of m n] length_bm_keys [of n] by simp

text \<open>What both branches of a commit report of the response.\<close>

definition reports :: "finish_open_pull_success_command \<Rightarrow> response_facts \<Rightarrow> open_attempt_classification \<Rightarrow> open_commit_outcome \<Rightarrow> bool" where
  "reports c f cls out \<longleftrightarrow> co_classification out = cls
      \<and> co_catalog_content_version out = sa_captured_catalog_content_version (rf_attempt f)
      \<and> co_source_value_count out = cr_source_value_count (rf_response f)
      \<and> co_catalog_section_count out = rf_catalog_section_count f \<and> co_intersection_count out = rf_intersection_count f
      \<and> co_orphan_count out = rf_orphan_count f \<and> co_duplicate_count out = cr_duplicate_count (rf_response f)"

lemma finish_reports:
  "finish_catalog_race db c f = Inr (out, db') \<Longrightarrow> co_classification out = AcStaleCatalogRace \<and> co_observation_sequence out = None"
  "finish_unsafe L db c f cls = Inr (out, db') \<Longrightarrow> reports c f cls out"
  "finish_applied L db c f cls = Inr (out, db') \<Longrightarrow> reports c f cls out"
  by (auto simp: finish_catalog_race_def finish_unsafe_def finish_applied_def Let_def non_applied_outcome_def reports_def)

lemma finish_success_outcome:
  assumes fin: "finish_open_pull_success_transaction L db c False = Inr (out, db')" and f: "load_response_facts L db c = Inr f"
  shows "if rf_current_catalog_content_version f \<noteq> sa_captured_catalog_content_version (rf_attempt f)
    then co_classification out = AcStaleCatalogRace \<and> co_observation_sequence out = None
    else reports c f (classify_open_response (cr_canonical_indices (rf_response f)) (rf_catalog_indices f)
             (rf_intersection_count f) (sc_gate_hold c)) out"
  using fin f finish_reports
  by (auto simp: finish_open_pull_success_transaction_def Let_def split: if_splits)

lemma load_response_facts_version:
  assumes "load_response_facts L db c = Inr f"
  shows "load_current_catalog_version db (rf_target_id f) = Inr (rf_current_catalog_content_version f)"
  using assms by (auto simp: load_response_facts_def Let_def rf_target_id_def)

text \<open>The same response seen by the store, as texts, and by the plan, as validated indices.\<close>

definition same_view :: "response_facts \<Rightarrow> catalog_open_batch \<Rightarrow> open_set_evidence \<Rightarrow> bool" where
  "same_view f batch ev \<longleftrightarrow>
     set (bm_keys (cr_canonical_indices (rf_response f))) = index_str ` set (bm_keys (ose_indexes ev))
     \<and> set (bm_keys (rf_catalog_indices f)) = index_str ` set (bm_keys (cob_sections batch))
     \<and> cr_source_value_count (rf_response f) = ose_raw_value_count ev
     \<and> cr_duplicate_count (rf_response f) = ose_duplicate_count ev
     \<and> bm_len (ose_indexes ev) < 2 ^ 64 \<and> bm_len (cob_sections batch) < 2 ^ 64"

lemma inj_index_str: "inj index_str"
  by (rule injI) (simp add: section_index.expand)

lemma same_view_counts:
  assumes "same_view f batch ev"
  shows "rf_catalog_section_count f = u64_from_len (bm_len (cob_sections batch))"
    "rf_intersection_count f = u64_from_len (observed_intersection batch ev)"
    "rf_orphan_count f = u64_from_len (bm_len (ose_indexes ev) - observed_intersection batch ev)"
    "bm_is_empty (cr_canonical_indices (rf_response f)) = bm_is_empty (ose_indexes ev)"
    "bm_is_empty (rf_catalog_indices f) = bm_is_empty (cob_sections batch)"
    "rf_intersection_count f = 0 \<longleftrightarrow> observed_intersection batch ev = 0"
proof -
  let ?S = "cr_canonical_indices (rf_response f)" and ?C = "rf_catalog_indices f"
  note v = assms [unfolded same_view_def]
  have len: "bm_len m = card (set (bm_keys m))" for m :: "('k::linorder, 'v) bmap"
    using distinct_card [OF bm_keys_distinct [of m]] by simp
  have S: "bm_len ?S = bm_len (ose_indexes ev)" and C: "bm_len ?C = bm_len (cob_sections batch)"
    using v card_image [OF inj_on_subset [OF inj_index_str subset_UNIV]] by (simp_all add: len)
  have both: "card (set (bm_keys ?S) \<inter> set (bm_keys ?C)) = observed_intersection batch ev"
  proof -
    have "set (bm_keys ?S) \<inter> set (bm_keys ?C) = index_str ` (set (bm_keys (ose_indexes ev)) \<inter> set (bm_keys (cob_sections batch)))"
      using v by (simp add: image_Int inj_index_str)
    then show ?thesis
      using card_image [OF inj_on_subset [OF inj_index_str subset_UNIV]]
      by (simp add: observed_intersection_def length_filter_inter)
  qed
  have small: "observed_intersection batch ev \<le> bm_len (ose_indexes ev)"
    by (simp add: observed_intersection_def length_bm_keys [symmetric] del: length_bm_keys)
  have bounds: "bm_len (ose_indexes ev) < 2 ^ 64" "bm_len (cob_sections batch) < 2 ^ 64"
    using v by blast+
  show "rf_catalog_section_count f = u64_from_len (bm_len (cob_sections batch))"
    using bounds by (simp add: rf_catalog_section_count_def C u64_from_small)
  show inter: "rf_intersection_count f = u64_from_len (observed_intersection batch ev)"
    using bounds small by (simp add: rf_intersection_count_def count_contained both u64_from_small)
  show "rf_orphan_count f = u64_from_len (bm_len (ose_indexes ev) - observed_intersection batch ev)"
    using bounds small by (simp add: rf_orphan_count_def count_missing both S u64_from_small)
  show "bm_is_empty ?S = bm_is_empty (ose_indexes ev)" "bm_is_empty ?C = bm_is_empty (cob_sections batch)"
    using S C by (simp_all add: bm_is_empty_iff bm_len_0_iff [symmetric])
  show "rf_intersection_count f = 0 \<longleftrightarrow> observed_intersection batch ev = 0"
    using bounds small by (auto simp: inter u64_from_small word_of_nat_eq_0_iff dest: dvd_imp_le)
qed

lemma reconcile_fields:
  assumes "reconcile_open_set H (cob_content_version batch) batch ev hold = Inr plan"
  shows "plan_classification plan = (if bm_is_empty (ose_indexes ev)
      then (if bm_is_empty (cob_sections batch) then ValidEmptyNoRows else if hold then SuspectPartialSnapshot else ValidApplied)
      else if \<not> bm_is_empty (cob_sections batch) \<and> observed_intersection batch ev = 0 then UnsafeZeroIntersection
      else if hold then SuspectPartialSnapshot else ValidApplied)"
    and "plan_orphan_count plan = u64_from_len (if bm_is_empty (ose_indexes ev) then 0
      else bm_len (ose_indexes ev) - observed_intersection batch ev)"
    and "plan_current_version plan = cob_content_version batch" "plan_raw_value_count plan = ose_raw_value_count ev"
      "plan_duplicate_count plan = ose_duplicate_count ev"
      "plan_catalog_section_count plan = u64_from_len (bm_len (cob_sections batch))"
      "plan_observed_intersection_count plan = u64_from_len (observed_intersection batch ev)"
  using assms by (simp_all add: reconcile_open_set_def reconcile_base_def Let_def split: if_splits) (auto simp: Let_def)

lemma same_view_classification:
  assumes view: "same_view f batch ev" and plan: "reconcile_open_set H (cob_content_version batch) batch ev hold = Inr plan"
    and out: "reports c f (classify_open_response (cr_canonical_indices (rf_response f)) (rf_catalog_indices f)
       (rf_intersection_count f) hold) out" "sa_captured_catalog_content_version (rf_attempt f) = cob_content_version batch"
  shows "outcome_matches_reconcile out plan"
proof -
  note counts = same_view_counts [OF view] and fields = reconcile_fields [OF plan]
  have figures: "cr_source_value_count (rf_response f) = ose_raw_value_count ev" "cr_duplicate_count (rf_response f) = ose_duplicate_count ev"
    using view by (simp_all add: same_view_def)
  have "expected_classification (plan_classification plan) = co_classification out"
    using out(1) unfolding fields(1) reports_def classify_open_response_def counts(4-6) by simp
  moreover have "co_classification out \<noteq> AcStaleCatalogRace"
    unfolding calculation [symmetric] fields(1) by simp
  moreover have "plan_orphan_count plan = co_orphan_count out"
    using out(1) by (simp add: reports_def fields(2) counts(3) bm_is_empty_iff)
  ultimately show ?thesis
    using out fields(3-7) counts(1,2) figures by (simp add: outcome_matches_reconcile_def reports_def)
qed

lemma canonicalize_Inr:
  assumes "canonicalize_open_response L target sections raw = Inr r"
  shows "cr_canonical_indices r = bs_of_list (map (\<lambda>s. index_str (sk_index s)) sections)" "cr_source_value_count r = raw"
    "\<exists>n. u64_try_from (bm_len (cr_canonical_indices r)) = Some n \<and> checked_sub raw n = Some (cr_duplicate_count r)"
  using assms by (auto simp: canonicalize_open_response_def Let_def)

lemma commit_same_view:
  assumes f: "load_response_facts L db c = Inr f"
    and batch: "catalog_open_batch_try_new target version secs = Inr batch"
    and ev: "open_set_evidence_try_new H target ixs raw = Inr ev"
    and c: "sc_open_sections c = map (SectionKey (tc_term target) (tc_campus target)) ixs" "sc_source_value_count c = raw"
    and copy: "set (bm_keys (load_attempt_catalog_indices db (sc_attempt_id c))) = (\<lambda>k. index_str (sk_index k)) ` set secs"
    and small: "length secs < 2 ^ 64"
  shows "same_view f batch ev"
proof -
  have resp: "canonicalize_open_response L (sa_target (rf_attempt f)) (sc_open_sections c) (sc_source_value_count c) = Inr (rf_response f)"
    by (rule load_response_facts_started(4) [OF f])
  have keys: "set (bm_keys (cob_sections batch)) = sk_index ` set secs"
    using try_new_sections(1) [OF batch] by (auto simp: in_bm_keys)
  have evidence: "set (bm_keys (ose_indexes ev)) = set ixs" "ose_raw_value_count ev = raw"
    using evidence_indexes [OF ev] by (simp_all add: bs_set_def)
  note r = canonicalize_Inr [OF resp]
  have S: "set (bm_keys (cr_canonical_indices (rf_response f))) = index_str ` set ixs"
    using bs_set_of_list [of "map (\<lambda>s. index_str (sk_index s)) (sc_open_sections c)"] by (simp add: r(1) c bs_set_def image_image)
  have len: "bm_len m = card (set (bm_keys m))" for m :: "('k::linorder, 'v) bmap"
    using distinct_card [OF bm_keys_distinct [of m]] by simp
  have same: "bm_len (cr_canonical_indices (rf_response f)) = bm_len (ose_indexes ev)"
    using card_image [OF inj_on_subset [OF inj_index_str subset_UNIV], of "set ixs"] by (simp add: len S evidence(1))
  then have below: "bm_len (ose_indexes ev) < 2 ^ 64"
    using r(3) by (auto simp: u64_try_from_def split: if_splits)
  moreover have "checked_sub raw (of_nat (bm_len (ose_indexes ev))) = Some (ose_duplicate_count ev)"
    using ev below by (auto simp: open_set_evidence_try_new_def Let_def u64_from_small split: option.splits)
  then have "cr_duplicate_count (rf_response f) = ose_duplicate_count ev"
    using r(3) below by (auto simp: same u64_try_from_def c(2))
  ultimately show ?thesis
    using keys evidence S r(2) copy small try_new_length [OF batch]
    by (simp add: same_view_def load_response_facts_started(2) [OF f] image_image c(2))
qed

text \<open>C29. The store and the service judge a response alike.  When the store's copy of the catalog taken at the
  start of the attempt names the sections of the catalog the plan is computed from, and both see the same current
  version, every commit of the response has the classification and the counts of the reconcile plan, or both
  report a catalog race; so the cross-check of the service never fails on the operational store.\<close>

theorem storage_agrees_with_plan:
  assumes "finish_open_pull_success L db c = Inr (outcome, db')"
    and "load_started_open_attempt db (sc_attempt_id c) = Inr attempt"
    and "load_current_catalog_version db (open_target_id (sa_target attempt)) = Inr version"
    and "catalog_open_batch_try_new target version secs = Inr batch"
    and "open_set_evidence_try_new H target ixs raw = Inr ev"
    and "reconcile_open_set H (sa_captured_catalog_content_version attempt) batch ev (sc_gate_hold c) = Inr plan"
    and "sc_open_sections c = map (SectionKey (tc_term target) (tc_campus target)) ixs" "sc_source_value_count c = raw"
    and "set (bm_keys (load_attempt_catalog_indices db (sc_attempt_id c))) = (\<lambda>k. index_str (sk_index k)) ` set secs"
    and "length secs < 2 ^ 64"
  shows "outcome_matches_reconcile outcome plan"
proof -
  have fin: "finish_open_pull_success_transaction L db c False = Inr (outcome, db')"
    using assms(1) by (simp add: finish_open_pull_success_def)
  then obtain f where f: "load_response_facts L db c = Inr f"
    by (auto simp: finish_open_pull_success_transaction_def)
  have attempt: "rf_attempt f = attempt"
    using load_response_facts_started(1) [OF f] assms(2) by simp
  have version: "rf_current_catalog_content_version f = version" "cob_content_version batch = version"
    using load_response_facts_version [OF f] assms(3) attempt try_new_sections(3) [OF assms(4)]
    by (simp_all add: rf_target_id_def)
  have view: "same_view f batch ev"
    by (rule commit_same_view [OF f assms(4,5,7,8,9,10)])
  show ?thesis
  proof (cases "version = sa_captured_catalog_content_version attempt")
    case True
    then show ?thesis
      using finish_success_outcome [OF fin f] same_view_classification [OF view, of H "sc_gate_hold c" plan c outcome] assms(6) attempt version by simp
  next
    case False
    then show ?thesis
      using finish_success_outcome [OF fin f] attempt version by (simp add: outcome_matches_reconcile_def)
  qed
qed

definition sample_sections_list :: "section_key list" where
  "sample_sections_list = [sample_open_section, SectionKey (TermId ''12026'') (CampusCode ''NB'') (SectionIndex ''00002'')]"

lemma is_ok_Inr: "is_ok r \<Longrightarrow> \<exists>x. r = Inr x"
  by (cases r) (auto simp: is_ok_def)

lemma sample_attempt_started:
  "and_then (load_started_open_attempt sample_started_db (TraceId 1)) (\<lambda>a.
     and_then (load_current_catalog_version sample_started_db (open_target_id (sa_target a))) (\<lambda>v.
       Inr (v, sa_captured_catalog_content_version a))) = Inr (1, 1)"
  by code_simp

lemma sample_copy:
  "bm_keys (load_attempt_catalog_indices sample_started_db (TraceId 1)) = [''00001'', ''00002'']"
  by code_simp

lemma sample_batch: "is_ok (catalog_open_batch_try_new sample_open_target 1 sample_sections_list)"
  by code_simp

lemma sample_evidence: "is_ok (open_set_evidence_try_new (\<lambda>_. []) sample_open_target [SectionIndex ''00001''] 1)"
  by code_simp

theorem storage_agrees_with_plan_witness:
  "\<exists>outcome db' batch ev plan.
     finish_open_pull_success sample_open_lib sample_started_db sample_success = Inr (outcome, db')
     \<and> catalog_open_batch_try_new sample_open_target 1 sample_sections_list = Inr batch
     \<and> open_set_evidence_try_new (\<lambda>_. []) sample_open_target [SectionIndex ''00001''] 1 = Inr ev
     \<and> reconcile_open_set (\<lambda>_. []) 1 batch ev False = Inr plan \<and> outcome_matches_reconcile outcome plan"
proof -
  obtain outcome where fin: "finish_open_pull_success sample_open_lib sample_started_db sample_success = Inr (outcome, sample_applied_db)"
    using result_or_Inr [OF sample_applies] by (auto simp: finish_open_pull_success_def sample_applied_db_def)
  obtain attempt where attempt: "load_started_open_attempt sample_started_db (TraceId 1) = Inr attempt"
      "load_current_catalog_version sample_started_db (open_target_id (sa_target attempt)) = Inr 1"
      "sa_captured_catalog_content_version attempt = 1"
    using sample_attempt_started by auto
  obtain batch where batch: "catalog_open_batch_try_new sample_open_target 1 sample_sections_list = Inr batch"
    using is_ok_Inr [OF sample_batch] by blast
  obtain ev where ev: "open_set_evidence_try_new (\<lambda>_. []) sample_open_target [SectionIndex ''00001''] 1 = Inr ev"
    using is_ok_Inr [OF sample_evidence] by blast
  have "\<exists>plan. reconcile_open_set (\<lambda>_. []) 1 batch ev False = Inr plan"
    using try_new_sections(2) [OF batch] evidence_indexes [OF ev] by (auto simp: reconcile_open_set_def Let_def)
  then obtain plan where plan: "reconcile_open_set (\<lambda>_. []) 1 batch ev False = Inr plan"
    by blast
  have "outcome_matches_reconcile outcome plan"
    by (rule storage_agrees_with_plan [OF fin _ attempt(2) batch ev])
      (use attempt plan sample_copy in \<open>auto simp: sample_success_def sample_sections_list_def sample_open_section_def sample_open_target_def\<close>)
  then show ?thesis
    using fin batch ev plan by blast
qed

end
