(* ===== verification/Projection_Guarantees.thy ===== *)
theory Projection_Guarantees
  imports Service_Guarantees
begin

text \<open>
  The status projection (\<open>crates/bcsp-open/src/projection.rs\<close>) over the operational store: on every reachable
  state it never reports inconsistent or missing rows, and a projected status has one entry per catalog section
  with the stored state; a catalog race, however, leaves a failure code the projection does not know.
\<close>

subsection \<open>Results without internal errors\<close>

definition internal :: "open_projection_error \<Rightarrow> bool" where
  "internal e \<longleftrightarrow> e = PeInconsistentState \<or> (\<exists>what. e = PeMissingRelatedRow what)"

definition tidy :: "open_projection_error + 'a \<Rightarrow> bool" where
  "tidy r \<longleftrightarrow> (\<forall>e. r = Inl e \<longrightarrow> \<not> internal e)"

lemma tidy_and_then: "tidy r \<Longrightarrow> (\<And>x. r = Inr x \<Longrightarrow> tidy (f x)) \<Longrightarrow> tidy (and_then r f)"
  by (cases r) (auto simp: tidy_def)

lemma tidy_basic [simp]:
  "tidy (Inr x)" "tidy (Inl e) \<longleftrightarrow> \<not> internal e" "tidy (read_store q)" "tidy (ensure b e) \<longleftrightarrow> b \<or> \<not> internal e"
  "tidy (ok_or e v) \<longleftrightarrow> v \<noteq> None \<or> \<not> internal e" "tidy (map_err PeFreshness s)" "tidy (parse_timestamp L t fld)"
  "tidy (parse_optional_timestamp L u fld)" "tidy (sequence_of n)" "tidy (content_version_of n)"
  by (auto simp: tidy_def read_store_def map_err_def ensure_def ok_or_def internal_def parse_timestamp_def
      parse_optional_timestamp_def transpose_opt_def sequence_of_def content_version_of_def split: sum.splits option.splits if_splits)

lemma tidy_ensure_then: "b \<Longrightarrow> tidy (f ()) \<Longrightarrow> tidy (and_then (ensure b e) f)"
  by (simp add: ensure_def)

lemma tidy_transpose: "(\<And>x. v = Some x \<Longrightarrow> tidy (f x)) \<Longrightarrow> tidy (transpose_opt f v)"
  by (cases v) (auto simp: transpose_opt_def tidy_def split: sum.splits)

lemma tidy_map_err: "(\<And>e. \<not> internal (g e)) \<Longrightarrow> tidy (map_err g s)"
  by (auto simp: tidy_def map_err_def split: sum.splits)

lemma tidy_map_failure_code [simp]: "tidy (map_failure_code code status)"
  by (auto simp: map_failure_code_def internal_def split: option.splits)

lemma tidy_project_failure_class [simp]: "tidy (project_failure_class attempt)"
  by (auto simp: project_failure_class_def internal_def intro!: tidy_and_then)

lemma tidy_project_counters [simp]: "tidy (project_counters L store target runtime)"
  unfolding project_counters_def
  by (intro tidy_and_then tidy_map_err) (auto simp: internal_def intro!: tidy_and_then split: open_counter_audience.splits)

lemma tidy_project_latest_freshness_point [simp]: "tidy (project_latest_freshness_point L attempt)"
  by (auto simp: project_latest_freshness_point_def intro!: tidy_and_then split: option.splits)

subsection \<open>What the store returns\<close>

text \<open>A published target of a well-formed store, and its rows.\<close>

definition published :: "open_db \<Rightarrow> term_campus_key \<Rightarrow> bool" where
  "published db target \<longleftrightarrow> wf_db db \<and> target_valid target \<and> bm_get (db_catalog_targets db) (open_target_id target) \<noteq> None"

lemma published_row:
  assumes "published db target"
  obtains t where "bm_get (db_catalog_targets db) (open_target_id target) = Some t"
    "term_campus_key_try_new (ct_term_id t) (ct_campus_code t) = Inr target"
proof -
  obtain t where t: "bm_get (db_catalog_targets db) (open_target_id target) = Some t"
    using assms by (auto simp: published_def)
  then obtain target' where target': "term_campus_key_try_new (ct_term_id t) (ct_campus_code t) = Inr target'"
      "open_target_id target' = open_target_id target"
    using assms by (auto simp: published_def wf_db_def wf_catalog_def)
  then have "target' = target"
    using assms by (intro open_target_id_inject) (auto simp: published_def term_campus_key_try_new_iff)
  with that t target'(1) show thesis
    by simp
qed

lemma stored_attempt:
  assumes "published db target" "bm_get (db_attempts db) i = Some r" "at_target_id r = open_target_id target"
    "open_attempt db i = Inr a"
  obtains rec where "a = Some rec" "ar_target rec = target" "ar_attempt_id rec = i"
    "stored_u64 (at_attempt_sequence r) = Inr (ar_attempt_sequence rec)" "ar_completed_at rec = at_completed_at r"
    "ar_classification rec = at_classification r"
proof -
  obtain t where t: "bm_get (db_catalog_targets db) (open_target_id target) = Some t"
      "term_campus_key_try_new (ct_term_id t) (ct_campus_code t) = Inr target"
    by (rule published_row [OF assms(1)])
  obtain rec where rec: "attempt_of_row i r t = Inr rec" "a = Some rec"
    using assms(2-4) t(1) by (auto simp: open_attempt_def transpose_opt_def split: sum.splits)
  show thesis
    by (rule that [OF rec(2)]) (use rec(1) t(2) in \<open>auto simp: attempt_of_row_def\<close>)
qed

lemma stored_batch:
  assumes "published db target" "read_open_batch_state db target = Inr (Some b)"
  obtains s where "bm_get (db_batch_state db) (open_target_id target) = Some s" "os_target b = target"
    "stored_u64 (ob_last_attempt_sequence s) = Inr (os_last_attempt_sequence b)" "os_last_attempt_id b = ob_last_attempt_id s"
    "os_lkg_attempt_id b = ob_lkg_attempt_id s" "transpose_opt stored_u64 (ob_lkg_observation_sequence s) = Inr (os_lkg_observation_sequence b)"
    "stored_u64 (ob_current_catalog_content_version s) = Inr (os_current_catalog_content_version b)"
    "os_lkg_observed_at b = ob_lkg_observed_at s" "os_lkg_canonical_set_sha256 b = ob_lkg_canonical_set_sha256 s"
    "os_lkg_state_sha256 b = ob_lkg_state_sha256 s" "os_last_failure_error_code b = ob_last_failure_error_code s"
    "failure_snapshot_is_valid (os_last_failure_attempt_sequence b) (os_last_failure_at b) (os_last_failure_error_code b)
       (os_last_failure_http_status b)"
proof -
  obtain t where t: "bm_get (db_catalog_targets db) (open_target_id target) = Some t"
      "term_campus_key_try_new (ct_term_id t) (ct_campus_code t) = Inr target"
    by (rule published_row [OF assms(1)])
  obtain s where s: "bm_get (db_batch_state db) (open_target_id target) = Some s" "batch_state_of_row s t = Inr b"
    using assms(2) t(1) by (auto simp: read_open_batch_state_def transpose_opt_def split: option.splits sum.splits)
  show thesis
    by (rule that [OF s(1)]) (use s(2) t(2) in \<open>auto simp: batch_state_of_row_def\<close>)
qed

lemma stored_batch_latest:
  assumes "published db target" "read_open_batch_state db target = Inr (Some b)"
  shows "\<exists>s. bm_get (db_batch_state db) (open_target_id target) = Some s
    \<and> stored_u64 (ob_last_attempt_sequence s) = Inr (os_last_attempt_sequence b) \<and> os_last_attempt_id b = ob_last_attempt_id s"
  by (rule stored_batch [OF assms]) (intro exI conjI)

lemma stored_batch_failure:
  assumes "published db target" "read_open_batch_state db target = Inr (Some b)"
  shows "failure_snapshot_is_valid (os_last_failure_attempt_sequence b) (os_last_failure_at b) (os_last_failure_error_code b)
    (os_last_failure_http_status b)" "os_target b = target"
  by (rule stored_batch [OF assms], assumption)+

lemma stored_batch_lkg:
  assumes "published db target" "read_open_batch_state db target = Inr (Some b)"
  shows "\<exists>s. lkg_ok db (open_target_id target) s \<and> os_lkg_attempt_id b = ob_lkg_attempt_id s
    \<and> transpose_opt stored_u64 (ob_lkg_observation_sequence s) = Inr (os_lkg_observation_sequence b)
    \<and> stored_u64 (ob_current_catalog_content_version s) = Inr (os_current_catalog_content_version b)
    \<and> os_lkg_observed_at b = ob_lkg_observed_at s \<and> os_lkg_canonical_set_sha256 b = ob_lkg_canonical_set_sha256 s
    \<and> os_lkg_state_sha256 b = ob_lkg_state_sha256 s"
proof (rule stored_batch [OF assms])
  have "wf_lkg db"
    using assms(1) by (simp add: published_def wf_db_def)
  then show ?thesis if "bm_get (db_batch_state db) (open_target_id target) = Some s" "os_lkg_attempt_id b = ob_lkg_attempt_id s"
      "transpose_opt stored_u64 (ob_lkg_observation_sequence s) = Inr (os_lkg_observation_sequence b)"
      "stored_u64 (ob_current_catalog_content_version s) = Inr (os_current_catalog_content_version b)"
      "os_lkg_observed_at b = ob_lkg_observed_at s" "os_lkg_canonical_set_sha256 b = ob_lkg_canonical_set_sha256 s"
      "os_lkg_state_sha256 b = ob_lkg_state_sha256 s" for s
    using that wf_lkgD(1) by (intro exI [of _ s] conjI)
qed

lemma stored_observation:
  assumes "published db target" "bm_get (db_observations db) i = Some ob" "bo_target_id ob = open_target_id target"
    "read_open_batch_observation db i = Inr obs"
  obtains rec where "obs = Some rec" "oob_target rec = target" "oob_attempt_id rec = i"
    "oob_classification rec = bo_classification ob" "stored_u64 (bo_observation_sequence ob) = Inr (oob_observation_sequence rec)"
    "stored_u64 (bo_catalog_content_version ob) = Inr (oob_catalog_content_version rec)" "oob_observed_at rec = bo_observed_at ob"
proof -
  obtain t where t: "bm_get (db_catalog_targets db) (open_target_id target) = Some t"
      "term_campus_key_try_new (ct_term_id t) (ct_campus_code t) = Inr target"
    by (rule published_row [OF assms(1)])
  obtain rec where rec: "observation_of_row i ob t = Inr rec" "obs = Some rec"
    using assms(2-4) t(1) by (auto simp: read_open_batch_observation_def transpose_opt_def split: sum.splits)
  show thesis
    by (rule that [OF rec(2)]) (use rec(1) t(2) in \<open>auto simp: observation_of_row_def\<close>)
qed

lemma published_wf:
  assumes "published db target"
  shows "wf_attempts db" "wf_lkg db"
  using assms by (simp_all add: published_def wf_db_def)

subsection \<open>Attempts, failures and the last known good\<close>

lemma load_attempt_tidy:
  assumes "published db target" "bm_get (db_attempts db) i = Some r" "at_target_id r = open_target_id target"
  shows "tidy (load_attempt (operational_store L db) target i)"
    and "load_attempt (operational_store L db) target i = Inr rec \<Longrightarrow>
      stored_u64 (at_attempt_sequence r) = Inr (ar_attempt_sequence rec) \<and> ar_completed_at rec = at_completed_at r
      \<and> ar_classification rec = at_classification r"
proof -
  have read: "read_store (rd_open_attempt (operational_store L db) i) = Inr a \<longleftrightarrow> open_attempt db i = Inr a" for a
    by (simp add: operational_store_def read_store_def)
  have row: "\<exists>rec. a = Some rec \<and> ar_target rec = target \<and> ar_attempt_id rec = i
      \<and> stored_u64 (at_attempt_sequence r) = Inr (ar_attempt_sequence rec) \<and> ar_completed_at rec = at_completed_at r
      \<and> ar_classification rec = at_classification r" if "open_attempt db i = Inr a" for a
    by (rule stored_attempt [OF assms that]) blast
  show "tidy (load_attempt (operational_store L db) target i)"
    unfolding load_attempt_def read by (intro tidy_and_then) (auto simp: read dest: row)
  show "stored_u64 (at_attempt_sequence r) = Inr (ar_attempt_sequence rec) \<and> ar_completed_at rec = at_completed_at r
      \<and> ar_classification rec = at_classification r" if "load_attempt (operational_store L db) target i = Inr rec"
  proof -
    have "open_attempt db i = Inr (Some rec)"
      using that by (auto simp: load_attempt_def read)
    from row [OF this] show ?thesis
      by auto
  qed
qed

lemma latest_tidy:
  assumes db: "published db target" and batch: "read_open_batch_state db target = Inr batch"
  shows "tidy (project_latest_attempt (operational_store L db) target batch)"
    and "project_latest_attempt (operational_store L db) target batch = Inr (Some rec) \<Longrightarrow>
      ar_classification rec = AcStarted \<longleftrightarrow> ar_completed_at rec = None"
proof -
  have row: "\<exists>r. bm_get (db_attempts db) i = Some r \<and> at_target_id r = open_target_id target
      \<and> stored_u64 (at_attempt_sequence r) = Inr (os_last_attempt_sequence b)
      \<and> (at_classification r = AcStarted \<longleftrightarrow> at_completed_at r = None)"
    if b: "batch = Some b" "os_last_attempt_id b = Some i" for b i
  proof -
    obtain s where s: "bm_get (db_batch_state db) (open_target_id target) = Some s"
        "stored_u64 (ob_last_attempt_sequence s) = Inr (os_last_attempt_sequence b)" "ob_last_attempt_id s = Some i"
      using stored_batch_latest [OF db, of b] batch b by (auto elim!: exE)
    have "\<exists>r. bm_get (db_attempts db) i = Some r \<and> at_target_id r = open_target_id target
        \<and> at_attempt_sequence r = ob_last_attempt_sequence s"
      using published_wf(1) [OF db] s(1,3) unfolding wf_attempts_def by blast
    then obtain r where r: "bm_get (db_attempts db) i = Some r" "at_target_id r = open_target_id target"
        "at_attempt_sequence r = ob_last_attempt_sequence s"
      by blast
    have "wf_attempt db i r"
      using published_wf(1) [OF db] r(1) by (simp add: wf_attempts_def)
    then show ?thesis
      using r s(2) by (auto simp: wf_attempt_def started_row_def)
  qed
  have load: "tidy (load_attempt (operational_store L db) target i)
      \<and> (\<forall>rec. load_attempt (operational_store L db) target i = Inr rec \<longrightarrow> ar_attempt_sequence rec = os_last_attempt_sequence b
           \<and> (ar_classification rec = AcStarted \<longleftrightarrow> ar_completed_at rec = None))"
    if b: "batch = Some b" "os_last_attempt_id b = Some i" for b i
  proof -
    obtain r where r: "bm_get (db_attempts db) i = Some r" "at_target_id r = open_target_id target"
        "stored_u64 (at_attempt_sequence r) = Inr (os_last_attempt_sequence b)"
        "at_classification r = AcStarted \<longleftrightarrow> at_completed_at r = None"
      using row [OF b] by (elim exE conjE)
    show ?thesis
      using load_attempt_tidy [OF db r(1,2), of L] r(3,4) by auto
  qed
  show "tidy (project_latest_attempt (operational_store L db) target batch)"
    unfolding project_latest_attempt_def
  proof (intro tidy_and_then tidy_transpose)
    show "tidy (load_attempt (operational_store L db) target i)" if "Option.bind batch os_last_attempt_id = Some i" for i
      using that load by (auto simp: bind_eq_Some_conv)
    show "tidy (ensure (case (batch, latest) of (Some b, Some l) \<Rightarrow> os_last_attempt_sequence b = ar_attempt_sequence l | _ \<Rightarrow> True)
        PeInconsistentState)"
      if "transpose_opt (load_attempt (operational_store L db) target) (Option.bind batch os_last_attempt_id) = Inr latest" for latest
      using that load by (cases batch; cases latest) (auto simp: transpose_opt_Inr option_rel_Some2)
  qed simp
  show "ar_classification rec = AcStarted \<longleftrightarrow> ar_completed_at rec = None"
    if "project_latest_attempt (operational_store L db) target batch = Inr (Some rec)"
    using that load by (auto simp: project_latest_attempt_def transpose_opt_Inr option_rel_Some2 bind_eq_Some_conv)
qed

lemma attempt_point_tidy:
  assumes "ar_classification rec = AcStarted \<longleftrightarrow> ar_completed_at rec = None"
  shows "tidy (project_attempt_point L rec)"
  unfolding project_attempt_point_def
  by (intro tidy_and_then)
    (use assms in \<open>auto simp: parse_optional_timestamp_def transpose_opt_Inr intro: tidy_transpose\<close>)

lemma latest_failure_tidy:
  assumes "published db target" "read_open_batch_state db target = Inr batch"
  shows "tidy (project_latest_failure L batch)"
proof (cases batch)
  case (Some b)
  then have "failure_snapshot_is_valid (os_last_failure_attempt_sequence b) (os_last_failure_at b) (os_last_failure_error_code b)
       (os_last_failure_http_status b)"
    using stored_batch_failure(1) [OF assms(1)] assms(2) by blast
  then show ?thesis
    by (auto simp: project_latest_failure_def Some failure_snapshot_is_valid_def intro!: tidy_and_then split: option.splits)
qed (simp add: project_latest_failure_def)

text \<open>The current rows of a target follow its last known good observation.\<close>

definition rows_follow :: "open_lib \<Rightarrow> (string, open_section_current_row) bmap \<Rightarrow> lkg_projection option \<Rightarrow> bool" where
  "rows_follow L rows lkg \<longleftrightarrow> (\<forall>k row. bm_get rows k = Some row \<longrightarrow>
     (\<exists>lk. lkg = Some lk \<and> oc_attempt_id row = lk_attempt_id lk
        \<and> stored_u64 (oc_observation_sequence row) = Inr (seq_get (op_observation_sequence (lk_point lk)))
        \<and> stored_u64 (oc_catalog_content_version row) = Inr (op_catalog_content_version (lk_point lk))
        \<and> ol_parse_rfc3339 L (oc_observed_at row) = Some (op_observed_at (lk_point lk))))"

lemma lkg_row:
  assumes "published db target" "read_open_batch_state db target = Inr (Some b)" "os_lkg_attempt_id b = Some i"
  shows "\<exists>r ob. bm_get (db_attempts db) i = Some r \<and> at_target_id r = open_target_id target \<and> is_success (at_classification r)
    \<and> at_completed_at r \<noteq> None \<and> bm_get (db_observations db) i = Some ob \<and> bo_target_id ob = open_target_id target
    \<and> is_success (bo_classification ob)
    \<and> (\<exists>n. os_lkg_observation_sequence b = Some n \<and> stored_u64 (bo_observation_sequence ob) = Inr n)
    \<and> stored_u64 (bo_catalog_content_version ob) = Inr (os_current_catalog_content_version b)
    \<and> (\<forall>k row. bm_get (section_current_rows db (open_target_id target)) k = Some row \<longrightarrow> oc_attempt_id row = i
         \<and> oc_observation_sequence row = bo_observation_sequence ob
         \<and> oc_catalog_content_version row = bo_catalog_content_version ob \<and> oc_observed_at row = bo_observed_at ob)"
proof -
  obtain s where s: "lkg_ok db (open_target_id target) s" "os_lkg_attempt_id b = ob_lkg_attempt_id s"
      "transpose_opt stored_u64 (ob_lkg_observation_sequence s) = Inr (os_lkg_observation_sequence b)"
      "stored_u64 (ob_current_catalog_content_version s) = Inr (os_current_catalog_content_version b)"
    using stored_batch_lkg [OF assms(1,2)] by (elim exE conjE)
  obtain r ob where r: "bm_get (db_attempts db) i = Some r" "at_target_id r = open_target_id target"
      "is_success (at_classification r)"
    and ob: "bm_get (db_observations db) i = Some ob" "bo_target_id ob = open_target_id target" "is_success (bo_classification ob)"
      "ob_lkg_observation_sequence s = Some (bo_observation_sequence ob)"
      "ob_current_catalog_content_version s = bo_catalog_content_version ob"
    and rows: "\<forall>k row. bm_get (section_current_rows db (open_target_id target)) k = Some row \<longrightarrow> oc_attempt_id row = i
         \<and> oc_observation_sequence row = bo_observation_sequence ob
         \<and> oc_catalog_content_version row = bo_catalog_content_version ob \<and> oc_observed_at row = bo_observed_at ob"
  proof -
    have "ob_lkg_attempt_id s = Some i"
      using s(2) assms(3) by simp
    with s(1) show thesis
      unfolding lkg_ok_def by (simp only: option.case) (elim exE conjE, rule that)
  qed
  have "wf_attempt db i r"
    using published_wf(1) [OF assms(1)] r(1) by (simp add: wf_attempts_def)
  then have "at_completed_at r \<noteq> None"
    using r(3) by (auto simp: wf_attempt_def started_row_def is_success_def)
  moreover have "\<exists>n. os_lkg_observation_sequence b = Some n \<and> stored_u64 (bo_observation_sequence ob) = Inr n"
    using s(3) ob(4) by (auto simp: transpose_opt_Inr option_rel_Some1)
  ultimately show ?thesis
    using r ob rows s(4) by (intro exI [of _ r] exI [of _ ob]) simp
qed

lemma lkg_tidy:
  assumes "published db target" "read_open_batch_state db target = Inr (Some b)" "os_lkg_attempt_id b = Some i"
  shows "tidy (project_lkg L (operational_store L db) target (Some b) i)"
    and "project_lkg L (operational_store L db) target (Some b) i = Inr lk \<Longrightarrow>
      rows_follow L (section_current_rows db (open_target_id target)) (Some lk)"
proof -
  obtain r ob n where r: "bm_get (db_attempts db) i = Some r" "at_target_id r = open_target_id target"
      "is_success (at_classification r)" "at_completed_at r \<noteq> None"
    and ob: "bm_get (db_observations db) i = Some ob" "bo_target_id ob = open_target_id target" "is_success (bo_classification ob)"
    and b: "os_lkg_observation_sequence b = Some n" "stored_u64 (bo_observation_sequence ob) = Inr n"
      "stored_u64 (bo_catalog_content_version ob) = Inr (os_current_catalog_content_version b)"
    and rows: "\<forall>k row. bm_get (section_current_rows db (open_target_id target)) k = Some row \<longrightarrow> oc_attempt_id row = i
         \<and> oc_observation_sequence row = bo_observation_sequence ob
         \<and> oc_catalog_content_version row = bo_catalog_content_version ob \<and> oc_observed_at row = bo_observed_at ob"
    using lkg_row [OF assms] by (elim exE conjE)
  have attempt: "is_success (ar_classification rec) \<and> ar_completed_at rec \<noteq> None"
    if "load_attempt (operational_store L db) target i = Inr rec" for rec
    using load_attempt_tidy(2) [OF assms(1) r(1,2) that] r(3,4) by simp
  have read: "read_store (rd_open_batch_observation (operational_store L db) i) = Inr v \<longleftrightarrow> read_open_batch_observation db i = Inr v" for v
    by (simp add: operational_store_def read_store_def)
  have obs: "\<exists>rec. v = Some rec \<and> oob_target rec = target \<and> oob_attempt_id rec = i \<and> is_success (oob_classification rec)
      \<and> oob_observation_sequence rec = n \<and> oob_catalog_content_version rec = os_current_catalog_content_version b
      \<and> oob_observed_at rec = bo_observed_at ob"
    if "read_open_batch_observation db i = Inr v" for v
    by (rule stored_observation [OF assms(1) ob(1,2) that]) (use b ob(3) in simp)
  show "tidy (project_lkg L (operational_store L db) target (Some b) i)"
    unfolding project_lkg_def
    by (intro tidy_ensure_then tidy_and_then load_attempt_tidy(1) [OF assms(1) r(1,2)])
      (auto simp: read b(1) internal_def dest: attempt obs)
  show "rows_follow L (section_current_rows db (open_target_id target)) (Some lk)"
    if lk: "project_lkg L (operational_store L db) target (Some b) i = Inr lk"
  proof -
    obtain rec where rec: "read_open_batch_observation db i = Inr (Some rec)" "lk_attempt_id lk = i"
        "seq_get (op_observation_sequence (lk_point lk)) = oob_observation_sequence rec"
        "op_catalog_content_version (lk_point lk) = oob_catalog_content_version rec"
        "ol_parse_rfc3339 L (oob_observed_at rec) = Some (op_observed_at (lk_point lk))"
      using lk unfolding project_lkg_def
      by (auto simp: read sequence_of_def content_version_of_def parse_timestamp_def ok_or_def open_sequence_try_from_def
          split: if_splits option.splits)
    show ?thesis
      using rows rec b obs [OF rec(1)] by (auto simp: rows_follow_def)
  qed
qed

lemma absent_lkg_tidy:
  assumes "published db target" "read_open_batch_state db target = Inr batch"
    "transpose_opt f (Option.bind batch os_lkg_attempt_id) = Inr lkg"
  shows "tidy (validate_absent_lkg_state batch lkg)"
proof (cases batch)
  case (Some b)
  obtain s where s: "lkg_ok db (open_target_id target) s" "os_lkg_attempt_id b = ob_lkg_attempt_id s"
      "transpose_opt stored_u64 (ob_lkg_observation_sequence s) = Inr (os_lkg_observation_sequence b)"
      "os_lkg_observed_at b = ob_lkg_observed_at s" "os_lkg_canonical_set_sha256 b = ob_lkg_canonical_set_sha256 s"
      "os_lkg_state_sha256 b = ob_lkg_state_sha256 s"
    using stored_batch_lkg [OF assms(1) assms(2) [unfolded Some]] by (elim exE conjE)
  then show ?thesis
    using assms(3) by (cases lkg) (auto simp: Some validate_absent_lkg_state_def transpose_opt_Inr lkg_ok_def)
qed (simp add: validate_absent_lkg_state_def)

lemma lkg_rows:
  assumes "published db target" "read_open_batch_state db target = Inr batch"
    "transpose_opt (project_lkg L (operational_store L db) target batch) (Option.bind batch os_lkg_attempt_id) = Inr lkg"
  shows "rows_follow L (section_current_rows db (open_target_id target)) lkg"
proof (cases "Option.bind batch os_lkg_attempt_id")
  case (Some i)
  then obtain b where b: "batch = Some b" "os_lkg_attempt_id b = Some i"
    by (auto simp: bind_eq_Some_conv)
  then obtain lk where "lkg = Some lk" "project_lkg L (operational_store L db) target (Some b) i = Inr lk"
    using assms(3) by (auto simp: transpose_opt_Inr option_rel_Some1)
  then show ?thesis
    using lkg_tidy(2) [OF assms(1) _ b(2)] assms(2) b(1) by simp
next
  case None
  have "section_current_rows db (open_target_id target) = bm_empty"
  proof (cases batch)
    case (Some b)
    then show ?thesis
      using stored_batch_lkg [OF assms(1), of b] assms(2) None by (auto simp: lkg_ok_def)
  next
    case none: None
    have "bm_get (db_batch_state db) (open_target_id target) = None"
    proof (rule ccontr)
      assume "bm_get (db_batch_state db) (open_target_id target) \<noteq> None"
      then show False
        using assms(1,2) none by (auto simp: read_open_batch_state_def published_def transpose_opt_def split: sum.splits)
    qed
    then show ?thesis
      by (rule wf_lkgD(2) [OF published_wf(2) [OF assms(1)]])
  qed
  then show ?thesis
    by (simp add: rows_follow_def)
qed

subsection \<open>Sections\<close>

lemma section_key_of_Inr:
  "section_key_of target i = Inr k \<Longrightarrow> k = SectionKey (tc_term target) (tc_campus target) (SectionIndex i)"
  by (cases target) (auto simp: section_key_of_def section_key_try_new_iff)

definition of_row :: "term_campus_key \<Rightarrow> string \<Rightarrow> open_section_current_row \<Rightarrow> open_section_current \<Rightarrow> bool" where
  "of_row target i row v \<longleftrightarrow> osc_section v = SectionKey (tc_term target) (tc_campus target) (SectionIndex i)
     \<and> osc_state v = oc_state row \<and> osc_attempt_id v = oc_attempt_id row \<and> osc_observed_at v = oc_observed_at row
     \<and> stored_u64 (oc_catalog_content_version row) = Inr (osc_catalog_content_version v)
     \<and> stored_u64 (oc_observation_sequence row) = Inr (osc_observation_sequence v)"

lemma read_current:
  assumes "read_open_section_current db target = Inr rows"
  shows "list_all2 (\<lambda>(i, row) v. of_row target i row v) (bm_entries (section_current_rows db (open_target_id target))) rows"
  using assms unfolding read_open_section_current_def try_map_Inr
  by (rule list_all2_mono) (auto simp: of_row_def, erule section_key_of_Inr)

lemma collect_current_fold:
  assumes "distinct (map osc_section rows)" "\<And>v. v \<in> set rows \<Longrightarrow> section_key_target (osc_section v) = target"
    "\<And>v. v \<in> set rows \<Longrightarrow> \<not> bm_contains m (osc_section v)"
  shows "\<exists>current. try_fold (collect_current target) rows m = Inr current
    \<and> (\<forall>k. bm_get current k = (case find (\<lambda>v. osc_section v = k) rows of Some v \<Rightarrow> Some v | None \<Rightarrow> bm_get m k))"
  using assms
proof (induction rows arbitrary: m)
  case (Cons v rows)
  let ?m = "bm_insert (osc_section v) v m"
  have "\<exists>current. try_fold (collect_current target) rows ?m = Inr current
    \<and> (\<forall>k. bm_get current k = (case find (\<lambda>v. osc_section v = k) rows of Some v \<Rightarrow> Some v | None \<Rightarrow> bm_get ?m k))"
    by (rule Cons.IH) (use Cons.prems in \<open>auto simp: bm_contains_def image_iff\<close>)
  moreover have "find (\<lambda>w. osc_section w = osc_section v) rows = None"
    using Cons.prems(1) by (simp add: find_None_iff) (metis imageI)
  moreover have "collect_current target v m = Inr ?m"
    using Cons.prems(2,3) by (simp add: collect_current_def ensure_def)
  ultimately show ?case
    by (auto split: option.split)
qed simp

definition stored_state :: "open_db \<Rightarrow> term_campus_key \<Rightarrow> section_key \<Rightarrow> open_state" where
  "stored_state db target k =
     (case bm_get (section_current_rows db (open_target_id target)) (index_str (sk_index k)) of
        None \<Rightarrow> StateUnknown
      | Some row \<Rightarrow> (case oc_state row of SectionOpen \<Rightarrow> StateOpen | SectionClosed \<Rightarrow> StateClosed))"

lemma find_current:
  assumes "list_all2 (\<lambda>(i, row) v. of_row target i row v) es rows" and k: "section_key_target k = target"
  shows "rel_option (of_row target (index_str (sk_index k))) (map_of es (index_str (sk_index k))) (find (\<lambda>v. osc_section v = k) rows)"
  using assms(1)
proof (induction rule: list_all2_induct)
  case (Cons e es v rows)
  have "osc_section v = k \<longleftrightarrow> fst e = index_str (sk_index k)"
    using Cons.hyps(1) k
    by (cases k; cases "sk_index k") (auto simp: of_row_def section_key_target_def split: prod.splits)
  with Cons show ?case
    by (auto split: prod.splits)
qed simp

lemma collected:
  assumes "read_open_section_current db target = Inr rows"
  shows "\<exists>current. try_fold (collect_current target) rows bm_empty = Inr current
    \<and> (\<forall>k. section_key_target k = target \<longrightarrow> rel_option (of_row target (index_str (sk_index k)))
         (bm_get (section_current_rows db (open_target_id target)) (index_str (sk_index k))) (bm_get current k))"
proof -
  let ?es = "bm_entries (section_current_rows db (open_target_id target))"
  note rows = read_current [OF assms]
  have "map osc_section rows = map (\<lambda>(i, _). SectionKey (tc_term target) (tc_campus target) (SectionIndex i)) ?es"
    using rows by (induction rule: list_all2_induct) (auto simp: of_row_def)
  also have "\<dots> = map (\<lambda>i. SectionKey (tc_term target) (tc_campus target) (SectionIndex i)) (map fst ?es)"
    by (simp add: case_prod_unfold)
  finally have keys: "map osc_section rows = \<dots>" .
  have "distinct (map osc_section rows)"
    unfolding keys by (subst distinct_map) (auto intro: inj_onI simp: bm.keys_distinct)
  have targets: "section_key_target (osc_section v) = target" if "v \<in> set rows" for v
  proof -
    have "osc_section v \<in> set (map osc_section rows)"
      using that by simp
    then show ?thesis
      unfolding keys by (auto simp: section_key_target_def)
  qed
  obtain current where current: "try_fold (collect_current target) rows bm_empty = Inr current"
      "bm_get current k = find (\<lambda>v. osc_section v = k) rows" for k
  proof -
    have "(case v of None \<Rightarrow> bm_get (bm_empty :: (section_key, open_section_current) bmap) k | Some w \<Rightarrow> Some w) = v" for v k
      by (cases v) simp_all
    then show ?thesis
      using collect_current_fold [OF \<open>distinct _\<close> targets, of bm_empty] that by (auto simp: bm_contains_def)
  qed
  show ?thesis
    using current(1) find_current [OF rows] by (intro exI [of _ current]) (simp add: current(2) bm_get_def [of "section_current_rows db _"])
qed


lemma known_section_tidy:
  assumes "rows_follow L rows (sx_lkg x)" "bm_get rows i = Some row" "of_row target i row v"
  shows "tidy (known_section L x key v)"
    and "known_section L x key v = Inr s \<Longrightarrow> st_section_key s = key
      \<and> st_state s = (case oc_state row of SectionOpen \<Rightarrow> StateOpen | SectionClosed \<Rightarrow> StateClosed)"
proof -
  obtain lk where "sx_lkg x = Some lk" "osc_attempt_id v = lk_attempt_id lk"
      "osc_observation_sequence v = seq_get (op_observation_sequence (lk_point lk))"
      "osc_catalog_content_version v = op_catalog_content_version (lk_point lk)"
      "parse_timestamp L (osc_observed_at v) ''section_observed_at'' = Inr (op_observed_at (lk_point lk))"
    using assms unfolding rows_follow_def of_row_def parse_timestamp_def by fastforce
  then show "tidy (known_section L x key v)"
    by (auto simp: known_section_def ok_or_def ensure_def intro!: tidy_and_then)
  show "st_section_key s = key \<and> st_state s = (case oc_state row of SectionOpen \<Rightarrow> StateOpen | SectionClosed \<Rightarrow> StateClosed)"
    if "known_section L x key v = Inr s"
    using that assms(3) by (auto simp: known_section_def of_row_def)
qed

lemma project_sections_fold:
  assumes "rows_follow L (section_current_rows db (open_target_id target)) (sx_lkg x)"
    and "distinct keys" "\<And>k. k \<in> set keys \<Longrightarrow> section_key_target k = target \<and> \<not> bm_contains seen k
      \<and> rel_option (of_row target (index_str (sk_index k)))
          (bm_get (section_current_rows db (open_target_id target)) (index_str (sk_index k))) (bm_get current k)"
  shows "tidy (try_fold (project_section L x target) keys (current, seen, statuses))
    \<and> (\<forall>c z out. try_fold (project_section L x target) keys (current, seen, statuses) = Inr (c, z, out) \<longrightarrow>
         map (\<lambda>s. (st_section_key s, st_state s)) out
           = map (\<lambda>s. (st_section_key s, st_state s)) statuses @ map (\<lambda>k. (k, stored_state db target k)) keys)"
  using assms(2,3)
proof (induction keys arbitrary: current seen statuses)
  case (Cons k keys)
  let ?status = "case bm_get current k of Some v \<Rightarrow> known_section L x k v | None \<Rightarrow> Inr (unknown_section x k)"
  have k: "section_key_target k = target" "\<not> bm_contains seen k"
    "rel_option (of_row target (index_str (sk_index k)))
       (bm_get (section_current_rows db (open_target_id target)) (index_str (sk_index k))) (bm_get current k)"
    using Cons.prems(2) by simp_all
  have status: "tidy ?status \<and> (\<forall>s. ?status = Inr s \<longrightarrow> st_section_key s = k \<and> st_state s = stored_state db target k)"
  proof (cases "bm_get current k")
    case None
    then show ?thesis
      using k(3) by (auto simp: unknown_section_def stored_state_def option_rel_Some2 split: option.splits)
  next
    case (Some v)
    then obtain row where row: "bm_get (section_current_rows db (open_target_id target)) (index_str (sk_index k)) = Some row"
        "of_row target (index_str (sk_index k)) row v"
      using k(3) by (auto simp: option_rel_Some2)
    show ?thesis
      using known_section_tidy [OF assms(1) row, of k] row(1) by (auto simp: Some stored_state_def)
  qed
  show ?case
  proof (cases ?status)
    case (Inl e)
    then show ?thesis
      using k status by (simp add: project_section_def ensure_def)
  next
    case (Inr s)
    have step: "project_section L x target k (current, seen, statuses) = Inr (bm_remove k current, bs_insert k seen, statuses @ [s])"
      using k Inr by (simp add: project_section_def ensure_def)
    have "section_key_target j = target \<and> \<not> bm_contains (bs_insert k seen) j
        \<and> rel_option (of_row target (index_str (sk_index j)))
          (bm_get (section_current_rows db (open_target_id target)) (index_str (sk_index j))) (bm_get (bm_remove k current) j)"
      if "j \<in> set keys" for j
    proof -
      have "j \<noteq> k"
        using that Cons.prems(1) by auto
      then show ?thesis
        using Cons.prems(2) [of j] that by (simp add: bm_contains_def bs_insert_def)
    qed
    from Cons.IH [OF _ this, of "statuses @ [s]"] show ?thesis
      using Cons.prems(1) status Inr by (simp add: step)
  qed
qed simp

lemma serving_keys:
  assumes "serving_open_catalog_snapshot db target = Inr (Some catalog)"
  shows "cat_target catalog = target" "distinct (cat_sections catalog)"
    and "k \<in> set (cat_sections catalog) \<Longrightarrow> section_key_target k = target"
proof -
  obtain version where cat: "cat_target catalog = target"
      "list_all2 (\<lambda>i k. section_key_of target i = Inr k) (serving_indices db (open_target_id target) version) (cat_sections catalog)"
    using assms(1) unfolding serving_open_catalog_snapshot_def Let_def and_then_Inr
    by (elim exE conjE) (auto simp: try_map_Inr split: option.split_asm prod.split_asm if_split_asm)
  show "cat_target catalog = target"
    by (rule cat(1))
  have keys: "cat_sections catalog = map (\<lambda>i. SectionKey (tc_term target) (tc_campus target) (SectionIndex i))
      (serving_indices db (open_target_id target) version)"
    using cat(2) by (induction rule: list_all2_induct) (auto dest: section_key_of_Inr)
  have "distinct (serving_indices db (open_target_id target) version)"
    by (simp add: serving_indices_def bm_keys_distinct split: option.splits)
  then show "distinct (cat_sections catalog)"
    unfolding keys by (subst distinct_map) (auto intro: inj_onI)
  show "section_key_target k = target" if "k \<in> set (cat_sections catalog)"
    using that by (auto simp: keys section_key_target_def)
qed

lemma sections_tidy:
  assumes "serving_open_catalog_snapshot db target = Inr (Some catalog)"
    and "rows_follow L (section_current_rows db (open_target_id target)) (sx_lkg x)"
  shows "tidy (project_sections L (operational_store L db) catalog x)"
    and "project_sections L (operational_store L db) catalog x = Inr statuses \<Longrightarrow>
      map (\<lambda>s. (st_section_key s, st_state s)) statuses = map (\<lambda>k. (k, stored_state db target k)) (cat_sections catalog)"
proof -
  note cat = serving_keys(1) [OF assms(1)]
  have read: "read_store (rd_open_section_current (operational_store L db) target) = Inr rows
      \<longleftrightarrow> read_open_section_current db target = Inr rows" for rows
    by (simp add: operational_store_def read_store_def)
  have fold: "tidy (try_fold (project_section L x target) (cat_sections catalog) (current, bm_empty, []))
    \<and> (\<forall>c z out. try_fold (project_section L x target) (cat_sections catalog) (current, bm_empty, []) = Inr (c, z, out) \<longrightarrow>
         map (\<lambda>s. (st_section_key s, st_state s)) out = map (\<lambda>k. (k, stored_state db target k)) (cat_sections catalog))"
    if "read_open_section_current db target = Inr rows" "try_fold (collect_current target) rows bm_empty = Inr current" for rows current
    using project_sections_fold [OF assms(2) serving_keys(2) [OF assms(1)], of bm_empty current "[]"]
      collected [OF that(1)] that(2) serving_keys(3) [OF assms(1)]
    by (auto simp: bm_contains_def)
  show "tidy (project_sections L (operational_store L db) catalog x)"
    unfolding project_sections_def cat
  proof (intro tidy_and_then)
    fix rows
    assume "read_store (rd_open_section_current (operational_store L db) target) = Inr rows"
    then have rows: "read_open_section_current db target = Inr rows"
      by (simp add: read)
    show "tidy (try_fold (collect_current target) rows bm_empty)"
      using collected [OF rows] by auto
    show "tidy (try_fold (project_section L x target) (cat_sections catalog) (current, bm_empty, []))"
      if "try_fold (collect_current target) rows bm_empty = Inr current" for current
      using fold [OF rows that] by blast
  qed (simp_all split: prod.split)
  show "map (\<lambda>s. (st_section_key s, st_state s)) statuses = map (\<lambda>k. (k, stored_state db target k)) (cat_sections catalog)"
    if "project_sections L (operational_store L db) catalog x = Inr statuses"
    using that fold by (auto simp: project_sections_def read cat)
qed

subsection \<open>The status of a target\<close>

lemma status_tidy:
  assumes "published db target"
  shows "tidy (project_open_status L (operational_store L db) target runtime)"
proof -
  have reads: "read_store (rd_serving_open_catalog_snapshot (operational_store L db) target) = Inr c
        \<longleftrightarrow> serving_open_catalog_snapshot db target = Inr c"
      "read_store (rd_open_batch_state (operational_store L db) target) = Inr b \<longleftrightarrow> read_open_batch_state db target = Inr b" for c b
    by (simp_all add: operational_store_def read_store_def)
  have target: "os_target b = target" if "read_open_batch_state db target = Inr (Some b)" for b
    using stored_batch_failure(2) [OF assms that] .
  show ?thesis
    unfolding project_open_status_def
  proof (intro tidy_and_then, goal_cases)
    case 1
    show ?case by (simp add: validate_runtime_def internal_def)
  next
    case (4 _ _ c)
    then show ?case
      using serving_keys(1) by (simp add: reads)
  next
    case (8 _ _ c _ _ _ batch)
    then show ?case
      using target by (simp add: reads split: option.split)
  next
    case (9 _ _ c _ _ _ batch)
    then show ?case
      using latest_tidy(1) [OF assms] by (simp add: reads)
  next
    case (10 _ _ c _ _ _ batch _ latest)
    then show ?case
      using latest_tidy(2) [OF assms] by (intro tidy_transpose attempt_point_tidy) (simp add: reads)
  next
    case (11 _ _ c _ _ _ batch _ latest)
    then show ?case
      by (intro tidy_transpose) simp
  next
    case (12 _ _ c _ _ _ batch)
    then show ?case
      using latest_failure_tidy [OF assms] by (simp add: reads)
  next
    case (13 _ _ c _ _ _ batch)
    then show ?case
      using lkg_tidy(1) [OF assms] by (intro tidy_transpose) (auto simp: reads bind_eq_Some_conv)
  next
    case (14 _ _ c _ _ _ batch _ latest _ _ _ lkg)
    then show ?case
      by (intro absent_lkg_tidy [OF assms]) (simp_all add: reads)
  next
    case (18 _ _ c _ _ _ batch _ latest _ _ _ lkg)
    then show ?case
      using sections_tidy(1) lkg_rows [OF assms] by (simp add: reads)
  qed (simp_all add: internal_def)
qed

lemma status_sections:
  assumes "published db target" "project_open_status L (operational_store L db) target runtime = Inr status"
  shows "\<exists>catalog. serving_open_catalog_snapshot db target = Inr (Some catalog)
    \<and> map (\<lambda>s. (st_section_key s, st_state s)) (ps_sections status)
      = map (\<lambda>k. (k, stored_state db target k)) (cat_sections catalog)"
proof -
  obtain batch catalog lkg x where batch: "read_open_batch_state db target = Inr batch"
    and catalog: "serving_open_catalog_snapshot db target = Inr (Some catalog)"
    and lkg: "transpose_opt (project_lkg L (operational_store L db) target batch) (Option.bind batch os_lkg_attempt_id) = Inr lkg"
    and sections: "project_sections L (operational_store L db) catalog x = Inr (ps_sections status)" "sx_lkg x = lkg"
    using assms(2) unfolding project_open_status_def and_then_Inr
    by (elim exE conjE) (auto simp: operational_store_def read_store_def)
  have "rows_follow L (section_current_rows db (open_target_id target)) (sx_lkg x)"
    unfolding sections(2) by (rule lkg_rows [OF assms(1) batch lkg])
  then show ?thesis
    using sections_tidy(2) [OF catalog _ sections(1)] catalog by blast
qed

text \<open>C30. The status projection never contradicts the store.  In every reachable state, for every valid target and
  runtime, \<open>project_open_status\<close> over the store reports neither an inconsistent state nor a missing related
  row; and a status it returns has exactly the sections of the served catalog, in its order, each with the state
  stored for it, or unknown where none is stored.\<close>

theorem status_consistent:
  assumes "db_reachable L db" "target_valid target"
  shows "(case project_open_status L (operational_store L db) target runtime of
     Inl e \<Rightarrow> e \<noteq> PeInconsistentState \<and> (\<forall>what. e \<noteq> PeMissingRelatedRow what)
   | Inr status \<Rightarrow> (\<exists>catalog. serving_open_catalog_snapshot db target = Inr (Some catalog)
       \<and> map (\<lambda>s. (st_section_key s, st_state s)) (ps_sections status)
         = map (\<lambda>k. (k, stored_state db target k)) (cat_sections catalog)))"
proof (cases "bm_get (db_catalog_targets db) (open_target_id target)")
  case None
  have "serving_open_catalog_snapshot db target = Inr None"
    by (simp add: serving_open_catalog_snapshot_def None transpose_opt_def)
  then show ?thesis
    by (auto simp: project_open_status_def operational_store_def read_store_def map_err_def ok_or_def validate_runtime_def ensure_def)
next
  case (Some t)
  then have "published db target"
    using assms reachable_wf by (auto simp: published_def)
  from status_tidy [OF this, of L runtime] status_sections [OF this, of L runtime] show ?thesis
    by (auto simp: tidy_def internal_def split: sum.split)
qed


definition sample_runtime :: open_projection_runtime where
  "sample_runtime = \<lparr>pr_now = 5000000000, pr_audience = AudiencePublic,
     pr_scheduler = \<lparr>ss_lane = LaneGeneral, ss_requested_general_interval_seconds = 30,
       ss_requested_effective_interval_seconds = 30, ss_active_watch_count = 1, ss_next_due_at = None,
       ss_in_flight = False, ss_scheduler_lag_milliseconds = 0, ss_actual_start_to_start_interval_milliseconds = None,
       ss_failure_streak = 0\<rparr>,
     pr_circuit = \<lparr>cs_state = CircuitClosed, cs_reason = None, cs_opened_at = None, cs_retry_at = None,
       cs_diagnostic_recheck_required = False\<rparr>\<rparr>"

lemma sample_status:
  "map_sum id (\<lambda>status. map (\<lambda>s. (index_str (sk_index (st_section_key s)), st_state s)) (ps_sections status))
     (project_open_status sample_open_lib (operational_store sample_open_lib sample_applied_db) sample_open_target sample_runtime)
   = Inr [(''00001'', StateOpen), (''00002'', StateClosed)]"
  by code_simp

theorem status_consistent_witness:
  "\<exists>status catalog. project_open_status sample_open_lib (operational_store sample_open_lib sample_applied_db)
       sample_open_target sample_runtime = Inr status
     \<and> serving_open_catalog_snapshot sample_applied_db sample_open_target = Inr (Some catalog)
     \<and> map (\<lambda>s. (st_section_key s, st_state s)) (ps_sections status)
       = map (\<lambda>k. (k, stored_state sample_applied_db sample_open_target k)) (cat_sections catalog)"
proof -
  have "target_valid sample_open_target"
    by code_simp
  from status_consistent [OF sample_applied_reachable this, of sample_runtime] show ?thesis
    using sample_status by (auto split: sum.splits)
qed

subsection \<open>The failure code of a catalog race\<close>

lemma increment_final_batches: "increment_final_counters db t r d ok ne = Inr db' \<Longrightarrow> db_batch_state db' = db_batch_state db"
  unfolding increment_final_counters_def and_then_Inr
  by (elim exE conjE) (auto split: prod.split_asm option.split_asm)

lemma finalize_records_code:
  assumes "finalize_non_applied_attempt db a i completed_at cls http response n1 n2 n3 code sha gate = Inr db'"
  shows "\<exists>s. bm_get (db_batch_state db') (open_target_id (sa_target a)) = Some s \<and> ob_last_failure_error_code s = Some code"
  using assms unfolding finalize_non_applied_attempt_def and_then_Inr
  by (elim exE conjE) (auto simp: increment_final_batches update_current_batch_state_def Let_def split: option.split_asm if_split_asm)

lemma commit_prune_batches: "commit_prune db t = Inr db' \<Longrightarrow> db_batch_state db' = db_batch_state db"
  by (auto simp: commit_prune_def delete_attempts_def dest: prune_transaction_Inr(3))

lemma unknown_code_blocks_status:
  assumes s: "bm_get (db_batch_state db) (open_target_id target) = Some s" "ob_last_failure_error_code s = Some code"
    and code: "\<And>http. map_failure_code code http = Inl PeUnknownFailureCode"
  shows "project_open_status L (operational_store L db) target runtime \<noteq> Inr status"
proof
  assume "project_open_status L (operational_store L db) target runtime = Inr status"
  then obtain batch catalog failure where batch: "read_open_batch_state db target = Inr batch"
    and catalog: "serving_open_catalog_snapshot db target = Inr (Some catalog)"
    and failure: "project_latest_failure L batch = Inr failure"
    unfolding project_open_status_def and_then_Inr
    by (elim exE conjE) (auto simp: operational_store_def read_store_def)
  obtain t where t: "bm_get (db_catalog_targets db) (open_target_id target) = Some t"
    using catalog by (cases "bm_get (db_catalog_targets db) (open_target_id target)")
      (auto simp: serving_open_catalog_snapshot_def transpose_opt_def)
  obtain b where b: "batch = Some b" "batch_state_of_row s t = Inr b"
    using batch s(1) t by (auto simp: read_open_batch_state_def transpose_opt_def split: sum.splits)
  have "os_last_failure_error_code b = Some code"
    using b(2) s(2) by (auto simp: batch_state_of_row_def)
  then show False
    using failure code by (auto simp: project_latest_failure_def b(1) split: option.splits)
qed

text \<open>C31. A catalog race blocks the status of its target.  When a response is committed while the catalog has moved
  to another version, the store records the failure code \<open>CATALOG_CONTENT_VERSION_CHANGED\<close>; no
  branch of \<open>map_failure_code\<close> knows it, so on the state after the commit \<open>project_open_status\<close> returns no
  status for the target, at any time and for any audience.\<close>

theorem catalog_race_blocks_status:
  assumes "finish_open_pull_success L db c = Inr (outcome, db')"
    and "load_started_open_attempt db (sc_attempt_id c) = Inr attempt"
    and "load_current_catalog_version db (open_target_id (sa_target attempt)) = Inr version"
    and "version \<noteq> sa_captured_catalog_content_version attempt"
  shows "project_open_status L (operational_store L db') (sa_target attempt) runtime \<noteq> Inr status"
proof -
  obtain f where f: "load_response_facts L db c = Inr f"
    using assms(1) by (auto simp: finish_open_pull_success_def finish_open_pull_success_transaction_def)
  have attempt: "rf_attempt f = attempt"
    using load_response_facts_started(1) [OF f] assms(2) by simp
  have "rf_current_catalog_content_version f = version"
    using load_response_facts_version [OF f] assms(3) attempt by (simp add: rf_target_id_def)
  then have "finish_catalog_race db c f = Inr (outcome, db')"
    using assms(1,4) f attempt by (simp add: finish_open_pull_success_def finish_open_pull_success_transaction_def)
  then obtain db1 where db1: "finalize_non_applied_attempt db attempt (sc_attempt_id c) (sc_completed_at c)
         AcStaleCatalogRace (sc_http c) (Some (rf_response f)) (rf_catalog_section_count f)
         (rf_intersection_count f) (rf_orphan_count f) ''CATALOG_CONTENT_VERSION_CHANGED'' None None = Inr db1"
      "commit_prune db1 (rf_target_id f) = Inr db'"
    by (auto simp: finish_catalog_race_def attempt)
  obtain s where s: "bm_get (db_batch_state db1) (open_target_id (sa_target attempt)) = Some s"
      "ob_last_failure_error_code s = Some ''CATALOG_CONTENT_VERSION_CHANGED''"
    using finalize_records_code [OF db1(1)] by blast
  show ?thesis
    by (rule unknown_code_blocks_status [of _ _ s "''CATALOG_CONTENT_VERSION_CHANGED''"])
      (use s commit_prune_batches [OF db1(2)] in \<open>simp_all add: map_failure_code_def failure_codes_def\<close>)
qed

definition sample_moved_db :: open_db where
  "sample_moved_db = sample_started_db\<lparr>
     db_catalog_targets := bm_map (\<lambda>t. t\<lparr>ct_current_content_version := 2\<rparr>) sample_targets,
     db_catalog_sections := bm_map (bm_map (\<lambda>_. 2)) sample_sections\<rparr>"

lemma sample_race: "is_ok (finish_open_pull_success sample_open_lib sample_moved_db sample_success)"
  by code_simp

lemma sample_moved_status: "is_ok (project_open_status sample_open_lib (operational_store sample_open_lib sample_moved_db)
    sample_open_target sample_runtime)"
  by code_simp

lemma sample_moved_attempt:
  "and_then (load_started_open_attempt sample_moved_db (TraceId 1)) (\<lambda>a.
     and_then (load_current_catalog_version sample_moved_db (open_target_id (sa_target a))) (\<lambda>v.
       Inr (v, sa_captured_catalog_content_version a, sa_target a))) = Inr (2, 1, sample_open_target)"
  by code_simp

theorem catalog_race_blocks_status_witness:
  "is_ok (project_open_status sample_open_lib (operational_store sample_open_lib sample_moved_db) sample_open_target sample_runtime)
   \<and> (\<exists>outcome db'. finish_open_pull_success sample_open_lib sample_moved_db sample_success = Inr (outcome, db')
        \<and> \<not> is_ok (project_open_status sample_open_lib (operational_store sample_open_lib db') sample_open_target sample_runtime))"
proof -
  obtain outcome db' where fin: "finish_open_pull_success sample_open_lib sample_moved_db sample_success = Inr (outcome, db')"
    using is_ok_Inr [OF sample_race] by auto
  obtain attempt where "load_started_open_attempt sample_moved_db (TraceId 1) = Inr attempt"
      "load_current_catalog_version sample_moved_db (open_target_id (sa_target attempt)) = Inr 2"
      "sa_captured_catalog_content_version attempt = 1" "sa_target attempt = sample_open_target"
    using sample_moved_attempt by auto
  then have "project_open_status sample_open_lib (operational_store sample_open_lib db') sample_open_target sample_runtime \<noteq> Inr status" for status
    using catalog_race_blocks_status [OF fin, of attempt 2 sample_runtime status] by (simp add: sample_success_def)
  then show ?thesis
    using fin sample_moved_status is_ok_Inr by blast
qed

end
