(* ===== verification/Spec2Isabelle.thy ===== *)
theory Spec2Isabelle
  imports Watch_Guarantees Scheduler_Guarantees Client_Guarantees Projection_Guarantees
begin

text \<open>
  A verification of the back end of the Rutgers course schedule planner (Rust crates under \<open>src/crates\<close>).

  \<^bold>\<open>The program.\<close>  The service polls the Rutgers open-sections feed of every published target (a term and a
  campus) and tells browsers which watched sections are open.  A scheduler (\<open>bcsp-open/src/scheduler.rs\<close>) decides
  which target is polled next; a client (\<open>bcsp-rutgers-client/src/open_sections.rs\<close>) builds the request and decodes
  the answer; one pull (\<open>bcsp-open/src/service.rs\<close>) records the attempt in the operational database
  (\<open>bcsp-operational-storage/src/open.rs\<close>), lets the integrity gate (\<open>gate.rs\<close>) and the reconciliation
  (\<open>reconcile.rs\<close>) judge the answer, commits it and produces the observations; the status projection
  (\<open>projection.rs\<close>, \<open>freshness.rs\<close>) reads the database back; and the watch manager
  (\<open>bcsp-watch/src/manager.rs\<close>) turns observations into alarms for the connected browsers.

  \<^bold>\<open>Conventions.\<close>  A Rust integer is a word of its width, so every wrap-around is visible; an \<open>i64\<close> column of the
  database is an \<open>int\<close> with the range checks of the code written out.  Instants and durations are integers of
  nanoseconds.  A \<open>Result\<close> is a sum (\<open>Inl\<close> the error), an operation that can panic returns an option (\<open>None\<close> is
  the panic), and mutable state is passed explicitly.  \<open>BTreeMap\<close> and \<open>BTreeSet\<close> are \<open>bmap\<close> and \<open>bset\<close>.
  Where a debug build of Rust panics on overflow the model wraps like a release build (the step count of
  \<open>first_future_due\<close>, the epoch of the gate).  Debug assertions, log lines and the poisoning of a mutex are
  left out, and the arm of \<open>unsafe_error_code\<close> that the code marks unreachable is the empty text.
  Loops over collections are folds or structural recursions, so every operation of the model is total;
  there is no fuel anywhere.  Code that is not in the repository is a parameter: SHA-256 (\<open>digest\<close>), the clock and
  the identifier source of the watch manager (\<open>watch_env\<close>), and the functions of the \<open>time\<close>, \<open>jiff\<close> and
  \<open>uuid\<close> crates (\<open>open_lib\<close>).  What a theorem needs of them is a hypothesis of the theorem, with a witness that
  instantiates it.

  \<^bold>\<open>Theories.\<close>

  \<^item> \<open>Prelude\<close>: integers, durations and generic facts.  \<open>Ordered_Map\<close>: the ordered maps, behind the locale
    \<open>ordered_map\<close> that the other theories reason with.
  \<^item> \<open>Identity\<close>: the validated identifiers and keys of \<open>bcsp-contracts/src/identity.rs\<close>, with the round
    trip between a section key and its text.  \<open>Open_Contracts\<close>: the wire types of \<open>open.rs\<close> there,
    with its dates compared with a table of the Gregorian months.
  \<^item> \<open>Watch_State\<close>, \<open>Watch_Manager\<close>: the data (\<open>clock.rs\<close>, \<open>state.rs\<close>, \<open>effect.rs\<close>) and every operation
    (\<open>manager.rs\<close>) of the watch core.  \<open>Watch_Invariants\<close>, \<open>Watch_Operations\<close>: the invariant \<open>wf_manager\<close>
    and its preservation by each operation.  \<open>Watch_Properties\<close>: what one operation does on every branch.
    \<open>Watch_Guarantees\<close>: the guarantees over all reachable managers (C1 to C14): the invariant, no panic, delivery of a
    publication exactly once and in order, atomicity of errors, the cap on audible cues, replayed starts,
    ticks and clean-up, and that a client which applies the mixer events holds exactly the sounding alarms.
    The repeated answer of a start is the exception: it changes no alarm and resends the frame stored with the first
    answer, whose mixer event may be out of date by then (\<open>replayed_frame_out_of_date\<close>).
  \<^item> \<open>Open_Reconcile\<close> (\<open>reconcile.rs\<close>), \<open>Open_Gate\<close> (\<open>gate.rs\<close>) and \<open>Gate_Guarantees\<close>: reconcile
    plans (every update accounted for, and independent of the order in which sections are listed) and the
    quarantine of shrunken snapshots.  \<open>Open_Policy\<close> (\<open>policy.rs\<close>): intervals, backoff and
    probes, and that a steady feed leaves the quarantine.
  \<^item> \<open>Open_Scheduler\<close> (\<open>scheduler.rs\<close>) and \<open>Scheduler_Guarantees\<close>: earliest-deadline dispatch; the locale
    \<open>ranked_comparison\<close> states what \<open>min_by\<close> needs of the comparison of jobs.  The hint repeats the selection
    of \<open>start_next\<close> as the code does, and the two are proved to agree.
  \<^item> \<open>Open_Freshness\<close> (\<open>freshness.rs\<close>); \<open>Open_Client\<close> and \<open>Client_Guarantees\<close> (\<open>open_sections.rs\<close>): requests,
    failure classes, \<open>Retry-After\<close> dates and the decoding of the feed.
  \<^item> \<open>Open_Tables\<close>, \<open>Open_Storage\<close>, \<open>Open_Reads\<close>: the open tables, the transactions on them and the
    reads (\<open>bcsp-operational-storage/src/open.rs\<close>).  \<open>Storage_Invariant\<close>, \<open>Storage_Steps\<close>: the invariant
    \<open>wf_db\<close> and that each transaction keeps it.  \<open>Storage_Guarantees\<close>: reachable databases, and the ledger,
    recovery and pruning theorems.  \<open>Open_Samples\<close>: concrete data for witnesses.
  \<^item> \<open>Open_Service\<close> (\<open>service.rs\<close>) and \<open>Service_Guarantees\<close>: one pull over any persistence, and the agreement of the
    database with the reconcile plan.
  \<^item> \<open>Open_Projection\<close> (\<open>projection.rs\<close>) and \<open>Projection_Guarantees\<close>: the public status and its consistency
    with the database.

  \<^bold>\<open>What is not modelled.\<close>  Serialisation, HTTP, sockets, threads and SQLite are not modelled: an operation of the
  database is one atomic function on its tables, and the checks that a table declares are part of it where a value
  of the model can violate them (the length of a digest column follows from SHA-256 and is not repeated).  A
  catalog refresh may replace the catalog tables in any way that keeps the targets well-formed, which covers
  the catalog publication of \<open>storage.rs\<close>.  The catalog and query crates, the local user state, the
  application hosts and the browser code are outside this development.
\<close>

end
